(* ===== verification/Prelude.thy ===== *)
theory Prelude
  imports Main "HOL-Library.Word"
begin

unbundle bit_operations_syntax

text \<open>
  Shared vocabulary of the development: the machine integers of the LP64 target, memory
  as bytes, little-endian reading and writing of integers, message buffers, fixed-width
  codecs and their arrays, and the outcome of a C function that may fault or may never
  return.
\<close>

section \<open>Machine integers\<close>

type_synonym byte = "8 word"
type_synonym u16 = "16 word"
type_synonym u32 = "32 word"
type_synonym u64 = "64 word"

text \<open>A pointer the code only tests, passes on and compares is its address; 0 is \<open>NULL\<close>.\<close>

type_synonym ptr = u64

text \<open>A C \<open>int\<close> and an \<open>int64_t\<close> are words read by \<open>sint\<close>; \<open>negative\<close> is the test
  \<open>x < 0\<close> of a signed value and \<open>positive\<close> the test \<open>x > 0\<close>.\<close>

type_synonym c_int = "32 word"
type_synonym i64 = "64 word"

definition negative :: "'a::len word \<Rightarrow> bool" where
  "negative w \<longleftrightarrow> sint w < 0"

definition positive :: "'a::len word \<Rightarrow> bool" where
  "positive w \<longleftrightarrow> 0 < sint w"

named_theorems c_arith

lemma negative_0 [simp]: "\<not> negative 0"
  by (simp add: negative_def)

lemma positive_0 [simp]: "\<not> positive 0"
  by (simp add: positive_def)

lemma positive_not_negative [simp, c_arith]: "positive w \<Longrightarrow> \<not> negative w"
  by (simp add: positive_def negative_def)

lemma not_negative_cases [c_arith]: "\<not> negative w \<Longrightarrow> w = 0 \<or> positive w"
  by (auto simp: positive_def negative_def) (metis le_less not_le signed_0 signed_word_eqI)

lemma sint_scast_int64 [simp, c_arith]: "sint (scast (w :: c_int) :: i64) = sint w"
  by (rule sint_up_scast) (simp add: is_up)

lemma negative_scast [simp]: "negative (scast (w :: c_int) :: i64) = negative w"
  by (simp add: negative_def)

lemma positive_scast [simp]: "positive (scast (w :: c_int) :: i64) = positive w"
  by (simp add: positive_def)

lemma ucast_scast_int [simp]: "ucast (scast (w :: c_int) :: i64) = (w :: c_int)"
  by (rule bit_word_eqI) (simp add: bit_ucast_iff bit_signed_iff)

lemma ucast_minus_one [simp]: "ucast (- 1 :: i64) = (- 1 :: c_int)"
  by (rule bit_word_eqI) (simp add: bit_ucast_iff)

lemma minus_one_sign [simp]: "negative (- 1 :: 'a::len word)" "\<not> positive (- 1 :: 'a::len word)"
  by (simp_all add: negative_def positive_def)

lemma sint_small [c_arith]: "n < 2 ^ 31 \<Longrightarrow> sint (word_of_nat n :: c_int) = int n"
  by (simp add: signed_of_nat signed_take_bit_int_eq_self)

lemma negative_unat: "negative (w :: c_int) \<Longrightarrow> 2 ^ 31 \<le> unat w"
  using sint_small [of "unat w"] by (fastforce simp: negative_def)

section \<open>Bytes in memory\<close>

text \<open>\<open>le_bytes n w\<close> are the first \<open>n\<close> bytes of \<open>w\<close> as the little-endian target stores
  them; \<open>of_le\<close> reads bytes back into a word of any width.\<close>

definition le_bytes :: "nat \<Rightarrow> 'a::len word \<Rightarrow> byte list" where
  "le_bytes n w = map (\<lambda>i. ucast (drop_bit (8 * i) w)) [0..<n]"

primrec of_le :: "byte list \<Rightarrow> 'a::len word" where
  "of_le [] = 0"
| "of_le (b # bs) = ucast b OR push_bit 8 (of_le bs)"

lemma length_le_bytes [simp]: "length (le_bytes n w) = n"
  by (simp add: le_bytes_def)

lemma nth_le_bytes [simp]: "i < n \<Longrightarrow> le_bytes n w ! i = ucast (drop_bit (8 * i) w)"
  by (simp add: le_bytes_def)

lemma bit_of_le:
  "bit (of_le bs :: 'a::len word) j \<longleftrightarrow>
     j < LENGTH('a) \<and> j div 8 < length bs \<and> bit (bs ! (j div 8)) (j mod 8)"
proof (induction bs arbitrary: j)
  case Nil
  then show ?case by simp
next
  case (Cons b bs)
  show ?case
  proof (cases "j < 8")
    case True
    then show ?thesis
      by (auto simp: bit_or_iff bit_ucast_iff bit_push_bit_iff)
  next
    case False
    then obtain k where k: "j = k + 8" by (metis add.commute le_add_diff_inverse not_le)
    have no: "\<not> bit b (k + 8)"
      by (auto dest: bit_imp_le_length)
    have d: "(k + 8) div 8 = Suc (k div 8)" "(k + 8) mod 8 = k mod 8"
      by auto
    show ?thesis
      using Cons.IH [of k] no
      by (auto simp: k d bit_or_iff bit_ucast_iff bit_push_bit_iff)
  qed
qed

lemma of_le_le_bytes [simp]:
  assumes "LENGTH('a) \<le> 8 * n"
  shows "of_le (le_bytes n w) = (w :: 'a::len word)"
proof (rule bit_word_eqI)
  fix j assume j: "j < LENGTH('a)"
  then have "j div 8 < n" using assms by auto
  then show "bit (of_le (le_bytes n w) :: 'a word) j = bit w j"
    using j by (simp add: bit_of_le bit_ucast_iff bit_drop_bit_eq)
qed

lemma le_bytes_of_le [simp]:
  assumes "length bs = n" and "8 * n \<le> LENGTH('a)"
  shows "le_bytes n (of_le bs :: 'a::len word) = bs"
proof (rule nth_equalityI)
  show "length (le_bytes n (of_le bs :: 'a word)) = length bs" using assms by simp
next
  fix i assume i: "i < length (le_bytes n (of_le bs :: 'a word))"
  then have i': "i < n" by simp
  have "ucast (drop_bit (8 * i) (of_le bs :: 'a word)) = bs ! i"
  proof (rule bit_word_eqI)
    fix j assume "j < LENGTH(8)"
    then have "j < 8" by simp
    moreover from this have "(8 * i + j) div 8 = i" "(8 * i + j) mod 8 = j" by auto
    moreover have "8 * i + j < LENGTH('a)" using i' \<open>j < 8\<close> assms(2) by linarith
    ultimately show "bit (ucast (drop_bit (8 * i) (of_le bs :: 'a word)) :: byte) j = bit (bs ! i) j"
      using i' assms(1) by (simp add: bit_ucast_iff bit_drop_bit_eq bit_of_le)
  qed
  with i' show "le_bytes n (of_le bs :: 'a word) ! i = bs ! i" by simp
qed

section \<open>Message buffers\<close>

text \<open>
  The \<open>char data[BUFFER_SIZE]\<close> array of a message is a map from offsets to bytes; the
  offsets the code may use are those below \<open>BUFFER_SIZE\<close>. \<open>buf_put\<close> is a \<open>memcpy\<close> into
  the array, \<open>buf_get\<close> one out of it, \<open>buf_zero\<close> a \<open>memset\<close> to 0.
\<close>

type_synonym buf = "nat \<Rightarrow> byte"

definition buf_put :: "buf \<Rightarrow> nat \<Rightarrow> byte list \<Rightarrow> buf" where
  "buf_put b off bs = (\<lambda>i. if off \<le> i \<and> i < off + length bs then bs ! (i - off) else b i)"

definition buf_get :: "buf \<Rightarrow> nat \<Rightarrow> nat \<Rightarrow> byte list" where
  "buf_get b off n = map (\<lambda>i. b (off + i)) [0..<n]"

definition buf_zero :: "buf \<Rightarrow> nat \<Rightarrow> nat \<Rightarrow> buf" where
  "buf_zero b off n = (\<lambda>i. if off \<le> i \<and> i < off + n then 0 else b i)"

definition get_word :: "buf \<Rightarrow> nat \<Rightarrow> 'a::len word" where
  "get_word b off = of_le (buf_get b off (LENGTH('a) div 8))"

definition put_word :: "buf \<Rightarrow> nat \<Rightarrow> 'a::len word \<Rightarrow> buf" where
  "put_word b off w = buf_put b off (le_bytes (LENGTH('a) div 8) w)"

named_theorems buffer_simps

lemma length_buf_get [simp]: "length (buf_get b off n) = n"
  by (simp add: buf_get_def)

lemma buf_get_0 [simp]: "buf_get b off 0 = []"
  by (simp add: buf_get_def)

lemma nth_buf_get [simp]: "i < n \<Longrightarrow> buf_get b off n ! i = b (off + i)"
  by (simp add: buf_get_def)

lemma buf_get_put_same [simp]: "n = length bs \<Longrightarrow> buf_get (buf_put b off bs) off n = bs"
  by (rule nth_equalityI) (auto simp: buf_put_def)

lemma buf_get_put_other [buffer_simps]:
  "off' + n \<le> off \<or> off + length bs \<le> off' \<Longrightarrow> buf_get (buf_put b off bs) off' n = buf_get b off' n"
  by (rule nth_equalityI) (auto simp: buf_put_def)

lemma buf_get_put_prefix:
  "n \<le> length bs \<Longrightarrow> buf_get (buf_put b off bs) off n = take n bs"
  by (rule nth_equalityI) (auto simp: buf_put_def)

lemma buf_get_zero_other [buffer_simps]:
  "off' + n \<le> off \<or> off + k \<le> off' \<Longrightarrow> buf_get (buf_zero b off k) off' n = buf_get b off' n"
  by (rule nth_equalityI) (auto simp: buf_zero_def)

lemma buf_get_zero_same [simp]:
  "off \<le> off' \<Longrightarrow> off' + n \<le> off + k \<Longrightarrow> buf_get (buf_zero b off k) off' n = replicate n 0"
  by (rule nth_equalityI) (auto simp: buf_zero_def)

lemma buf_put_frame:
  "i < off \<or> off + length bs \<le> i \<Longrightarrow> buf_put b off bs i = b i"
  by (auto simp: buf_put_def)

lemma get_put_word_same [simp]:
  "LENGTH('a) = 8 * (LENGTH('a) div 8) \<Longrightarrow> get_word (put_word b off (w :: 'a::len word)) off = w"
  by (simp add: get_word_def put_word_def)

lemma get_word_buf_put_other [buffer_simps]:
  "off' + LENGTH('a) div 8 \<le> off \<or> off + length bs \<le> off' \<Longrightarrow>
     (get_word (buf_put b off bs) off' :: 'a::len word) = get_word b off'"
  by (simp add: get_word_def buffer_simps)

lemma get_word_put_word_other [buffer_simps]:
  "off' + LENGTH('a) div 8 \<le> off \<or> off + LENGTH('b) div 8 \<le> off' \<Longrightarrow>
     (get_word (put_word b off (w :: 'b::len word)) off' :: 'a::len word) = get_word b off'"
  by (simp add: put_word_def buffer_simps)

lemma buf_get_put_word_other [buffer_simps]:
  "off' + n \<le> off \<or> off + LENGTH('b) div 8 \<le> off' \<Longrightarrow>
     buf_get (put_word b off (w :: 'b::len word)) off' n = buf_get b off' n"
  by (simp add: put_word_def buffer_simps)

lemma of_le_zeros [simp]: "of_le (replicate n 0) = 0"
  by (induction n) simp_all

lemma get_word_zeros [simp]: "get_word (\<lambda>_. 0) off = 0"
  by (simp add: get_word_def buf_get_def map_replicate_const)

section \<open>Fixed-width codecs and their arrays\<close>

text \<open>
  The loops \<open>for (i = 0; i < n; i++) { memcpy(data + offset, &a[i], sz); offset += sz; }\<close>
  and their inverses, over the codec of one element.
\<close>

primrec put_array :: "('a \<Rightarrow> byte list) \<Rightarrow> nat \<Rightarrow> buf \<Rightarrow> nat \<Rightarrow> 'a list \<Rightarrow> buf" where
  "put_array enc sz b off [] = b"
| "put_array enc sz b off (x # xs) = put_array enc sz (buf_put b off (enc x)) (off + sz) xs"

primrec get_array :: "(byte list \<Rightarrow> 'a) \<Rightarrow> nat \<Rightarrow> buf \<Rightarrow> nat \<Rightarrow> nat \<Rightarrow> 'a list" where
  "get_array dec sz b off 0 = []"
| "get_array dec sz b off (Suc n) = dec (buf_get b off sz) # get_array dec sz b (off + sz) n"

lemma length_get_array [simp]: "length (get_array dec sz b off n) = n"
  by (induction n arbitrary: off) auto

text \<open>The interface of an element: a width, an encoder of exactly that width and a decoder
  that undoes it. The array facts are proved once, from these laws.\<close>

locale codec =
  fixes enc :: "'a \<Rightarrow> byte list" and dec :: "byte list \<Rightarrow> 'a" and sz :: nat
  assumes enc_width [simp]: "length (enc x) = sz"
    and dec_enc [simp]: "dec (enc x) = x"
begin

lemma enc_inj: "enc x = enc y \<Longrightarrow> x = y"
  by (metis dec_enc)

lemma put_array_frame:
  "i < off \<or> off + sz * length xs \<le> i \<Longrightarrow> put_array enc sz b off xs i = b i"
  by (induction xs arbitrary: b off) (auto simp: buf_put_frame algebra_simps)

lemma put_array_get_below:
  "off' + n \<le> off \<Longrightarrow> buf_get (put_array enc sz b off xs) off' n = buf_get b off' n"
  by (rule nth_equalityI) (auto simp: put_array_frame)

lemma put_array_get_word_below:
  "off' + LENGTH('w) div 8 \<le> off \<Longrightarrow>
     (get_word (put_array enc sz b off xs) off' :: 'w::len word) = get_word b off'"
  by (simp add: get_word_def put_array_get_below)

lemma get_put_array [simp]:
  "n = length xs \<Longrightarrow> get_array dec sz (put_array enc sz b off xs) off n = xs"
proof (induction xs arbitrary: b off n)
  case Nil
  then show ?case by simp
next
  case (Cons x xs)
  have "buf_get (put_array enc sz (buf_put b off (enc x)) (off + sz) xs) off sz = enc x"
    by (simp add: put_array_get_below)
  with Cons show ?case by simp
qed

end

lemma word_codec: "8 * (LENGTH('a) div 8) = LENGTH('a) \<Longrightarrow>
    codec (le_bytes (LENGTH('a) div 8) :: 'a::len word \<Rightarrow> byte list) of_le (LENGTH('a) div 8)"
  by unfold_locales auto

section \<open>Outcomes\<close>

text \<open>
  What a C function does besides returning: it may run into undefined behaviour or end the
  process (a \<open>fault\<close>), or never return (\<open>None\<close>).
\<close>

datatype fault = Null_deref | Out_of_bounds | Use_after_free | Exit_failure

type_synonym 'a run = "(fault + 'a) option"

definition returns :: "'a \<Rightarrow> 'a run" where
  "returns x = Some (Inr x)"

definition faults :: "fault \<Rightarrow> 'a run" where
  "faults e = Some (Inl e)"

definition and_then :: "'a run \<Rightarrow> ('a \<Rightarrow> 'b run) \<Rightarrow> 'b run" where
  "and_then m f = (case m of None \<Rightarrow> None | Some (Inl e) \<Rightarrow> Some (Inl e) | Some (Inr x) \<Rightarrow> f x)"

named_theorems run_simps

lemma and_then_simps [simp, run_simps]:
  "and_then None f = None"
  "and_then (faults e) f = faults e"
  "and_then (returns x) f = f x"
  by (simp_all add: and_then_def returns_def faults_def)

lemma returns_eq [simp]: "returns x = returns y \<longleftrightarrow> x = y"
  by (simp add: returns_def)

lemma returns_neq [simp]: "returns x \<noteq> None" "returns x \<noteq> faults e" "faults e \<noteq> returns x"
  "faults e \<noteq> None" "None \<noteq> returns x" "None \<noteq> faults e"
  by (simp_all add: returns_def faults_def)

lemma and_then_assoc: "and_then (and_then m f) g = and_then m (\<lambda>x. and_then (f x) g)"
  by (simp add: and_then_def split: option.splits sum.splits)

lemma and_then_cong: "(\<And>x. m = returns x \<Longrightarrow> f x = g x) \<Longrightarrow> and_then m f = and_then m g"
  by (auto simp: and_then_def returns_def split: option.splits sum.splits)

lemma and_then_returns [simp]: "and_then m returns = m"
  by (auto simp: and_then_def returns_def split: option.splits sum.splits)

lemma and_then_returnsE:
  assumes "and_then m f = returns y"
  obtains x where "m = returns x" and "f x = returns y"
  using assms by (auto simp: and_then_def returns_def split: option.splits sum.splits)

lemma and_then_mono [partial_function_mono]:
  assumes "mono_option B" and "\<And>y. mono_option (\<lambda>f. C y f)"
  shows "mono_option (\<lambda>f. and_then (B f) (\<lambda>y. C y f))"
proof -
  have eq: "and_then m k = Option.bind m (\<lambda>x. case x of Inl e \<Rightarrow> Some (Inl e) | Inr y \<Rightarrow> k y)" for m k
    by (simp add: and_then_def split: option.splits sum.splits)
  have "mono_option (\<lambda>f. case x of Inl e \<Rightarrow> Some (Inl e) | Inr y \<Rightarrow> C y f)" for x
    using assms(2) by (cases x) (auto intro: option.const_mono)
  from bind_mono [OF assms(1) this] show ?thesis unfolding eq .
qed

text \<open>Partial correctness of an outcome, with the rules that follow the structure of a
  definition.\<close>

definition yields :: "('a \<Rightarrow> bool) \<Rightarrow> 'a run \<Rightarrow> bool" where
  "yields Q m \<longleftrightarrow> (\<forall>x. m = returns x \<longrightarrow> Q x)"

lemma yields_simps [simp]:
  "yields Q (returns x) = Q x" "yields Q (faults e)" "yields Q None"
  by (simp_all add: yields_def)

lemma yieldsD: "yields Q m \<Longrightarrow> m = returns x \<Longrightarrow> Q x"
  by (simp add: yields_def)

lemma yields_bind [intro]:
  "yields R m \<Longrightarrow> (\<And>x. R x \<Longrightarrow> yields Q (f x)) \<Longrightarrow> yields Q (and_then m f)"
  by (auto simp: yields_def elim!: and_then_returnsE)

lemma yields_if [intro]: "(b \<Longrightarrow> yields Q m) \<Longrightarrow> (\<not> b \<Longrightarrow> yields Q n) \<Longrightarrow> yields Q (if b then m else n)"
  by simp

text \<open>A loop: the body goes on with a new state (\<open>Inl\<close>) or ends with a result (\<open>Inr\<close>); a loop that
  goes on for ever has no outcome.\<close>

partial_function (option) run_loop :: "('s \<Rightarrow> ('s + 'r) run) \<Rightarrow> 's \<Rightarrow> 'r run" where
  "run_loop f s = and_then (f s) (\<lambda>x. case x of Inl s' \<Rightarrow> run_loop f s' | Inr r \<Rightarrow> returns r)"

lemma run_loop_go: "f s = returns (Inl s') \<Longrightarrow> run_loop f s = run_loop f s'"
  and run_loop_stop: "f s = returns (Inr r) \<Longrightarrow> run_loop f s = returns r"
  by (simp_all add: run_loop.simps)

lemma run_loop_induct:
  assumes "run_loop f s = Some y"
    and "\<And>g s y. (\<And>s y. g s = Some y \<Longrightarrow> P s y)
      \<Longrightarrow> and_then (f s) (\<lambda>x. case x of Inl s' \<Rightarrow> g s' | Inr r \<Rightarrow> returns r) = Some y \<Longrightarrow> P s y"
  shows "P s y"
proof -
  have "f' = f \<longrightarrow> P s y" if "run_loop f' s = Some y" for f' s y
    using run_loop.raw_induct [where P = "\<lambda>f' s y. f' = f \<longrightarrow> P s y", OF _ that] assms(2) by blast
  then show ?thesis using assms(1) by blast
qed

lemma run_loop_yields:
  assumes body: "\<And>s. I s \<Longrightarrow> yields (case_sum I Q) (f s)" and "I s"
  shows "yields Q (run_loop f s)"
proof -
  have "I s \<longrightarrow> (\<forall>r. y = Inr r \<longrightarrow> Q r)" if "run_loop f s = Some y" for y
    using that
  proof (rule run_loop_induct)
    fix g s y
    assume IH: "\<And>s y. g s = Some y \<Longrightarrow> I s \<longrightarrow> (\<forall>r. y = Inr r \<longrightarrow> Q r)"
      and run: "and_then (f s) (\<lambda>x. case x of Inl s' \<Rightarrow> g s' | Inr r \<Rightarrow> returns r) = Some y"
    show "I s \<longrightarrow> (\<forall>r. y = Inr r \<longrightarrow> Q r)"
    proof (intro impI allI)
      fix r assume s: "I s" and "y = Inr r"
      then have "and_then (f s) (\<lambda>x. case x of Inl s' \<Rightarrow> g s' | Inr r \<Rightarrow> returns r) = returns r"
        using run by (simp add: returns_def)
      then obtain x where x: "f s = returns x" "(case x of Inl s' \<Rightarrow> g s' | Inr r \<Rightarrow> returns r) = returns r"
        by (rule and_then_returnsE)
      have "case_sum I Q x" using yieldsD [OF body [OF s] x(1)] .
      then show "Q r" using x(2) IH by (cases x) (auto simp: returns_def)
    qed
  qed
  then show ?thesis using assms(2) by (auto simp: yields_def returns_def)
qed

lemma run_loop_diverges:
  assumes go: "\<And>s. I s \<Longrightarrow> \<exists>s'. f s = returns (Inl s') \<and> I s'" and "I s"
  shows "run_loop f s = None"
proof (rule ccontr)
  assume "run_loop f s \<noteq> None"
  then obtain y where "run_loop f s = Some y" by blast
  then have "I s \<longrightarrow> False"
  proof (rule run_loop_induct)
    fix g s y
    assume IH: "\<And>s (y :: fault + 'b). g s = Some y \<Longrightarrow> I s \<longrightarrow> False"
      and run: "and_then (f s) (\<lambda>x. case x of Inl s' \<Rightarrow> g s' | Inr r \<Rightarrow> returns r) = Some y"
    show "I s \<longrightarrow> False"
    proof
      assume "I s"
      then obtain s' where "f s = returns (Inl s')" "I s'" using go by blast
      then show False using run IH by simp
    qed
  qed
  then show False using assms(2) by blast
qed

end
