(* ===== verification/Messages.thy ===== *)
theory Messages
  imports Prelude
begin

text \<open>
  The data that crosses the RDMA link: the request and return messages of \<open>rdma_common.h\<close>
  (the same declarations on both sides), the request numbers, and the C structures that are
  copied byte by byte into a message, with the byte image they have on the LP64
  little-endian target. Each image is a \<open>codec\<close>, so the array facts of the prelude apply.
\<close>

section \<open>Request numbers\<close>

datatype RDMA_REQ_MSG =
    RDMA_REQ_SOCKET | RDMA_REQ_CLOSE | RDMA_REQ_READ | RDMA_REQ_WRITE
  | RDMA_REQ_BIND | RDMA_REQ_LISTEN | RDMA_REQ_ACCEPT
  | RDMA_REQ_CONNECT | RDMA_REQ_SELECT
  | RDMA_REQ_EPOLL_CREATE1 | RDMA_REQ_EPOLL_CTL | RDMA_REQ_EPOLL_WAIT
  | RDMA_REQ_POLL
  | RDMA_REQ_FCNTL | RDMA_REQ_SETSOCKOPT | RDMA_REQ_GETSOCKOPT
  | RDMA_REQ_GETPEERNAME | RDMA_REQ_GETSOCKNAME
  | RDMA_REQ_NEW_RDMA_CONN | RDMA_REQ_DEL_RDMA_CONN

fun req_code :: "RDMA_REQ_MSG \<Rightarrow> u32" where
  "req_code RDMA_REQ_SOCKET = 1"
| "req_code RDMA_REQ_CLOSE = 2"
| "req_code RDMA_REQ_READ = 3"
| "req_code RDMA_REQ_WRITE = 4"
| "req_code RDMA_REQ_BIND = 5"
| "req_code RDMA_REQ_LISTEN = 6"
| "req_code RDMA_REQ_ACCEPT = 7"
| "req_code RDMA_REQ_CONNECT = 8"
| "req_code RDMA_REQ_SELECT = 9"
| "req_code RDMA_REQ_EPOLL_CREATE1 = 10"
| "req_code RDMA_REQ_EPOLL_CTL = 11"
| "req_code RDMA_REQ_EPOLL_WAIT = 12"
| "req_code RDMA_REQ_POLL = 13"
| "req_code RDMA_REQ_FCNTL = 14"
| "req_code RDMA_REQ_SETSOCKOPT = 15"
| "req_code RDMA_REQ_GETSOCKOPT = 16"
| "req_code RDMA_REQ_GETPEERNAME = 17"
| "req_code RDMA_REQ_GETSOCKNAME = 18"
| "req_code RDMA_REQ_NEW_RDMA_CONN = 19"
| "req_code RDMA_REQ_DEL_RDMA_CONN = 20"

definition all_reqs :: "RDMA_REQ_MSG list" where
  "all_reqs =
     [RDMA_REQ_SOCKET, RDMA_REQ_CLOSE, RDMA_REQ_READ, RDMA_REQ_WRITE, RDMA_REQ_BIND,
      RDMA_REQ_LISTEN, RDMA_REQ_ACCEPT, RDMA_REQ_CONNECT, RDMA_REQ_SELECT,
      RDMA_REQ_EPOLL_CREATE1, RDMA_REQ_EPOLL_CTL, RDMA_REQ_EPOLL_WAIT, RDMA_REQ_POLL,
      RDMA_REQ_FCNTL, RDMA_REQ_SETSOCKOPT, RDMA_REQ_GETSOCKOPT, RDMA_REQ_GETPEERNAME,
      RDMA_REQ_GETSOCKNAME, RDMA_REQ_NEW_RDMA_CONN, RDMA_REQ_DEL_RDMA_CONN]"

text \<open>The case of a \<open>switch\<close> that a number selects; \<open>None\<close> is its \<open>default\<close>.\<close>

definition req_of_code :: "u32 \<Rightarrow> RDMA_REQ_MSG option" where
  "req_of_code c = find (\<lambda>r. req_code r = c) all_reqs"

lemma req_of_code_req_code [simp]: "req_of_code (req_code r) = Some r"
  by (cases r) (simp_all add: req_of_code_def all_reqs_def)

lemma req_code_inj [simp]: "req_code r = req_code r' \<longleftrightarrow> r = r'"
  by (metis option.inject req_of_code_req_code)

lemma req_of_code_Some: "req_of_code c = Some r \<Longrightarrow> c = req_code r"
  by (auto simp: req_of_code_def find_Some_iff)

text \<open>The requests are ordered by their numbers, as the range check of \<open>set_req_sock\<close> uses
  them.\<close>

instantiation RDMA_REQ_MSG :: linorder
begin

definition less_eq_RDMA_REQ_MSG :: "RDMA_REQ_MSG \<Rightarrow> RDMA_REQ_MSG \<Rightarrow> bool" where
  "less_eq_RDMA_REQ_MSG r r' \<longleftrightarrow> req_code r \<le> req_code r'"

definition less_RDMA_REQ_MSG :: "RDMA_REQ_MSG \<Rightarrow> RDMA_REQ_MSG \<Rightarrow> bool" where
  "less_RDMA_REQ_MSG r r' \<longleftrightarrow> req_code r < req_code r'"

instance
  by standard (auto simp: less_eq_RDMA_REQ_MSG_def less_RDMA_REQ_MSG_def less_le)

end

lemma req_first_last: "RDMA_REQ_SOCKET \<le> r \<and> r \<le> RDMA_REQ_DEL_RDMA_CONN"
  by (cases r) (simp_all add: less_eq_RDMA_REQ_MSG_def)

section \<open>Messages\<close>

definition BUFFER_SIZE :: nat where "BUFFER_SIZE = 600000"

record req_msg =
  rdma_req :: u32
  buf_sz :: u64
  req_port :: u16
  req_data :: buf

record rtn_msg =
  rtn_errno :: u32
  rtn_value :: i64
  rtn_data :: buf

text \<open>Sizes of the packed structures: 4 + 8 + 2 and 4 + 8 bytes before the data.\<close>

definition req_hdr :: nat where "req_hdr = 14"
definition rtn_hdr :: nat where "rtn_hdr = 12"
definition sizeof_req_msg :: nat where "sizeof_req_msg = req_hdr + BUFFER_SIZE"
definition sizeof_rtn_msg :: nat where "sizeof_rtn_msg = rtn_hdr + BUFFER_SIZE"

text \<open>Metadata exchanged when a connection is set up; the two members of the union
  \<open>stag\<close> share their storage.\<close>

record rdma_buffer_attr =
  attr_address :: u64
  attr_length :: u32
  attr_stag :: u32
  attr_eventfd_addr :: u64
  attr_eventfd_rkey :: u32

section \<open>Structures copied into messages\<close>

record epoll_event =
  ev_events :: u32
  ev_data :: u64

record pollfd =
  pfd_fd :: c_int
  pfd_events :: u16
  pfd_revents :: u16

record timeval =
  tv_sec :: i64
  tv_usec :: i64

text \<open>An \<open>fd_set\<close> is 16 unsigned longs: descriptor \<open>n\<close> is bit \<open>n\<close> of a 1024-bit word.\<close>

type_synonym fd_set = "1024 word"

definition FD_ISSET :: "nat \<Rightarrow> fd_set \<Rightarrow> bool" where
  "FD_ISSET n s = bit s n"

text \<open>The 16 bytes of a \<open>struct sockaddr\<close>, under the names of \<open>sockaddr_in\<close>. The port and
  the address are kept as they are in memory, in network byte order.\<close>

record sockaddr =
  sin_family :: u16
  sin_port :: u16
  sin_addr :: u32
  sin_zero :: u64

definition enc_epoll_event :: "epoll_event \<Rightarrow> byte list" where
  "enc_epoll_event e = le_bytes 4 (ev_events e) @ le_bytes 8 (ev_data e)"

definition dec_epoll_event :: "byte list \<Rightarrow> epoll_event" where
  "dec_epoll_event bs = \<lparr>ev_events = of_le (take 4 bs), ev_data = of_le (drop 4 bs)\<rparr>"

definition enc_pollfd :: "pollfd \<Rightarrow> byte list" where
  "enc_pollfd p = le_bytes 4 (pfd_fd p) @ le_bytes 2 (pfd_events p) @ le_bytes 2 (pfd_revents p)"

definition dec_pollfd :: "byte list \<Rightarrow> pollfd" where
  "dec_pollfd bs = \<lparr>pfd_fd = of_le (take 4 bs), pfd_events = of_le (take 2 (drop 4 bs)),
     pfd_revents = of_le (drop 6 bs)\<rparr>"

definition enc_timeval :: "timeval \<Rightarrow> byte list" where
  "enc_timeval t = le_bytes 8 (tv_sec t) @ le_bytes 8 (tv_usec t)"

definition dec_timeval :: "byte list \<Rightarrow> timeval" where
  "dec_timeval bs = \<lparr>tv_sec = of_le (take 8 bs), tv_usec = of_le (drop 8 bs)\<rparr>"

definition enc_fd_set :: "fd_set \<Rightarrow> byte list" where
  "enc_fd_set s = le_bytes 128 s"

definition dec_fd_set :: "byte list \<Rightarrow> fd_set" where
  "dec_fd_set bs = of_le bs"

definition enc_sockaddr :: "sockaddr \<Rightarrow> byte list" where
  "enc_sockaddr a = le_bytes 2 (sin_family a) @ le_bytes 2 (sin_port a) @ le_bytes 4 (sin_addr a)
     @ le_bytes 8 (sin_zero a)"

definition dec_sockaddr :: "byte list \<Rightarrow> sockaddr" where
  "dec_sockaddr bs = \<lparr>sin_family = of_le (take 2 bs), sin_port = of_le (take 2 (drop 2 bs)),
     sin_addr = of_le (take 4 (drop 4 bs)), sin_zero = of_le (drop 8 bs)\<rparr>"

lemmas struct_codecs = enc_epoll_event_def dec_epoll_event_def enc_pollfd_def dec_pollfd_def
  enc_timeval_def dec_timeval_def enc_fd_set_def dec_fd_set_def enc_sockaddr_def dec_sockaddr_def

interpretation ev_codec: codec enc_epoll_event dec_epoll_event 12
  by unfold_locales (simp_all add: struct_codecs)

interpretation pfd_codec: codec enc_pollfd dec_pollfd 8
  by unfold_locales (simp_all add: struct_codecs)

interpretation tv_codec: codec enc_timeval dec_timeval 16
  by unfold_locales (simp_all add: struct_codecs)

interpretation fds_codec: codec enc_fd_set dec_fd_set 128
  by unfold_locales (simp_all add: struct_codecs)

interpretation addr_codec: codec enc_sockaddr dec_sockaddr 16
  by unfold_locales (simp_all add: struct_codecs)

text \<open>\<open>htons\<close>, \<open>ntohs\<close> and \<open>htonl\<close> on a little-endian machine.\<close>

definition htons :: "u16 \<Rightarrow> u16" where
  "htons w = of_le (rev (le_bytes 2 w))"

definition htonl :: "u32 \<Rightarrow> u32" where
  "htonl w = of_le (rev (le_bytes 4 w))"

lemma htons_htons [simp]: "htons (htons w) = w"
  by (simp add: htons_def)

lemma htonl_htonl [simp]: "htonl (htonl w) = w"
  by (simp add: htonl_def)

end
