(* ===== verification/Env.thy ===== *)
theory Env
  imports Messages
begin

text \<open>
  What the program calls but does not define: the kernel's socket interface, the RDMA verbs
  and connection manager, and the allocator. The environment is an arbitrary function from
  the calls made so far (newest first) to the response of the newest one, so it may answer
  the same call differently each time. Every definition that makes a call takes the
  environment and the trace and returns the longer trace.
\<close>

text \<open>A registered memory region, a scatter/gather element, the part of a work request the
  program sets, a work completion and a connection manager event.\<close>

record ibv_mr =
  mr_addr :: u64
  mr_length :: u64
  mr_lkey :: u32
  mr_rkey :: u32

record ibv_sge =
  sge_addr :: u64
  sge_length :: u32
  sge_lkey :: u32

datatype wr_opcode = IBV_WR_RDMA_WRITE | IBV_WR_RDMA_WRITE_WITH_IMM | IBV_WR_SEND

record send_wr =
  sw_num_sge :: nat
  sw_opcode :: wr_opcode
  sw_signaled :: bool
  sw_imm_data :: u32
  sw_remote_addr :: u64
  sw_rkey :: u32

datatype wc_opcode = IBV_WC_SEND | IBV_WC_RECV | IBV_WC_RECV_RDMA_WITH_IMM | IBV_WC_OTHER

record ibv_wc =
  wc_status :: c_int
  wc_op :: wc_opcode
  wc_with_imm :: bool
  wc_imm_data :: u32

datatype cm_event_type =
    RDMA_CM_EVENT_ADDR_RESOLVED | RDMA_CM_EVENT_ROUTE_RESOLVED | RDMA_CM_EVENT_CONNECT_REQUEST
  | RDMA_CM_EVENT_ESTABLISHED | RDMA_CM_EVENT_DISCONNECTED | RDMA_CM_EVENT_OTHER

text \<open>The parameters of a connection that the program sets; it clears the others.\<close>

record conn_param =
  cp_initiator_depth :: nat
  cp_responder_resources :: nat
  cp_retry_count :: nat
  cp_rnr_retry_count :: nat

record cm_event =
  cme_status :: c_int
  cme_event :: cm_event_type
  cme_id :: ptr

text \<open>The object a work request sends: the NIC reads it at the address of the region. The last
  is an allocated buffer of a given size.\<close>

datatype payload = Payload_req req_msg | Payload_rtn rtn_msg | Payload_attr rdma_buffer_attr
  | Payload_buffer ptr u32

datatype (plugins only: code size) sys_call =
    Sys_socket c_int c_int c_int
  | Sys_bind c_int sockaddr u32
  | Sys_listen c_int c_int
  | Sys_accept c_int sockaddr ptr
  | Sys_close c_int
  | Sys_connect c_int sockaddr u32
  | Sys_send c_int "byte list" c_int
  | Sys_read c_int u64
  | Sys_select c_int fd_set fd_set fd_set timeval
  | Sys_epoll_create1 c_int
  | Sys_epoll_ctl c_int c_int c_int epoll_event
  | Sys_epoll_wait c_int c_int c_int
  | Sys_poll "pollfd list option" u64 c_int
  | Sys_fcntl c_int c_int "byte list option option"
  | Sys_setsockopt c_int c_int c_int "byte list option" u32
  | Sys_getsockopt c_int c_int c_int "byte list option" u32
  | Sys_getpeername c_int sockaddr u32
  | Sys_getsockname c_int sockaddr u32

datatype (plugins only: code size) verb_call =
    Ibv_alloc_pd ptr
  | Ibv_create_comp_channel ptr
  | Ibv_create_cq ptr nat ptr
  | Ibv_req_notify_cq ptr
  | Ibv_get_cq_event ptr
  | Ibv_ack_cq_events ptr nat
  | Ibv_poll_cq ptr nat
  | Ibv_reg_mr ptr payload
  | Ibv_dereg_mr ibv_mr
  | Ibv_post_send ptr send_wr ibv_sge payload
  | Ibv_post_recv ptr ibv_sge
  | Ibv_query_qp ptr
  | Ibv_destroy_cq ptr
  | Ibv_destroy_comp_channel ptr
  | Ibv_dealloc_pd ptr

datatype (plugins only: code size) cm_call =
    Rdma_create_event_channel
  | Rdma_destroy_event_channel ptr
  | Rdma_create_id ptr
  | Rdma_destroy_id ptr
  | Rdma_bind_addr ptr sockaddr
  | Rdma_listen ptr c_int
  | Rdma_resolve_addr ptr sockaddr c_int
  | Rdma_resolve_route ptr c_int
  | Rdma_get_cm_event ptr
  | Rdma_ack_cm_event "cm_event option"
  | Rdma_create_qp ptr ptr ptr
  | Rdma_destroy_qp ptr
  | Rdma_accept ptr conn_param
  | Rdma_connect ptr conn_param
  | Rdma_disconnect ptr

text \<open>The host's hooks fall back on the functions they replace. A pointer that may be \<open>NULL\<close> is
  an option; what such a call stores is in the response.\<close>

datatype (plugins only: code size) orig_call =
    Orig_socket c_int c_int c_int
  | Orig_connect c_int sockaddr u32
  | Orig_send c_int "byte list" c_int
  | Orig_read c_int u64
  | Orig_write c_int "byte list"
  | Orig_recv c_int u64 c_int
  | Orig_close c_int
  | Orig_bind c_int sockaddr u32
  | Orig_listen c_int c_int
  | Orig_accept c_int
  | Orig_select c_int "fd_set option" "fd_set option" "fd_set option" "timeval option"
  | Orig_epoll_create1 c_int
  | Orig_epoll_ctl c_int c_int c_int "epoll_event option"
  | Orig_epoll_wait c_int c_int c_int
  | Orig_poll "pollfd list" u64 c_int
  | Orig_fcntl c_int c_int ptr
  | Orig_setsockopt c_int c_int c_int "byte list option" u32
  | Orig_getsockopt c_int c_int c_int "u32 option"
  | Orig_getpeername c_int "sockaddr option" "u32 option"
  | Orig_getsockname c_int "sockaddr option" "u32 option"

text \<open>Memory, and what the test programs call besides: files, the clock.\<close>

datatype (plugins only: code size) app_call =
    App_alloc u64
  | App_free ptr
  | App_stat "byte list"
  | App_open "byte list"
  | App_fopen
  | App_sendfile c_int c_int u64 u64
  | App_fcntl c_int c_int c_int
  | App_inet_pton "byte list"
  | App_gettimeofday

datatype call = Sys sys_call | Verb verb_call | Cm cm_call | Libc orig_call
  | Getaddrinfo "byte list" | Pthread_create ptr | App app_call

text \<open>The response of a call: its return value (an integer or a pointer), the value of
  \<open>errno\<close> after it, what it stored through its pointer arguments, and what the remote side
  has written by RDMA into the local message when the call reports a completion.\<close>

record resp =
  rv :: i64
  err :: u32
  out_bytes :: "byte list"
  out_events :: "epoll_event list"
  out_readfds :: fd_set
  out_writefds :: fd_set
  out_exceptfds :: fd_set
  out_timeout :: timeval
  out_pollfds :: "pollfd list"
  out_addr :: sockaddr
  out_len :: u32
  out_ptr :: ptr
  out_mr :: ibv_mr
  out_wcs :: "ibv_wc list"
  out_cme :: cm_event
  out_req :: "req_msg option"
  out_rtn :: "rtn_msg option"
  out_attr :: "rdma_buffer_attr option"
  out_mode :: u32
  out_off :: u64

type_synonym trace = "call list"
type_synonym env = "call list \<Rightarrow> resp"

definition ext :: "env \<Rightarrow> call \<Rightarrow> trace \<Rightarrow> resp \<times> trace" where
  "ext E c h = (E (c # h), c # h)"

text \<open>The return value of a call that returns an \<open>int\<close>.\<close>

definition ret :: "resp \<Rightarrow> c_int" where
  "ret r = ucast (rv r)"

text \<open>\<open>-errno\<close>.\<close>

definition neg_errno :: "resp \<Rightarrow> c_int" where
  "neg_errno r = - err r"

lemma ext_simps [simp]: "fst (ext E c h) = E (c # h)" "snd (ext E c h) = c # h"
  by (simp_all add: ext_def)

text \<open>The calls of a trace that send a work request, newest first.\<close>

definition posts :: "trace \<Rightarrow> call list" where
  "posts h = filter (\<lambda>c. case c of Verb (Ibv_post_send _ _ _ _) \<Rightarrow> True | _ \<Rightarrow> False) h"

text \<open>The number of receive requests that a trace has posted.\<close>

fun receives :: "trace \<Rightarrow> nat" where
  "receives [] = 0"
| "receives (Verb (Ibv_post_recv _ _) # h) = Suc (receives h)"
| "receives (_ # h) = receives h"

text \<open>Constants of the interfaces.\<close>

definition AF_INET :: u16 where "AF_INET = 2"
definition AF_INET6 :: u16 where "AF_INET6 = 10"
definition SOCK_STREAM :: c_int where "SOCK_STREAM = 1"
definition INADDR_ANY :: u32 where "INADDR_ANY = 0"
definition ENOMEM :: c_int where "ENOMEM = 12"
definition EINVAL :: c_int where "EINVAL = 22"

text \<open>The bytes of the address \<open>10.0.10.2\<close>.\<close>

definition DEFAULT_RDMA_SERVER_IP :: "byte list" where
  "DEFAULT_RDMA_SERVER_IP = [10, 0, 10, 2]"

definition DEFAULT_RDMA_PORT :: u16 where "DEFAULT_RDMA_PORT = 12345"

text \<open>A response with nothing in it, for concrete environments.\<close>

definition resp0 :: resp where
  "resp0 = \<lparr>rv = 0, err = 0, out_bytes = [], out_events = [], out_readfds = 0, out_writefds = 0,
     out_exceptfds = 0, out_timeout = \<lparr>tv_sec = 0, tv_usec = 0\<rparr>, out_pollfds = [],
     out_addr = \<lparr>sin_family = 0, sin_port = 0, sin_addr = 0, sin_zero = 0\<rparr>, out_len = 0,
     out_ptr = 0, out_mr = \<lparr>mr_addr = 0, mr_length = 0, mr_lkey = 0, mr_rkey = 0\<rparr>,
     out_wcs = [],
     out_cme = \<lparr>cme_status = 0, cme_event = RDMA_CM_EVENT_OTHER, cme_id = 0\<rparr>,
     out_req = None, out_rtn = None, out_attr = None, out_mode = 0, out_off = 0\<rparr>"

end
