(* ===== verification/Verbs.thy ===== *)
theory Verbs
  imports Env
begin

text \<open>
  The RDMA helpers that host and SmartNIC share (\<open>rdma_common.c\<close>): registering memory,
  waiting for a connection manager event, waiting for a number of completions, resolving an
  address. The SmartNIC's copies are the same but for one test in \<open>get_addr\<close>.
\<close>

text \<open>The scatter/gather element for a region, the metadata that advertises it, and the size of
  the completion queues.\<close>

definition sge_of :: "ibv_mr \<Rightarrow> ibv_sge" where
  "sge_of mr = \<lparr>sge_addr = mr_addr mr, sge_length = ucast (mr_length mr), sge_lkey = mr_lkey mr\<rparr>"

text \<open>The union \<open>stag\<close> holds the remote key, stored last.\<close>

definition attr_of :: "rdma_buffer_attr \<Rightarrow> ibv_mr \<Rightarrow> rdma_buffer_attr" where
  "attr_of a mr = a\<lparr>attr_address := mr_addr mr, attr_length := ucast (mr_length mr), attr_stag := mr_rkey mr\<rparr>"

definition CQ_CAPACITY :: nat where "CQ_CAPACITY = 8 * 1024"

definition rdma_buffer_register :: "env \<Rightarrow> ptr \<Rightarrow> payload \<Rightarrow> trace \<Rightarrow> ibv_mr option \<times> trace" where
  "rdma_buffer_register E pd obj h =
     (if pd = 0 then (None, h)
      else
        let (r, h) = ext E (Verb (Ibv_reg_mr pd obj)) h
        in if rv r = 0 then (None, h) else (Some (out_mr r), h))"

definition rdma_buffer_deregister :: "env \<Rightarrow> ibv_mr option \<Rightarrow> trace \<Rightarrow> trace" where
  "rdma_buffer_deregister E mr h =
     (case mr of None \<Rightarrow> h | Some mr \<Rightarrow> let (r, h) = ext E (Verb (Ibv_dereg_mr mr)) h in h)"

text \<open>A region over a buffer of its own, and its release. Nothing in the program calls these two.\<close>

definition rdma_buffer_alloc :: "env \<Rightarrow> ptr \<Rightarrow> u32 \<Rightarrow> trace \<Rightarrow> ibv_mr option \<times> trace" where
  "rdma_buffer_alloc E pd sz h =
     (if pd = 0 then (None, h)
      else
        let (r, h) = ext E (App (App_alloc (ucast sz))) h; buf = rv r
        in if buf = 0 then (None, h)
           else
             let (mr, h) = rdma_buffer_register E pd (Payload_buffer buf sz) h
             in (case mr of None \<Rightarrow> (None, snd (ext E (App (App_free buf)) h)) | Some mr \<Rightarrow> (Some mr, h)))"

definition rdma_buffer_free :: "env \<Rightarrow> ibv_mr option \<Rightarrow> trace \<Rightarrow> trace" where
  "rdma_buffer_free E mr h =
     (case mr of None \<Rightarrow> h
      | Some m \<Rightarrow>
          let to_free = mr_addr m; h = rdma_buffer_deregister E mr h
          in snd (ext E (App (App_free to_free)) h))"

text \<open>The event is left for the caller to acknowledge only when it is the expected one.\<close>

definition process_rdma_cm_event ::
    "env \<Rightarrow> ptr \<Rightarrow> cm_event_type \<Rightarrow> cm_event option \<Rightarrow> trace \<Rightarrow> c_int \<times> cm_event option \<times> trace" where
  "process_rdma_cm_event E echannel expected_event cm_event h =
     (let (r, h) = ext E (Cm (Rdma_get_cm_event echannel)) h in
      if ret r \<noteq> 0 then (neg_errno r, cm_event, h)
      else
        let ev = out_cme r in
        if 0 \<noteq> cme_status ev then
          let (r, h) = ext E (Cm (Rdma_ack_cm_event (Some ev))) h in (- cme_status ev, Some ev, h)
        else if cme_event ev \<noteq> expected_event then
          let (r, h) = ext E (Cm (Rdma_ack_cm_event (Some ev))) h in (- 1, Some ev, h)
        else (0, Some ev, h))"

text \<open>The \<open>do\<close> loop that collects \<open>max_wc\<close> completions; it need not end. \<open>Inl\<close> is the early
  return on a failing poll. \<open>attr\<close> is the metadata the remote side has sent meanwhile.\<close>

partial_function (option) poll_wcs ::
    "env \<Rightarrow> ptr \<Rightarrow> nat \<Rightarrow> nat \<Rightarrow> ibv_wc list \<Rightarrow> rdma_buffer_attr option \<Rightarrow> trace
      \<Rightarrow> (c_int \<times> trace + (nat \<times> ibv_wc list \<times> rdma_buffer_attr option) \<times> trace) option" where
  "poll_wcs E cq max_wc total_wc wcs attr h =
     (let (r, h) = ext E (Verb (Ibv_poll_cq cq (max_wc - total_wc))) h in
      if negative (ret r) then Some (Inl (ret r, h))
      else
        let total_wc = total_wc + unat (ret r);
            wcs = wcs @ out_wcs r;
            attr = (case out_attr r of None \<Rightarrow> attr | Some a \<Rightarrow> Some a)
        in if total_wc < max_wc then poll_wcs E cq max_wc total_wc wcs attr h
           else Some (Inr ((total_wc, wcs, attr), h)))"

text \<open>The first completion with an error status ends the function before the notification is
  acknowledged. \<open>None\<close> is a wait that never ends; the middle component is the metadata
  received.\<close>

definition process_work_completion_events ::
    "env \<Rightarrow> ptr \<Rightarrow> nat \<Rightarrow> trace \<Rightarrow> (c_int \<times> rdma_buffer_attr option \<times> trace) option" where
  "process_work_completion_events E comp_channel max_wc h =
     (let (r, h) = ext E (Verb (Ibv_get_cq_event comp_channel)) h in
      if ret r \<noteq> 0 then Some (neg_errno r, None, h)
      else
        let cq = out_ptr r;
            (r, h) = ext E (Verb (Ibv_req_notify_cq cq)) h in
        if ret r \<noteq> 0 then Some (neg_errno r, None, h)
        else
          case poll_wcs E cq max_wc 0 [] None h of
            None \<Rightarrow> None
          | Some (Inl (e, h)) \<Rightarrow> Some (e, None, h)
          | Some (Inr ((total_wc, wcs, attr), h)) \<Rightarrow>
              (case find (\<lambda>w. wc_status w \<noteq> 0) (take total_wc wcs) of
                 Some w \<Rightarrow> Some (- wc_status w, attr, h)
               | None \<Rightarrow>
                   let (r, h) = ext E (Verb (Ibv_ack_cq_events cq 1)) h
                   in Some (word_of_nat total_wc, attr, h)))"

definition get_addr :: "env \<Rightarrow> byte list \<Rightarrow> sockaddr \<Rightarrow> trace \<Rightarrow> c_int \<times> sockaddr \<times> trace" where
  "get_addr E dst addr h =
     (let (r, h) = ext E (Getaddrinfo dst) h in
      if ret r \<noteq> 0 then (ret r, addr, h)
      else (ret r, if sin_family (out_addr r) = AF_INET then out_addr r else addr, h))"

definition snic_get_addr :: "env \<Rightarrow> byte list \<Rightarrow> sockaddr \<Rightarrow> trace \<Rightarrow> c_int \<times> sockaddr \<times> trace" where
  "snic_get_addr E dst addr h =
     (let (r, h) = ext E (Getaddrinfo dst) h in
      if ret r \<noteq> 0 then (ret r, addr, h) else (ret r, out_addr r, h))"

definition snic_rdma_buffer_register where "snic_rdma_buffer_register = rdma_buffer_register"
definition snic_rdma_buffer_deregister where "snic_rdma_buffer_deregister = rdma_buffer_deregister"
definition snic_rdma_buffer_alloc where "snic_rdma_buffer_alloc = rdma_buffer_alloc"
definition snic_rdma_buffer_free where "snic_rdma_buffer_free = rdma_buffer_free"
definition snic_process_rdma_cm_event where "snic_process_rdma_cm_event = process_rdma_cm_event"
definition snic_process_work_completion_events where
  "snic_process_work_completion_events = process_work_completion_events"

text \<open>A failed registration releases the buffer; a region that was obtained and released again
  leaves nothing behind.\<close>

lemma rdma_buffer_alloc_free:
  assumes "rdma_buffer_alloc E pd sz h = (mr, h')"
  shows "(case mr of
      None \<Rightarrow> h' = h \<or> h' = App (App_alloc (ucast sz)) # h
        \<or> (\<exists>buf. h' = App (App_free buf) # Verb (Ibv_reg_mr pd (Payload_buffer buf sz)) # App (App_alloc (ucast sz)) # h)
    | Some m \<Rightarrow> \<exists>buf. h' = Verb (Ibv_reg_mr pd (Payload_buffer buf sz)) # App (App_alloc (ucast sz)) # h
        \<and> rdma_buffer_free E mr h' = App (App_free (mr_addr m)) # Verb (Ibv_dereg_mr m) # h')"
  using assms
  by (auto simp: rdma_buffer_alloc_def rdma_buffer_register_def rdma_buffer_free_def rdma_buffer_deregister_def
      ext_def Let_def split: if_splits)

lemmas snic_verbs = snic_rdma_buffer_register_def snic_rdma_buffer_deregister_def
  snic_process_rdma_cm_event_def snic_process_work_completion_events_def

text \<open>One poll that yields what was asked for ends the loop.\<close>

lemma poll_wcs_once:
  assumes "\<not> negative (ret (E (Verb (Ibv_poll_cq cq (n - k)) # h)))"
    and "n \<le> k + unat (ret (E (Verb (Ibv_poll_cq cq (n - k)) # h)))"
  shows "poll_wcs E cq n k wcs attr h =
    Some (Inr ((k + unat (ret (E (Verb (Ibv_poll_cq cq (n - k)) # h))),
      wcs @ out_wcs (E (Verb (Ibv_poll_cq cq (n - k)) # h)),
      case out_attr (E (Verb (Ibv_poll_cq cq (n - k)) # h)) of None \<Rightarrow> attr | Some a \<Rightarrow> Some a),
      Verb (Ibv_poll_cq cq (n - k)) # h))"
  using assms by (subst poll_wcs.simps) (simp add: ext_def)

end
