(* ===== verification/Wire.thy ===== *)
theory Wire
  imports Messages "HOL-Library.Signed_Division"
begin

text \<open>
  The serialisers and deserialisers of \<open>host/rdma_common.c\<close> (and, where it differs, of
  \<open>snic/rdma_common.c\<close>): the arguments of a socket call are laid out in the data of a
  message. A pointer the code tests against \<open>NULL\<close> is an option; a pointer to a C object
  is the object's contents, and a function that writes through it returns the new contents.
  Reading or writing outside an object is the fault \<open>Out_of_bounds\<close>, following a \<open>NULL\<close> the
  fault \<open>Null_deref\<close>.
\<close>

section \<open>epoll\<close>

definition serialize_epoll_event_struct ::
    "buf option \<Rightarrow> epoll_event list option \<Rightarrow> c_int \<Rightarrow> fault + buf option" where
  "serialize_epoll_event_struct msg_data event num =
     (case (msg_data, event) of
        (Some b, Some evs) \<Rightarrow>
          let n = nat (sint num) in
          if length evs < n \<or> BUFFER_SIZE < 12 * n then Inl Out_of_bounds
          else Inr (Some (put_array enc_epoll_event 12 b 0 (take n evs)))
      | _ \<Rightarrow> Inr msg_data)"

definition deserialize_epoll_event_struct ::
    "buf option \<Rightarrow> epoll_event list option \<Rightarrow> c_int \<Rightarrow> fault + epoll_event list option" where
  "deserialize_epoll_event_struct msg_data event num =
     (case (msg_data, event) of
        (Some b, Some evs) \<Rightarrow>
          let n = nat (sint num) in
          if length evs < n \<or> BUFFER_SIZE < 12 * n then Inl Out_of_bounds
          else Inr (Some (get_array dec_epoll_event 12 b 0 n @ drop n evs))
      | _ \<Rightarrow> Inr event)"

definition serialize_epoll_create_dt :: "buf option \<Rightarrow> c_int option \<Rightarrow> buf option" where
  "serialize_epoll_create_dt msg_data flag =
     (case (msg_data, flag) of
        (Some b, Some f) \<Rightarrow> Some (put_word b 0 f)
      | _ \<Rightarrow> msg_data)"

definition deserialize_epoll_create_dt :: "buf option \<Rightarrow> c_int option \<Rightarrow> c_int option" where
  "deserialize_epoll_create_dt msg_data flag =
     (case (msg_data, flag) of
        (Some b, Some f) \<Rightarrow> Some (get_word b 0)
      | _ \<Rightarrow> flag)"

text \<open>On the host a missing event is skipped (the two inner branches differ in what they
  print only); on the SmartNIC it makes the whole call return early.\<close>

definition serialize_epoll_ctl_dt ::
    "buf option \<Rightarrow> c_int option \<Rightarrow> c_int option \<Rightarrow> c_int option \<Rightarrow> epoll_event option \<Rightarrow> buf option" where
  "serialize_epoll_ctl_dt msg_data epfd op fd event =
     (case (msg_data, epfd, op, fd) of
        (Some b, Some e, Some p, Some f) \<Rightarrow>
          let b = (case event of None \<Rightarrow> b
                   | Some ev \<Rightarrow> put_word (put_word b 12 (ev_events ev)) 16 (ev_data ev))
          in Some (put_word (put_word (put_word b 0 e) 4 p) 8 f)
      | _ \<Rightarrow> msg_data)"

definition snic_serialize_epoll_ctl_dt ::
    "buf option \<Rightarrow> c_int option \<Rightarrow> c_int option \<Rightarrow> c_int option \<Rightarrow> epoll_event option \<Rightarrow> buf option" where
  "snic_serialize_epoll_ctl_dt msg_data epfd op fd event =
     (case (msg_data, epfd, op, fd, event) of
        (Some b, Some e, Some p, Some f, Some ev) \<Rightarrow>
          Some (put_word (put_word (put_word (put_word (put_word b 0 e) 4 p) 8 f)
                  12 (ev_events ev)) 16 (ev_data ev))
      | _ \<Rightarrow> msg_data)"

text \<open>The host's test \<open>op == EPOLL_CTL_DEL\<close> compares the pointer \<open>op\<close>, not the operation,
  with 2: the address of an object is never 2, so the event is always read.\<close>

definition deserialize_epoll_ctl_dt ::
    "buf option \<Rightarrow> c_int option \<Rightarrow> c_int option \<Rightarrow> c_int option \<Rightarrow> epoll_event option
      \<Rightarrow> c_int option \<times> c_int option \<times> c_int option \<times> epoll_event option" where
  "deserialize_epoll_ctl_dt msg_data epfd op fd event =
     (case (msg_data, epfd, op, fd, event) of
        (Some b, Some e, Some p, Some f, Some ev) \<Rightarrow>
          (Some (get_word b 0), Some (get_word b 4), Some (get_word b 8),
           Some \<lparr>ev_events = get_word b 12, ev_data = get_word b 16\<rparr>)
      | _ \<Rightarrow> (epfd, op, fd, event))"

definition snic_deserialize_epoll_ctl_dt ::
    "buf option \<Rightarrow> c_int option \<Rightarrow> c_int option \<Rightarrow> c_int option \<Rightarrow> epoll_event option
      \<Rightarrow> c_int option \<times> c_int option \<times> c_int option \<times> epoll_event option" where
  "snic_deserialize_epoll_ctl_dt msg_data epfd op fd event =
     (case (msg_data, epfd, op, fd, event) of
        (Some b, Some e, Some p, Some f, Some ev) \<Rightarrow>
          (Some (get_word b 0), Some (get_word b 4), Some (get_word b 8),
           Some \<lparr>ev_events = get_word b 12, ev_data = get_word b 16\<rparr>)
      | _ \<Rightarrow> (epfd, op, fd, event))"

text \<open>The loops of the two \<open>epoll_wait\<close> functions, over the first \<open>*nfds\<close> events, with their
  check against 1024 bytes.\<close>

fun put_wait_events :: "buf \<Rightarrow> nat \<Rightarrow> epoll_event list \<Rightarrow> buf" where
  "put_wait_events b offset [] = b"
| "put_wait_events b offset (e # es) =
     (if offset + 12 > 1024 then b
      else put_wait_events (put_word (put_word b offset (ev_events e)) (offset + 4) (ev_data e))
             (offset + 12) es)"

fun get_wait_events :: "buf \<Rightarrow> nat \<Rightarrow> nat \<Rightarrow> epoll_event list \<Rightarrow> fault + epoll_event list" where
  "get_wait_events b offset 0 dest = Inr dest"
| "get_wait_events b offset (Suc n) dest =
     (if offset + 12 > 1024 then Inr dest
      else case dest of [] \<Rightarrow> Inl Out_of_bounds
           | d # ds \<Rightarrow>
               map_sum id (Cons \<lparr>ev_events = get_word b offset, ev_data = get_word b (offset + 4)\<rparr>)
                 (get_wait_events b (offset + 12) n ds))"

text \<open>With no event array the function allocates one of \<open>*nfds\<close> elements whose contents are
  indeterminate: \<open>fresh\<close> is the result of that \<open>malloc\<close>.\<close>

definition serialize_epoll_wait_dt ::
    "epoll_event list option \<Rightarrow> buf option \<Rightarrow> c_int option \<Rightarrow> c_int option \<Rightarrow> c_int option
      \<Rightarrow> c_int option \<Rightarrow> epoll_event list option \<Rightarrow> fault + buf option" where
  "serialize_epoll_wait_dt fresh msg_data nfds epfd maxevents timeout event =
     (case (msg_data, nfds, epfd, maxevents, timeout) of
        (Some b, Some n, Some e, Some m, Some t) \<Rightarrow>
          let b = put_word (put_word (put_word (put_word b 0 n) 4 e) 8 m) 12 t in
          (case (case event of None \<Rightarrow> fresh | Some evs \<Rightarrow> Some evs) of
             None \<Rightarrow> Inr (Some b)
           | Some evs \<Rightarrow>
               let k = nat (sint n) in
               if length evs < min k 84 then Inl Out_of_bounds
               else Inr (Some (put_wait_events b 16 (take k evs))))
      | _ \<Rightarrow> Inr msg_data)"

definition deserialize_epoll_wait_dt ::
    "buf option \<Rightarrow> c_int option \<Rightarrow> c_int option \<Rightarrow> c_int option \<Rightarrow> c_int option \<Rightarrow> epoll_event list option
      \<Rightarrow> fault + c_int option \<times> c_int option \<times> c_int option \<times> c_int option \<times> epoll_event list option" where
  "deserialize_epoll_wait_dt msg_data nfds epfd maxevents timeout event =
     (case (msg_data, nfds, epfd, maxevents, timeout) of
        (Some b, Some n, Some e, Some m, Some t) \<Rightarrow>
          let n = get_word b 0 in
          (case event of
             None \<Rightarrow> Inr (Some n, Some (get_word b 4), Some (get_word b 8), Some (get_word b 12), None)
           | Some evs \<Rightarrow>
               map_sum id
                 (\<lambda>evs'. (Some n, Some (get_word b 4), Some (get_word b 8), Some (get_word b 12), Some evs'))
                 (get_wait_events b 16 (nat (sint n)) evs))
      | _ \<Rightarrow> Inr (nfds, epfd, maxevents, timeout, event))"

section \<open>select\<close>

record select_dt =
  sd_readfds :: fd_set
  sd_writefds :: fd_set
  sd_exceptfds :: fd_set
  sd_tv_sec :: i64
  sd_tv_usec :: i64

definition serialize_select_dt ::
    "select_dt option \<Rightarrow> fd_set option \<Rightarrow> fd_set option \<Rightarrow> fd_set option \<Rightarrow> timeval option
      \<Rightarrow> select_dt option" where
  "serialize_select_dt select_data readfds writefds exceptfds timeout =
     (case select_data of None \<Rightarrow> None
      | Some d \<Rightarrow>
          let d = (case readfds of None \<Rightarrow> d\<lparr>sd_readfds := 0\<rparr> | Some s \<Rightarrow> d\<lparr>sd_readfds := s\<rparr>);
              d = (case writefds of None \<Rightarrow> d\<lparr>sd_writefds := 0\<rparr> | Some s \<Rightarrow> d\<lparr>sd_writefds := s\<rparr>);
              d = (case exceptfds of None \<Rightarrow> d\<lparr>sd_exceptfds := 0\<rparr> | Some s \<Rightarrow> d\<lparr>sd_exceptfds := s\<rparr>);
              d = (case timeout of
                     Some t \<Rightarrow> d\<lparr>sd_tv_sec := tv_sec t, sd_tv_usec := tv_usec t\<rparr>
                   | None \<Rightarrow> d\<lparr>sd_tv_sec := 0, sd_tv_usec := 0\<rparr>)
          in Some d)"

text \<open>Without a timeout the last branch writes through the \<open>NULL\<close> pointer it has just
  tested.\<close>

definition deserialize_select_dt ::
    "select_dt option \<Rightarrow> fd_set option \<Rightarrow> fd_set option \<Rightarrow> fd_set option \<Rightarrow> timeval option
      \<Rightarrow> fault + fd_set option \<times> fd_set option \<times> fd_set option \<times> timeval option" where
  "deserialize_select_dt select_data readfds writefds exceptfds timeout =
     (case select_data of
        None \<Rightarrow> Inr (readfds, writefds, exceptfds, timeout)
      | Some d \<Rightarrow>
          let r = map_option (\<lambda>_. sd_readfds d) readfds;
              w = map_option (\<lambda>_. sd_writefds d) writefds;
              e = map_option (\<lambda>_. sd_exceptfds d) exceptfds
          in case timeout of
               Some t \<Rightarrow> Inr (r, w, e, Some \<lparr>tv_sec = sd_tv_sec d, tv_usec = sd_tv_usec d\<rparr>)
             | None \<Rightarrow> Inl Null_deref)"

text \<open>One set of \<open>serialize_select_fd_set\<close>: copied, or zeroed when the pointer is \<open>NULL\<close>.\<close>

definition put_fd_set :: "buf \<Rightarrow> nat \<Rightarrow> fd_set option \<Rightarrow> buf" where
  "put_fd_set b offset fds =
     (case fds of Some s \<Rightarrow> buf_put b offset (enc_fd_set s) | None \<Rightarrow> buf_zero b offset 128)"

definition select_flag ::
    "fd_set option \<Rightarrow> fd_set option \<Rightarrow> fd_set option \<Rightarrow> timeval option \<Rightarrow> c_int" where
  "select_flag readfds writefds exceptfds timeout =
     (let flag = 0;
          flag = (if readfds \<noteq> None then flag + 1000 else flag);
          flag = (if writefds \<noteq> None then flag + 100 else flag);
          flag = (if exceptfds \<noteq> None then flag + 10 else flag);
          flag = (if timeout \<noteq> None then flag + 1 else flag)
      in flag)"

text \<open>The sets start at offset 5, and the flag is stored last, as the four bytes of an
  \<open>int\<close> at offset 4. \<open>nfds\<close> is dereferenced by the debug print even when it is \<open>NULL\<close>.\<close>

definition serialize_select_fd_set ::
    "buf option \<Rightarrow> c_int option \<Rightarrow> fd_set option \<Rightarrow> fd_set option \<Rightarrow> fd_set option \<Rightarrow> timeval option
      \<Rightarrow> fault + buf option" where
  "serialize_select_fd_set msg_data nfds readfds writefds exceptfds timeout =
     (case msg_data of None \<Rightarrow> Inr None
      | Some b \<Rightarrow>
          (case nfds of None \<Rightarrow> Inl Null_deref
           | Some n \<Rightarrow>
               let b = put_word b 0 n;
                   b = put_fd_set b 5 readfds;
                   b = put_fd_set b 133 writefds;
                   b = put_fd_set b 261 exceptfds;
                   b = (case timeout of Some t \<Rightarrow> buf_put b 389 (enc_timeval t)
                        | None \<Rightarrow> buf_zero b 389 16);
                   b = put_word b 4 (select_flag readfds writefds exceptfds timeout)
               in Inr (Some b)))"

definition deserialize_select_fd_set ::
    "buf option \<Rightarrow> c_int option \<Rightarrow> fd_set option \<Rightarrow> fd_set option \<Rightarrow> fd_set option \<Rightarrow> timeval option
      \<Rightarrow> fault + c_int option \<times> fd_set option \<times> fd_set option \<times> fd_set option \<times> timeval option" where
  "deserialize_select_fd_set msg_data nfds readfds writefds exceptfds timeout =
     (case msg_data of None \<Rightarrow> Inr (nfds, readfds, writefds, exceptfds, timeout)
      | Some b \<Rightarrow>
          (case nfds of None \<Rightarrow> Inl Null_deref
           | Some n \<Rightarrow>
               let n = Some (get_word b 0);
                   flag = sint (get_word b 4 :: c_int) in
               if flag = 0 then Inr (n, readfds, writefds, exceptfds, timeout)
               else
                 let r = (if flag sdiv 1000 \<noteq> 1 then readfds
                          else map_option (\<lambda>_. dec_fd_set (buf_get b 5 128)) readfds);
                     flag = flag - 1000;
                     w = (if flag sdiv 100 \<noteq> 1 then writefds
                          else map_option (\<lambda>_. dec_fd_set (buf_get b 133 128)) writefds);
                     flag = flag - 100;
                     e = (if flag sdiv 10 \<noteq> 1 then exceptfds
                          else map_option (\<lambda>_. dec_fd_set (buf_get b 261 128)) exceptfds);
                     flag = flag - 10;
                     t = (if flag \<noteq> 1 then timeout
                          else map_option (\<lambda>_. dec_timeval (buf_get b 389 16)) timeout)
                 in Inr (n, r, w, e, t)))"

section \<open>poll\<close>

text \<open>\<open>nfds_t\<close> has 8 bytes, so the branches for 4 are dead. In \<open>serialize_pollfd\<close> and
  \<open>deserialize_pollfd\<close> the count is cut to an \<open>int\<close> for the loop.\<close>

definition serialize_pollfd ::
    "buf option \<Rightarrow> pollfd list option \<Rightarrow> u64 option \<Rightarrow> fault + buf option" where
  "serialize_pollfd msg_data fds nfds =
     (case (msg_data, fds, nfds) of
        (Some b, Some ps, Some n) \<Rightarrow>
          let k = nat (sint (ucast n :: c_int)) in
          if length ps < k \<or> BUFFER_SIZE < 8 + 8 * k then Inl Out_of_bounds
          else Inr (Some (put_array enc_pollfd 8 (put_word b 0 n) 8 (take k ps)))
      | _ \<Rightarrow> Inr msg_data)"

text \<open>\<open>malloc_ok\<close> is the result of the allocation of the new array.\<close>

definition deserialize_pollfd ::
    "bool \<Rightarrow> buf option \<Rightarrow> pollfd list option option \<Rightarrow> u64 option
      \<Rightarrow> fault + pollfd list option option \<times> u64 option" where
  "deserialize_pollfd malloc_ok msg_data fds nfds =
     (case (msg_data, fds, nfds) of
        (Some b, Some ps, Some n) \<Rightarrow>
          let n = get_word b 0;
              k = nat (sint (ucast n :: c_int)) in
          if \<not> malloc_ok then Inr (Some None, Some n)
          else if BUFFER_SIZE < 8 + 8 * k then Inl Out_of_bounds
          else Inr (Some (Some (get_array dec_pollfd 8 b 8 k)), Some n)
      | _ \<Rightarrow> Inr (fds, nfds))"

definition serialize_poll_pollfd ::
    "buf option \<Rightarrow> pollfd list option \<Rightarrow> u64 option \<Rightarrow> c_int option \<Rightarrow> fault + buf option" where
  "serialize_poll_pollfd msg_data fds nfds timeout =
     (case (msg_data, fds, nfds) of
        (Some b, Some ps, Some n) \<Rightarrow>
          let b = (case timeout of Some t \<Rightarrow> put_word b 0 t | None \<Rightarrow> b);
              b = put_word b 4 n;
              k = unat n in
          if length ps < k \<or> BUFFER_SIZE < 12 + 8 * k then Inl Out_of_bounds
          else Inr (Some (put_array enc_pollfd 8 b 12 (take k ps)))
      | _ \<Rightarrow> Inr msg_data)"

text \<open>The array is the caller's when it has one; otherwise one of \<open>*nfds\<close> elements is
  allocated.\<close>

definition deserialize_poll_pollfd ::
    "bool \<Rightarrow> buf option \<Rightarrow> pollfd list option option \<Rightarrow> u64 option \<Rightarrow> c_int option
      \<Rightarrow> fault + pollfd list option option \<times> u64 option \<times> c_int option" where
  "deserialize_poll_pollfd malloc_ok msg_data fds nfds timeout =
     (case (msg_data, fds, nfds) of
        (Some b, Some arr, Some n) \<Rightarrow>
          let t = (case timeout of Some _ \<Rightarrow> Some (get_word b 0) | None \<Rightarrow> None);
              n = get_word b 4;
              k = unat n in
          if arr = None \<and> \<not> malloc_ok then Inr (Some None, Some n, t)
          else if (case arr of Some ps \<Rightarrow> length ps < k | None \<Rightarrow> False) \<or> BUFFER_SIZE < 12 + 8 * k
          then Inl Out_of_bounds
          else Inr (Some (Some (get_array dec_pollfd 8 b 12 k
                 @ (case arr of Some ps \<Rightarrow> drop k ps | None \<Rightarrow> []))), Some n, t)
      | _ \<Rightarrow> Inr (fds, nfds, timeout))"

section \<open>fcntl\<close>

definition F_DUPFD :: c_int where "F_DUPFD = 0"
definition F_GETFD :: c_int where "F_GETFD = 1"
definition F_SETFD :: c_int where "F_SETFD = 2"
definition F_GETFL :: c_int where "F_GETFL = 3"
definition F_SETFL :: c_int where "F_SETFL = 4"
definition F_GETLK :: c_int where "F_GETLK = 5"
definition F_SETLK :: c_int where "F_SETLK = 6"
definition F_SETLKW :: c_int where "F_SETLKW = 7"

lemmas fcntl_cmds = F_DUPFD_def F_GETFD_def F_SETFD_def F_GETFL_def F_SETFL_def F_GETLK_def
  F_SETLK_def F_SETLKW_def

definition sizeof_flock :: nat where "sizeof_flock = 32"

text \<open>\<open>arg\<close> points to bytes: an \<open>int\<close> or a \<open>struct flock\<close>, of which the function copies 4
  or 32. \<open>flag\<close> is written without a test for \<open>NULL\<close>.\<close>

definition put_arg :: "buf \<Rightarrow> nat \<Rightarrow> byte list option \<Rightarrow> fault + buf" where
  "put_arg b n arg =
     (case arg of None \<Rightarrow> Inr b
      | Some bs \<Rightarrow> if length bs < n then Inl Out_of_bounds else Inr (buf_put b 8 (take n bs)))"

definition serialize_fcntl_dt ::
    "buf option \<Rightarrow> c_int option \<Rightarrow> c_int option \<Rightarrow> byte list option
      \<Rightarrow> fault + buf option \<times> c_int option" where
  "serialize_fcntl_dt msg_data flag cmd arg =
     (case (msg_data, cmd) of
        (Some b, Some c) \<Rightarrow>
          (case flag of None \<Rightarrow> Inl Null_deref
           | Some _ \<Rightarrow>
               let (r, f) =
                 (if c = F_GETFD \<or> c = F_GETFL then (Inr b, 0)
                  else if c = F_SETFD \<or> c = F_SETFL \<or> c = F_DUPFD then (put_arg b 4 arg, 1)
                  else if c = F_GETLK \<or> c = F_SETLK \<or> c = F_SETLKW then (put_arg b sizeof_flock arg, 2)
                  else (Inr b, 0))
               in map_sum id (\<lambda>b. (Some (put_word (put_word b 0 c) 4 (f :: c_int)), Some f)) r)
      | _ \<Rightarrow> Inr (msg_data, flag))"

text \<open>On the host the argument is written into the caller's object, on the SmartNIC into a
  new allocation whose success is \<open>malloc_ok\<close>.\<close>

definition deserialize_fcntl_dt ::
    "buf option \<Rightarrow> c_int option \<Rightarrow> c_int option \<Rightarrow> byte list option
      \<Rightarrow> fault + c_int option \<times> c_int option \<times> byte list option" where
  "deserialize_fcntl_dt msg_data flag cmd arg =
     (case (msg_data, cmd, flag) of
        (Some b, Some _, Some _) \<Rightarrow>
          let c = Some (get_word b 0);
              f = get_word b 4;
              n = (if f = 1 then 4 else if f = (2 :: c_int) then sizeof_flock else 0)
          in (case arg of None \<Rightarrow> Inr (Some f, c, None)
              | Some bs \<Rightarrow> if length bs < n then Inl Out_of_bounds
                  else Inr (Some f, c, Some (buf_get b 8 n @ drop n bs)))
      | _ \<Rightarrow> Inr (flag, cmd, arg))"

definition snic_deserialize_fcntl_dt ::
    "bool \<Rightarrow> buf option \<Rightarrow> c_int option \<Rightarrow> c_int option \<Rightarrow> byte list option
      \<Rightarrow> c_int option \<times> c_int option \<times> byte list option" where
  "snic_deserialize_fcntl_dt malloc_ok msg_data flag cmd arg =
     (case (msg_data, cmd, flag) of
        (Some b, Some _, Some _) \<Rightarrow>
          let c = Some (get_word b 0);
              f = get_word b 4
          in (if f = 1 then (Some f, c, if malloc_ok then Some (buf_get b 8 4) else None)
              else if f = (2 :: c_int)
              then (Some f, c, if malloc_ok then Some (buf_get b 8 sizeof_flock) else None)
              else (Some f, c, None))
      | _ \<Rightarrow> (flag, cmd, arg))"

section \<open>Socket options and addresses\<close>

definition serialize_sockopt_dt ::
    "buf option \<Rightarrow> c_int option \<Rightarrow> c_int option \<Rightarrow> byte list option \<Rightarrow> u32 option \<Rightarrow> fault + buf option" where
  "serialize_sockopt_dt msg_data level optname optval optlen =
     (case (msg_data, level, optname, optlen) of
        (Some b, Some l, Some n, Some len) \<Rightarrow>
          let b = put_word (put_word (put_word b 0 l) 4 n) 8 len;
              k = unat len in
          if len > 0 then
            (case optval of None \<Rightarrow> Inl Null_deref
             | Some bs \<Rightarrow>
                 if length bs < k \<or> BUFFER_SIZE < 12 + k then Inl Out_of_bounds
                 else Inr (Some (buf_put b 12 (take k bs))))
          else Inr (Some b)
      | _ \<Rightarrow> Inr msg_data)"

text \<open>The value is put into a new allocation; when it fails, \<open>*optval\<close> is \<open>NULL\<close>. With
  \<open>*optlen = 0\<close> the caller's pointer is left as it was.\<close>

definition deserialize_sockopt_dt ::
    "bool \<Rightarrow> buf option \<Rightarrow> c_int option \<Rightarrow> c_int option \<Rightarrow> byte list option \<Rightarrow> u32 option
      \<Rightarrow> fault + c_int option \<times> c_int option \<times> byte list option \<times> u32 option" where
  "deserialize_sockopt_dt malloc_ok msg_data level optname optval optlen =
     (case (msg_data, level, optname, optlen) of
        (Some b, Some _, Some _, Some _) \<Rightarrow>
          let len = get_word b 8;
              k = unat len in
          if len > 0 then
            (if \<not> malloc_ok then Inr (Some (get_word b 0), Some (get_word b 4), None, Some len)
             else if BUFFER_SIZE < 12 + k then Inl Out_of_bounds
             else Inr (Some (get_word b 0), Some (get_word b 4), Some (buf_get b 12 k), Some len))
          else Inr (Some (get_word b 0), Some (get_word b 4), optval, Some len)
      | _ \<Rightarrow> Inr (level, optname, optval, optlen))"

definition serialize_addr_dt :: "buf option \<Rightarrow> u32 option \<Rightarrow> sockaddr option \<Rightarrow> buf option" where
  "serialize_addr_dt msg_data addrlen addr =
     (case (msg_data, addrlen, addr) of
        (Some b, Some len, Some a) \<Rightarrow> Some (buf_put (put_word b 0 len) 4 (enc_sockaddr a))
      | _ \<Rightarrow> msg_data)"

definition deserialize_addr_dt ::
    "buf option \<Rightarrow> u32 option \<Rightarrow> sockaddr option \<Rightarrow> u32 option \<times> sockaddr option" where
  "deserialize_addr_dt msg_data addrlen addr =
     (case (msg_data, addrlen, addr) of
        (Some b, Some _, Some _) \<Rightarrow> (Some (get_word b 0), Some (dec_sockaddr (buf_get b 4 16)))
      | _ \<Rightarrow> (addrlen, addr))"

section \<open>The SmartNIC's copies\<close>

text \<open>The remaining functions of \<open>snic/rdma_common.c\<close> are textual copies of the host's.\<close>

definition snic_serialize_epoll_event_struct where "snic_serialize_epoll_event_struct = serialize_epoll_event_struct"
definition snic_deserialize_epoll_event_struct where "snic_deserialize_epoll_event_struct = deserialize_epoll_event_struct"
definition snic_serialize_epoll_create_dt where "snic_serialize_epoll_create_dt = serialize_epoll_create_dt"
definition snic_deserialize_epoll_create_dt where "snic_deserialize_epoll_create_dt = deserialize_epoll_create_dt"
definition snic_serialize_epoll_wait_dt where "snic_serialize_epoll_wait_dt = serialize_epoll_wait_dt"
definition snic_deserialize_epoll_wait_dt where "snic_deserialize_epoll_wait_dt = deserialize_epoll_wait_dt"
definition snic_serialize_select_dt where "snic_serialize_select_dt = serialize_select_dt"
definition snic_deserialize_select_dt where "snic_deserialize_select_dt = deserialize_select_dt"
definition snic_serialize_select_fd_set where "snic_serialize_select_fd_set = serialize_select_fd_set"
definition snic_deserialize_select_fd_set where "snic_deserialize_select_fd_set = deserialize_select_fd_set"
definition snic_serialize_pollfd where "snic_serialize_pollfd = serialize_pollfd"
definition snic_deserialize_pollfd where "snic_deserialize_pollfd = deserialize_pollfd"
definition snic_serialize_poll_pollfd where "snic_serialize_poll_pollfd = serialize_poll_pollfd"
definition snic_deserialize_poll_pollfd where "snic_deserialize_poll_pollfd = deserialize_poll_pollfd"
definition snic_serialize_fcntl_dt where "snic_serialize_fcntl_dt = serialize_fcntl_dt"
definition snic_serialize_sockopt_dt where "snic_serialize_sockopt_dt = serialize_sockopt_dt"
definition snic_deserialize_sockopt_dt where "snic_deserialize_sockopt_dt = deserialize_sockopt_dt"
definition snic_serialize_addr_dt where "snic_serialize_addr_dt = serialize_addr_dt"
definition snic_deserialize_addr_dt where "snic_deserialize_addr_dt = deserialize_addr_dt"

lemmas snic_copies = snic_serialize_epoll_event_struct_def
  snic_deserialize_epoll_event_struct_def snic_serialize_epoll_create_dt_def
  snic_deserialize_epoll_create_dt_def snic_serialize_epoll_wait_dt_def
  snic_deserialize_epoll_wait_dt_def snic_serialize_select_dt_def snic_deserialize_select_dt_def
  snic_serialize_select_fd_set_def snic_deserialize_select_fd_set_def snic_serialize_pollfd_def
  snic_deserialize_pollfd_def snic_serialize_poll_pollfd_def snic_deserialize_poll_pollfd_def
  snic_serialize_fcntl_dt_def snic_serialize_sockopt_dt_def snic_deserialize_sockopt_dt_def
  snic_serialize_addr_dt_def snic_deserialize_addr_dt_def

end
