(* ===== verification/Client.thy ===== *)
theory Client
  imports Verbs Wire
begin

text \<open>
  The host's side of a connection, \<open>host/rdma_client.c\<close>: setting it up and releasing it,
  posting a request, waiting for the reply, and \<open>set_req_sock\<close>, the one function through which
  every hooked call goes. \<open>r_info\<close> is the host's \<open>struct client_r_info\<close>. The pauses
  (\<open>usleep\<close>) have no effect on the state and are left out.
\<close>

record r_info =
  r_cm_event_channel :: ptr
  r_cm_client_id :: ptr
  r_pd :: ptr
  r_io_completion_channel :: ptr
  r_client_cq :: ptr
  r_client_qp :: ptr
  r_cm_event :: "cm_event option"
  r_client_metadata_mr :: "ibv_mr option"
  r_server_metadata_mr :: "ibv_mr option"
  r_req_mr :: "ibv_mr option"
  r_rtn_mr :: "ibv_mr option"
  r_client_metadata_attr :: rdma_buffer_attr
  r_server_metadata_attr :: rdma_buffer_attr
  r_req :: req_msg
  r_rtn :: rtn_msg
  r_client_send_wr :: send_wr
  r_client_send_sge :: ibv_sge
  r_server_recv_sge :: ibv_sge
  r_sockfd :: c_int
  r_eventfd :: c_int

definition null_sge :: ibv_sge where "null_sge = \<lparr>sge_addr = 0, sge_length = 0, sge_lkey = 0\<rparr>"

definition null_wr :: send_wr where
  "null_wr = \<lparr>sw_num_sge = 0, sw_opcode = IBV_WR_RDMA_WRITE, sw_signaled = False, sw_imm_data = 0,
     sw_remote_addr = 0, sw_rkey = 0\<rparr>"

definition null_attr :: rdma_buffer_attr where
  "null_attr = \<lparr>attr_address = 0, attr_length = 0, attr_stag = 0, attr_eventfd_addr = 0, attr_eventfd_rkey = 0\<rparr>"

definition null_client_r_info :: "r_info option \<Rightarrow> c_int \<times> r_info option" where
  "null_client_r_info ri =
     (case ri of None \<Rightarrow> (- 1, None)
      | Some r \<Rightarrow>
          (0, Some (r\<lparr>r_cm_event_channel := 0, r_cm_client_id := 0, r_pd := 0, r_io_completion_channel := 0,
              r_client_cq := 0, r_client_qp := 0, r_cm_event := None, r_client_metadata_mr := None,
              r_server_metadata_mr := None, r_req_mr := None, r_rtn_mr := None,
              r_client_send_wr := null_wr, r_client_send_sge := null_sge, r_server_recv_sge := null_sge,
              r_eventfd := - 1, r_client_metadata_attr := null_attr, r_server_metadata_attr := null_attr,
              r_req := \<lparr>rdma_req = 0, buf_sz = 0, req_port = 0, req_data = \<lambda>_. 0\<rparr>,
              r_rtn := \<lparr>rtn_errno = 0, rtn_value = 0, rtn_data = \<lambda>_. 0\<rparr>\<rparr>)))"

text \<open>\<open>INADDR_LOOPBACK\<close> is what is left in the address when it cannot be resolved.\<close>

definition set_sockaddr :: "env \<Rightarrow> trace \<Rightarrow> sockaddr \<times> trace" where
  "set_sockaddr E h =
     (let a = \<lparr>sin_family = AF_INET, sin_port = 0, sin_addr = htonl 0x7F000001, sin_zero = 0\<rparr>;
          (v, a, h) = get_addr E DEFAULT_RDMA_SERVER_IP a h
      in if v \<noteq> 0 then (a, h) else (a\<lparr>sin_port := htons DEFAULT_RDMA_PORT\<rparr>, h))"

section \<open>Connection set-up\<close>

text \<open>Waiting for an event of the connection manager and acknowledging it, as the code does
  three times.\<close>

definition await_event :: "env \<Rightarrow> cm_event_type \<Rightarrow> r_info \<Rightarrow> trace \<Rightarrow> c_int \<times> r_info \<times> trace" where
  "await_event E expected ri h =
     (let (v, ev, h) = process_rdma_cm_event E (r_cm_event_channel ri) expected (r_cm_event ri) h;
          ri = ri\<lparr>r_cm_event := ev\<rparr> in
      if v \<noteq> 0 then (v, ri, h)
      else
        let (r, h) = ext E (Cm (Rdma_ack_cm_event (r_cm_event ri))) h in
        if ret r \<noteq> 0 then (neg_errno r, ri, h) else (0, ri, h))"

text \<open>The first half of \<open>client_prepare_connection\<close>, up to the resolved route.\<close>

definition resolve_connection :: "env \<Rightarrow> sockaddr \<Rightarrow> r_info \<Rightarrow> trace \<Rightarrow> c_int \<times> r_info \<times> trace" where
  "resolve_connection E s_addr ri h =
     (let (r, h) = ext E (Cm Rdma_create_event_channel) h;
          ri = ri\<lparr>r_cm_event_channel := rv r\<rparr> in
      if rv r = 0 then (neg_errno r, ri, h)
      else
        let (r, h) = ext E (Cm (Rdma_create_id (r_cm_event_channel ri))) h in
        if ret r \<noteq> 0 then (neg_errno r, ri, h)
        else
          let ri = ri\<lparr>r_cm_client_id := out_ptr r\<rparr>;
              (r, h) = ext E (Cm (Rdma_resolve_addr (r_cm_client_id ri) s_addr 2000)) h in
          if ret r \<noteq> 0 then (neg_errno r, ri, h)
          else
            let (v, ri, h) = await_event E RDMA_CM_EVENT_ADDR_RESOLVED ri h in
            if v \<noteq> 0 then (v, ri, h)
            else
              let (r, h) = ext E (Cm (Rdma_resolve_route (r_cm_client_id ri) 2000)) h in
              if ret r \<noteq> 0 then (neg_errno r, ri, h)
              else await_event E RDMA_CM_EVENT_ROUTE_RESOLVED ri h)"

definition client_prepare_connection :: "env \<Rightarrow> sockaddr \<Rightarrow> r_info \<Rightarrow> trace \<Rightarrow> c_int \<times> r_info \<times> trace" where
  "client_prepare_connection E s_addr ri h =
     (let (v, ri, h) = resolve_connection E s_addr ri h in
      if v \<noteq> 0 then (v, ri, h)
      else
        let (r, h) = ext E (Verb (Ibv_alloc_pd (r_cm_client_id ri))) h;
            ri = ri\<lparr>r_pd := rv r\<rparr> in
        if rv r = 0 then (neg_errno r, ri, h)
        else
          let (r, h) = ext E (Verb (Ibv_create_comp_channel (r_cm_client_id ri))) h;
              ri = ri\<lparr>r_io_completion_channel := rv r\<rparr> in
          if rv r = 0 then (neg_errno r, ri, h)
          else
            let (r, h) = ext E (Verb (Ibv_create_cq (r_cm_client_id ri) CQ_CAPACITY (r_io_completion_channel ri))) h;
                ri = ri\<lparr>r_client_cq := rv r\<rparr> in
            if rv r = 0 then (neg_errno r, ri, h)
            else
              let (r, h) = ext E (Verb (Ibv_req_notify_cq (r_client_cq ri))) h in
              if ret r \<noteq> 0 then (neg_errno r, ri, h)
              else
                let (r, h) = ext E (Cm (Rdma_create_qp (r_cm_client_id ri) (r_pd ri) (r_client_cq ri))) h in
                if ret r \<noteq> 0 then (neg_errno r, ri, h)
                else (0, ri\<lparr>r_client_qp := out_ptr r\<rparr>, h))"

definition client_pre_post_req_buffer :: "env \<Rightarrow> r_info \<Rightarrow> trace \<Rightarrow> c_int \<times> r_info \<times> trace" where
  "client_pre_post_req_buffer E ri h =
     (let (mr, h) = rdma_buffer_register E (r_pd ri) (Payload_req (r_req ri)) h;
          ri = ri\<lparr>r_req_mr := mr\<rparr> in
      case mr of None \<Rightarrow> (- 1, ri, h)
      | Some rmr \<Rightarrow>
          let (mr, h) = rdma_buffer_register E (r_pd ri) (Payload_attr (r_server_metadata_attr ri)) h;
              ri = ri\<lparr>r_server_metadata_mr := mr\<rparr> in
          case mr of None \<Rightarrow> (- ENOMEM, ri, h)
          | Some mmr \<Rightarrow>
              let ri = ri\<lparr>r_server_metadata_attr := (r_server_metadata_attr ri)\<lparr>attr_address := mr_addr rmr,
                         attr_length := ucast (mr_length rmr), attr_stag := mr_lkey rmr\<rparr>,
                       r_server_recv_sge := sge_of mmr\<rparr>;
                  (r, h) = ext E (Verb (Ibv_post_recv (r_client_qp ri) (r_server_recv_sge ri))) h
              in (ret r, ri, h))"

definition client_connect_to_server :: "env \<Rightarrow> r_info \<Rightarrow> trace \<Rightarrow> c_int \<times> r_info \<times> trace" where
  "client_connect_to_server E ri h =
     (let conn_param = \<lparr>cp_initiator_depth = 3, cp_responder_resources = 3, cp_retry_count = 3, cp_rnr_retry_count = 0\<rparr>;
          (r, h) = ext E (Cm (Rdma_connect (r_cm_client_id ri) conn_param)) h in
      if ret r \<noteq> 0 then (neg_errno r, ri, h)
      else await_event E RDMA_CM_EVENT_ESTABLISHED ri h)"

definition client_xchange_metadata_with_server ::
    "env \<Rightarrow> r_info \<Rightarrow> trace \<Rightarrow> (c_int \<times> r_info \<times> trace) option" where
  "client_xchange_metadata_with_server E ri h =
     (let (mr, h) = rdma_buffer_register E (r_pd ri) (Payload_rtn (r_rtn ri)) h;
          ri = ri\<lparr>r_rtn_mr := mr\<rparr> in
      case mr of None \<Rightarrow> Some (- 1, ri, h)
      | Some rmr \<Rightarrow>
          let (mr, h) = rdma_buffer_register E (r_pd ri) (Payload_attr (r_client_metadata_attr ri)) h;
              ri = ri\<lparr>r_client_metadata_mr := mr\<rparr> in
          case mr of None \<Rightarrow> Some (- ENOMEM, ri, h)
          | Some mmr \<Rightarrow>
              let ri = ri\<lparr>r_client_metadata_attr := attr_of (r_client_metadata_attr ri) rmr,
                       r_client_send_sge := sge_of mmr,
                       r_client_send_wr := \<lparr>sw_num_sge = 1, sw_opcode = IBV_WR_SEND, sw_signaled = True,
                         sw_imm_data = 0, sw_remote_addr = 0, sw_rkey = 0\<rparr>\<rparr>;
                  (r, h) = ext E (Verb (Ibv_post_send (r_client_qp ri) (r_client_send_wr ri) (r_client_send_sge ri)
                             (Payload_attr (r_client_metadata_attr ri)))) h in
              if ret r \<noteq> 0 then Some (neg_errno r, ri, h)
              else
                case process_work_completion_events E (r_io_completion_channel ri) 2 h of
                  None \<Rightarrow> None
                | Some (v, attr, h) \<Rightarrow>
                    let ri = (case attr of None \<Rightarrow> ri | Some a \<Rightarrow> ri\<lparr>r_server_metadata_attr := a\<rparr>) in
                    if v \<noteq> 2 then Some (v, ri, h) else Some (0, ri, h))"

definition connect_server :: "env \<Rightarrow> sockaddr \<Rightarrow> r_info \<Rightarrow> trace \<Rightarrow> (c_int \<times> r_info \<times> trace) option" where
  "connect_server E s_addr ri h =
     (let (v, ri, h) = client_prepare_connection E s_addr ri h in
      if v \<noteq> 0 then Some (v, ri, h)
      else
        let (v, ri, h) = client_pre_post_req_buffer E ri h in
        if v \<noteq> 0 then Some (v, ri, h)
        else
          let (v, ri, h) = client_connect_to_server E ri h in
          if v \<noteq> 0 then Some (v, ri, h)
          else client_xchange_metadata_with_server E ri h)"

section \<open>Releasing a connection\<close>

text \<open>The common end of the two functions: every step is taken whatever the one before
  returned.\<close>

definition release_resources :: "env \<Rightarrow> r_info \<Rightarrow> trace \<Rightarrow> c_int \<times> trace" where
  "release_resources E ri h =
     (let (r, h) = ext E (Cm (Rdma_ack_cm_event (r_cm_event ri))) h;
          (r, h) = ext E (Cm (Rdma_destroy_qp (r_cm_client_id ri))) h;
          (r, h) = ext E (Cm (Rdma_destroy_id (r_cm_client_id ri))) h;
          (r, h) = ext E (Verb (Ibv_destroy_cq (r_client_cq ri))) h;
          (r, h) = ext E (Verb (Ibv_destroy_comp_channel (r_io_completion_channel ri))) h;
          h = rdma_buffer_deregister E (r_server_metadata_mr ri) h;
          h = rdma_buffer_deregister E (r_client_metadata_mr ri) h;
          h = rdma_buffer_deregister E (r_rtn_mr ri) h;
          h = rdma_buffer_deregister E (r_req_mr ri) h;
          (r, h) = ext E (Verb (Ibv_dealloc_pd (r_pd ri))) h;
          (r, h) = ext E (Cm (Rdma_destroy_event_channel (r_cm_event_channel ri))) h
      in (0, h))"

definition client_recv_disconnect_and_clean :: "env \<Rightarrow> r_info \<Rightarrow> trace \<Rightarrow> c_int \<times> r_info \<times> trace" where
  "client_recv_disconnect_and_clean E ri h =
     (let (v, ev, h) = process_rdma_cm_event E (r_cm_event_channel ri) RDMA_CM_EVENT_DISCONNECTED (r_cm_event ri) h;
          ri = ri\<lparr>r_cm_event := ev\<rparr>;
          (v, h) = release_resources E ri h
      in (v, ri, h))"

definition client_disconnect_and_clean :: "env \<Rightarrow> r_info \<Rightarrow> trace \<Rightarrow> c_int \<times> r_info \<times> trace" where
  "client_disconnect_and_clean E ri h =
     (let (r, h) = ext E (Cm (Rdma_disconnect (r_cm_client_id ri))) h;
          (v, ev, h) = process_rdma_cm_event E (r_cm_event_channel ri) RDMA_CM_EVENT_DISCONNECTED (r_cm_event ri) h;
          ri = ri\<lparr>r_cm_event := ev\<rparr>;
          (v, h) = release_resources E ri h
      in (v, ri, h))"

section \<open>Posting a request\<close>

text \<open>Emptying the completion queue when no work request can be posted: at most \<open>n\<close> polls. What
  the remote side has written when a completion is taken is in the reply buffer.\<close>

definition take_rtn :: "resp \<Rightarrow> r_info \<Rightarrow> r_info" where
  "take_rtn r ri = (case out_rtn r of None \<Rightarrow> ri | Some m \<Rightarrow> ri\<lparr>r_rtn := m\<rparr>)"

fun drain_cq :: "env \<Rightarrow> nat \<Rightarrow> r_info \<Rightarrow> trace \<Rightarrow> r_info \<times> trace" where
  "drain_cq E 0 ri h = (ri, h)"
| "drain_cq E (Suc n) ri h =
     (let (r, h) = ext E (Verb (Ibv_poll_cq (r_client_cq ri) 1)) h in
      if negative (ret r) then (ri, h)
      else if ret r = 0 then (ri, h)
      else drain_cq E n (take_rtn r ri) h)"

text \<open>The loop over the attempts, of which \<open>k\<close> are left. An error other than \<open>ENOMEM\<close> ends the
  process.\<close>

fun post_attempts :: "env \<Rightarrow> nat \<Rightarrow> r_info \<Rightarrow> trace \<Rightarrow> (c_int \<times> r_info \<times> trace) run" where
  "post_attempts E 0 ri h = returns (- 1, ri, h)"
| "post_attempts E (Suc k) ri h =
     (let (r, h) = ext E (Verb (Ibv_post_send (r_client_qp ri) (r_client_send_wr ri) (r_client_send_sge ri)
                     (Payload_req (r_req ri)))) h in
      if ret r = 0 then returns (1, ri, h)
      else if ret r = ENOMEM \<or> err r = ENOMEM then
        let (ri, h) = drain_cq E 32 ri h in post_attempts E k ri h
      else faults Exit_failure)"

definition post_write_req :: "env \<Rightarrow> r_info \<Rightarrow> trace \<Rightarrow> (c_int \<times> r_info \<times> trace) run" where
  "post_write_req E ri h =
     (case r_req_mr ri of None \<Rightarrow> faults Null_deref
      | Some mr \<Rightarrow>
          let ri = ri\<lparr>r_client_send_sge := sge_of mr,
                r_client_send_wr := \<lparr>sw_num_sge = 1, sw_opcode = IBV_WR_RDMA_WRITE_WITH_IMM, sw_signaled = True,
                  sw_imm_data = htonl (r_sockfd ri),
                  sw_remote_addr = attr_address (r_server_metadata_attr ri),
                  sw_rkey = attr_stag (r_server_metadata_attr ri)\<rparr>\<rparr>;
              max_retries = 3
          in post_attempts E (max_retries + 1) ri h)"

text \<open>The result of \<open>ibv_post_recv\<close> is ignored.\<close>

definition post_recv_rtn :: "env \<Rightarrow> r_info \<Rightarrow> trace \<Rightarrow> c_int \<times> r_info \<times> trace" where
  "post_recv_rtn E ri h =
     (case r_rtn_mr ri of None \<Rightarrow> (- 1, ri, h)
      | Some mr \<Rightarrow>
          let ri = ri\<lparr>r_server_recv_sge := sge_of mr\<rparr>;
              (r, h) = ext E (Verb (Ibv_post_recv (r_client_qp ri) (r_server_recv_sge ri))) h
          in (0, ri, h))"

section \<open>Waiting for the reply\<close>

definition process_rdma_get_cq_event :: "env \<Rightarrow> r_info \<Rightarrow> trace \<Rightarrow> c_int \<times> r_info \<times> trace" where
  "process_rdma_get_cq_event E ri h =
     (let (r, h) = ext E (Verb (Ibv_get_cq_event (r_io_completion_channel ri))) h in
      if negative (ret r) then (neg_errno r, ri, h)
      else
        let ri = ri\<lparr>r_client_cq := out_ptr r\<rparr>;
            (r, h) = ext E (Verb (Ibv_ack_cq_events (r_client_cq ri) 1)) h;
            (r, h) = ext E (Verb (Ibv_req_notify_cq (r_client_cq ri))) h in
        if ret r \<noteq> 0 then (neg_errno r, ri, h) else (1, ri, h))"

text \<open>One turn of one of the two loops of \<open>process_poll_cq_imm\<close>. \<open>wc\<close> is the allocated work
  completion; a poll that fails leaves it as it was, and the body of the inner loop is
  entered all the same. \<open>Inl\<close> is a \<open>return\<close>.\<close>

type_synonym wait_state = "bool \<times> ibv_wc \<times> r_info \<times> trace"
type_synonym wait_result = "c_int \<times> r_info \<times> trace"

definition wait_step :: "env \<Rightarrow> wait_state \<Rightarrow> wait_result + wait_state" where
  "wait_step E st =
     (case st of (polling, wc, ri, h) \<Rightarrow>
      if \<not> polling then
        let (v, ri, h) = process_rdma_get_cq_event E ri h in
        if positive v then Inr (True, wc, ri, h)
        else if v = 0 then Inl (0, ri, h)
        else Inl (- 1, ri, h)
      else
        let (r, h) = ext E (Verb (Ibv_poll_cq (r_client_cq ri) 1)) h in
        if ret r = 0 then Inr (False, wc, ri, h)
        else
          let ri = take_rtn r ri;
              wc = (if negative (ret r) then wc else hd (out_wcs r)) in
          if wc_status wc \<noteq> 0 then Inl (- wc_status wc, ri, h)
          else if wc_op wc = IBV_WC_RECV_RDMA_WITH_IMM then
            if wc_with_imm wc then Inl (1, ri, h)
            else if negative (ret r) then Inl (1, ri, h)
            else Inr (False, wc, ri, h)
          else Inr (True, wc, ri, h))"

partial_function (option) wait_loop :: "env \<Rightarrow> wait_state \<Rightarrow> wait_result option" where
  "wait_loop E st = (case wait_step E st of Inl res \<Rightarrow> Some res | Inr st' \<Rightarrow> wait_loop E st')"

definition process_poll_cq_imm :: "env \<Rightarrow> ibv_wc \<Rightarrow> r_info \<Rightarrow> trace \<Rightarrow> wait_result option" where
  "process_poll_cq_imm E wc ri h = wait_loop E (False, wc, ri, h)"

section \<open>A request\<close>

text \<open>How many bytes of the message a write request copies, in 64-bit arithmetic.\<close>

definition write_len :: "u64 \<Rightarrow> u64" where
  "write_len n =
     (let offset = 0; header_sz = 12; total_size = header_sz + n;
          bytes_to_copy = (if total_size - offset < of_nat BUFFER_SIZE then total_size - offset
                           else of_nat BUFFER_SIZE - header_sz)
      in bytes_to_copy - header_sz)"

definition fill_request ::
    "r_info \<Rightarrow> c_int \<Rightarrow> u32 \<Rightarrow> u64 \<Rightarrow> u16 \<Rightarrow> byte list option \<Rightarrow> fault + r_info" where
  "fill_request ri sockfd req_rdma n port message =
     (let ri = ri\<lparr>r_req := (r_req ri)\<lparr>rdma_req := req_rdma, buf_sz := n, req_port := port\<rparr>, r_sockfd := sockfd\<rparr> in
      if req_rdma = req_code RDMA_REQ_WRITE then
        let k = unat (write_len n) in
        if k = 0 then Inr ri
        else case message of None \<Rightarrow> Inl Null_deref
             | Some bs \<Rightarrow>
                 if length bs < k \<or> BUFFER_SIZE < k then Inl Out_of_bounds
                 else Inr (ri\<lparr>r_req := (r_req ri)\<lparr>req_data := buf_put (req_data (r_req ri)) 0 (take k bs)\<rparr>\<rparr>)
      else Inr ri)"

text \<open>The end of \<open>set_req_sock\<close>: what the caller gets for the reply. \<open>e\<close> is the variable
  \<open>p_errno\<close> points to, \<open>buf\<close> the caller's buffer.\<close>

definition store_errno :: "rtn_msg \<Rightarrow> u32 option \<Rightarrow> u32 option" where
  "store_errno m e = (case e of None \<Rightarrow> None | Some _ \<Rightarrow> Some (rtn_errno m))"

definition finish_request ::
    "u32 \<Rightarrow> rtn_msg \<Rightarrow> u32 option \<Rightarrow> byte list option \<Rightarrow> fault + c_int \<times> u32 option \<times> byte list option" where
  "finish_request req_rdma m e buf =
     (if req_rdma = req_code RDMA_REQ_READ then
        (case buf of None \<Rightarrow> Inr (- 1, e, None)
         | Some bs \<Rightarrow>
             if negative (rtn_value m) then Inr (ucast (rtn_value m), store_errno m e, buf)
             else
               let k = unat (scast (ucast (rtn_value m) :: c_int) :: u64) in
               if length bs < k \<or> BUFFER_SIZE < k then Inl Out_of_bounds
               else Inr (ucast (rtn_value m), e, Some (buf_get (rtn_data m) 0 k @ drop k bs)))
      else if req_rdma \<in> {req_code RDMA_REQ_WRITE, req_code RDMA_REQ_EPOLL_CREATE1, req_code RDMA_REQ_EPOLL_CTL,
                          req_code RDMA_REQ_EPOLL_WAIT, req_code RDMA_REQ_POLL} then
        Inr (ucast (rtn_value m), if negative (rtn_value m) then store_errno m e else e, buf)
      else if negative (rtn_value m) then Inr (- 1, store_errno m e, buf)
      else Inr (ucast (rtn_value m), e, buf))"

definition set_req_sock ::
    "env \<Rightarrow> ibv_wc \<Rightarrow> r_info option \<Rightarrow> c_int \<Rightarrow> c_int \<Rightarrow> u64 \<Rightarrow> u16 \<Rightarrow> byte list option \<Rightarrow> u32 option
      \<Rightarrow> byte list option \<Rightarrow> trace \<Rightarrow> (c_int \<times> r_info option \<times> u32 option \<times> byte list option \<times> trace) run" where
  "set_req_sock E wc r sockfd req_rdma n port message e buf h =
     (if sint req_rdma < sint (req_code RDMA_REQ_SOCKET) \<or> sint req_rdma > sint (req_code RDMA_REQ_DEL_RDMA_CONN)
      then returns (- 1, r, e, buf, h)
      else case r of None \<Rightarrow> faults Null_deref
      | Some ri \<Rightarrow>
          (case fill_request ri sockfd req_rdma n port message of
             Inl f \<Rightarrow> faults f
           | Inr ri \<Rightarrow>
               let (v, ri, h) = post_recv_rtn E ri h in
               if v \<noteq> 0 then returns (- 1, Some ri, e, buf, h)
               else
                 and_then (post_write_req E ri h) (\<lambda>(v, ri, h).
                   if negative v then returns (- 1, Some ri, e, buf, h)
                   else case process_poll_cq_imm E wc ri h of
                     None \<Rightarrow> None
                   | Some (v, ri, h) \<Rightarrow>
                       if negative v then returns (- 1, Some ri, e, buf, h)
                       else
                         case finish_request req_rdma (r_rtn ri) e buf of
                           Inl f \<Rightarrow> faults f
                         | Inr (v, e, buf) \<Rightarrow> returns (v, Some ri, e, buf, h))))"

end
