(* ===== verification/Murmur.thy ===== *)
theory Murmur
  imports Prelude
begin

text \<open>
  The hash of \<open>hash_delee.c\<close>: MurmurHash3 on the bytes of a key, and the bucket index
  computed from it. The key is given by the bytes the pointer argument points to; \<open>len\<close>
  is their number. The two copies of the function (\<open>host/\<close> and \<open>snic/\<close>) are the same text.
\<close>

section \<open>Definitions\<close>

definition HT_SZ :: nat where "HT_SZ = 1024"
definition HT_SEED :: u32 where "HT_SEED = 4426"

definition rotl32 :: "nat \<Rightarrow> u32 \<Rightarrow> u32" where
  "rotl32 n k = push_bit n k OR drop_bit (32 - n) k"

definition murmur_c1 :: u32 where "murmur_c1 = 0xcc9e2d51"
definition murmur_c2 :: u32 where "murmur_c2 = 0x1b873593"

text \<open>The scrambling \<open>k1 *= c1; k1 = rotl(k1, 15); k1 *= c2\<close> shared by body and tail.\<close>

definition murmur_k1 :: "u32 \<Rightarrow> u32" where
  "murmur_k1 k1 = rotl32 15 (k1 * murmur_c1) * murmur_c2"

definition murmur_block :: "u32 \<Rightarrow> u32 \<Rightarrow> u32" where
  "murmur_block h1 k1 = rotl32 13 (h1 XOR murmur_k1 k1) * 5 + 0xe6546b64"

text \<open>The body loop over the \<open>len / 4\<close> blocks; what is left are the tail bytes.\<close>

fun murmur_body :: "u32 \<Rightarrow> byte list \<Rightarrow> u32 \<times> byte list" where
  "murmur_body h1 (a # b # c # d # rest) = murmur_body (murmur_block h1 (of_le [a, b, c, d])) rest"
| "murmur_body h1 rest = (h1, rest)"

text \<open>The \<open>switch (len & 3)\<close> with its falling-through cases.\<close>

fun murmur_tail :: "u32 \<Rightarrow> byte list \<Rightarrow> u32" where
  "murmur_tail h1 [t0, t1, t2] =
     h1 XOR murmur_k1 (((0 XOR push_bit 16 (ucast t2)) XOR push_bit 8 (ucast t1)) XOR ucast t0)"
| "murmur_tail h1 [t0, t1] = h1 XOR murmur_k1 ((0 XOR push_bit 8 (ucast t1)) XOR ucast t0)"
| "murmur_tail h1 [t0] = h1 XOR murmur_k1 (0 XOR ucast t0)"
| "murmur_tail h1 _ = h1"

definition murmur_fmix :: "u32 \<Rightarrow> u32" where
  "murmur_fmix h1 =
     (let h1 = h1 XOR drop_bit 16 h1;
          h1 = h1 * 0x85ebca6b;
          h1 = h1 XOR drop_bit 13 h1;
          h1 = h1 * 0xc2b2ae35;
          h1 = h1 XOR drop_bit 16 h1
      in h1)"

definition MurmurHash3 :: "byte list \<Rightarrow> u32 \<Rightarrow> u32" where
  "MurmurHash3 data seed =
     (let (h1, rest) = murmur_body seed data;
          h1 = murmur_tail h1 rest;
          h1 = h1 XOR word_of_nat (length data)
      in murmur_fmix h1)"

definition hashFunction :: "c_int \<Rightarrow> u32" where
  "hashFunction key = MurmurHash3 (le_bytes 4 key) HT_SEED mod word_of_nat HT_SZ"

definition bucket :: "c_int \<Rightarrow> nat" where
  "bucket key = unat (hashFunction key)"

section \<open>Each step of the hash is a permutation\<close>

lemma bit_rotl32:
  assumes "0 < n" and "n < 32"
  shows "bit (rotl32 n k) j \<longleftrightarrow> j < 32 \<and> bit k (if n \<le> j then j - n else j + 32 - n)"
proof (cases "n \<le> j")
  case True
  then have "j + 32 - n \<ge> 32" and "32 - n + j = j + 32 - n" using assms by auto
  then have "\<not> bit k (32 - n + j)" by (auto dest: bit_imp_le_length)
  with True show ?thesis
    by (auto simp: rotl32_def bit_or_iff bit_push_bit_iff bit_drop_bit_eq dest: bit_imp_le_length)
next
  case False
  then have "32 - n + j = j + 32 - n" and "j < 32" using assms by auto
  with False show ?thesis
    by (auto simp: rotl32_def bit_or_iff bit_push_bit_iff bit_drop_bit_eq)
qed

lemma rotl32_inj:
  assumes "0 < n" and "n < 32" and eq: "rotl32 n a = rotl32 n b"
  shows "a = b"
proof (rule bit_word_eqI)
  fix j assume "j < LENGTH(32)"
  then have j: "j < 32" by simp
  show "bit a j = bit b j"
  proof (cases "j + n < 32")
    case True
    have "bit (rotl32 n a) (j + n) = bit (rotl32 n b) (j + n)" using eq by simp
    with True assms(1,2) show ?thesis by (simp add: bit_rotl32)
  next
    case False
    have "bit (rotl32 n a) (j + n - 32) = bit (rotl32 n b) (j + n - 32)" using eq by simp
    moreover have "j + n - 32 < n" "j + n - 32 + 32 - n = j" using False j by auto
    ultimately show ?thesis using False j assms(1,2) by (simp add: bit_rotl32)
  qed
qed

lemma mult_unit_inj:
  fixes a b c d :: u32
  assumes unit: "c * d = 1" and eq: "a * c = b * c"
  shows "a = b"
proof -
  have "a = a * (c * d)" by (simp add: unit)
  also have "\<dots> = a * c * d" by (simp only: mult.assoc)
  also have "\<dots> = b * c * d" by (simp only: eq)
  also have "\<dots> = b * (c * d)" by (simp only: mult.assoc)
  also have "\<dots> = b" by (simp add: unit)
  finally show ?thesis .
qed

lemma xor_cancel_left: "a XOR b = a XOR c \<longleftrightarrow> b = (c :: u32)"
  by (metis xor.left_neutral xor_self_eq xor.assoc)

lemma xor_cancel_right: "b XOR a = c XOR a \<longleftrightarrow> b = (c :: u32)"
  by (simp add: xor.commute xor_cancel_left)

lemma xorshift_inj:
  fixes x y :: u32
  assumes n: "0 < n" and eq: "x XOR drop_bit n x = y XOR drop_bit n y"
  shows "x = y"
proof (rule bit_eqI)
  fix j
  show "bit x j = bit y j"
  proof (induction "32 - j" arbitrary: j rule: less_induct)
    case less
    show ?case
    proof (cases "j < 32")
      case True
      have "bit (x XOR drop_bit n x) j = bit (y XOR drop_bit n y) j" using eq by simp
      then have "(bit x j \<noteq> bit x (n + j)) = (bit y j \<noteq> bit y (n + j))"
        by (simp add: bit_xor_iff bit_drop_bit_eq)
      moreover have "bit x (n + j) = bit y (n + j)" using True n less by simp
      ultimately show ?thesis by auto
    next
      case False
      then show ?thesis by (auto dest: bit_imp_le_length)
    qed
  qed
qed

lemma murmur_k1_inj: "murmur_k1 a = murmur_k1 b \<Longrightarrow> a = b"
proof -
  assume "murmur_k1 a = murmur_k1 b"
  then have "rotl32 15 (a * murmur_c1) = rotl32 15 (b * murmur_c1)"
    unfolding murmur_k1_def by (rule mult_unit_inj [rotated, of _ murmur_c2 _ 1458385051])
      (simp add: murmur_c2_def)
  then have "a * murmur_c1 = b * murmur_c1" by (rule rotl32_inj [rotated 2]) auto
  then show "a = b"
    by (rule mult_unit_inj [rotated, of _ murmur_c1 _ 3739302833]) (simp add: murmur_c1_def)
qed

lemma murmur_block_inj: "murmur_block h a = murmur_block h b \<Longrightarrow> a = b"
proof -
  assume "murmur_block h a = murmur_block h b"
  then have "rotl32 13 (h XOR murmur_k1 a) * 5 = rotl32 13 (h XOR murmur_k1 b) * 5"
    by (simp add: murmur_block_def)
  then have "rotl32 13 (h XOR murmur_k1 a) = rotl32 13 (h XOR murmur_k1 b)"
    by (rule mult_unit_inj [rotated, of _ 5 _ 3435973837]) simp
  then have "h XOR murmur_k1 a = h XOR murmur_k1 b" by (rule rotl32_inj [rotated 2]) auto
  then show "a = b" by (simp add: xor_cancel_left murmur_k1_inj)
qed

lemma murmur_fmix_inj: "murmur_fmix a = murmur_fmix b \<Longrightarrow> a = b"
proof -
  let ?s = "\<lambda>n (x :: u32). x XOR drop_bit n x"
  assume "murmur_fmix a = murmur_fmix b"
  then have "?s 16 (?s 13 (?s 16 a * 0x85ebca6b) * 0xc2b2ae35)
           = ?s 16 (?s 13 (?s 16 b * 0x85ebca6b) * 0xc2b2ae35)"
    by (simp add: murmur_fmix_def Let_def)
  then have "?s 13 (?s 16 a * 0x85ebca6b) * 0xc2b2ae35 = ?s 13 (?s 16 b * 0x85ebca6b) * 0xc2b2ae35"
    by (rule xorshift_inj [rotated]) simp
  then have "?s 13 (?s 16 a * 0x85ebca6b) = ?s 13 (?s 16 b * 0x85ebca6b)"
    by (rule mult_unit_inj [rotated, of _ "0xc2b2ae35" _ 2127672349]) simp
  then have "?s 16 a * 0x85ebca6b = ?s 16 b * 0x85ebca6b" by (rule xorshift_inj [rotated]) simp
  then have "?s 16 a = ?s 16 b"
    by (rule mult_unit_inj [rotated, of _ "0x85ebca6b" _ 2781581891]) simp
  then show "a = b" by (rule xorshift_inj [rotated]) simp
qed

lemma le_bytes_4: "le_bytes 4 (w :: 'a::len word) =
    [ucast w, ucast (drop_bit 8 w), ucast (drop_bit 16 w), ucast (drop_bit 24 w)]"
  by (simp add: le_bytes_def upt_rec numeral_eq_Suc)

text \<open>On the four bytes of an \<open>int\<close> the loop runs once and there is no tail.\<close>

lemma MurmurHash3_int:
  "MurmurHash3 (le_bytes 4 (key :: c_int)) seed = murmur_fmix (murmur_block seed key XOR 4)"
proof -
  have "of_le (le_bytes 4 key) = key" by simp
  then have "of_le [ucast key, ucast (drop_bit 8 key), ucast (drop_bit 16 key), ucast (drop_bit 24 key)]
      = key" by (simp only: le_bytes_4)
  then show ?thesis by (simp add: MurmurHash3_def le_bytes_4 del: of_le.simps)
qed

section \<open>Properties\<close>

text \<open>C35: MurmurHash3 of the four bytes of an \<open>int\<close> key is injective in the key for every
  seed: two different descriptors never have the same 32-bit hash, so the collisions of the
  tables come from the reduction modulo \<open>HT_SZ\<close> alone.\<close>

theorem MurmurHash3_inj: "inj (\<lambda>key :: c_int. MurmurHash3 (le_bytes 4 key) seed)"
  by (rule injI)
    (auto simp: MurmurHash3_int xor_cancel_right dest!: murmur_fmix_inj intro: murmur_block_inj)

lemma bucket_less [simp]: "bucket key < HT_SZ"
  by (simp add: bucket_def hashFunction_def HT_SZ_def unat_mod)

lemma hashFunction_bucket: "hashFunction key = word_of_nat (bucket key)"
  by (simp add: bucket_def)

end
