(* ===== verification/Hash_Table.thy ===== *)
theory Hash_Table
  imports Murmur
begin

text \<open>
  The hash tables of \<open>host/hash_delee.c\<close>. The three tables (\<open>HashTable\<close>, \<open>SocketHashTable\<close>,
  \<open>FDHashTable\<close>) have the same shape: an array of \<open>HT_SZ\<close> chains of nodes. A chain is the
  list of its nodes in \<open>next_node\<close> order; no node is shared between chains and none is
  reachable from outside the table. A pointer value is its address, \<open>NULL\<close> is 0. The
  result of \<open>malloc\<close> is an argument of the inserting functions; that of a whole table is used
  untested by the code, which is modelled for the case that it succeeds.
\<close>

section \<open>Data\<close>

record 'v node =
  nkey :: c_int
  nvalue :: 'v
  nindex :: u32

record 'v hash_table =
  table :: "nat \<Rightarrow> 'v node list"
  ht_size :: nat

type_synonym HashTable = "ptr hash_table"
type_synonym SocketHashTable = "ptr hash_table"
type_synonym FDHashTable = "c_int hash_table"

definition empty_table :: "'v hash_table" where
  "empty_table = \<lparr>table = (\<lambda>i. []), ht_size = HT_SZ\<rparr>"

section \<open>Loops over one chain and over the array\<close>

text \<open>\<open>while (current->next_node != NULL) current = current->next_node;
  current->next_node = newNode\<close>, with the empty chain handled by the caller's test.\<close>

fun append_node :: "'v node list \<Rightarrow> 'v node \<Rightarrow> 'v node list" where
  "append_node [] new = [new]"
| "append_node (n # ns) new = n # append_node ns new"

text \<open>The unlinking loop of the deleting functions (\<open>prev\<close>, \<open>node\<close>): \<open>None\<close> when the end
  of the chain is reached.\<close>

fun unlink :: "('v node \<Rightarrow> bool) \<Rightarrow> 'v node list \<Rightarrow> 'v node list option" where
  "unlink P [] = None"
| "unlink P (n # ns) = (if P n then Some ns else map_option (Cons n) (unlink P ns))"

text \<open>The array loop of \<open>deleteByValue\<close> over the given slots, up to the first hit.\<close>

fun unlink_scan :: "('v node \<Rightarrow> bool) \<Rightarrow> (nat \<Rightarrow> 'v node list) \<Rightarrow> nat list
    \<Rightarrow> (nat \<Rightarrow> 'v node list) option" where
  "unlink_scan P t [] = None"
| "unlink_scan P t (i # is) =
     (case unlink P (t i) of Some ns \<Rightarrow> Some (t(i := ns)) | None \<Rightarrow> unlink_scan P t is)"

text \<open>The array loop of \<open>searchByValue\<close>: the key of the first chain whose head matches.\<close>

fun head_scan :: "('v node \<Rightarrow> bool) \<Rightarrow> (nat \<Rightarrow> 'v node list) \<Rightarrow> nat list \<Rightarrow> c_int option" where
  "head_scan P t [] = None"
| "head_scan P t (i # is) =
     (case t i of [] \<Rightarrow> head_scan P t is
      | n # _ \<Rightarrow> if P n then Some (nkey n) else head_scan P t is)"

section \<open>HashTable\<close>

definition createHashTable :: HashTable where
  "createHashTable = empty_table"

definition insertByValue :: "bool \<Rightarrow> HashTable \<Rightarrow> c_int \<Rightarrow> ptr \<Rightarrow> bool \<times> HashTable" where
  "insertByValue malloc_ok ht key val =
     (let index = hashFunction key in
      if \<not> malloc_ok then (False, ht)
      else
        let newNode = \<lparr>nkey = key, nvalue = val, nindex = index\<rparr>;
            i = unat index
        in if table ht i = [] then (True, ht\<lparr>table := (table ht)(i := [newNode])\<rparr>)
           else (True, ht\<lparr>table := (table ht)(i := append_node (table ht i) newNode)\<rparr>))"

definition searchByKey :: "HashTable \<Rightarrow> c_int \<Rightarrow> ptr" where
  "searchByKey ht key =
     (case table ht (unat (hashFunction key)) of
        [] \<Rightarrow> 0
      | node # _ \<Rightarrow> if nkey node = key then nvalue node else 0)"

definition searchByValue :: "HashTable \<Rightarrow> ptr \<Rightarrow> c_int" where
  "searchByValue ht val =
     (case head_scan (\<lambda>n. nvalue n = val) (table ht) [0..<ht_size ht] of
        Some k \<Rightarrow> k | None \<Rightarrow> -1)"

text \<open>\<open>deleteByKey\<close> returns 1 after a deletion and \<open>-1\<close> when the chain holds no such key;
  on an empty chain it executes \<open>return;\<close> in a function of type \<open>int\<close>, which leaves the
  value indeterminate (\<open>None\<close>).\<close>

definition deleteByKey :: "HashTable \<Rightarrow> c_int \<Rightarrow> c_int option \<times> HashTable" where
  "deleteByKey ht key =
     (let i = unat (hashFunction key) in
      if table ht i = [] then (None, ht)
      else case unlink (\<lambda>n. nkey n = key) (table ht i) of
             Some ns \<Rightarrow> (Some 1, ht\<lparr>table := (table ht)(i := ns)\<rparr>)
           | None \<Rightarrow> (Some (-1), ht))"

definition deleteByValue :: "HashTable \<Rightarrow> ptr \<Rightarrow> HashTable" where
  "deleteByValue ht val =
     (case unlink_scan (\<lambda>n. nvalue n = val) (table ht) [0..<ht_size ht] of
        Some t \<Rightarrow> ht\<lparr>table := t\<rparr> | None \<Rightarrow> ht)"

text \<open>\<open>freeHashTable\<close>: the nodes handed to \<open>free\<close>, in order (the table itself is freed
  last); one node per non-empty slot.\<close>

definition freeHashTable :: "HashTable \<Rightarrow> ptr node list" where
  "freeHashTable ht = concat (map (\<lambda>i. case table ht i of [] \<Rightarrow> [] | n # _ \<Rightarrow> [n]) [0..<ht_size ht])"

section \<open>SocketHashTable\<close>

definition createSocketHashTable :: SocketHashTable where
  "createSocketHashTable = empty_table"

definition socket_insertByValue ::
    "bool \<Rightarrow> SocketHashTable \<Rightarrow> c_int \<Rightarrow> ptr \<Rightarrow> bool \<times> SocketHashTable" where
  "socket_insertByValue malloc_ok ht key val =
     (if \<not> malloc_ok then (False, ht)
      else
        let index = hashFunction key;
            newNode = \<lparr>nkey = key, nvalue = val, nindex = index\<rparr>;
            i = unat index
        in if table ht i = [] then (True, ht\<lparr>table := (table ht)(i := [newNode])\<rparr>)
           else (True, ht\<lparr>table := (table ht)(i := append_node (table ht i) newNode)\<rparr>))"

definition socket_searchByKey :: "SocketHashTable \<Rightarrow> c_int \<Rightarrow> ptr" where
  "socket_searchByKey ht key =
     (case table ht (unat (hashFunction key)) of
        [] \<Rightarrow> 0
      | node # _ \<Rightarrow> if nkey node = key then nvalue node else 0)"

definition socket_searchByValue :: "SocketHashTable \<Rightarrow> ptr \<Rightarrow> c_int" where
  "socket_searchByValue ht val =
     (case head_scan (\<lambda>n. nvalue n = val) (table ht) [0..<ht_size ht] of
        Some k \<Rightarrow> k | None \<Rightarrow> -1)"

definition socket_deleteByKey :: "SocketHashTable \<Rightarrow> c_int \<Rightarrow> SocketHashTable" where
  "socket_deleteByKey ht key =
     (let i = unat (hashFunction key) in
      if table ht i = [] then ht
      else case unlink (\<lambda>n. nkey n = key) (table ht i) of
             Some ns \<Rightarrow> ht\<lparr>table := (table ht)(i := ns)\<rparr>
           | None \<Rightarrow> ht)"

definition socket_deleteByValue :: "SocketHashTable \<Rightarrow> ptr \<Rightarrow> SocketHashTable" where
  "socket_deleteByValue ht val =
     (case unlink_scan (\<lambda>n. nvalue n = val) (table ht) [0..<ht_size ht] of
        Some t \<Rightarrow> ht\<lparr>table := t\<rparr> | None \<Rightarrow> ht)"

definition socket_freeHashTable :: "SocketHashTable \<Rightarrow> ptr node list" where
  "socket_freeHashTable ht =
     concat (map (\<lambda>i. case table ht i of [] \<Rightarrow> [] | n # _ \<Rightarrow> [n]) [0..<ht_size ht])"

section \<open>FDHashTable\<close>

text \<open>The table of hooked descriptors: key a descriptor, value the thread that made it.
  \<open>fd_searchByKey\<close> answers a missing key by \<open>NULL\<close>, that is the \<open>int\<close> 0.\<close>

definition createFDHashTable :: FDHashTable where
  "createFDHashTable = empty_table"

definition fd_insertByValue :: "bool \<Rightarrow> FDHashTable \<Rightarrow> c_int \<Rightarrow> c_int \<Rightarrow> bool \<times> FDHashTable" where
  "fd_insertByValue malloc_ok ht key val =
     (if \<not> malloc_ok then (False, ht)
      else
        let index = hashFunction key;
            newNode = \<lparr>nkey = key, nvalue = val, nindex = index\<rparr>;
            i = unat index
        in if table ht i = [] then (True, ht\<lparr>table := (table ht)(i := [newNode])\<rparr>)
           else (True, ht\<lparr>table := (table ht)(i := append_node (table ht i) newNode)\<rparr>))"

definition fd_searchByKey :: "FDHashTable \<Rightarrow> c_int \<Rightarrow> c_int" where
  "fd_searchByKey ht key =
     (case table ht (unat (hashFunction key)) of
        [] \<Rightarrow> 0
      | node # _ \<Rightarrow> if nkey node = key then nvalue node else 0)"

definition fd_searchByValue :: "FDHashTable \<Rightarrow> c_int \<Rightarrow> c_int" where
  "fd_searchByValue ht val =
     (case head_scan (\<lambda>n. nvalue n = val) (table ht) [0..<ht_size ht] of
        Some k \<Rightarrow> k | None \<Rightarrow> -1)"

definition fd_deleteByKey :: "FDHashTable \<Rightarrow> c_int \<Rightarrow> FDHashTable" where
  "fd_deleteByKey ht key =
     (let i = unat (hashFunction key) in
      if table ht i = [] then ht
      else case unlink (\<lambda>n. nkey n = key) (table ht i) of
             Some ns \<Rightarrow> ht\<lparr>table := (table ht)(i := ns)\<rparr>
           | None \<Rightarrow> ht)"

definition fd_deleteByValue :: "FDHashTable \<Rightarrow> c_int \<Rightarrow> FDHashTable" where
  "fd_deleteByValue ht val =
     (case unlink_scan (\<lambda>n. nvalue n = val) (table ht) [0..<ht_size ht] of
        Some t \<Rightarrow> ht\<lparr>table := t\<rparr> | None \<Rightarrow> ht)"

definition fd_freeHashTable :: "FDHashTable \<Rightarrow> c_int node list" where
  "fd_freeHashTable ht =
     concat (map (\<lambda>i. case table ht i of [] \<Rightarrow> [] | n # _ \<Rightarrow> [n]) [0..<ht_size ht])"

text \<open>
  Five hooks of \<open>hook.c\<close> look the descriptor table up with \<open>searchByKey\<close>, the function of
  the other table. On LP64 an \<open>FDNode\<close> is \<open>key\<close> at 0, \<open>value\<close> at 4, \<open>index\<close> at 8 and
  \<open>next_node\<close> at 16, while \<open>searchByKey\<close> reads a \<open>HashNode\<close>: \<open>key\<close> at 0 and an 8-byte
  \<open>value\<close> at 8. The pointer it returns is stored in an \<open>int\<close>, so what the hook sees are the
  four bytes at offset 8: the node's \<open>index\<close>.
\<close>

definition searchByKey_fd :: "FDHashTable \<Rightarrow> c_int \<Rightarrow> c_int" where
  "searchByKey_fd ht key =
     (case table ht (unat (hashFunction key)) of
        [] \<Rightarrow> 0
      | node # _ \<Rightarrow> if nkey node = key then nindex node else 0)"

section \<open>Invariant and abstraction\<close>

text \<open>Every node sits in the slot of its key and carries that slot as its \<open>index\<close>.\<close>

definition node_at :: "nat \<Rightarrow> 'v node \<Rightarrow> bool" where
  "node_at i n \<longleftrightarrow> bucket (nkey n) = i \<and> nindex n = hashFunction (nkey n)"

definition ht_inv :: "'v hash_table \<Rightarrow> bool" where
  "ht_inv ht \<longleftrightarrow> ht_size ht = HT_SZ \<and> (\<forall>i. \<forall>n \<in> set (table ht i). node_at i n)"

text \<open>The values stored under a key, oldest first; all nodes of the table in slot order.\<close>

definition assoc :: "'v hash_table \<Rightarrow> c_int \<Rightarrow> 'v list" where
  "assoc ht k = map nvalue (filter (\<lambda>n. nkey n = k) (table ht (bucket k)))"

definition nodes :: "'v hash_table \<Rightarrow> 'v node list" where
  "nodes ht = concat (map (table ht) [0..<ht_size ht])"

definition front :: "'v hash_table \<Rightarrow> c_int \<Rightarrow> c_int option" where
  "front ht k = (case table ht (bucket k) of [] \<Rightarrow> None | n # _ \<Rightarrow> Some (nkey n))"

text \<open>One shape for the six inserting and deleting functions.\<close>

definition link_node :: "'v hash_table \<Rightarrow> c_int \<Rightarrow> 'v \<Rightarrow> 'v hash_table" where
  "link_node ht k v = ht\<lparr>table := (table ht)(bucket k := table ht (bucket k) @
     [\<lparr>nkey = k, nvalue = v, nindex = hashFunction k\<rparr>])\<rparr>"

definition unlink_node :: "'v hash_table \<Rightarrow> c_int \<Rightarrow> 'v hash_table" where
  "unlink_node ht k = ht\<lparr>table := (table ht)(bucket k :=
     (case unlink (\<lambda>n. nkey n = k) (table ht (bucket k)) of Some ns \<Rightarrow> ns
      | None \<Rightarrow> table ht (bucket k)))\<rparr>"

named_theorems table_ops

lemma append_node_eq [simp]: "append_node ns new = ns @ [new]"
  by (induction ns) auto

lemma table_upd_self [simp]: "ht\<lparr>table := (table ht)(i := table ht i)\<rparr> = ht"
  by simp

lemma table_upd_self' [simp]: "table ht i = x \<Longrightarrow> ht\<lparr>table := (table ht)(i := x)\<rparr> = ht"
  by auto

lemma insert_ops [table_ops]:
  "insertByValue ok ht k p = (if ok then (True, link_node ht k p) else (False, ht))"
  "socket_insertByValue ok ht k p = (if ok then (True, link_node ht k p) else (False, ht))"
  "fd_insertByValue ok fht k v = (if ok then (True, link_node fht k v) else (False, fht))"
  by (simp_all add: insertByValue_def socket_insertByValue_def fd_insertByValue_def
      link_node_def bucket_def Let_def)

lemma delete_ops [table_ops]:
  "snd (deleteByKey ht k) = unlink_node ht k"
  "socket_deleteByKey ht k = unlink_node ht k"
  "fd_deleteByKey fht k = unlink_node fht k"
  by (simp_all add: deleteByKey_def socket_deleteByKey_def fd_deleteByKey_def
      unlink_node_def bucket_def Let_def split: option.splits)

definition head_value :: "'v \<Rightarrow> 'v hash_table \<Rightarrow> c_int \<Rightarrow> 'v" where
  "head_value null ht k = (case table ht (bucket k) of [] \<Rightarrow> null
     | n # _ \<Rightarrow> if nkey n = k then nvalue n else null)"

lemma search_ops [table_ops]:
  "searchByKey ht k = head_value 0 ht k"
  "socket_searchByKey ht k = head_value 0 ht k"
  "fd_searchByKey fht k = head_value 0 fht k"
  by (simp_all add: searchByKey_def socket_searchByKey_def fd_searchByKey_def
      head_value_def bucket_def)

lemma unlink_None: "unlink P ns = None \<longleftrightarrow> (\<forall>n \<in> set ns. \<not> P n)"
  by (induction ns) auto

lemma unlink_filter:
  "unlink P ns = Some ns' \<Longrightarrow> filter P ns' = tl (filter P ns)"
  by (induction ns arbitrary: ns') (auto split: if_splits)

lemma unlink_filter_other:
  "unlink P ns = Some ns' \<Longrightarrow> (\<And>n. Q n \<Longrightarrow> \<not> P n) \<Longrightarrow> filter Q ns' = filter Q ns"
  by (induction ns arbitrary: ns') (auto split: if_splits)

lemma unlink_subset: "unlink P ns = Some ns' \<Longrightarrow> set ns' \<subseteq> set ns"
  by (induction ns arbitrary: ns') (auto split: if_splits)

lemma unlink_length: "unlink P ns = Some ns' \<Longrightarrow> length ns = Suc (length ns')"
  by (induction ns arbitrary: ns') (auto split: if_splits)

lemma assoc_link_node:
  "assoc (link_node ht k v) k' = (if k' = k then assoc ht k @ [v] else assoc ht k')"
  by (auto simp: assoc_def link_node_def)

lemma assoc_unlink_node:
  "assoc (unlink_node ht k) k' = (if k' = k then tl (assoc ht k) else assoc ht k')"
proof (cases "unlink (\<lambda>n. nkey n = k) (table ht (bucket k))")
  case None
  then have "filter (\<lambda>n. nkey n = k) (table ht (bucket k)) = []"
    by (simp add: unlink_None filter_empty_conv)
  with None show ?thesis by (auto simp: assoc_def unlink_node_def)
next
  case (Some ns)
  have "filter (\<lambda>n. nkey n = k') ns = filter (\<lambda>n. nkey n = k') (table ht (bucket k))" if "k' \<noteq> k"
    using that by (intro unlink_filter_other [OF Some]) auto
  with Some show ?thesis
    by (auto simp: assoc_def unlink_node_def map_tl dest: unlink_filter)
qed

lemma ht_inv_empty [simp]: "ht_inv empty_table"
  by (simp add: ht_inv_def empty_table_def)

lemma ht_inv_link_node: "ht_inv ht \<Longrightarrow> ht_inv (link_node ht k v)"
  by (auto simp: ht_inv_def link_node_def node_at_def)

lemma ht_inv_unlink_node: "ht_inv ht \<Longrightarrow> ht_inv (unlink_node ht k)"
  by (auto simp: ht_inv_def unlink_node_def split: option.splits dest: unlink_subset)

section \<open>The contract of the tables\<close>

text \<open>What the hooks rely on: the table is a multimap from descriptors to values. The laws
  are stated over the abstraction \<open>assoc\<close>, the values under a key in insertion order.\<close>

locale multimap =
  fixes empty :: 't
    and insert :: "'t \<Rightarrow> c_int \<Rightarrow> 'v \<Rightarrow> 't"
    and delete :: "'t \<Rightarrow> c_int \<Rightarrow> 't"
    and assoc :: "'t \<Rightarrow> c_int \<Rightarrow> 'v list"
    and invar :: "'t \<Rightarrow> bool"
  assumes assoc_empty: "assoc empty k = []"
    and assoc_insert: "invar t \<Longrightarrow> assoc (insert t k v) k' = (if k' = k then assoc t k @ [v] else assoc t k')"
    and assoc_delete: "invar t \<Longrightarrow> assoc (delete t k) k' = (if k' = k then tl (assoc t k) else assoc t k')"
    and invar_empty: "invar empty"
    and invar_insert: "invar t \<Longrightarrow> invar (insert t k v)"
    and invar_delete: "invar t \<Longrightarrow> invar (delete t k)"
begin

lemmas specs = assoc_empty assoc_insert assoc_delete invar_empty invar_insert invar_delete

lemma delete_insert_fresh:
  "invar t \<Longrightarrow> assoc t k = [] \<Longrightarrow> assoc (delete (insert t k v) k) = assoc t"
  by (auto simp: specs fun_eq_iff)

text \<open>A key inserted twice survives one deletion.\<close>

lemma delete_insert_twice:
  "invar t \<Longrightarrow> assoc t k = [] \<Longrightarrow> assoc (delete (insert (insert t k v) k w) k) k = [w]"
  by (simp add: specs)

lemma insert_commute:
  "invar t \<Longrightarrow> k \<noteq> k' \<Longrightarrow> assoc (insert (insert t k v) k' v') = assoc (insert (insert t k' v') k v)"
  by (auto simp: specs fun_eq_iff)

end

text \<open>The lookup looks at the first node of the key's chain only: \<open>front t k\<close> is the key of
  that node.\<close>

locale head_lookup = multimap +
  fixes search :: "'a \<Rightarrow> c_int \<Rightarrow> 'b" and null :: 'b
    and front :: "'a \<Rightarrow> c_int \<Rightarrow> c_int option"
  assumes search_front: "invar t \<Longrightarrow> front t k = Some k \<Longrightarrow> search t k = hd (assoc t k)"
    and search_behind: "invar t \<Longrightarrow> front t k \<noteq> Some k \<Longrightarrow> search t k = null"
    and front_assoc: "invar t \<Longrightarrow> front t k = Some k \<Longrightarrow> assoc t k \<noteq> []"
    and front_None: "invar t \<Longrightarrow> front t k = None \<Longrightarrow> assoc t k = []"
    and front_insert: "invar t \<Longrightarrow> front (insert t k v) k = (case front t k of None \<Rightarrow> Some k | Some k' \<Rightarrow> Some k')"
begin

lemma search_absent: "invar t \<Longrightarrow> assoc t k = [] \<Longrightarrow> search t k = null"
  by (metis front_assoc search_behind)

lemma search_insert_empty_slot:
  "invar t \<Longrightarrow> front t k = None \<Longrightarrow> search (insert t k v) k = v"
  by (simp add: search_front front_insert front_None specs)

lemma search_insert_again:
  "invar t \<Longrightarrow> front t k = Some k \<Longrightarrow> search (insert t k v) k = search t k"
  by (simp add: search_front front_insert front_assoc specs)

lemma search_insert_shadowed:
  "invar t \<Longrightarrow> front t k = Some k' \<Longrightarrow> k' \<noteq> k \<Longrightarrow> search (insert t k v) k = null"
  by (simp add: search_behind front_insert specs)

end

lemma head_value_laws:
  "front ht k = Some k \<Longrightarrow> head_value null ht k = hd (assoc ht k)"
  "front ht k \<noteq> Some k \<Longrightarrow> head_value null ht k = null"
  "front ht k = Some k \<Longrightarrow> assoc ht k \<noteq> []"
  "front ht k = None \<Longrightarrow> assoc ht k = []"
  "front (link_node ht k v) k = (case front ht k of None \<Rightarrow> Some k | Some k' \<Rightarrow> Some k')"
  by (auto simp: front_def head_value_def assoc_def link_node_def split: list.splits)

lemma assoc_empty_table [simp]: "assoc empty_table k = []"
  by (simp add: assoc_def empty_table_def)

lemmas contract_simps = table_ops assoc_link_node assoc_unlink_node ht_inv_link_node
  ht_inv_unlink_node head_value_laws
  createHashTable_def createSocketHashTable_def createFDHashTable_def

interpretation ht: head_lookup createHashTable "\<lambda>t k v. snd (insertByValue True t k v)"
    "\<lambda>t k. snd (deleteByKey t k)" assoc ht_inv searchByKey 0 front
  by unfold_locales (auto simp: contract_simps)

interpretation socket_ht: head_lookup createSocketHashTable
    "\<lambda>t k v. snd (socket_insertByValue True t k v)" socket_deleteByKey assoc ht_inv
    socket_searchByKey 0 front
  by unfold_locales (auto simp: contract_simps)

interpretation fd_tab: head_lookup createFDHashTable "\<lambda>t k v. snd (fd_insertByValue True t k v)"
    fd_deleteByKey assoc ht_inv fd_searchByKey 0 front
  by unfold_locales (auto simp: contract_simps)

section \<open>Scans\<close>

text \<open>Removing the first node that satisfies \<open>P\<close> from a list of nodes.\<close>

definition drop_first :: "('a \<Rightarrow> bool) \<Rightarrow> 'a list \<Rightarrow> 'a list" where
  "drop_first P xs = takeWhile (\<lambda>x. \<not> P x) xs @ tl (dropWhile (\<lambda>x. \<not> P x) xs)"

lemma drop_first_simps [simp]:
  "drop_first P [] = []"
  "drop_first P (x # xs) = (if P x then xs else x # drop_first P xs)"
  by (auto simp: drop_first_def)

lemma drop_first_append_hit:
  "unlink P xs = Some ns \<Longrightarrow> drop_first P (xs @ ys) = ns @ ys"
  by (induction xs arbitrary: ns) (auto split: if_splits)

lemma drop_first_append_miss:
  "unlink P xs = None \<Longrightarrow> drop_first P (xs @ ys) = xs @ drop_first P ys"
  by (induction xs) (auto split: if_splits)

lemma unlink_scan_flat:
  "distinct is \<Longrightarrow> concat (map (case unlink_scan P t is of Some t' \<Rightarrow> t' | None \<Rightarrow> t) is)
     = drop_first P (concat (map t is))"
proof (induction "is")
  case Nil
  then show ?case by simp
next
  case (Cons i "is")
  show ?case
  proof (cases "unlink P (t i)")
    case (Some ns)
    have "concat (map (t(i := ns)) is) = concat (map t is)"
      by (rule arg_cong [where f = concat]) (use Cons.prems in auto)
    with Some show ?thesis
      by (simp add: drop_first_append_hit fun_upd_same del: fun_upd_apply)
  next
    case None
    have frame: "unlink_scan P t is = Some t' \<Longrightarrow> t' i = t i" for t'
      using Cons.prems by (induction "is") (auto split: option.splits)
    with None Cons show ?thesis
      by (auto simp: drop_first_append_miss split: option.splits)
  qed
qed

lemma unlink_scan_subset: "unlink_scan P t is = Some t' \<Longrightarrow> set (t' i) \<subseteq> set (t i)"
  by (induction "is") (auto split: option.splits if_splits dest!: unlink_subset)

lemma ht_inv_unlink_scan:
  "ht_inv ht \<Longrightarrow> unlink_scan P (table ht) is = Some t \<Longrightarrow> ht_inv (ht\<lparr>table := t\<rparr>)"
  by (force simp: ht_inv_def dest: unlink_scan_subset)

lemma nodes_delete_value:
  "nodes (case unlink_scan P (table ht) [0..<ht_size ht] of Some t \<Rightarrow> ht\<lparr>table := t\<rparr> | None \<Rightarrow> ht)
     = drop_first P (nodes ht)"
  using unlink_scan_flat [OF distinct_upt [of 0 "ht_size ht"], of "table ht" P]
  by (simp add: nodes_def split: option.splits)

section \<open>Properties\<close>

text \<open>The tables a process can have built with the operations of the descriptor table.\<close>

inductive fd_table_reachable :: "FDHashTable \<Rightarrow> bool" where
  create: "fd_table_reachable createFDHashTable"
| insert: "fd_table_reachable t \<Longrightarrow> fd_table_reachable (snd (fd_insertByValue ok t k v))"
| delete_key: "fd_table_reachable t \<Longrightarrow> fd_table_reachable (fd_deleteByKey t k)"
| delete_value: "fd_table_reachable t \<Longrightarrow> fd_table_reachable (fd_deleteByValue t v)"

lemma fd_deleteByValue_inv: "ht_inv t \<Longrightarrow> ht_inv (fd_deleteByValue t v)"
  by (auto simp: fd_deleteByValue_def ht_inv_unlink_scan split: option.splits)

lemma fd_table_reachable_ht_inv: "fd_table_reachable t \<Longrightarrow> ht_inv t"
proof (induction rule: fd_table_reachable.induct)
  case (insert t ok k v)
  then show ?case by (simp add: contract_simps)
qed (auto simp: contract_simps fd_deleteByValue_inv)

text \<open>In every descriptor table built by creating, inserting (with or without memory),
  deleting by key and deleting by value, each node is in the slot of its own key, carries
  that slot as its \<open>index\<close>, and the slot is inside the array.\<close>

theorem fd_table_nodes_in_slot:
  assumes "fd_table_reachable ht" and "n \<in> set (table ht i)"
  shows "i < HT_SZ \<and> bucket (nkey n) = i \<and> nindex n = word_of_nat i"
proof -
  have "node_at i n" using assms fd_table_reachable_ht_inv by (auto simp: ht_inv_def)
  then show ?thesis using bucket_less [of "nkey n"] by (auto simp: node_at_def hashFunction_bucket)
qed

lemma fd_insert_example:
  "table (snd (fd_insertByValue True createFDHashTable k v)) (bucket k)
     = [\<lparr>nkey = k, nvalue = v, nindex = hashFunction k\<rparr>]"
  by (simp add: table_ops link_node_def createFDHashTable_def empty_table_def)

theorem fd_table_nodes_in_slot_witness:
  "bucket 5 < HT_SZ \<and> bucket (nkey \<lparr>nkey = 5, nvalue = 77 :: c_int, nindex = hashFunction 5\<rparr>) = bucket 5
    \<and> nindex \<lparr>nkey = 5, nvalue = 77 :: c_int, nindex = hashFunction 5\<rparr> = word_of_nat (bucket 5)"
  by (rule fd_table_nodes_in_slot
      [where ht = "snd (fd_insertByValue True createFDHashTable 5 77)"])
    (auto simp: fd_insert_example intro: fd_table_reachable.intros)

text \<open>C15: The descriptor table implements a multimap: inserting appends the value to those
  stored under the key (a failed allocation changes nothing and answers false), deleting a
  key removes its oldest value, and neither touches any other key.\<close>

theorem fd_table_refines_multimap:
  "assoc (snd (fd_insertByValue ok ht k v)) =
     (if ok then (assoc ht)(k := assoc ht k @ [v]) else assoc ht)
   \<and> fst (fd_insertByValue ok ht k v) = ok
   \<and> assoc (fd_deleteByKey ht k) = (assoc ht)(k := tl (assoc ht k))"
  by (auto simp: contract_simps fun_eq_iff)

text \<open>\<open>fd_searchByKey\<close> answers the oldest value stored under the key if the first node of
  the key's slot has that key, and otherwise 0, even if the key is stored further down the
  chain.\<close>

theorem fd_searchByKey_spec:
  "fd_searchByKey ht k = (if front ht k = Some k then hd (assoc ht k) else 0)"
  by (simp add: contract_simps)

text \<open>A number of insertions (\<open>Inl\<close>) and deletions by key (\<open>Inr\<close>), one after the other.\<close>

fun fd_apply :: "(c_int \<times> c_int + c_int) list \<Rightarrow> FDHashTable \<Rightarrow> FDHashTable" where
  "fd_apply [] ht = ht"
| "fd_apply (Inl (k, v) # ops) ht = fd_apply ops (snd (fd_insertByValue True ht k v))"
| "fd_apply (Inr k # ops) ht = fd_apply ops (fd_deleteByKey ht k)"

lemma front_steps:
  assumes "front ht k = Some k'"
  shows "front (snd (fd_insertByValue True ht a v)) k = Some k'"
    and "a \<noteq> k' \<Longrightarrow> front (fd_deleteByKey ht a) k = Some k'"
  using assms
  by (auto simp: table_ops front_def link_node_def unlink_node_def split: list.splits option.splits if_splits)

lemma front_apply: "front ht k = Some k' \<Longrightarrow> Inr k' \<notin> set ops \<Longrightarrow> front (fd_apply ops ht) k = Some k'"
  by (induction ops ht rule: fd_apply.induct) (auto simp: front_steps)

lemma search_behind_front: "front ht k = Some k' \<Longrightarrow> k' \<noteq> k \<Longrightarrow> fd_searchByKey ht k = 0"
  by (simp add: table_ops head_value_def front_def split: list.splits)

lemma search_after_front:
  assumes "ht_inv ht" and "front ht k = Some k'" and "k' \<noteq> k" and "front (fd_deleteByKey ht k') k = None"
  shows "fd_searchByKey (fd_deleteByKey (snd (fd_insertByValue True ht k v)) k') k = v"
proof -
  obtain n ns where t: "table ht (bucket k) = n # ns" "nkey n = k'"
    using assms(2) by (auto simp: front_def split: list.splits)
  then have b: "bucket k' = bucket k" using assms(1) by (auto simp: ht_inv_def node_at_def)
  then have "ns = []" using t assms(4) by (simp add: table_ops front_def unlink_node_def split: list.splits)
  then show ?thesis using t assms(3) b by (simp add: table_ops head_value_def link_node_def unlink_node_def)
qed

text \<open>C32: A descriptor inserted into a table whose slot for it already starts with another descriptor is stored behind that
  one, and no lookup finds it for as long as the entry in front stays: whatever is inserted and whichever other
  descriptors are deleted, the lookup answers the 0 of a missing key. Once the front descriptor is deleted and no third one
  was in the slot, it is found.\<close>

theorem fd_insert_collision_lost:
  assumes "ht_inv ht" and "front ht k = Some k'" and "k' \<noteq> k" and "Inr k' \<notin> set ops"
  shows "v \<in> set (assoc (snd (fd_insertByValue True ht k v)) k)
    \<and> fd_searchByKey (fd_apply ops (snd (fd_insertByValue True ht k v))) k = 0
    \<and> (front (fd_deleteByKey ht k') k = None \<longrightarrow>
         fd_searchByKey (fd_deleteByKey (snd (fd_insertByValue True ht k v)) k') k = v)"
proof (intro conjI impI)
  show "v \<in> set (assoc (snd (fd_insertByValue True ht k v)) k)" using assms(1) by (simp add: contract_simps)
  show "fd_searchByKey (fd_apply ops (snd (fd_insertByValue True ht k v))) k = 0"
    using front_apply [OF front_steps(1) [OF assms(2)] assms(4)] assms(3) by (rule search_behind_front)
qed (rule search_after_front [OF assms(1-3)])

lemma bucket_19_45: "bucket 19 = bucket 45"
  by (simp add: bucket_def hashFunction_def MurmurHash3_int HT_SZ_def HT_SEED_def murmur_fmix_def
      murmur_block_def murmur_k1_def murmur_c1_def murmur_c2_def rotl32_def Let_def)

text \<open>Descriptors 19 and 45 share a slot.\<close>

theorem fd_insert_collision_lost_witness:
  "let ht = snd (fd_insertByValue True createFDHashTable 19 7); ht1 = snd (fd_insertByValue True ht 45 9) in
   fd_searchByKey (fd_apply [Inl (6, 7), Inr 6] ht1) 45 = 0 \<and> fd_searchByKey (fd_deleteByKey ht1 19) 45 = 9"
proof -
  let ?ht = "snd (fd_insertByValue True createFDHashTable 19 7)"
  have t: "ht_inv ?ht" "(19 :: c_int) \<noteq> 45" "Inr 19 \<notin> set [Inl (6 :: c_int, 7 :: c_int), Inr (6 :: c_int)]"
    by (simp_all add: contract_simps)
  have f: "front ?ht 45 = Some 19" "front (fd_deleteByKey ?ht 19) 45 = None"
    by (simp_all add: table_ops front_def link_node_def unlink_node_def createFDHashTable_def empty_table_def bucket_19_45 [symmetric])
  show ?thesis using fd_insert_collision_lost [OF t(1) f(1) t(2,3), of 9] f(2) by (simp only: Let_def simp_thms)
qed

text \<open>Deleting by value removes exactly one node, the first one in slot order that holds
  the value, and nothing if there is none; all other nodes keep their order.\<close>

theorem deleteByValue_removes_first:
  "nodes (fd_deleteByValue ht v) = drop_first (\<lambda>n. nvalue n = v) (nodes ht)
   \<and> nodes (deleteByValue pht p) = drop_first (\<lambda>n. nvalue n = p) (nodes pht)
   \<and> nodes (socket_deleteByValue pht p) = drop_first (\<lambda>n. nvalue n = p) (nodes pht)"
  by (simp add: fd_deleteByValue_def deleteByValue_def socket_deleteByValue_def nodes_delete_value)

lemma length_concat_heads:
  "length (concat (map t is)) = length (concat (map (\<lambda>i. case t i of [] \<Rightarrow> [] | n # _ \<Rightarrow> [n]) is))
     + sum_list (map (\<lambda>i. length (t i) - 1) is)"
  by (induction "is") (auto split: list.splits)

text \<open>\<open>fd_freeHashTable\<close> hands the first node of each chain to \<open>free\<close> and no other: what it
  leaks is one node less than its length for every non-empty chain.\<close>

theorem fd_freeHashTable_leak:
  "length (nodes ht) = length (fd_freeHashTable ht) + (\<Sum>i = 0..<ht_size ht. length (table ht i) - 1)"
  by (simp add: nodes_def fd_freeHashTable_def length_concat_heads [of "table ht"] sum_list_distinct_conv_sum_set)

text \<open>The lookup that \<open>req_connect\<close>, \<open>req_send\<close>, \<open>req_read\<close>, \<open>req_recv\<close> and \<open>req_close\<close>
  make through \<open>searchByKey\<close> does not yield the thread stored for the descriptor but the
  slot number, and so treats a hooked descriptor of slot 0 as unknown.\<close>

theorem searchByKey_fd_is_slot:
  assumes "ht_inv ht"
  shows "searchByKey_fd ht k = (if front ht k = Some k then hashFunction k else 0)"
proof (cases "table ht (bucket k)")
  case Nil
  then show ?thesis by (simp add: searchByKey_fd_def front_def bucket_def)
next
  case (Cons n ns)
  then have "node_at (bucket k) n" using assms by (simp add: ht_inv_def)
  with Cons show ?thesis
    by (auto simp: searchByKey_fd_def front_def bucket_def node_at_def)
qed

theorem searchByKey_fd_is_slot_witness:
  "searchByKey_fd (snd (fd_insertByValue True createFDHashTable 2405 7)) 2405 =
     (if front (snd (fd_insertByValue True createFDHashTable 2405 7)) 2405 = Some 2405
      then hashFunction 2405 else 0) \<and> hashFunction 2405 = 0"
  by (intro conjI searchByKey_fd_is_slot)
    (simp_all add: contract_simps hashFunction_def MurmurHash3_int HT_SZ_def HT_SEED_def
      murmur_fmix_def murmur_block_def murmur_k1_def murmur_c1_def murmur_c2_def rotl32_def Let_def)

end
