(* ===== verification/Hook.thy ===== *)
theory Hook
  imports Client Hash_Table
begin

text \<open>
  The hooks of \<open>host/hook.c\<close>, as the library is built (with \<open>LD_PRELOAD\<close> defined): what each
  socket call of the application does instead of the kernel call. \<open>host\<close> is what a thread of
  the process sees: the table of forwarded descriptors, its own connection (thread-local), the
  shared one, its id and \<open>errno\<close>. Looking up a replaced function with \<open>dlsym\<close> succeeds. The
  lock around the creation of a connection is released on every path.
\<close>

record host =
  fd_ht :: FDHashTable
  tls :: "r_info option"
  tls_freed :: bool
  global_r_info :: "r_info option"
  server_sockaddr :: sockaddr
  tid :: c_int
  errno :: u32

text \<open>What is indeterminate in a call: the allocated work completion, a new connection's memory,
  whether the allocations succeed, what \<open>va_arg\<close> finds when no argument was
  passed, and the address of the hook's \<open>va_list\<close>.\<close>

record hook_locals =
  j_wc :: ibv_wc
  j_fresh :: r_info
  j_malloc :: bool
  j_node :: bool
  j_va_int :: "byte list"
  j_va_ptr :: "byte list option"
  j_va_list :: ptr

section \<open>Requests\<close>

text \<open>A request on the connection \<open>tls\<close>, with \<open>&errno\<close> as \<open>p_errno\<close>.\<close>

definition request ::
    "env \<Rightarrow> hook_locals \<Rightarrow> host \<Rightarrow> c_int \<Rightarrow> RDMA_REQ_MSG \<Rightarrow> u64 \<Rightarrow> u16 \<Rightarrow> byte list option \<Rightarrow> byte list option
      \<Rightarrow> trace \<Rightarrow> (c_int \<times> byte list option \<times> host \<times> trace) run" where
  "request E J hs fd r n port message buf h =
     and_then (set_req_sock E (j_wc J) (tls hs) fd (req_code r) n port message (Some (errno hs)) buf h)
       (\<lambda>(v, ri, e, buf, h). returns (v, buf, hs\<lparr>tls := ri, errno := the e\<rparr>, h))"

text \<open>Returns the connection of the thread, making one first if it has none: the shared
  connection asks the SmartNIC for it. After an insertion failed the connection was freed but
  is still the thread's.\<close>

definition get_r_info :: "env \<Rightarrow> hook_locals \<Rightarrow> host \<Rightarrow> trace \<Rightarrow> (r_info option \<times> host \<times> trace) run" where
  "get_r_info E J hs h =
     (if tls_freed hs then faults Use_after_free
      else case tls hs of
        Some ri \<Rightarrow> returns (Some ri, hs, h)
      | None \<Rightarrow>
          and_then (set_req_sock E (j_wc J) (global_r_info hs) 0 (req_code RDMA_REQ_NEW_RDMA_CONN) 0 0 None
              (Some (errno hs)) None h)
            (\<lambda>(v, g, e, _, h).
              let hs = hs\<lparr>global_r_info := g, errno := the e\<rparr> in
              if sint v < 1 then returns (None, hs, h)
              else if \<not> j_malloc J then returns (None, hs, h)
              else
                let ri = the (snd (null_client_r_info (Some (j_fresh J)))) in
                case connect_server E (server_sockaddr hs) ri h of
                  None \<Rightarrow> None
                | Some (v, ri, h) \<Rightarrow>
                    if v \<noteq> 0 then returns (None, hs, h)
                    else returns (Some ri, hs\<lparr>tls := Some ri\<rparr>, h)))"

text \<open>Recording a new descriptor; when that fails the connection is freed.\<close>

definition register_fd :: "hook_locals \<Rightarrow> host \<Rightarrow> c_int \<Rightarrow> c_int \<Rightarrow> bool \<times> host" where
  "register_fd J hs fd v =
     (let (ok, ht) = fd_insertByValue (j_node J) (fd_ht hs) fd v;
          hs = hs\<lparr>fd_ht := ht\<rparr>
      in if ok then (True, hs) else (False, hs\<lparr>tls_freed := True\<rparr>))"

text \<open>The data of the request of the thread's connection, which the serialisers write, and of
  its reply, which the deserialisers read; following a missing connection is a fault.\<close>

definition with_req_data ::
    "host \<Rightarrow> (buf \<Rightarrow> fault + buf option) \<Rightarrow> (host \<Rightarrow> 'a run) \<Rightarrow> 'a run" where
  "with_req_data hs f k =
     (case tls hs of None \<Rightarrow> faults Null_deref
      | Some ri \<Rightarrow>
          (case f (req_data (r_req ri)) of
             Inl e \<Rightarrow> faults e
           | Inr d \<Rightarrow> k (hs\<lparr>tls := Some (ri\<lparr>r_req := (r_req ri)\<lparr>req_data := the d\<rparr>\<rparr>)\<rparr>)))"

definition rtn_data_of :: "host \<Rightarrow> buf" where
  "rtn_data_of hs = (case tls hs of None \<Rightarrow> (\<lambda>_. 0) | Some ri \<Rightarrow> rtn_data (r_rtn ri))"

definition clear_data :: "host \<Rightarrow> host" where
  "clear_data hs =
     hs\<lparr>tls := map_option (\<lambda>ri. ri\<lparr>r_req := (r_req ri)\<lparr>req_data := buf_zero (req_data (r_req ri)) 0 BUFFER_SIZE\<rparr>\<rparr>) (tls hs)\<rparr>"

text \<open>The original function: its result as an \<open>int\<close> and its \<open>errno\<close>.\<close>

definition original :: "env \<Rightarrow> host \<Rightarrow> orig_call \<Rightarrow> trace \<Rightarrow> resp \<times> host \<times> trace" where
  "original E hs c h = (let (r, h) = ext E (Libc c) h in (r, hs\<lparr>errno := err r\<rparr>, h))"

section \<open>Descriptors\<close>

definition req_sock :: "env \<Rightarrow> hook_locals \<Rightarrow> host \<Rightarrow> trace \<Rightarrow> (c_int \<times> host \<times> trace) run" where
  "req_sock E J hs h =
     and_then (get_r_info E J hs h) (\<lambda>(_, hs, h).
       and_then (request E J hs 0 RDMA_REQ_SOCKET 0 0 None None h) (\<lambda>(fd, _, hs, h).
         if \<not> positive fd then returns (- 1, hs, h)
         else if sint fd \<le> 2 then returns (- 1, hs, h)
         else
           let (ok, hs) = register_fd J hs fd (tid hs)
           in if ok then returns (fd, hs, h) else returns (- 1, hs, h)))"

text \<open>The port of an address, as \<open>connect\<close> and \<open>bind\<close> compute it.\<close>

definition port_of :: "sockaddr \<Rightarrow> u16" where
  "port_of a = (if sin_family a = AF_INET \<or> sin_family a = AF_INET6 then htons (sin_port a) else 0)"

text \<open>The result of the request is overwritten by that of the insertion, which stores the
  descriptor a second time.\<close>

definition req_connect ::
    "env \<Rightarrow> hook_locals \<Rightarrow> host \<Rightarrow> c_int \<Rightarrow> sockaddr \<Rightarrow> u32 \<Rightarrow> trace \<Rightarrow> (c_int \<times> host \<times> trace) run" where
  "req_connect E J hs fd addr addrlen h =
     (let t = searchByKey_fd (fd_ht hs) fd in
      if t = 0 then
        let (r, hs, h) = original E hs (Orig_connect fd addr addrlen) h in returns (ret r, hs, h)
      else
        and_then (get_r_info E J hs h) (\<lambda>(_, hs, h).
          and_then (request E J hs fd RDMA_REQ_CONNECT 0 (port_of addr) None None h) (\<lambda>(_, _, hs, h).
            let (ok, hs) = register_fd J hs fd t
            in if ok then returns (1, hs, h) else returns (- 1, hs, h))))"

definition req_close :: "env \<Rightarrow> hook_locals \<Rightarrow> host \<Rightarrow> c_int \<Rightarrow> trace \<Rightarrow> (c_int \<times> host \<times> trace) run" where
  "req_close E J hs fd h =
     (if searchByKey_fd (fd_ht hs) fd = 0 then
        let (r, hs, h) = original E hs (Orig_close fd) h in returns (ret r, hs, h)
      else
        and_then (get_r_info E J hs h) (\<lambda>(_, hs, h).
          and_then (request E J hs fd RDMA_REQ_CLOSE 0 0 None None h) (\<lambda>(v, _, hs, h).
            returns (v, hs\<lparr>fd_ht := fd_deleteByKey (fd_ht hs) fd\<rparr>, h))))"

text \<open>The port is computed and not used.\<close>

definition req_bind ::
    "env \<Rightarrow> hook_locals \<Rightarrow> host \<Rightarrow> c_int \<Rightarrow> sockaddr \<Rightarrow> u32 \<Rightarrow> trace \<Rightarrow> (c_int \<times> host \<times> trace) run" where
  "req_bind E J hs fd addr addrlen h =
     (if fd_searchByKey (fd_ht hs) fd = 0 then
        let (r, hs, h) = original E hs (Orig_bind fd addr addrlen) h in returns (ret r, hs, h)
      else
        and_then (get_r_info E J hs h) (\<lambda>(ri, hs, h).
          if ri = None then
            let (r, hs, h) = original E hs (Orig_bind fd addr addrlen) h in returns (ret r, hs, h)
          else
            let port = port_of addr in
            and_then (request E J hs fd RDMA_REQ_BIND 0 8080 None None h) (\<lambda>(v, _, hs, h). returns (v, hs, h))))"

definition req_listen ::
    "env \<Rightarrow> hook_locals \<Rightarrow> host \<Rightarrow> c_int \<Rightarrow> c_int \<Rightarrow> trace \<Rightarrow> (c_int \<times> host \<times> trace) run" where
  "req_listen E J hs fd backlog h =
     (if fd_searchByKey (fd_ht hs) fd = 0 then
        let (r, hs, h) = original E hs (Orig_listen fd backlog) h in returns (ret r, hs, h)
      else
        and_then (get_r_info E J hs h) (\<lambda>(ri, hs, h).
          if ri = None then
            let (r, hs, h) = original E hs (Orig_listen fd backlog) h in returns (ret r, hs, h)
          else
            and_then (request E J hs fd RDMA_REQ_LISTEN 0 0 None None h) (\<lambda>(v, _, hs, h). returns (v, hs, h))))"

text \<open>The address arguments are ignored when the call is forwarded.\<close>

definition req_accept :: "env \<Rightarrow> hook_locals \<Rightarrow> host \<Rightarrow> c_int \<Rightarrow> trace \<Rightarrow> (c_int \<times> host \<times> trace) run" where
  "req_accept E J hs fd h =
     (if fd_searchByKey (fd_ht hs) fd = 0 then
        let (r, hs, h) = original E hs (Orig_accept fd) h in returns (ret r, hs, h)
      else
        and_then (get_r_info E J hs h) (\<lambda>(_, hs, h).
          and_then (request E J hs fd RDMA_REQ_ACCEPT 0 0 None None h) (\<lambda>(new_fd, _, hs, h).
            if positive new_fd then
              let (ok, hs) = register_fd J hs new_fd (tid hs)
              in if ok then returns (new_fd, hs, h) else returns (- 1, hs, h)
            else returns (new_fd, hs, h))))"

section \<open>Data\<close>

text \<open>An \<open>int\<close> result is returned as a \<open>ssize_t\<close>. The four functions differ in how they look
  the descriptor up.\<close>

definition forward_write ::
    "env \<Rightarrow> hook_locals \<Rightarrow> host \<Rightarrow> c_int \<Rightarrow> byte list \<Rightarrow> trace \<Rightarrow> (i64 \<times> host \<times> trace) run" where
  "forward_write E J hs fd bs h =
     and_then (get_r_info E J hs h) (\<lambda>(_, hs, h).
       and_then (request E J hs fd RDMA_REQ_WRITE (word_of_nat (length bs)) 0 (Some bs) None h) (\<lambda>(v, _, hs, h).
         returns (scast v, clear_data hs, h)))"

definition req_send ::
    "env \<Rightarrow> hook_locals \<Rightarrow> host \<Rightarrow> c_int \<Rightarrow> byte list \<Rightarrow> c_int \<Rightarrow> trace \<Rightarrow> (i64 \<times> host \<times> trace) run" where
  "req_send E J hs fd bs flags h =
     (if searchByKey_fd (fd_ht hs) fd = 0 then
        let (r, hs, h) = original E hs (Orig_send fd bs flags) h in returns (rv r, hs, h)
      else forward_write E J hs fd bs h)"

definition req_write ::
    "env \<Rightarrow> hook_locals \<Rightarrow> host \<Rightarrow> c_int \<Rightarrow> byte list \<Rightarrow> trace \<Rightarrow> (i64 \<times> host \<times> trace) run" where
  "req_write E J hs fd bs h =
     (if fd_searchByKey (fd_ht hs) fd = 0 then
        let (r, hs, h) = original E hs (Orig_write fd bs) h in returns (rv r, hs, h)
      else forward_write E J hs fd bs h)"

text \<open>The buffer of \<open>length bs\<close> bytes is the destination.\<close>

definition req_read ::
    "env \<Rightarrow> hook_locals \<Rightarrow> host \<Rightarrow> c_int \<Rightarrow> byte list \<Rightarrow> trace \<Rightarrow> (i64 \<times> byte list \<times> host \<times> trace) run" where
  "req_read E J hs fd bs h =
     (if searchByKey_fd (fd_ht hs) fd = 0 then
        let (r, hs, h) = original E hs (Orig_read fd (word_of_nat (length bs))) h
        in returns (rv r, out_bytes r @ drop (length (out_bytes r)) bs, hs, h)
      else
        and_then (get_r_info E J hs h) (\<lambda>(_, hs, h).
          and_then (request E J hs fd RDMA_REQ_READ (word_of_nat (length bs)) 0 (Some bs) (Some bs) h)
            (\<lambda>(v, b, hs, h). returns (scast v, the b, hs, h))))"

definition req_recv ::
    "env \<Rightarrow> hook_locals \<Rightarrow> host \<Rightarrow> c_int \<Rightarrow> byte list \<Rightarrow> c_int \<Rightarrow> trace \<Rightarrow> (i64 \<times> byte list \<times> host \<times> trace) run" where
  "req_recv E J hs fd bs flags h =
     (if searchByKey_fd (fd_ht hs) fd = 0 then
        let (r, hs, h) = original E hs (Orig_recv fd (word_of_nat (length bs)) flags) h
        in returns (rv r, out_bytes r @ drop (length (out_bytes r)) bs, hs, h)
      else
        and_then (get_r_info E J hs h) (\<lambda>(_, hs, h).
          and_then (request E J hs fd RDMA_REQ_READ (word_of_nat (length bs)) 0 None (Some bs) h)
            (\<lambda>(v, b, hs, h). returns (scast v, the b, hs, h))))"

section \<open>Waiting for events\<close>

text \<open>The update of the timeout by the original \<open>select\<close> is not part of the result.\<close>

definition req_select ::
    "env \<Rightarrow> hook_locals \<Rightarrow> host \<Rightarrow> c_int \<Rightarrow> fd_set option \<Rightarrow> fd_set option \<Rightarrow> fd_set option \<Rightarrow> timeval option \<Rightarrow> trace
      \<Rightarrow> (c_int \<times> (fd_set option \<times> fd_set option \<times> fd_set option) \<times> host \<times> trace) run" where
  "req_select E J hs nfds readfds writefds exceptfds timeout h =
     (if fd_searchByKey (fd_ht hs) (nfds - 1) = 0 then
        let (r, hs, h) = original E hs (Orig_select nfds readfds writefds exceptfds timeout) h
        in returns (ret r, (map_option (\<lambda>_. out_readfds r) readfds, map_option (\<lambda>_. out_writefds r) writefds,
             map_option (\<lambda>_. out_exceptfds r) exceptfds), hs, h)
      else
        and_then (get_r_info E J hs h) (\<lambda>(_, hs, h).
          with_req_data hs (\<lambda>d. serialize_select_fd_set (Some d) (Some nfds) readfds writefds exceptfds timeout) (\<lambda>hs.
            and_then (request E J hs 0 RDMA_REQ_SELECT 0 0 None None h) (\<lambda>(v, _, hs, h).
              if positive v then
                (case deserialize_select_fd_set (Some (rtn_data_of hs)) (Some nfds) readfds writefds exceptfds None of
                   Inl e \<Rightarrow> faults e
                 | Inr (_, rd, wr, ex, _) \<Rightarrow> returns (v, (rd, wr, ex), hs, h))
              else returns (v, (readfds, writefds, exceptfds), hs, h)))))"

definition req_epoll_create1 :: "env \<Rightarrow> hook_locals \<Rightarrow> host \<Rightarrow> c_int \<Rightarrow> trace \<Rightarrow> (c_int \<times> host \<times> trace) run" where
  "req_epoll_create1 E J hs flags h =
     and_then (get_r_info E J hs h) (\<lambda>(ri, hs, h).
       if ri = None then
         let (r, hs, h) = original E hs (Orig_epoll_create1 flags) h in returns (ret r, hs, h)
       else
         with_req_data hs (\<lambda>d. Inr (serialize_epoll_create_dt (Some d) (Some flags))) (\<lambda>hs.
           and_then (request E J hs 0 RDMA_REQ_EPOLL_CREATE1 0 0 None None h) (\<lambda>(epfd, _, hs, h).
             if positive epfd then
               let (ok, hs) = register_fd J hs epfd (tid hs)
               in if ok then returns (epfd, hs, h) else returns (- 1, hs, h)
             else returns (epfd, hs, h))))"

definition req_epoll_ctl ::
    "env \<Rightarrow> hook_locals \<Rightarrow> host \<Rightarrow> c_int \<Rightarrow> c_int \<Rightarrow> c_int \<Rightarrow> epoll_event option \<Rightarrow> trace \<Rightarrow> (c_int \<times> host \<times> trace) run" where
  "req_epoll_ctl E J hs epfd op fd event h =
     (if fd_searchByKey (fd_ht hs) epfd = 0 then
        let (r, hs, h) = original E hs (Orig_epoll_ctl epfd op fd event) h in returns (ret r, hs, h)
      else
        and_then (get_r_info E J hs h) (\<lambda>(_, hs, h).
          with_req_data hs (\<lambda>d. Inr (serialize_epoll_ctl_dt (Some d) (Some epfd) (Some op) (Some fd) event)) (\<lambda>hs.
            and_then (request E J hs epfd RDMA_REQ_EPOLL_CTL 0 0 None None h) (\<lambda>(v, _, hs, h).
              returns (v, hs, h)))))"

text \<open>The serialiser is given the address of the pointer \<open>events\<close>, of which it reads nothing
  because the count is 0. The reply is deserialised even when the call has failed.\<close>

definition req_epoll_wait ::
    "env \<Rightarrow> hook_locals \<Rightarrow> host \<Rightarrow> c_int \<Rightarrow> epoll_event list option \<Rightarrow> c_int \<Rightarrow> c_int \<Rightarrow> trace
      \<Rightarrow> (c_int \<times> epoll_event list option \<times> host \<times> trace) run" where
  "req_epoll_wait E J hs epfd events maxevents timeout h =
     (if fd_searchByKey (fd_ht hs) epfd = 0 then
        let (r, hs, h) = original E hs (Orig_epoll_wait epfd maxevents timeout) h
        in returns (ret r, map_option (\<lambda>evs. out_events r @ drop (length (out_events r)) evs) events, hs, h)
      else
        and_then (get_r_info E J hs h) (\<lambda>(_, hs, h).
          with_req_data hs (\<lambda>d. serialize_epoll_wait_dt None (Some d) (Some 0) (Some epfd) (Some maxevents)
              (Some timeout) (Some [])) (\<lambda>hs.
            and_then (request E J hs epfd RDMA_REQ_EPOLL_WAIT 0 0 None None h) (\<lambda>(v, _, hs, h).
              case deserialize_epoll_wait_dt (Some (rtn_data_of hs)) (Some 0) (Some epfd) (Some maxevents)
                     (Some timeout) events of
                Inl e \<Rightarrow> faults e
              | Inr (_, _, _, _, evs) \<Rightarrow> returns (v, evs, hs, h)))))"

definition req_poll ::
    "env \<Rightarrow> hook_locals \<Rightarrow> host \<Rightarrow> pollfd list \<Rightarrow> u64 \<Rightarrow> c_int \<Rightarrow> trace
      \<Rightarrow> (c_int \<times> pollfd list \<times> host \<times> trace) run" where
  "req_poll E J hs fds nfds timeout h =
     (case fds of [] \<Rightarrow> faults Out_of_bounds
      | p # _ \<Rightarrow>
          if fd_searchByKey (fd_ht hs) (pfd_fd p) = 0 then
            let (r, hs, h) = original E hs (Orig_poll fds nfds timeout) h in returns (ret r, out_pollfds r, hs, h)
          else
            and_then (get_r_info E J hs h) (\<lambda>(_, hs, h).
              with_req_data hs (\<lambda>d. serialize_poll_pollfd (Some d) (Some fds) (Some nfds) (Some timeout)) (\<lambda>hs.
                and_then (request E J hs (pfd_fd p) RDMA_REQ_POLL 0 0 None None h) (\<lambda>(v, _, hs, h).
                  if positive v then
                    (case deserialize_poll_pollfd True (Some (rtn_data_of hs)) (Some (Some fds)) (Some nfds) (Some timeout) of
                       Inr (Some (Some fds'), _, _) \<Rightarrow> returns (v, fds', hs, h)
                     | Inr _ \<Rightarrow> returns (v, fds, hs, h)
                     | Inl e \<Rightarrow> faults e)
                  else returns (v, fds, hs, h)))))"

section \<open>Options and names\<close>

text \<open>\<open>fcntl\<close> calls \<open>req_fcntl\<close> without the variable argument, so \<open>va_arg\<close> yields an indeterminate
  integer or pointer. The original function is given the \<open>va_list\<close> itself, which is an array and so
  decays to its address, as its third argument. And the address of the parameter \<open>fd\<close> is passed as the flag variable of
  the serialiser, so the request goes to the descriptor with the number of the flag.\<close>

definition req_fcntl :: "env \<Rightarrow> hook_locals \<Rightarrow> host \<Rightarrow> c_int \<Rightarrow> c_int \<Rightarrow> trace \<Rightarrow> (c_int \<times> host \<times> trace) run" where
  "req_fcntl E J hs fd cmd h =
     (if fd_searchByKey (fd_ht hs) fd = 0 then
        let (r, hs, h) = original E hs (Orig_fcntl fd cmd (j_va_list J)) h in returns (ret r, hs, h)
      else
        and_then (get_r_info E J hs h) (\<lambda>(_, hs, h).
          let arg = (if cmd = F_GETLK \<or> cmd = F_SETLK \<or> cmd = F_SETLKW then j_va_ptr J else Some (j_va_int J)) in
          case tls hs of None \<Rightarrow> faults Null_deref
          | Some ri \<Rightarrow>
              (case serialize_fcntl_dt (Some (req_data (r_req ri))) (Some fd) (Some cmd) arg of
                 Inl e \<Rightarrow> faults e
               | Inr (d, fd) \<Rightarrow>
                   and_then (request E J (hs\<lparr>tls := Some (ri\<lparr>r_req := (r_req ri)\<lparr>req_data := the d\<rparr>\<rparr>)\<rparr>) (the fd)
                       RDMA_REQ_FCNTL 0 0 None None h)
                     (\<lambda>(v, _, hs, h). returns (v, hs, h)))))"

definition req_setsockopt ::
    "env \<Rightarrow> hook_locals \<Rightarrow> host \<Rightarrow> c_int \<Rightarrow> c_int \<Rightarrow> c_int \<Rightarrow> byte list option \<Rightarrow> u32 \<Rightarrow> trace
      \<Rightarrow> (c_int \<times> host \<times> trace) run" where
  "req_setsockopt E J hs fd level optname optval optlen h =
     (if fd_searchByKey (fd_ht hs) fd = 0 then
        let (r, hs, h) = original E hs (Orig_setsockopt fd level optname optval optlen) h in returns (ret r, hs, h)
      else
        and_then (get_r_info E J hs h) (\<lambda>(_, hs, h).
          with_req_data hs (\<lambda>d. serialize_sockopt_dt (Some d) (Some level) (Some optname) optval (Some optlen)) (\<lambda>hs.
            and_then (request E J hs fd RDMA_REQ_SETSOCKOPT 0 0 None None h) (\<lambda>(v, _, hs, h).
              returns (v, hs, h)))))"

text \<open>Nothing is serialised, and the value is stored into a new allocation that only the local
  copy of \<open>optval\<close> points to: of the caller's variables only \<open>*optlen\<close> changes.\<close>

definition req_getsockopt ::
    "env \<Rightarrow> hook_locals \<Rightarrow> host \<Rightarrow> c_int \<Rightarrow> c_int \<Rightarrow> c_int \<Rightarrow> byte list option \<Rightarrow> u32 option \<Rightarrow> trace
      \<Rightarrow> (c_int \<times> byte list option \<times> u32 option \<times> host \<times> trace) run" where
  "req_getsockopt E J hs fd level optname optval optlen h =
     (if fd_searchByKey (fd_ht hs) fd = 0 then
        let (r, hs, h) = original E hs (Orig_getsockopt fd level optname optlen) h
        in returns (ret r, map_option (\<lambda>v. out_bytes r @ drop (length (out_bytes r)) v) optval,
             map_option (\<lambda>_. out_len r) optlen, hs, h)
      else
        and_then (get_r_info E J hs h) (\<lambda>(_, hs, h).
          and_then (request E J hs fd RDMA_REQ_GETSOCKOPT 0 0 None None h) (\<lambda>(v, _, hs, h).
            case deserialize_sockopt_dt (j_malloc J) (Some (rtn_data_of hs)) (Some level) (Some optname) optval optlen of
              Inl e \<Rightarrow> faults e
            | Inr (_, _, _, optlen) \<Rightarrow> returns (v, optval, optlen, hs, h))))"

text \<open>The request number is that of \<open>getsockopt\<close>.\<close>

definition req_getpeername ::
    "env \<Rightarrow> hook_locals \<Rightarrow> host \<Rightarrow> c_int \<Rightarrow> sockaddr option \<Rightarrow> u32 option \<Rightarrow> trace
      \<Rightarrow> (c_int \<times> sockaddr option \<times> u32 option \<times> host \<times> trace) run" where
  "req_getpeername E J hs fd addr addrlen h =
     (if fd_searchByKey (fd_ht hs) fd = 0 then
        let (r, hs, h) = original E hs (Orig_getpeername fd addr addrlen) h
        in returns (ret r, map_option (\<lambda>_. out_addr r) addr, map_option (\<lambda>_. out_len r) addrlen, hs, h)
      else
        and_then (get_r_info E J hs h) (\<lambda>(_, hs, h).
          with_req_data hs (\<lambda>d. Inr (serialize_addr_dt (Some d) addrlen addr)) (\<lambda>hs.
            and_then (request E J hs fd RDMA_REQ_GETSOCKOPT 0 0 None None h) (\<lambda>(v, _, hs, h).
              let (addrlen, addr) = deserialize_addr_dt (Some (rtn_data_of hs)) addrlen addr
              in returns (v, addr, addrlen, hs, h)))))"

text \<open>The bytes of the address \<open>10.0.10.22\<close>.\<close>

definition DEFAULT_RDMA_CLIENT_IP :: "byte list" where
  "DEFAULT_RDMA_CLIENT_IP = [10, 0, 10, 22]"

text \<open>After the reply has been deserialised the address is overwritten from the start of the
  data, where the length is, and its address part by the configured one.\<close>

definition req_getsockname ::
    "env \<Rightarrow> hook_locals \<Rightarrow> host \<Rightarrow> c_int \<Rightarrow> sockaddr option \<Rightarrow> u32 option \<Rightarrow> trace
      \<Rightarrow> (c_int \<times> sockaddr option \<times> u32 option \<times> host \<times> trace) run" where
  "req_getsockname E J hs fd addr addrlen h =
     (if fd_searchByKey (fd_ht hs) fd = 0 then
        let (r, hs, h) = original E hs (Orig_getsockname fd addr addrlen) h
        in returns (ret r, map_option (\<lambda>_. out_addr r) addr, map_option (\<lambda>_. out_len r) addrlen, hs, h)
      else
        and_then (get_r_info E J hs h) (\<lambda>(_, hs, h).
          with_req_data hs (\<lambda>d. Inr (serialize_addr_dt (Some d) addrlen addr)) (\<lambda>hs.
            and_then (request E J hs fd RDMA_REQ_GETSOCKNAME 0 0 None None h) (\<lambda>(v, _, hs, h).
              let (addrlen, addr) = deserialize_addr_dt (Some (rtn_data_of hs)) addrlen addr in
              if v \<noteq> 0 then returns (v, addr, addrlen, hs, h)
              else if addr = None \<or> addrlen = None then faults Null_deref
              else returns (v, Some ((dec_sockaddr (buf_get (rtn_data_of hs) 0 16))\<lparr>sin_addr := of_le DEFAULT_RDMA_CLIENT_IP\<rparr>),
                     Some 16, hs, h)))))"

section \<open>Threads and the process\<close>

text \<open>The pointer \<open>original_pthread_exit\<close> is initialised only in the variant of the library without
  \<open>LD_PRELOAD\<close>: the call at the end is one through a null pointer.\<close>

definition req_pthread_exit :: "env \<Rightarrow> hook_locals \<Rightarrow> host \<Rightarrow> trace \<Rightarrow> (host \<times> trace) run" where
  "req_pthread_exit E J hs h =
     and_then (get_r_info E J hs h) (\<lambda>(_, hs, h).
       and_then (request E J hs 0 RDMA_REQ_DEL_RDMA_CONN 0 0 None None h) (\<lambda>(_, _, hs, h).
         case tls hs of None \<Rightarrow> faults Null_deref
         | Some ri \<Rightarrow>
             let (v, ri, h) = client_disconnect_and_clean E ri h;
                 hs = hs\<lparr>tls := Some ri, fd_ht := fd_deleteByValue (fd_ht hs) (tid hs)\<rparr>;
                 original_pthread_exit = (None :: unit option)
             in case original_pthread_exit of None \<Rightarrow> faults Null_deref | Some _ \<Rightarrow> returns (hs, h)))"

text \<open>The process: the shared connection is made, the application's own \<open>main\<close> runs (\<open>app\<close>), and the
  main thread's connection is closed. \<open>app\<close> is a parameter: any program over the hooks.\<close>

definition my_main ::
    "env \<Rightarrow> hook_locals \<Rightarrow> (host \<Rightarrow> trace \<Rightarrow> (c_int \<times> host \<times> trace) run) \<Rightarrow> c_int \<Rightarrow> trace \<Rightarrow> (c_int \<times> host \<times> trace) run" where
  "my_main E J app t h =
     (let (addr, h) = set_sockaddr E h;
          hs = \<lparr>fd_ht = createFDHashTable, tls = None, tls_freed = False, global_r_info = None,
                server_sockaddr = addr, tid = t, errno = 0\<rparr> in
      if \<not> j_malloc J then returns (- 1, hs, h)
      else
        let g = the (snd (null_client_r_info (Some (j_fresh J)))) in
        case connect_server E addr g h of
          None \<Rightarrow> None
        | Some (v, g, h) \<Rightarrow>
            if v \<noteq> 0 then returns (- 1, hs, h)
            else
              and_then (app (hs\<lparr>global_r_info := Some g\<rparr>) h) (\<lambda>(_, hs, h).
                and_then (get_r_info E J hs h) (\<lambda>(_, hs, h).
                  and_then (request E J hs 0 RDMA_REQ_DEL_RDMA_CONN 0 0 None None h) (\<lambda>(_, _, hs, h).
                    case tls hs of None \<Rightarrow> faults Null_deref
                    | Some ri \<Rightarrow>
                        let (v, ri, h) = client_disconnect_and_clean E ri h
                        in returns (0, hs\<lparr>tls := Some ri\<rparr>, h)))))"

end
