(* ===== verification/Socket.thy ===== *)
theory Socket
  imports Env Wire
begin

text \<open>
  The SmartNIC's socket handlers, \<open>snic/socket.c\<close>: each executes one request on the kernel
  and fills in the return message. The messages are never \<open>NULL\<close> (the dispatcher passes
  addresses of members), so the tests for that are left out. \<open>locals\<close> holds what is
  indeterminate when a handler runs: its uninitialised variables and whether \<open>malloc\<close>
  succeeds. The prints between a call and the use of \<open>errno\<close> do not change \<open>errno\<close>.
\<close>

record locals =
  l_sin_zero :: u64
  l_readfds :: fd_set
  l_writefds :: fd_set
  l_exceptfds :: fd_set
  l_int :: c_int
  l_nfds :: u64
  l_event :: epoll_event
  l_events :: "epoll_event list"
  l_optval :: "byte list option"
  l_addr :: sockaddr
  l_malloc :: bool
  l_info :: ptr

definition inet_addr :: "byte list \<Rightarrow> u32" where
  "inet_addr ip = of_le ip"

section \<open>Calls with scalar arguments\<close>

text \<open>\<open>if (c) rtn_msg_->errno_ = errno\<close>.\<close>

definition errno_if :: "bool \<Rightarrow> resp \<Rightarrow> rtn_msg \<Rightarrow> rtn_msg" where
  "errno_if c r m = (if c then m\<lparr>rtn_errno := err r\<rparr> else m)"

definition sock_socket :: "env \<Rightarrow> rtn_msg \<Rightarrow> trace \<Rightarrow> c_int \<times> rtn_msg \<times> trace" where
  "sock_socket E m h =
     (let (r, h) = ext E (Sys (Sys_socket (ucast AF_INET) SOCK_STREAM 0)) h;
          m = m\<lparr>rtn_value := scast (ret r)\<rparr>;
          m = errno_if (\<not> positive (rtn_value m)) r m
      in (ucast (rtn_value m), m, h))"

definition in_address :: "locals \<Rightarrow> u16 \<Rightarrow> u32 \<Rightarrow> sockaddr" where
  "in_address L port ip = \<lparr>sin_family = AF_INET, sin_port = htons port, sin_addr = ip, sin_zero = l_sin_zero L\<rparr>"

definition sock_bind :: "env \<Rightarrow> locals \<Rightarrow> rtn_msg \<Rightarrow> c_int \<Rightarrow> u16 \<Rightarrow> trace \<Rightarrow> bool \<times> rtn_msg \<times> trace" where
  "sock_bind E L m sockfd port h =
     (let (r, h) = ext E (Sys (Sys_bind sockfd (in_address L port INADDR_ANY) 16)) h;
          m = m\<lparr>rtn_value := scast (ret r)\<rparr>;
          m = errno_if (negative (rtn_value m)) r m
      in (rtn_value m \<noteq> 0, m, h))"

definition sock_listen :: "env \<Rightarrow> rtn_msg \<Rightarrow> c_int \<Rightarrow> trace \<Rightarrow> bool \<times> rtn_msg \<times> trace" where
  "sock_listen E m sockfd h =
     (let (r, h) = ext E (Sys (Sys_listen sockfd 1024)) h;
          m = m\<lparr>rtn_value := scast (ret r)\<rparr>;
          m = errno_if (negative (rtn_value m)) r m
      in (rtn_value m \<noteq> 0, m, h))"

text \<open>The third argument of \<open>accept\<close> is a pointer; the code passes the length itself, so the
  kernel is given the address 16.\<close>

definition sock_accept :: "env \<Rightarrow> locals \<Rightarrow> rtn_msg \<Rightarrow> c_int \<Rightarrow> u16 \<Rightarrow> trace \<Rightarrow> c_int \<times> rtn_msg \<times> trace" where
  "sock_accept E L m sockfd port h =
     (let addrlen = 16;
          (r, h) = ext E (Sys (Sys_accept sockfd (in_address L port INADDR_ANY) addrlen)) h;
          m = m\<lparr>rtn_value := scast (ret r)\<rparr>;
          m = errno_if (negative (rtn_value m)) r m
      in (ucast (rtn_value m), m, h))"

definition sock_close :: "env \<Rightarrow> rtn_msg \<Rightarrow> c_int \<Rightarrow> trace \<Rightarrow> rtn_msg \<times> trace" where
  "sock_close E m sockfd h =
     (let (r, h) = ext E (Sys (Sys_close sockfd)) h;
          m = m\<lparr>rtn_value := scast (ret r)\<rparr>;
          m = errno_if (negative (rtn_value m)) r m
      in (m, h))"

definition sock_connect :: "env \<Rightarrow> locals \<Rightarrow> rtn_msg \<Rightarrow> c_int \<Rightarrow> u16 \<Rightarrow> trace \<Rightarrow> bool \<times> rtn_msg \<times> trace" where
  "sock_connect E L m sockfd port h =
     (let addrlen = 16;
          address = in_address L port (inet_addr DEFAULT_RDMA_SERVER_IP);
          (r, h) = ext E (Sys (Sys_connect sockfd address addrlen)) h;
          m = m\<lparr>rtn_value := scast (ret r)\<rparr>
      in if negative (rtn_value m)
         then let m = m\<lparr>rtn_errno := err r\<rparr> in (rtn_value m \<noteq> 0, m, h)
         else (rtn_value m \<noteq> 0, m, h))"

section \<open>Sending and reading\<close>

text \<open>\<open>data_sz\<close> is an \<open>int\<close> that the call converts to \<open>size_t\<close>; \<open>data\<close> has \<open>BUFFER_SIZE\<close>
  bytes.\<close>

definition sock_send_message ::
    "env \<Rightarrow> rtn_msg \<Rightarrow> c_int \<Rightarrow> buf \<Rightarrow> c_int \<Rightarrow> trace \<Rightarrow> fault + rtn_msg \<times> trace" where
  "sock_send_message E m sockfd data data_sz h =
     (let n = unat (scast data_sz :: u64) in
      if BUFFER_SIZE < n then Inl Out_of_bounds
      else
        let (r, h) = ext E (Sys (Sys_send sockfd (buf_get data 0 n) 0)) h;
            m = m\<lparr>rtn_value := rv r\<rparr>;
            m = errno_if (negative (rtn_value m)) r m
        in Inr (m, h))"

definition sock_read_message ::
    "env \<Rightarrow> rtn_msg \<Rightarrow> c_int \<Rightarrow> c_int \<Rightarrow> trace \<Rightarrow> fault + c_int \<times> rtn_msg \<times> trace" where
  "sock_read_message E m sockfd count h =
     (let (r, h) = ext E (Sys (Sys_read sockfd (scast count))) h in
      if BUFFER_SIZE < length (out_bytes r) then Inl Out_of_bounds
      else
        let m = m\<lparr>rtn_data := buf_put (rtn_data m) 0 (out_bytes r), rtn_value := rv r\<rparr>;
            m = (if negative (rtn_value m) then m\<lparr>rtn_errno := err r\<rparr>
                 else if rtn_value m = 0 then m\<lparr>rtn_errno := err r\<rparr>
                 else m\<lparr>rtn_errno := 0\<rparr>)
        in Inr (ucast (rtn_value m), m, h))"

section \<open>Calls whose arguments are in the request's data\<close>

definition sock_select ::
    "env \<Rightarrow> locals \<Rightarrow> req_msg \<Rightarrow> rtn_msg \<Rightarrow> trace \<Rightarrow> fault + c_int \<times> rtn_msg \<times> trace" where
  "sock_select E L q m h =
     (case snic_deserialize_select_fd_set (Some (req_data q)) (Some (l_int L)) (Some (l_readfds L))
             (Some (l_writefds L)) (Some (l_exceptfds L)) (Some \<lparr>tv_sec = 0, tv_usec = 0\<rparr>) of
        Inl e \<Rightarrow> Inl e
      | Inr (Some nfds, Some readfds, Some writefds, Some exceptfds, Some timeout) \<Rightarrow>
          let (r, h) = ext E (Sys (Sys_select nfds readfds writefds exceptfds timeout)) h;
              m = m\<lparr>rtn_value := scast (ret r)\<rparr>
          in if ret r = - 1 then Inr (ret r, m\<lparr>rtn_errno := err r\<rparr>, h)
             else if positive (ret r) then
               (case snic_serialize_select_fd_set (Some (rtn_data m)) (Some nfds)
                       (Some (out_readfds r)) (Some (out_writefds r)) (Some (out_exceptfds r))
                       (Some (out_timeout r)) of
                  Inl e \<Rightarrow> Inl e
                | Inr d \<Rightarrow> Inr (ret r, m\<lparr>rtn_data := the d\<rparr>, h))
             else Inr (ret r, m, h)
      | Inr _ \<Rightarrow> Inl Null_deref)"

definition sock_epoll_create1 ::
    "env \<Rightarrow> req_msg \<Rightarrow> rtn_msg \<Rightarrow> trace \<Rightarrow> c_int \<times> rtn_msg \<times> trace" where
  "sock_epoll_create1 E q m h =
     (let flag = the (snic_deserialize_epoll_create_dt (Some (req_data q)) (Some 0));
          (r, h) = ext E (Sys (Sys_epoll_create1 flag)) h;
          epfd = ret r;
          m = m\<lparr>rtn_value := scast epfd\<rparr>
      in if epfd = - 1 then (- 1, m\<lparr>rtn_errno := err r\<rparr>, h) else (epfd, m, h))"

text \<open>The two probing \<open>fcntl\<close> calls only decide what is printed.\<close>

definition sock_epoll_ctl ::
    "env \<Rightarrow> locals \<Rightarrow> req_msg \<Rightarrow> rtn_msg \<Rightarrow> trace \<Rightarrow> c_int \<times> rtn_msg \<times> trace" where
  "sock_epoll_ctl E L q m h =
     (let (epfd, op, fd, events) =
            snic_deserialize_epoll_ctl_dt (Some (req_data q)) (Some (l_int L)) (Some (l_int L))
              (Some (l_int L)) (Some (l_event L));
          (r, h) = ext E (Sys (Sys_fcntl (the epfd) F_GETFD None)) h;
          (r, h) = ext E (Sys (Sys_fcntl (the fd) F_GETFD None)) h;
          (r, h) = ext E (Sys (Sys_epoll_ctl (the epfd) (the op) (the fd) (the events))) h;
          m = m\<lparr>rtn_value := scast (ret r)\<rparr>
      in if ret r = - 1 then (- 1, m\<lparr>rtn_errno := err r\<rparr>, h) else (0, m, h))"

text \<open>The array \<open>events\<close> has 100 elements, the kernel may store up to \<open>maxevents\<close>.\<close>

definition sock_epoll_wait ::
    "env \<Rightarrow> locals \<Rightarrow> req_msg \<Rightarrow> rtn_msg \<Rightarrow> trace \<Rightarrow> fault + c_int \<times> rtn_msg \<times> trace" where
  "sock_epoll_wait E L q m h =
     (case snic_deserialize_epoll_wait_dt (Some (req_data q)) (Some (l_int L)) (Some (l_int L))
             (Some (l_int L)) (Some (l_int L)) None of
        Inl e \<Rightarrow> Inl e
      | Inr (_, Some epfd, Some maxevents, Some timeout, _) \<Rightarrow>
          let (r, h) = ext E (Sys (Sys_epoll_wait epfd maxevents timeout)) h;
              nfds = ret r;
              m = m\<lparr>rtn_value := scast nfds\<rparr>
          in if 100 < length (out_events r) then Inl Out_of_bounds
             else if nfds = - 1 then Inr (- 1, m\<lparr>rtn_errno := err r\<rparr>, h)
             else
               let events = out_events r @ drop (length (out_events r)) (l_events L) in
               (case snic_serialize_epoll_wait_dt None (Some (rtn_data m)) (Some nfds) (Some epfd)
                       (Some maxevents) (Some timeout) (Some events) of
                  Inl e \<Rightarrow> Inl e
                | Inr d \<Rightarrow> Inr (nfds, m\<lparr>rtn_data := the d\<rparr>, h))
      | Inr _ \<Rightarrow> Inl Null_deref)"

text \<open>When the allocation of the array fails the kernel is given \<open>NULL\<close> and, should it accept
  that, nothing is serialised.\<close>

definition sock_poll ::
    "env \<Rightarrow> locals \<Rightarrow> req_msg \<Rightarrow> rtn_msg \<Rightarrow> trace \<Rightarrow> fault + c_int \<times> rtn_msg \<times> trace" where
  "sock_poll E L q m h =
     (case snic_deserialize_poll_pollfd (l_malloc L) (Some (req_data q)) (Some None)
             (Some (l_nfds L)) (Some (l_int L)) of
        Inl e \<Rightarrow> Inl e
      | Inr (Some pfd, Some nfds, Some timeout) \<Rightarrow>
          let (r, h) = ext E (Sys (Sys_poll pfd nfds timeout)) h;
              m = m\<lparr>rtn_value := scast (ret r)\<rparr>
          in if negative (ret r) then Inr (ret r, m\<lparr>rtn_errno := err r\<rparr>, h)
             else
               (case snic_serialize_poll_pollfd (Some (rtn_data m))
                       (map_option (\<lambda>_. out_pollfds r) pfd) (Some nfds) (Some timeout) of
                  Inl e \<Rightarrow> Inl e
                | Inr d \<Rightarrow> Inr (ret r, m\<lparr>rtn_data := the d\<rparr>, h))
      | Inr _ \<Rightarrow> Inl Null_deref)"

text \<open>With an argument the third argument of \<open>fcntl\<close> is the pointer to it, for the commands
  that take an integer too.\<close>

definition sock_fcntl ::
    "env \<Rightarrow> locals \<Rightarrow> req_msg \<Rightarrow> rtn_msg \<Rightarrow> c_int \<Rightarrow> trace \<Rightarrow> c_int \<times> rtn_msg \<times> trace" where
  "sock_fcntl E L q m sockfd h =
     (let (flag, cmd, arg) =
            snic_deserialize_fcntl_dt (l_malloc L) (Some (req_data q)) (Some (l_int L)) (Some (l_int L)) None;
          (r, h) = (if the flag = 0 then ext E (Sys (Sys_fcntl sockfd (the cmd) None)) h
                    else ext E (Sys (Sys_fcntl sockfd (the cmd) (Some arg))) h);
          m = m\<lparr>rtn_value := scast (ret r)\<rparr>
      in if negative (ret r) then (- 1, m\<lparr>rtn_errno := err r\<rparr>, h) else (ret r, m, h))"

text \<open>Neither of the next two handlers stores \<open>rtn_value\<close>.\<close>

definition sock_setsockopt ::
    "env \<Rightarrow> locals \<Rightarrow> req_msg \<Rightarrow> rtn_msg \<Rightarrow> c_int \<Rightarrow> trace \<Rightarrow> fault + c_int \<times> rtn_msg \<times> trace" where
  "sock_setsockopt E L q m sockfd h =
     (case snic_deserialize_sockopt_dt (l_malloc L) (Some (req_data q)) (Some (l_int L)) (Some (l_int L))
             (l_optval L) (Some 0) of
        Inl e \<Rightarrow> Inl e
      | Inr (Some level, Some optname, optval, Some optlen) \<Rightarrow>
          let (r, h) = ext E (Sys (Sys_setsockopt sockfd level optname optval optlen)) h
          in if negative (ret r) then Inr (- 1, m\<lparr>rtn_errno := err r\<rparr>, h) else Inr (ret r, m, h)
      | Inr _ \<Rightarrow> Inl Null_deref)"

definition sock_getsockopt ::
    "env \<Rightarrow> locals \<Rightarrow> req_msg \<Rightarrow> rtn_msg \<Rightarrow> c_int \<Rightarrow> trace \<Rightarrow> fault + c_int \<times> rtn_msg \<times> trace" where
  "sock_getsockopt E L q m sockfd h =
     (case snic_deserialize_sockopt_dt (l_malloc L) (Some (req_data q)) (Some (l_int L)) (Some (l_int L))
             (l_optval L) (Some 0) of
        Inl e \<Rightarrow> Inl e
      | Inr (Some level, Some optname, optval, Some optlen) \<Rightarrow>
          let (r, h) = ext E (Sys (Sys_getsockopt sockfd level optname optval optlen)) h
          in if negative (ret r) then Inr (- 1, m\<lparr>rtn_errno := err r\<rparr>, h)
             else
               let optval = map_option (\<lambda>v. out_bytes r @ drop (length (out_bytes r)) v) optval in
               (case snic_serialize_sockopt_dt (Some (rtn_data m)) (Some level) (Some optname) optval
                       (Some (out_len r)) of
                  Inl e \<Rightarrow> Inl e
                | Inr d \<Rightarrow> Inr (ret r, m\<lparr>rtn_data := the d\<rparr>, h))
      | Inr _ \<Rightarrow> Inl Null_deref)"

definition sock_getpeername ::
    "env \<Rightarrow> locals \<Rightarrow> req_msg \<Rightarrow> rtn_msg \<Rightarrow> c_int \<Rightarrow> trace \<Rightarrow> c_int \<times> rtn_msg \<times> trace" where
  "sock_getpeername E L q m sockfd h =
     (let (addrlen, peer_addr) = snic_deserialize_addr_dt (Some (req_data q)) (Some 16) (Some (l_addr L));
          (r, h) = ext E (Sys (Sys_getpeername sockfd (the peer_addr) (the addrlen))) h;
          m = m\<lparr>rtn_value := scast (ret r)\<rparr>
      in if negative (ret r) then (- 1, m\<lparr>rtn_errno := err r\<rparr>, h)
         else
           let d = snic_serialize_addr_dt (Some (rtn_data m)) (Some (out_len r)) (Some (out_addr r))
           in (ret r, m\<lparr>rtn_data := the d\<rparr>, h))"

definition sock_getsockname ::
    "env \<Rightarrow> locals \<Rightarrow> req_msg \<Rightarrow> rtn_msg \<Rightarrow> c_int \<Rightarrow> trace \<Rightarrow> c_int \<times> rtn_msg \<times> trace" where
  "sock_getsockname E L q m sockfd h =
     (let (addrlen, local_addr) = snic_deserialize_addr_dt (Some (req_data q)) (Some 16) (Some (l_addr L));
          (r, h) = ext E (Sys (Sys_getsockname sockfd (the local_addr) (the addrlen))) h;
          m = m\<lparr>rtn_value := scast (ret r)\<rparr>
      in if negative (ret r) then (- 1, m\<lparr>rtn_errno := err r\<rparr>, h)
         else
           let d = snic_serialize_addr_dt (Some (rtn_data m)) (Some (out_len r)) (Some (out_addr r))
           in (ret r, m\<lparr>rtn_data := the d\<rparr>, h))"

end
