(* ===== verification/Snic_Hash.thy ===== *)
theory Snic_Hash
  imports Hash_Table
begin

text \<open>
  The tables of \<open>snic/hash_delee.c\<close>: chains as on the host, under a readers-writer lock in each
  table. Every function is translated from the C text of this file, its lock calls and early
  returns included. A thread is a number. \<open>None\<close> is a call that does not come back: another thread
  holds the lock, or the lock has been destroyed. When the caller itself holds it for writing,
  \<open>pthread_rwlock_*lock\<close> answers \<open>EDEADLK\<close>, which the code ignores. The allocation of a table is
  taken to succeed: the code uses its result without a test.
\<close>

section \<open>The lock\<close>

type_synonym thread = nat

datatype rwlock = Unlocked | RdLocked "thread list" | WrLocked thread | Destroyed

fun rdlock :: "thread \<Rightarrow> rwlock \<Rightarrow> rwlock option" where
  "rdlock t Unlocked = Some (RdLocked [t])"
| "rdlock t (RdLocked ts) = Some (RdLocked (t # ts))"
| "rdlock t (WrLocked t') = (if t = t' then Some (WrLocked t') else None)"
| "rdlock t Destroyed = None"

fun wrlock :: "thread \<Rightarrow> rwlock \<Rightarrow> rwlock option" where
  "wrlock t Unlocked = Some (WrLocked t)"
| "wrlock t (RdLocked ts) = None"
| "wrlock t (WrLocked t') = (if t = t' then Some (WrLocked t') else None)"
| "wrlock t Destroyed = None"

fun rwunlock :: "thread \<Rightarrow> rwlock \<Rightarrow> rwlock" where
  "rwunlock t Unlocked = Unlocked"
| "rwunlock t (RdLocked ts) = (case remove1 t ts of [] \<Rightarrow> Unlocked | ts' \<Rightarrow> RdLocked ts')"
| "rwunlock t (WrLocked t') = (if t = t' then Unlocked else WrLocked t')"
| "rwunlock t Destroyed = Destroyed"

definition rwlock_destroy :: "rwlock \<Rightarrow> rwlock" where
  "rwlock_destroy l = Destroyed"

record 'v snic_table =
  tab :: "'v hash_table"
  lock :: rwlock

type_synonym snic_HashTable = "ptr snic_table"
type_synonym snic_SocketHashTable = "ptr snic_table"

text \<open>The hash is a copy of the host's.\<close>

definition snic_MurmurHash3 where "snic_MurmurHash3 = MurmurHash3"
definition snic_hashFunction where "snic_hashFunction = hashFunction"

declare snic_MurmurHash3_def [simp] snic_hashFunction_def [simp]

section \<open>HashTable\<close>

definition snic_createHashTable :: snic_HashTable where
  "snic_createHashTable = \<lparr>tab = \<lparr>table = (\<lambda>i. []), ht_size = HT_SZ\<rparr>, lock = Unlocked\<rparr>"

definition snic_insertByValue ::
    "thread \<Rightarrow> bool \<Rightarrow> snic_HashTable \<Rightarrow> c_int \<Rightarrow> ptr \<Rightarrow> (bool \<times> snic_HashTable) option" where
  "snic_insertByValue t malloc_ok st key val =
     (case wrlock t (lock st) of None \<Rightarrow> None
      | Some l \<Rightarrow>
          let i = unat (snic_hashFunction key); ht = tab st in
          if \<not> malloc_ok then Some (False, st\<lparr>lock := rwunlock t l\<rparr>)
          else
            let newNode = \<lparr>nkey = key, nvalue = val, nindex = snic_hashFunction key\<rparr>;
                ht = (if table ht i = [] then ht\<lparr>table := (table ht)(i := [newNode])\<rparr>
                      else ht\<lparr>table := (table ht)(i := append_node (table ht i) newNode)\<rparr>)
            in Some (True, st\<lparr>tab := ht, lock := rwunlock t l\<rparr>))"

definition snic_searchByKey ::
    "thread \<Rightarrow> snic_HashTable \<Rightarrow> c_int \<Rightarrow> (ptr \<times> snic_HashTable) option" where
  "snic_searchByKey t st key =
     (case rdlock t (lock st) of None \<Rightarrow> None
      | Some l \<Rightarrow>
          (case table (tab st) (unat (snic_hashFunction key)) of
             [] \<Rightarrow> Some (0, st\<lparr>lock := rwunlock t l\<rparr>)
           | node # _ \<Rightarrow>
               if nkey node = key then Some (nvalue node, st\<lparr>lock := rwunlock t l\<rparr>)
               else Some (0, st\<lparr>lock := rwunlock t l\<rparr>)))"

definition snic_searchByValue ::
    "thread \<Rightarrow> snic_HashTable \<Rightarrow> ptr \<Rightarrow> (c_int \<times> snic_HashTable) option" where
  "snic_searchByValue t st val =
     (case rdlock t (lock st) of None \<Rightarrow> None
      | Some l \<Rightarrow>
          (case head_scan (\<lambda>n. nvalue n = val) (table (tab st)) [0..<ht_size (tab st)] of
             Some k \<Rightarrow> Some (k, st\<lparr>lock := rwunlock t l\<rparr>)
           | None \<Rightarrow> Some (- 1, st\<lparr>lock := rwunlock t l\<rparr>)))"

text \<open>The early \<open>return\<close> for an empty slot comes before any unlock.\<close>

definition snic_deleteByKey ::
    "thread \<Rightarrow> snic_HashTable \<Rightarrow> c_int \<Rightarrow> snic_HashTable option" where
  "snic_deleteByKey t st key =
     (case wrlock t (lock st) of None \<Rightarrow> None
      | Some l \<Rightarrow>
          let i = unat (snic_hashFunction key); ht = tab st in
          if table ht i = [] then Some (st\<lparr>lock := l\<rparr>)
          else
            (case unlink (\<lambda>n. nkey n = key) (table ht i) of
               Some ns \<Rightarrow> Some (st\<lparr>tab := ht\<lparr>table := (table ht)(i := ns)\<rparr>, lock := rwunlock t l\<rparr>)
             | None \<Rightarrow> Some (st\<lparr>lock := rwunlock t l\<rparr>)))"

definition snic_deleteByValue ::
    "thread \<Rightarrow> snic_HashTable \<Rightarrow> ptr \<Rightarrow> snic_HashTable option" where
  "snic_deleteByValue t st val =
     (case wrlock t (lock st) of None \<Rightarrow> None
      | Some l \<Rightarrow>
          (case unlink_scan (\<lambda>n. nvalue n = val) (table (tab st)) [0..<ht_size (tab st)] of
             Some ta \<Rightarrow> Some (st\<lparr>tab := (tab st)\<lparr>table := ta\<rparr>, lock := rwunlock t l\<rparr>)
           | None \<Rightarrow> Some (st\<lparr>lock := rwunlock t l\<rparr>)))"

text \<open>The freed nodes, one for each slot that is not empty; then the lock is destroyed, without having been
  taken, and the table itself is freed.\<close>

definition snic_freeHashTable :: "snic_HashTable \<Rightarrow> ptr node list \<times> snic_HashTable" where
  "snic_freeHashTable st =
     (concat (map (\<lambda>i. case table (tab st) i of [] \<Rightarrow> [] | n # _ \<Rightarrow> [n]) [0..<ht_size (tab st)]),
      st\<lparr>lock := rwlock_destroy (lock st)\<rparr>)"

section \<open>SocketHashTable\<close>

definition snic_createSocketHashTable :: snic_SocketHashTable where
  "snic_createSocketHashTable = \<lparr>tab = \<lparr>table = (\<lambda>i. []), ht_size = HT_SZ\<rparr>, lock = Unlocked\<rparr>"

definition snic_socket_insertByValue ::
    "thread \<Rightarrow> bool \<Rightarrow> snic_SocketHashTable \<Rightarrow> c_int \<Rightarrow> ptr \<Rightarrow> (bool \<times> snic_SocketHashTable) option" where
  "snic_socket_insertByValue t malloc_ok st key val =
     (case wrlock t (lock st) of None \<Rightarrow> None
      | Some l \<Rightarrow>
          if \<not> malloc_ok then Some (False, st\<lparr>lock := rwunlock t l\<rparr>)
          else
            let index = snic_hashFunction key; i = unat index; ht = tab st;
                newNode = \<lparr>nkey = key, nvalue = val, nindex = index\<rparr>;
                ht = (if table ht i = [] then ht\<lparr>table := (table ht)(i := [newNode])\<rparr>
                      else ht\<lparr>table := (table ht)(i := append_node (table ht i) newNode)\<rparr>)
            in Some (True, st\<lparr>tab := ht, lock := rwunlock t l\<rparr>))"

definition snic_socket_searchByKey ::
    "thread \<Rightarrow> snic_SocketHashTable \<Rightarrow> c_int \<Rightarrow> (ptr \<times> snic_SocketHashTable) option" where
  "snic_socket_searchByKey t st key =
     (case rdlock t (lock st) of None \<Rightarrow> None
      | Some l \<Rightarrow>
          (case table (tab st) (unat (snic_hashFunction key)) of
             [] \<Rightarrow> Some (0, st\<lparr>lock := rwunlock t l\<rparr>)
           | node # _ \<Rightarrow>
               if nkey node = key then Some (nvalue node, st\<lparr>lock := rwunlock t l\<rparr>)
               else Some (0, st\<lparr>lock := rwunlock t l\<rparr>)))"

definition snic_socket_searchByValue ::
    "thread \<Rightarrow> snic_SocketHashTable \<Rightarrow> ptr \<Rightarrow> (c_int \<times> snic_SocketHashTable) option" where
  "snic_socket_searchByValue t st val =
     (case rdlock t (lock st) of None \<Rightarrow> None
      | Some l \<Rightarrow>
          (case head_scan (\<lambda>n. nvalue n = val) (table (tab st)) [0..<ht_size (tab st)] of
             Some k \<Rightarrow> Some (k, st\<lparr>lock := rwunlock t l\<rparr>)
           | None \<Rightarrow> Some (- 1, st\<lparr>lock := rwunlock t l\<rparr>)))"

text \<open>The early \<open>return\<close> for an empty slot comes before any unlock.\<close>

definition snic_socket_deleteByKey ::
    "thread \<Rightarrow> snic_SocketHashTable \<Rightarrow> c_int \<Rightarrow> snic_SocketHashTable option" where
  "snic_socket_deleteByKey t st key =
     (case wrlock t (lock st) of None \<Rightarrow> None
      | Some l \<Rightarrow>
          let i = unat (snic_hashFunction key); ht = tab st in
          if table ht i = [] then Some (st\<lparr>lock := l\<rparr>)
          else
            (case unlink (\<lambda>n. nkey n = key) (table ht i) of
               Some ns \<Rightarrow> Some (st\<lparr>tab := ht\<lparr>table := (table ht)(i := ns)\<rparr>, lock := rwunlock t l\<rparr>)
             | None \<Rightarrow> Some (st\<lparr>lock := rwunlock t l\<rparr>)))"

definition snic_socket_deleteByValue ::
    "thread \<Rightarrow> snic_SocketHashTable \<Rightarrow> ptr \<Rightarrow> snic_SocketHashTable option" where
  "snic_socket_deleteByValue t st val =
     (case wrlock t (lock st) of None \<Rightarrow> None
      | Some l \<Rightarrow>
          (case unlink_scan (\<lambda>n. nvalue n = val) (table (tab st)) [0..<ht_size (tab st)] of
             Some ta \<Rightarrow> Some (st\<lparr>tab := (tab st)\<lparr>table := ta\<rparr>, lock := rwunlock t l\<rparr>)
           | None \<Rightarrow> Some (st\<lparr>lock := rwunlock t l\<rparr>)))"

text \<open>The freed nodes, one for each slot that is not empty; then the lock is destroyed, without having been
  taken, and the table itself is freed.\<close>

definition snic_socket_freeHashTable :: "snic_SocketHashTable \<Rightarrow> ptr node list \<times> snic_SocketHashTable" where
  "snic_socket_freeHashTable st =
     (concat (map (\<lambda>i. case table (tab st) i of [] \<Rightarrow> [] | n # _ \<Rightarrow> [n]) [0..<ht_size (tab st)]),
      st\<lparr>lock := rwlock_destroy (lock st)\<rparr>)"

section \<open>Balanced operations\<close>

text \<open>An operation is balanced when, on an unlocked table, it runs its body and leaves the
  table unlocked, and when a writer of another thread makes it block.\<close>

locale balanced =
  fixes op :: "thread \<Rightarrow> 'v snic_table \<Rightarrow> 'v snic_table option"
    and body :: "'v hash_table \<Rightarrow> 'v hash_table"
  assumes unlocked: "lock st = Unlocked \<Longrightarrow> op t st = Some (st\<lparr>tab := body (tab st)\<rparr>)"
    and blocked: "lock st = WrLocked t' \<Longrightarrow> t' \<noteq> t \<Longrightarrow> op t st = None"
begin

primrec run :: "thread list \<Rightarrow> 'v snic_table \<Rightarrow> 'v snic_table option" where
  "run [] st = Some st"
| "run (t # ts) st = (case op t st of None \<Rightarrow> None | Some st' \<Rightarrow> run ts st')"

text \<open>Any number of threads one after the other: nobody blocks and the effect is that of the
  bodies.\<close>

lemma run_unlocked:
  "lock st = Unlocked \<Longrightarrow> run ts st = Some (st\<lparr>tab := (body ^^ length ts) (tab st)\<rparr>)"
  by (induction ts arbitrary: st) (simp_all add: unlocked funpow_swap1)

end

lemmas locked_ops = snic_insertByValue_def snic_searchByKey_def snic_searchByValue_def
  snic_deleteByValue_def snic_socket_insertByValue_def snic_socket_searchByKey_def
  snic_socket_searchByValue_def snic_socket_deleteByValue_def snic_hashFunction_def

lemmas host_ops = insertByValue_def searchByKey_def searchByValue_def deleteByValue_def socket_insertByValue_def
  socket_searchByKey_def socket_searchByValue_def socket_deleteByValue_def

text \<open>On an unlocked table the functions of the two files agree.\<close>

lemma unlocked_ops:
  assumes "lock st = Unlocked"
  shows "snic_insertByValue t ok st k v
      = Some (fst (insertByValue ok (tab st) k v), st\<lparr>tab := snd (insertByValue ok (tab st) k v)\<rparr>)"
    and "snic_searchByKey t st k = Some (searchByKey (tab st) k, st)"
    and "snic_searchByValue t st v = Some (searchByValue (tab st) v, st)"
    and "snic_deleteByValue t st v = Some (st\<lparr>tab := deleteByValue (tab st) v\<rparr>)"
    and "snic_socket_insertByValue t ok st k v
      = Some (fst (socket_insertByValue ok (tab st) k v), st\<lparr>tab := snd (socket_insertByValue ok (tab st) k v)\<rparr>)"
    and "snic_socket_searchByKey t st k = Some (socket_searchByKey (tab st) k, st)"
    and "snic_socket_searchByValue t st v = Some (socket_searchByValue (tab st) v, st)"
    and "snic_socket_deleteByValue t st v = Some (st\<lparr>tab := socket_deleteByValue (tab st) v\<rparr>)"
  using assms by (simp_all add: locked_ops host_ops Let_def split: list.splits option.splits)

lemma unlocked_deletes:
  assumes "lock st = Unlocked" and "front (tab st) k \<noteq> None"
  shows "snic_deleteByKey t st k = Some (st\<lparr>tab := snd (deleteByKey (tab st) k)\<rparr>)"
    and "snic_socket_deleteByKey t st k = Some (st\<lparr>tab := socket_deleteByKey (tab st) k\<rparr>)"
  using assms
  by (auto simp: snic_deleteByKey_def snic_socket_deleteByKey_def deleteByKey_def socket_deleteByKey_def
      snic_hashFunction_def front_def bucket_def Let_def split: list.splits option.splits)

interpretation insert_op: balanced "\<lambda>t st. map_option snd (snic_insertByValue t ok st k v)"
    "\<lambda>ht. snd (insertByValue ok ht k v)"
  by unfold_locales (simp add: unlocked_ops, simp add: locked_ops)

interpretation search_op: balanced "\<lambda>t st. map_option snd (snic_searchByKey t st k)" "\<lambda>ht. ht"
  by unfold_locales (simp add: unlocked_ops, simp add: locked_ops)

interpretation search_value_op: balanced "\<lambda>t st. map_option snd (snic_searchByValue t st v)" "\<lambda>ht. ht"
  by unfold_locales (simp add: unlocked_ops, simp add: locked_ops)

interpretation delete_value_op: balanced "\<lambda>t st. snic_deleteByValue t st v" "\<lambda>ht. deleteByValue ht v"
  by unfold_locales (simp add: unlocked_ops, simp add: locked_ops)

interpretation socket_insert_op: balanced
    "\<lambda>t st. map_option snd (snic_socket_insertByValue t ok st k v)"
    "\<lambda>ht. snd (socket_insertByValue ok ht k v)"
  by unfold_locales (simp add: unlocked_ops, simp add: locked_ops)

interpretation socket_search_op: balanced
    "\<lambda>t st. map_option snd (snic_socket_searchByKey t st k)" "\<lambda>ht. ht"
  by unfold_locales (simp add: unlocked_ops, simp add: locked_ops)

interpretation socket_search_value_op: balanced
    "\<lambda>t st. map_option snd (snic_socket_searchByValue t st v)" "\<lambda>ht. ht"
  by unfold_locales (simp add: unlocked_ops, simp add: locked_ops)

interpretation socket_delete_value_op: balanced
    "\<lambda>t st. snic_socket_deleteByValue t st v" "\<lambda>ht. socket_deleteByValue ht v"
  by unfold_locales (simp add: unlocked_ops, simp add: locked_ops)

section \<open>Properties\<close>

text \<open>C24: The tables of \<open>snic/hash_delee.c\<close>, which take a lock in every operation, do what those of \<open>host/hash_delee.c\<close>, which have
  none, do: on an unlocked table insertion (with and without memory), both searches and deletion by value give the host's
  result and table, whichever thread calls them, and leave the lock free. So does deletion by key whenever
  the slot of the key is not empty, whether the key is found in it or not. On an empty slot it is different: it keeps the lock
  (C34). The same holds for the table of sockets.\<close>

theorem snic_table_lock_balanced:
  assumes "lock st = Unlocked"
  shows "snic_insertByValue t ok st k v
         = Some (fst (insertByValue ok (tab st) k v), st\<lparr>tab := snd (insertByValue ok (tab st) k v)\<rparr>)
    \<and> snic_searchByKey t st k = Some (searchByKey (tab st) k, st)
    \<and> snic_searchByValue t st v = Some (searchByValue (tab st) v, st)
    \<and> snic_deleteByValue t st v = Some (st\<lparr>tab := deleteByValue (tab st) v\<rparr>)
    \<and> (if front (tab st) k = None then snic_deleteByKey t st k = Some (st\<lparr>lock := WrLocked t\<rparr>)
       else snic_deleteByKey t st k = Some (st\<lparr>tab := snd (deleteByKey (tab st) k)\<rparr>))
    \<and> snic_socket_insertByValue t ok st k v
         = Some (fst (socket_insertByValue ok (tab st) k v), st\<lparr>tab := snd (socket_insertByValue ok (tab st) k v)\<rparr>)
    \<and> snic_socket_searchByKey t st k = Some (socket_searchByKey (tab st) k, st)
    \<and> snic_socket_searchByValue t st v = Some (socket_searchByValue (tab st) v, st)
    \<and> snic_socket_deleteByValue t st v = Some (st\<lparr>tab := socket_deleteByValue (tab st) v\<rparr>)
    \<and> (if front (tab st) k = None then snic_socket_deleteByKey t st k = Some (st\<lparr>lock := WrLocked t\<rparr>)
       else snic_socket_deleteByKey t st k = Some (st\<lparr>tab := socket_deleteByKey (tab st) k\<rparr>))"
proof -
  have "snic_deleteByKey t st k = Some (st\<lparr>lock := WrLocked t\<rparr>)"
      "snic_socket_deleteByKey t st k = Some (st\<lparr>lock := WrLocked t\<rparr>)" if "front (tab st) k = None"
    using assms that
    by (simp_all add: snic_deleteByKey_def snic_socket_deleteByKey_def front_def bucket_def split: list.splits)
  then show ?thesis by (simp add: unlocked_ops [OF assms] unlocked_deletes [OF assms])
qed

theorem snic_table_lock_balanced_witness:
  "let st = \<lparr>tab = link_node empty_table 5 99, lock = Unlocked\<rparr> in
   front (tab st) 5 = Some 5 \<and> snic_deleteByKey 1 st 5 = Some (st\<lparr>tab := unlink_node (tab st) 5\<rparr>)"
  using snic_table_lock_balanced
    [where st = "\<lparr>tab = link_node empty_table 5 99, lock = Unlocked\<rparr>" and t = 1 and k = 5]
  by (simp add: Let_def front_def link_node_def empty_table_def delete_ops)

text \<open>C34: A deletion by key whose slot is empty returns with the table still locked for
  writing, and from then on every table operation of any other thread blocks.\<close>

theorem snic_deleteByKey_miss_keeps_lock:
  assumes "lock st = Unlocked" and "front (tab st) k = None" and "t' \<noteq> t"
  shows "\<exists>st'. snic_deleteByKey t st k = Some st' \<and> tab st' = tab st
    \<and> snic_insertByValue t' ok st' k' v = None \<and> snic_searchByKey t' st' k' = None
    \<and> snic_searchByValue t' st' v = None \<and> snic_deleteByKey t' st' k' = None
    \<and> snic_deleteByValue t' st' v = None"
proof -
  let ?st = "st\<lparr>lock := WrLocked t\<rparr>"
  have "snic_deleteByKey t st k = Some ?st"
    using assms by (auto simp: snic_deleteByKey_def front_def bucket_def split: list.splits)
  moreover have "snic_insertByValue t' ok ?st k' v = None" "snic_searchByKey t' ?st k' = None"
    "snic_searchByValue t' ?st v = None" "snic_deleteByKey t' ?st k' = None"
    "snic_deleteByValue t' ?st v = None"
    using assms(3) by (simp_all add: locked_ops snic_deleteByKey_def)
  ultimately show ?thesis by auto
qed

theorem snic_deleteByKey_miss_keeps_lock_witness:
  "\<exists>st'. snic_deleteByKey 1 snic_createHashTable 5 = Some st' \<and> tab st' = tab snic_createHashTable
    \<and> snic_insertByValue 2 True st' 6 99 = None \<and> snic_searchByKey 2 st' 6 = None
    \<and> snic_searchByValue 2 st' 99 = None \<and> snic_deleteByKey 2 st' 6 = None
    \<and> snic_deleteByValue 2 st' 99 = None"
  by (rule snic_deleteByKey_miss_keeps_lock)
    (simp_all add: snic_createHashTable_def front_def empty_table_def)

end
