(* ===== verification/Server.thy ===== *)
theory Server
  imports Verbs Socket Snic_Hash
begin

text \<open>
  The SmartNIC server, \<open>snic/rdma_server.c\<close>: setting up a connection with a host, answering
  one request (\<open>rdma_req_event\<close>) and the completion loop of a connection
  (\<open>process_poll_cq_imm\<close>). \<open>s_client\<close> is its \<open>struct client_r_info\<close>, \<open>server\<close> its globals.
  The device context of a connection id is identified with the id.
\<close>

record s_client =
  cm_client_id :: ptr
  pd :: ptr
  io_completion_channel :: ptr
  cq :: ptr
  client_qp :: ptr
  client_metadata_mr :: "ibv_mr option"
  server_metadata_mr :: "ibv_mr option"
  req_mr :: "ibv_mr option"
  rtn_mr :: "ibv_mr option"
  client_metadata_attr :: rdma_buffer_attr
  server_metadata_attr :: rdma_buffer_attr
  req :: req_msg
  rtn :: rtn_msg
  client_recv_sge :: ibv_sge
  server_send_wr :: send_wr
  server_send_sge :: ibv_sge
  status :: cm_event_type
  sockfd :: c_int

text \<open>\<open>spawned\<close> lists the connections that were handed to a new thread, newest first.\<close>

record server =
  cm_event_channel :: ptr
  cm_server_id :: ptr
  cm_event :: "cm_event option"
  rdma_ht :: snic_HashTable
  sock_ht :: snic_SocketHashTable
  spawned :: "s_client list"

section \<open>Initialisation and listening\<close>

definition null_server_r_info :: "server \<Rightarrow> c_int \<times> server" where
  "null_server_r_info s = (1, s\<lparr>cm_event_channel := 0, cm_server_id := 0, cm_event := None\<rparr>)"

text \<open>The metadata regions, the messages, the status and the descriptor keep what the
  allocation holds.\<close>

definition snic_null_client_r_info :: "s_client \<Rightarrow> c_int \<times> s_client" where
  "snic_null_client_r_info c =
     (1, c\<lparr>cm_client_id := 0, pd := 0, io_completion_channel := 0, cq := 0, client_qp := 0,
           req_mr := None, rtn_mr := None\<rparr>)"

definition set_server_r_info :: "env \<Rightarrow> sockaddr \<Rightarrow> c_int \<Rightarrow> trace \<Rightarrow> c_int \<times> sockaddr \<times> trace" where
  "set_server_r_info E server_sockaddr port h =
     (let a = \<lparr>sin_family = AF_INET, sin_port = 0, sin_addr = htonl INADDR_ANY, sin_zero = 0\<rparr>;
          (v, a, h) = snic_get_addr E DEFAULT_RDMA_SERVER_IP a h
      in if v \<noteq> 0 then (v, a, h)
         else if positive port then (v, a\<lparr>sin_port := htons (ucast port)\<rparr>, h)
         else (v, a\<lparr>sin_port := htons DEFAULT_RDMA_PORT\<rparr>, h))"

definition start_rdma_server :: "env \<Rightarrow> server \<Rightarrow> sockaddr \<Rightarrow> trace \<Rightarrow> c_int \<times> server \<times> trace" where
  "start_rdma_server E s server_addr h =
     (let (r, h) = ext E (Cm Rdma_create_event_channel) h;
          s = s\<lparr>cm_event_channel := rv r\<rparr> in
      if rv r = 0 then (neg_errno r, s, h)
      else
        let (r, h) = ext E (Cm (Rdma_create_id (cm_event_channel s))) h in
        if ret r \<noteq> 0 then (neg_errno r, s, h)
        else
          let s = s\<lparr>cm_server_id := out_ptr r\<rparr>;
              (r, h) = ext E (Cm (Rdma_bind_addr (cm_server_id s) server_addr)) h in
          if ret r \<noteq> 0 then (neg_errno r, s, h)
          else
            let (r, h) = ext E (Cm (Rdma_listen (cm_server_id s) 8)) h in
            if ret r \<noteq> 0 then (neg_errno r, s, h) else (0, s, h))"

section \<open>Connection set-up\<close>

text \<open>The result of \<open>process_rdma_cm_event\<close> is overwritten unread and its event dereferenced
  in any case.\<close>

definition waiting_client_conn ::
    "env \<Rightarrow> server \<Rightarrow> s_client \<Rightarrow> trace \<Rightarrow> (c_int \<times> server \<times> s_client \<times> trace) run" where
  "waiting_client_conn E s c h =
     (let (v, ev, h) = snic_process_rdma_cm_event E (cm_event_channel s) RDMA_CM_EVENT_CONNECT_REQUEST (cm_event s) h;
          s = s\<lparr>cm_event := ev\<rparr> in
      case ev of None \<Rightarrow> faults Null_deref
      | Some e \<Rightarrow>
          let c = c\<lparr>status := RDMA_CM_EVENT_CONNECT_REQUEST, cm_client_id := cme_id e\<rparr> in
          if cm_client_id c = 0 then faults Null_deref
          else
            let (r, h) = ext E (Cm (Rdma_ack_cm_event (cm_event s))) h in
            if ret r \<noteq> 0 then returns (neg_errno r, s, c, h) else returns (0, s, c, h))"

definition setup_client_resources :: "env \<Rightarrow> s_client \<Rightarrow> trace \<Rightarrow> c_int \<times> s_client \<times> trace" where
  "setup_client_resources E c h =
     (if cm_client_id c = 0 then (- EINVAL, c, h)
      else
        let (r, h) = ext E (Verb (Ibv_alloc_pd (cm_client_id c))) h;
            c = c\<lparr>pd := rv r\<rparr> in
        if rv r = 0 then (neg_errno r, c, h)
        else
          let (r, h) = ext E (Verb (Ibv_create_comp_channel (cm_client_id c))) h;
              c = c\<lparr>io_completion_channel := rv r\<rparr> in
          if rv r = 0 then (neg_errno r, c, h)
          else
            let (r, h) = ext E (Verb (Ibv_create_cq (cm_client_id c) CQ_CAPACITY (io_completion_channel c))) h;
                c = c\<lparr>cq := rv r\<rparr> in
            if rv r = 0 then (neg_errno r, c, h)
            else
              let (r, h) = ext E (Verb (Ibv_req_notify_cq (cq c))) h in
              if ret r \<noteq> 0 then (neg_errno r, c, h)
              else
                let (r, h) = ext E (Cm (Rdma_create_qp (cm_client_id c) (pd c) (cq c))) h in
                if ret r \<noteq> 0 then (neg_errno r, c, h)
                else (0, c\<lparr>client_qp := out_ptr r\<rparr>, h))"

text \<open>The test after waiting for \<open>RDMA_CM_EVENT_ESTABLISHED\<close> looks at the old status of the
  connection, not at the result of the wait, and the region of the reply is not tested.\<close>

definition accept_client_connection ::
    "env \<Rightarrow> server \<Rightarrow> s_client \<Rightarrow> trace \<Rightarrow> (c_int \<times> server \<times> s_client \<times> trace) option" where
  "accept_client_connection E s c h =
     (if cm_client_id c = 0 \<or> client_qp c = 0 then Some (- EINVAL, s, c, h)
      else
        let (mr, h) = snic_rdma_buffer_register E (pd c) (Payload_attr (client_metadata_attr c)) h;
            c = c\<lparr>client_metadata_mr := mr\<rparr> in
        case mr of None \<Rightarrow> Some (- ENOMEM, s, c, h)
        | Some mr \<Rightarrow>
            let c = c\<lparr>client_recv_sge := sge_of mr\<rparr>;
                (r, h) = ext E (Verb (Ibv_post_recv (client_qp c) (client_recv_sge c))) h in
            if ret r \<noteq> 0 then Some (- ret r, s, c, h)
            else
              let conn_param = \<lparr>cp_initiator_depth = 3, cp_responder_resources = 3, cp_retry_count = 0, cp_rnr_retry_count = 0\<rparr>;
                  (r, h) = ext E (Cm (Rdma_accept (cm_client_id c) conn_param)) h in
              if ret r \<noteq> 0 then Some (neg_errno r, s, c, h)
              else
                let (v, ev, h) = snic_process_rdma_cm_event E (cm_event_channel s) RDMA_CM_EVENT_ESTABLISHED (cm_event s) h;
                    s = s\<lparr>cm_event := ev\<rparr> in
                if status c = RDMA_CM_EVENT_ESTABLISHED then Some (neg_errno (E h), s, c, h)
                else
                  let c = c\<lparr>status := RDMA_CM_EVENT_ESTABLISHED\<rparr>;
                      (r, h) = ext E (Cm (Rdma_ack_cm_event (cm_event s))) h in
                  if ret r \<noteq> 0 then Some (neg_errno r, s, c, h)
                  else
                    let (r, h) = ext E (Verb (Ibv_query_qp (client_qp c))) h in
                    case snic_process_work_completion_events E (io_completion_channel c) 1 h of
                      None \<Rightarrow> None
                    | Some (v, attr, h) \<Rightarrow>
                        let c = (case attr of None \<Rightarrow> c | Some a \<Rightarrow> c\<lparr>client_metadata_attr := a\<rparr>) in
                        if v \<noteq> 1 then Some (v, s, c, h)
                        else
                          let (mr, h) = snic_rdma_buffer_register E (pd c) (Payload_rtn (rtn c)) h
                          in Some (1, s, c\<lparr>rtn_mr := mr\<rparr>, h))"

definition send_server_metadata_to_client ::
    "env \<Rightarrow> s_client \<Rightarrow> trace \<Rightarrow> (c_int \<times> s_client \<times> trace) run" where
  "send_server_metadata_to_client E c h =
     (if cm_client_id c = 0 \<or> client_qp c = 0 then returns (- EINVAL, c, h)
      else
        let (mr, h) = snic_rdma_buffer_register E (pd c) (Payload_req (req c)) h;
            c = c\<lparr>req_mr := mr\<rparr> in
        case mr of None \<Rightarrow> returns (- ENOMEM, c, h)
        | Some rmr \<Rightarrow>
            let (mmr, h) = snic_rdma_buffer_register E (pd c) (Payload_attr (server_metadata_attr c)) h;
                c = c\<lparr>server_metadata_mr := mmr, server_metadata_attr := attr_of (server_metadata_attr c) rmr\<rparr> in
            case mmr of None \<Rightarrow> faults Null_deref
            | Some mmr \<Rightarrow>
                let c = c\<lparr>server_send_sge := sge_of mmr,
                          server_send_wr := \<lparr>sw_num_sge = 1, sw_opcode = IBV_WR_SEND, sw_signaled = True,
                            sw_imm_data = 0, sw_remote_addr = 0, sw_rkey = 0\<rparr>\<rparr>;
                    (r, h) = ext E (Verb (Ibv_post_send (client_qp c) (server_send_wr c) (server_send_sge c)
                               (Payload_attr (server_metadata_attr c)))) h in
                if ret r \<noteq> 0 then returns (neg_errno r, c, h) else returns (0, c, h))"

section \<open>Posting\<close>

text \<open>The work request names the reply buffer and is posted without \<open>IBV_SEND_INLINE\<close>; the function does not wait for its
  completion. The payload in the trace is what the buffer holds at the post. Later stores may reach the message before the adapter
  has read it: what is then transferred is in the theory \<open>Fetch\<close>.\<close>

definition post_write_rtn :: "env \<Rightarrow> s_client \<Rightarrow> trace \<Rightarrow> (c_int \<times> s_client \<times> trace) run" where
  "post_write_rtn E c h =
     (case rtn_mr c of None \<Rightarrow> faults Null_deref
      | Some mr \<Rightarrow>
          let c = c\<lparr>server_send_sge := sge_of mr,
                    server_send_wr := \<lparr>sw_num_sge = 1, sw_opcode = IBV_WR_RDMA_WRITE_WITH_IMM,
                      sw_signaled = True, sw_imm_data = htonl (sockfd c),
                      sw_remote_addr = attr_address (client_metadata_attr c),
                      sw_rkey = attr_stag (client_metadata_attr c)\<rparr>\<rparr>;
              (r, h) = ext E (Verb (Ibv_post_send (client_qp c) (server_send_wr c) (server_send_sge c)
                         (Payload_rtn (rtn c)))) h
          in returns (ret r, c, h))"

definition post_recv_req :: "env \<Rightarrow> s_client \<Rightarrow> trace \<Rightarrow> (c_int \<times> s_client \<times> trace) run" where
  "post_recv_req E c h =
     (case req_mr c of None \<Rightarrow> faults Null_deref
      | Some mr \<Rightarrow>
          let c = c\<lparr>client_recv_sge := sge_of mr\<rparr>;
              (r, h) = ext E (Verb (Ibv_post_recv (client_qp c) (client_recv_sge c))) h
          in if ret r \<noteq> 0 then returns (- ret r, c, h) else returns (1, c, h))"

section \<open>Sending a reply\<close>

text \<open>The loop for a successful read. The length it stores in the scatter/gather element is
  overwritten by \<open>post_write_rtn\<close>.\<close>

definition chunk :: "u64 \<Rightarrow> u64 \<Rightarrow> u64" where
  "chunk total_size offset =
     (if total_size - offset < of_nat BUFFER_SIZE then total_size - offset else of_nat BUFFER_SIZE - 12)"

lemma chunk_bounds:
  assumes "offset < sz"
  shows "0 < unat (chunk sz offset)" and "unat (chunk sz offset) \<le> unat (sz - offset)"
proof -
  have "0 < unat (sz - offset)" using assms by (simp add: unat_sub less_imp_le unat_mono)
  then show "0 < unat (chunk sz offset)" "unat (chunk sz offset) \<le> unat (sz - offset)"
    by (auto simp: chunk_def BUFFER_SIZE_def word_less_nat_alt)
qed

lemma chunk_progress:
  assumes "offset < sz"
  shows "unat (sz - (offset + chunk sz offset)) = unat (sz - offset) - unat (chunk sz offset)"
proof -
  have "chunk sz offset \<le> sz - offset" using chunk_bounds(2) [OF assms] by (simp add: word_le_nat_alt)
  then have "unat ((sz - offset) - chunk sz offset) = unat (sz - offset) - unat (chunk sz offset)"
    by (rule unat_sub)
  then show ?thesis by (simp add: diff_diff_add)
qed

lemma chunk_decreases:
  "offset < sz \<Longrightarrow> unat (sz - (offset + chunk sz offset)) < unat (sz - offset)"
  using chunk_bounds [of offset sz] by (simp add: chunk_progress)

function write_chunks :: "env \<Rightarrow> u64 \<Rightarrow> u64 \<Rightarrow> s_client \<Rightarrow> trace \<Rightarrow> (c_int \<times> s_client \<times> trace) run" where
  "write_chunks E total_size offset c h =
     (if offset < total_size then
        let bytes_to_copy = chunk total_size offset;
            c = c\<lparr>server_send_sge := (server_send_sge c)\<lparr>sge_length := ucast (bytes_to_copy + 1)\<rparr>\<rparr> in
        case post_write_rtn E c h of
          None \<Rightarrow> None
        | Some (Inl e) \<Rightarrow> Some (Inl e)
        | Some (Inr (v, c, h)) \<Rightarrow>
            if v \<noteq> 0 then returns (v, c, h)
            else write_chunks E total_size (offset + bytes_to_copy) c h
      else returns (0, c, h))"
  by pat_completeness auto

termination
  by (relation "measure (\<lambda>(E, sz, offset, c, h). unat (sz - offset))")
    (auto simp: chunk_decreases)

declare write_chunks.simps [simp del]

text \<open>After the loop \<open>memset(rtn.data, 0, sizeof(offset))\<close> clears eight bytes, and in both cases the error number is cleared, while the posts need
  not have been completed (\<open>Fetch\<close>).\<close>

definition write_msg_to_client :: "env \<Rightarrow> s_client \<Rightarrow> trace \<Rightarrow> (c_int \<times> s_client \<times> trace) run" where
  "write_msg_to_client E c h =
     (if rdma_req (req c) = req_code RDMA_REQ_READ \<and> positive (rtn_value (rtn c)) then
        let header_sz = 12;
            total_size = header_sz + rtn_value (rtn c) in
        and_then (write_chunks E total_size 0 c h)
          (\<lambda>(v, c, h). if v \<noteq> 0 then returns (v, c, h)
             else returns (0, c\<lparr>rtn := (rtn c)\<lparr>rtn_data := buf_zero (rtn_data (rtn c)) 0 8, rtn_errno := 0\<rparr>\<rparr>, h))
      else
        and_then (post_write_rtn E c h)
          (\<lambda>(v, c, h). if v \<noteq> 0 then returns (v, c, h)
             else returns (0, c\<lparr>rtn := (rtn c)\<lparr>rtn_errno := 0\<rparr>\<rparr>, h)))"

section \<open>Accepting and releasing connections\<close>

definition connect_client_r_info ::
    "env \<Rightarrow> server \<Rightarrow> s_client \<Rightarrow> trace \<Rightarrow> (c_int \<times> server \<times> s_client \<times> trace) run" where
  "connect_client_r_info E s c h =
     and_then (waiting_client_conn E s c h) (\<lambda>(v, s, c, h).
       if v \<noteq> 0 then returns (v, s, c, h)
       else
         let (v, c, h) = setup_client_resources E c h in
         if v \<noteq> 0 then returns (v, s, c, h)
         else
           case accept_client_connection E s c h of
             None \<Rightarrow> None
           | Some (v, s, c, h) \<Rightarrow>
               if negative v then returns (- v, s, c, h)
               else
                 and_then (send_server_metadata_to_client E c h) (\<lambda>(v, c, h).
                   if v \<noteq> 0 then returns (v, s, c, h)
                   else and_then (post_recv_req E c h) (\<lambda>(_, c, h). returns (0, s, c, h))))"

text \<open>The function waits in a loop without a body until \<open>status\<close> is
  \<open>RDMA_CM_EVENT_DISCONNECTED\<close>. Nothing that runs assigns that value, so with any other status
  it does not return.\<close>

definition global_disconnect_and_cleanup :: "env \<Rightarrow> s_client \<Rightarrow> trace \<Rightarrow> (c_int \<times> s_client \<times> trace) run" where
  "global_disconnect_and_cleanup E c h =
     (if status c \<noteq> RDMA_CM_EVENT_DISCONNECTED then None
      else
        let h = snic_rdma_buffer_deregister E (req_mr c) h;
            h = snic_rdma_buffer_deregister E (rtn_mr c) h;
            h = snic_rdma_buffer_deregister E (client_metadata_mr c) h;
            h = snic_rdma_buffer_deregister E (server_metadata_mr c) h in
        if cm_client_id c = 0 then faults Null_deref
        else
          let (r, h) = ext E (Cm (Rdma_destroy_qp (client_qp c))) h;
              (r, h) = ext E (Cm (Rdma_destroy_id (cm_client_id c))) h
          in returns (0, c, h))"

definition socket_info_init :: "locals \<Rightarrow> ptr run" where
  "socket_info_init L = (if l_malloc L then returns (l_info L) else faults Null_deref)"

section \<open>Answering a request\<close>

text \<open>The effect of \<open>memset(c_info->req.data, 0, sizeof(struct req_msg))\<close>, which follows the post of the reply: the structure is 14
  bytes longer than its data, and the reply follows it without padding, so its error number,
  its value and the first two bytes of its data are cleared as well.\<close>

definition clear_req_data :: "s_client \<Rightarrow> s_client" where
  "clear_req_data c =
     c\<lparr>req := (req c)\<lparr>req_data := buf_zero (req_data (req c)) 0 BUFFER_SIZE\<rparr>,
       rtn := \<lparr>rtn_errno = 0, rtn_value = 0, rtn_data = buf_zero (rtn_data (rtn c)) 0 2\<rparr>\<rparr>"

text \<open>\<open>memset(c_info->rtn.data, 0, sizeof(struct rtn_msg))\<close> runs 12 bytes over the reply, into
  padding and the identifier of the receive request, which is 0 already.\<close>

definition clear_rtn_data :: "s_client \<Rightarrow> s_client" where
  "clear_rtn_data c = c\<lparr>rtn := (rtn c)\<lparr>rtn_data := buf_zero (rtn_data (rtn c)) 0 BUFFER_SIZE\<rparr>\<rparr>"

text \<open>Storing the reply of a handler and sending it.\<close>

definition answer :: "env \<Rightarrow> server \<Rightarrow> s_client \<Rightarrow> rtn_msg \<times> trace \<Rightarrow> (server \<times> s_client \<times> trace) run" where
  "answer E s c reply =
     (case reply of (m, h) \<Rightarrow>
        and_then (write_msg_to_client E (c\<lparr>rtn := m\<rparr>) h) (\<lambda>(_, c, h). returns (s, c, h)))"

definition answer_checked ::
    "env \<Rightarrow> server \<Rightarrow> s_client \<Rightarrow> fault + c_int \<times> rtn_msg \<times> trace \<Rightarrow> (server \<times> s_client \<times> trace) run" where
  "answer_checked E s c reply =
     (case reply of Inl e \<Rightarrow> faults e | Inr (_, mh) \<Rightarrow> answer E s c mh)"

text \<open>One request. \<open>t\<close> is the thread of the connection, \<open>fresh\<close> what a new connection's
  allocation holds.\<close>

definition rdma_req_event ::
    "thread \<Rightarrow> env \<Rightarrow> locals \<Rightarrow> s_client \<Rightarrow> server \<Rightarrow> s_client \<Rightarrow> trace \<Rightarrow> (server \<times> s_client \<times> trace) run" where
  "rdma_req_event t E L fresh s c h =
     (case req_of_code (rdma_req (req c)) of
        Some RDMA_REQ_SOCKET \<Rightarrow> answer E s c (snd (sock_socket E (rtn c) h))
      | Some RDMA_REQ_ACCEPT \<Rightarrow> answer E s c (snd (sock_accept E L (rtn c) (sockfd c) (req_port (req c)) h))
      | Some RDMA_REQ_CONNECT \<Rightarrow> answer E s c (snd (sock_connect E L (rtn c) (sockfd c) (req_port (req c)) h))
      | Some RDMA_REQ_CLOSE \<Rightarrow> answer E s c (sock_close E (rtn c) (sockfd c) h)
      | Some RDMA_REQ_READ \<Rightarrow>
          answer_checked E s c (sock_read_message E (rtn c) (sockfd c) (ucast (buf_sz (req c))) h)
      | Some RDMA_REQ_WRITE \<Rightarrow>
          (case sock_send_message E (rtn c) (sockfd c) (req_data (req c)) (ucast (buf_sz (req c))) h of
             Inl e \<Rightarrow> faults e
           | Inr mh \<Rightarrow> and_then (answer E s c mh) (\<lambda>(s, c, h). returns (s, clear_req_data c, h)))
      | Some RDMA_REQ_BIND \<Rightarrow> answer E s c (snd (sock_bind E L (rtn c) (sockfd c) (req_port (req c)) h))
      | Some RDMA_REQ_LISTEN \<Rightarrow> answer E s c (snd (sock_listen E (rtn c) (sockfd c) h))
      | Some RDMA_REQ_SELECT \<Rightarrow>
          and_then (answer_checked E s c (sock_select E L (req c) (rtn c) h))
            (\<lambda>(s, c, h). returns (s, clear_rtn_data c, h))
      | Some RDMA_REQ_EPOLL_CREATE1 \<Rightarrow>
          and_then (socket_info_init L) (\<lambda>new_sock_info.
            let (epfd, mh) = sock_epoll_create1 E (req c) (rtn c) h in
            if negative epfd then answer E s c mh
            else
              and_then (answer E s (c\<lparr>sockfd := epfd\<rparr>) mh) (\<lambda>(s, c, h).
                case snic_socket_insertByValue t (l_malloc L) (sock_ht s) epfd new_sock_info of
                  None \<Rightarrow> None
                | Some (_, ht) \<Rightarrow> returns (s\<lparr>sock_ht := ht\<rparr>, c, h)))
      | Some RDMA_REQ_EPOLL_CTL \<Rightarrow> answer E s c (snd (sock_epoll_ctl E L (req c) (rtn c) h))
      | Some RDMA_REQ_EPOLL_WAIT \<Rightarrow> answer_checked E s c (sock_epoll_wait E L (req c) (rtn c) h)
      | Some RDMA_REQ_POLL \<Rightarrow> answer_checked E s c (sock_poll E L (req c) (rtn c) h)
      | Some RDMA_REQ_FCNTL \<Rightarrow> answer E s c (snd (sock_fcntl E L (req c) (rtn c) (sockfd c) h))
      | Some RDMA_REQ_SETSOCKOPT \<Rightarrow> answer_checked E s c (sock_setsockopt E L (req c) (rtn c) (sockfd c) h)
      | Some RDMA_REQ_GETSOCKOPT \<Rightarrow> answer_checked E s c (sock_getsockopt E L (req c) (rtn c) (sockfd c) h)
      | Some RDMA_REQ_GETPEERNAME \<Rightarrow> answer E s c (snd (sock_getpeername E L (req c) (rtn c) (sockfd c) h))
      | Some RDMA_REQ_GETSOCKNAME \<Rightarrow> answer E s c (snd (sock_getsockname E L (req c) (rtn c) (sockfd c) h))
      | Some RDMA_REQ_NEW_RDMA_CONN \<Rightarrow>
          if \<not> l_malloc L then faults Null_deref
          else
            let new_c_info = snd (snic_null_client_r_info fresh) in
            and_then (answer E s c ((rtn c)\<lparr>rtn_value := 1\<rparr>, h)) (\<lambda>(s, c, h).
              and_then (connect_client_r_info E s new_c_info h) (\<lambda>(v, s, new_c_info, h).
                if v \<noteq> 0 then returns (s, c, h)
                else
                  let (r, h) = ext E (Pthread_create (cm_client_id new_c_info)) h in
                  if ret r \<noteq> 0 then returns (s, c, h)
                  else returns (s\<lparr>spawned := new_c_info # spawned s\<rparr>, c, h)))
      | Some RDMA_REQ_DEL_RDMA_CONN \<Rightarrow>
          and_then (answer E s c ((rtn c)\<lparr>rtn_value := 1\<rparr>, h)) (\<lambda>(s, c, h).
            and_then (global_disconnect_and_cleanup E c h) (\<lambda>(_, c, h).
              case snic_deleteByKey t (rdma_ht s) (sockfd c) of
                None \<Rightarrow> None
              | Some ht \<Rightarrow> returns (s\<lparr>rdma_ht := ht\<rparr>, c, h)))
      | None \<Rightarrow> answer E s c ((rtn c)\<lparr>rtn_value := - 1\<rparr>, h))"

section \<open>The completion loop of a connection\<close>

text \<open>One turn of one of the two loops of \<open>process_poll_cq_imm\<close>: \<open>polling\<close> says that control is
  in the inner one. \<open>Inl\<close> is a \<open>return\<close> of the function, \<open>Inr\<close> the state of the next turn. The
  remote write that a completion reports is in the request before the completion is
  delivered. The indeterminate values may differ at every turn, so they depend on the
  trace.\<close>

type_synonym poll_state = "bool \<times> server \<times> s_client \<times> trace"
type_synonym poll_result = "c_int \<times> server \<times> s_client \<times> trace"

definition poll_step ::
    "thread \<Rightarrow> env \<Rightarrow> (trace \<Rightarrow> locals) \<Rightarrow> (trace \<Rightarrow> s_client) \<Rightarrow> poll_state \<Rightarrow> (poll_result + poll_state) run" where
  "poll_step t E L fresh st =
     (case st of (polling, s, c, h) \<Rightarrow>
      if \<not> polling then
        let (r, h) = ext E (Verb (Ibv_get_cq_event (io_completion_channel c))) h in
        if ret r \<noteq> 0 then returns (Inr (False, s, c, h))
        else
          let c = c\<lparr>cq := out_ptr r\<rparr>;
              (r, h) = ext E (Verb (Ibv_ack_cq_events (cq c) 1)) h;
              (r, h) = ext E (Verb (Ibv_req_notify_cq (cq c))) h in
          if ret r \<noteq> 0 then returns (Inl (neg_errno r, s, c, h))
          else returns (Inr (True, s, c, h))
      else
        let (r, h) = ext E (Verb (Ibv_poll_cq (cq c) 1)) h in
        if \<not> positive (ret r) then returns (Inr (False, s, c, h))
        else
          let c = (case out_req r of None \<Rightarrow> c | Some q \<Rightarrow> c\<lparr>req := q\<rparr>);
              wc = hd (out_wcs r) in
          if wc_status wc \<noteq> 0 then returns (Inl (- wc_status wc, s, c, h))
          else if wc_op wc = IBV_WC_RECV_RDMA_WITH_IMM then
            and_then (post_recv_req E c h) (\<lambda>(_, c, h).
              and_then (rdma_req_event t E (L h) (fresh h) s (c\<lparr>sockfd := htonl (wc_imm_data wc)\<rparr>) h)
                (\<lambda>(s, c, h). returns (Inr (True, s, c, h))))
          else returns (Inr (True, s, c, h)))"

text \<open>The function itself. \<open>None\<close>: the loop goes on for ever, or a handler does.\<close>

partial_function (option) poll_loop ::
    "thread \<Rightarrow> env \<Rightarrow> (trace \<Rightarrow> locals) \<Rightarrow> (trace \<Rightarrow> s_client) \<Rightarrow> poll_state \<Rightarrow> poll_result run" where
  "poll_loop t E L fresh st =
     (case poll_step t E L fresh st of
        None \<Rightarrow> None
      | Some x \<Rightarrow>
          (case x of Inl e \<Rightarrow> Some (Inl e)
           | Inr n \<Rightarrow> (case n of Inl res \<Rightarrow> returns res | Inr st' \<Rightarrow> poll_loop t E L fresh st')))"

definition snic_process_poll_cq_imm ::
    "thread \<Rightarrow> env \<Rightarrow> (trace \<Rightarrow> locals) \<Rightarrow> (trace \<Rightarrow> s_client) \<Rightarrow> server \<Rightarrow> s_client \<Rightarrow> trace
      \<Rightarrow> (c_int \<times> server \<times> s_client \<times> trace) run" where
  "snic_process_poll_cq_imm t E L fresh s c h = poll_loop t E L fresh (False, s, c, h)"

text \<open>\<open>start_thread\<close>, which is all the program does: \<open>garbage\<close> is the contents of the allocated
  \<open>server_r_info\<close>.\<close>

definition start_thread ::
    "thread \<Rightarrow> env \<Rightarrow> (trace \<Rightarrow> locals) \<Rightarrow> (trace \<Rightarrow> s_client) \<Rightarrow> server \<Rightarrow> sockaddr \<Rightarrow> trace
      \<Rightarrow> (server \<times> trace) run" where
  "start_thread t E L fresh garbage addr h =
     (let s = snd (null_server_r_info garbage);
          s = s\<lparr>rdma_ht := snic_createHashTable, sock_ht := snic_createSocketHashTable\<rparr>;
          (v, addr, h) = set_server_r_info E addr (- 1) h in
      if v \<noteq> 0 then returns (s, h)
      else
        let (v, s, h) = start_rdma_server E s addr h in
        if v \<noteq> 0 then returns (s, h)
        else
          let c = snd (snic_null_client_r_info (fresh h)) in
          and_then (connect_client_r_info E s c h) (\<lambda>(v, s, c, h).
            if v \<noteq> 0 then returns (s, h)
            else and_then (snic_process_poll_cq_imm t E L fresh s c h) (\<lambda>(_, s, _, h). returns (s, h))))"

text \<open>\<open>rdma_server_main.c\<close>.\<close>

definition snic_main ::
    "thread \<Rightarrow> env \<Rightarrow> (trace \<Rightarrow> locals) \<Rightarrow> (trace \<Rightarrow> s_client) \<Rightarrow> server \<Rightarrow> sockaddr \<Rightarrow> trace
      \<Rightarrow> (c_int \<times> server \<times> trace) run" where
  "snic_main t E L fresh garbage addr h =
     and_then (start_thread t E L fresh garbage addr h) (\<lambda>(s, h). returns (0, s, h))"

end
