(* ===== verification/Wire_Props.thy ===== *)
theory Wire_Props
  imports Wire
begin

text \<open>
  Round trips of the serialisers: what the receiving side reads out of a message is what
  the sending side put in, and exactly where it is not. The receiving side's variables
  before the call (index 0) do not matter.
\<close>

section \<open>The epoll\_wait loops\<close>

lemma put_wait_events_frame:
  "i < off \<or> 1024 \<le> i \<Longrightarrow> put_wait_events b off es i = b i"
  by (induction b off es rule: put_wait_events.induct)
    (auto simp: put_word_def buf_put_frame)

lemma put_wait_events_get_word:
  "off' + LENGTH('a) div 8 \<le> off \<Longrightarrow>
     (get_word (put_wait_events b off es) off' :: 'a::len word) = get_word b off'"
proof -
  assume le: "off' + LENGTH('a) div 8 \<le> off"
  have "buf_get (put_wait_events b off es) off' (LENGTH('a) div 8) = buf_get b off' (LENGTH('a) div 8)"
    by (rule nth_equalityI) (use le in \<open>auto simp: put_wait_events_frame\<close>)
  then show ?thesis by (simp add: get_word_def)
qed

text \<open>How many events still fit when the next one goes to \<open>off\<close>.\<close>

definition events_fit :: "nat \<Rightarrow> nat" where
  "events_fit off = (1024 - off) div 12"

lemma events_fit_step: "off + 12 \<le> 1024 \<Longrightarrow> events_fit off = Suc (events_fit (off + 12))"
  by (simp add: events_fit_def)

lemma events_fit_stop: "1024 < off + 12 \<Longrightarrow> events_fit off = 0"
  by (simp add: events_fit_def)

lemma get_put_wait_events:
  "min (events_fit off) (length es) \<le> length dest \<Longrightarrow>
   get_wait_events (put_wait_events b off es) off (length es) dest
     = Inr (take (events_fit off) es @ drop (min (events_fit off) (length es)) dest)"
proof (induction es arbitrary: b off dest)
  case Nil
  then show ?case by simp
next
  case (Cons e es)
  show ?case
  proof (cases "1024 < off + 12")
    case True
    then show ?thesis by (simp add: events_fit_stop)
  next
    case False
    let ?b = "put_word (put_word b off (ev_events e)) (off + 4) (ev_data e)"
    from False have fit: "events_fit off = Suc (events_fit (off + 12))"
      by (intro events_fit_step) simp
    with Cons.prems obtain d ds where dest: "dest = d # ds" by (cases dest) auto
    have "get_word (put_wait_events ?b (off + 12) es) off = ev_events e"
      and "get_word (put_wait_events ?b (off + 12) es) (off + 4) = ev_data e"
      by (simp_all add: put_wait_events_get_word buffer_simps)
    moreover have "get_wait_events (put_wait_events ?b (off + 12) es) (off + 12) (length es) ds
        = Inr (take (events_fit (off + 12)) es @ drop (min (events_fit (off + 12)) (length es)) ds)"
      by (rule Cons.IH) (use Cons.prems fit dest in simp)
    ultimately show ?thesis using False fit dest by simp
  qed
qed

section \<open>Properties\<close>

text \<open>The host's serialised \<open>epoll_ctl\<close> request is read back unchanged by the SmartNIC's
  deserialiser and by the host's own: descriptor, operation, target and event.\<close>

theorem epoll_ctl_roundtrip:
  "snic_deserialize_epoll_ctl_dt
     (serialize_epoll_ctl_dt (Some b) (Some epfd) (Some op) (Some fd) (Some ev))
     (Some epfd0) (Some op0) (Some fd0) (Some ev0) = (Some epfd, Some op, Some fd, Some ev)
   \<and> deserialize_epoll_ctl_dt
     (serialize_epoll_ctl_dt (Some b) (Some epfd) (Some op) (Some fd) (Some ev))
     (Some epfd0) (Some op0) (Some fd0) (Some ev0) = (Some epfd, Some op, Some fd, Some ev)"
  by (simp add: snic_deserialize_epoll_ctl_dt_def deserialize_epoll_ctl_dt_def
      serialize_epoll_ctl_dt_def buffer_simps)

lemma epoll_wait_transfer:
  assumes "length evs < 2 ^ 31" and "min 84 (length evs) \<le> length dest"
  shows "\<exists>b'. serialize_epoll_wait_dt fresh (Some b) (Some (word_of_nat (length evs))) (Some epfd)
             (Some maxevents) (Some timeout) (Some (evs @ rest)) = Inr (Some b')
    \<and> deserialize_epoll_wait_dt (Some b') (Some n0) (Some e0) (Some m0) (Some t0) (Some dest)
        = Inr (Some (word_of_nat (length evs)), Some epfd, Some maxevents, Some timeout,
               Some (take 84 evs @ drop (min 84 (length evs)) dest))"
proof -
  let ?n = "word_of_nat (length evs) :: c_int"
  let ?b = "put_word (put_word (put_word (put_word b 0 ?n) 4 epfd) 8 maxevents) 12 timeout"
  have n: "nat (sint ?n) = length evs"
    using assms(1) by (simp add: c_arith)
  have fit: "events_fit 16 = 84" by (simp add: events_fit_def)
  have "serialize_epoll_wait_dt fresh (Some b) (Some ?n) (Some epfd) (Some maxevents) (Some timeout)
      (Some (evs @ rest)) = Inr (Some (put_wait_events ?b 16 evs))"
    by (simp add: serialize_epoll_wait_dt_def n)
  moreover have "get_word (put_wait_events ?b 16 evs) 0 = ?n"
    "get_word (put_wait_events ?b 16 evs) 4 = epfd" "get_word (put_wait_events ?b 16 evs) 8 = maxevents"
    "get_word (put_wait_events ?b 16 evs) 12 = timeout"
    by (simp_all add: put_wait_events_get_word buffer_simps)
  ultimately show ?thesis
    using get_put_wait_events [of 16 evs dest ?b] assms(2)
    by (simp add: deserialize_epoll_wait_dt_def n fit)
qed

text \<open>Of the events returned by \<open>epoll_wait\<close> the receiver gets the first 84 and keeps the
  rest of its array as it was, while the count, the descriptor, the limit and the timeout
  arrive unchanged; neither side faults if the receiver's array has room for those
  events.\<close>

theorem epoll_wait_roundtrip:
  assumes "length evs < 2 ^ 31" and "min 84 (length evs) \<le> length dest"
  shows "\<exists>b'. serialize_epoll_wait_dt fresh (Some b) (Some (word_of_nat (length evs))) (Some epfd)
             (Some maxevents) (Some timeout) (Some evs) = Inr (Some b')
    \<and> deserialize_epoll_wait_dt (Some b') (Some n0) (Some e0) (Some m0) (Some t0) (Some dest)
        = Inr (Some (word_of_nat (length evs)), Some epfd, Some maxevents, Some timeout,
               Some (take 84 evs @ drop (min 84 (length evs)) dest))"
  using epoll_wait_transfer [OF assms, where rest = "[]"] by simp

theorem epoll_wait_roundtrip_witness:
  "\<exists>b'. serialize_epoll_wait_dt None (Some (\<lambda>_. 0)) (Some (word_of_nat (length [\<lparr>ev_events = 1, ev_data = 7\<rparr>])))
        (Some 5) (Some 10) (Some 3) (Some [\<lparr>ev_events = 1, ev_data = 7\<rparr>]) = Inr (Some b')
    \<and> deserialize_epoll_wait_dt (Some b') (Some 0) (Some 0) (Some 0) (Some 0) (Some [\<lparr>ev_events = 0, ev_data = 0\<rparr>])
        = Inr (Some (word_of_nat (length [\<lparr>ev_events = 1, ev_data = 7\<rparr>])), Some 5, Some 10, Some 3,
               Some (take 84 [\<lparr>ev_events = 1, ev_data = 7\<rparr>]
                 @ drop (min 84 (length [\<lparr>ev_events = 1, ev_data = 7\<rparr>])) [\<lparr>ev_events = 0, ev_data = 0\<rparr>]))"
  by (rule epoll_wait_roundtrip) simp_all

text \<open>Serialising \<open>epoll_wait\<close> data never writes at or beyond byte 1024 of the message,
  however many events there are.\<close>

theorem epoll_wait_stays_below_1024:
  assumes "serialize_epoll_wait_dt fresh (Some b) nfds epfd maxevents timeout event = Inr (Some b')"
    and "1024 \<le> i"
  shows "b' i = b i"
  using assms
  by (auto simp: serialize_epoll_wait_dt_def put_wait_events_frame put_word_def buf_put_frame Let_def
      split: option.splits if_splits)

theorem epoll_wait_stays_below_1024_witness:
  "\<exists>b'. serialize_epoll_wait_dt None (Some (\<lambda>_. 0)) (Some 0) (Some 5) (Some 10) (Some 3) (Some [])
     = Inr (Some b') \<and> b' 1024 = 0"
proof -
  obtain b' where b': "serialize_epoll_wait_dt None (Some (\<lambda>_. 0)) (Some 0) (Some 5) (Some 10) (Some 3)
      (Some []) = Inr (Some b')"
    by (simp add: serialize_epoll_wait_dt_def)
  from epoll_wait_stays_below_1024 [OF this, of 1024] b' show ?thesis by auto
qed

section \<open>select\<close>

text \<open>What is left of the read set after the flag has been stored over its first three bytes:
  descriptors 0 to 23 are replaced by bits 8 to 31 of the flag.\<close>

definition clobbered :: "c_int \<Rightarrow> fd_set \<Rightarrow> fd_set" where
  "clobbered flag s = (s AND NOT (mask 24)) OR drop_bit 8 (ucast flag)"

lemma bit_clobbered:
  assumes "j < 1024"
  shows "bit (clobbered flag s) j \<longleftrightarrow> (if j < 24 then bit flag (8 + j) else bit s j)"
proof -
  have "bit (clobbered flag s) j \<longleftrightarrow> (bit s j \<and> bit (NOT (mask 24) :: fd_set) j) \<or> bit flag (8 + j)"
    using assms bit_imp_le_length [of flag "8 + j"]
    by (auto simp only: clobbered_def bit_or_iff bit_and_iff bit_drop_bit_eq bit_ucast_iff o_def) simp_all
  moreover have "bit (NOT (mask 24) :: fd_set) j \<longleftrightarrow> \<not> j < 24"
    using assms by (simp add: bit_not_iff bit_mask_iff)
  moreover have "\<not> bit flag (8 + j)" if "\<not> j < 24"
    using that bit_imp_le_length [of flag "8 + j"] by auto
  ultimately show ?thesis by auto
qed

lemma read_set_clobbered:
  assumes "buf_get b 5 128 = enc_fd_set s"
  shows "dec_fd_set (buf_get (put_word b 4 flag) 5 128) = clobbered flag s"
proof (rule bit_word_eqI)
  fix j assume "j < LENGTH(1024)"
  then have j: "j < 1024" by simp
  let ?bs = "buf_get (put_word b 4 flag) 5 128"
  have b: "b (5 + k) = enc_fd_set s ! k" if "k < 128" for k
    using that by (simp flip: assms)
  have byte: "?bs ! k = (if k < 3 then ucast (drop_bit (8 * Suc k) flag) else enc_fd_set s ! k)"
    if "k < 128" for k
    using that b [OF that] by (auto simp: put_word_def buf_put_def)
  have k: "j div 8 < 128" using j by auto
  have split: "8 * (j div 8) + j mod 8 = j" by simp
  have "bit (dec_fd_set ?bs) j = bit (?bs ! (j div 8)) (j mod 8)"
    using j k by (simp only: dec_fd_set_def bit_of_le length_buf_get) simp
  also have "\<dots> = (if j < 24 then bit flag (8 + j) else bit s j)"
  proof (cases "j < 24")
    case True
    then have "j div 8 < 3" by auto
    then have "?bs ! (j div 8) = ucast (drop_bit (8 * Suc (j div 8)) flag)" using byte [OF k] by simp
    with True show ?thesis by (simp add: bit_ucast_iff bit_drop_bit_eq add.assoc split)
  next
    case False
    then have "\<not> j div 8 < 3" by auto
    then have "?bs ! (j div 8) = ucast (drop_bit (8 * (j div 8)) s)"
      using byte [OF k] k by (simp add: enc_fd_set_def)
    with False show ?thesis by (simp add: bit_ucast_iff bit_drop_bit_eq split)
  qed
  finally show "bit (dec_fd_set ?bs) j = bit (clobbered flag s) j" by (simp add: bit_clobbered [OF j])
qed

lemma put_fd_set_frame [buffer_simps]:
  "off' + n \<le> off \<or> off + 128 \<le> off' \<Longrightarrow> buf_get (put_fd_set b off f) off' n = buf_get b off' n"
  by (auto simp: put_fd_set_def buffer_simps split: option.splits)

lemma put_fd_set_word_frame [buffer_simps]:
  "off' + LENGTH('a) div 8 \<le> off \<or> off + 128 \<le> off' \<Longrightarrow>
     (get_word (put_fd_set b off f) off' :: 'a::len word) = get_word b off'"
  by (simp add: get_word_def put_fd_set_frame)

lemma put_fd_set_same [simp]:
  "buf_get (put_fd_set b off (Some s)) off 128 = enc_fd_set s"
  by (simp add: put_fd_set_def)

text \<open>The decimal digits of the flag as the receiver takes them apart.\<close>

lemma select_flag_digits:
  "sint (select_flag r w e t) =
     (if r = None then 0 else 1000) + (if w = None then 0 else 100) + (if e = None then 0 else 10)
       + (if t = None then 0 else 1)"
  by (cases r; cases w; cases e; cases t; simp add: select_flag_def)

lemma select_fields:
  "\<exists>b'. serialize_select_fd_set (Some b) (Some n) r w e t = Inr (Some b') \<and> get_word b' 0 = n \<and> get_word b' 4 = select_flag r w e t
    \<and> (\<forall>s. r = Some s \<longrightarrow> dec_fd_set (buf_get b' 5 128) = clobbered (select_flag r w e t) s)
    \<and> (\<forall>s. w = Some s \<longrightarrow> dec_fd_set (buf_get b' 133 128) = s) \<and> (\<forall>s. e = Some s \<longrightarrow> dec_fd_set (buf_get b' 261 128) = s)
    \<and> (\<forall>s. t = Some s \<longrightarrow> dec_timeval (buf_get b' 389 16) = s)"
proof -
  define b1 where "b1 = put_fd_set (put_fd_set (put_fd_set (put_word b 0 n) 5 r) 133 w) 261 e"
  define b2 where "b2 = (case t of Some t \<Rightarrow> buf_put b1 389 (enc_timeval t) | None \<Rightarrow> buf_zero b1 389 16)"
  define b' where "b' = put_word b2 4 (select_flag r w e t)"
  have ser: "serialize_select_fd_set (Some b) (Some n) r w e t = Inr (Some b')"
    by (cases t) (simp_all add: serialize_select_fd_set_def b'_def b2_def b1_def Let_def)
  have low: "buf_get b2 off k = buf_get b1 off k" if "off + k \<le> 389" for off k
    using that by (auto simp: b2_def buffer_simps split: option.splits)
  have "get_word b2 0 = n" by (simp add: get_word_def low b1_def put_word_def buffer_simps)
  then have n: "get_word b' 0 = n" by (simp add: b'_def buffer_simps)
  have flag: "get_word b' 4 = select_flag r w e t" by (simp add: b'_def)
  have rd: "dec_fd_set (buf_get b' 5 128) = clobbered (select_flag r w e t) s" if "r = Some s" for s
    unfolding b'_def using that
    by (intro read_set_clobbered) (simp add: low b1_def buffer_simps)
  have wr: "dec_fd_set (buf_get b' 133 128) = s" if "w = Some s" for s
    using that by (simp add: b'_def low b1_def buffer_simps)
  have ex: "dec_fd_set (buf_get b' 261 128) = s" if "e = Some s" for s
    using that by (simp add: b'_def low b1_def buffer_simps)
  have tm: "dec_timeval (buf_get b' 389 16) = s" if "t = Some s" for s
    using that by (simp add: b'_def b2_def buffer_simps)
  show ?thesis by (intro exI [of _ b']) (simp add: ser n flag rd wr ex tm)
qed

lemma select_transfer:
  "\<exists>b'. serialize_select_fd_set (Some b) (Some n) r w e t = Inr (Some b')
    \<and> deserialize_select_fd_set (Some b') (Some n0) (Some r0) (Some w0) (Some e0) (Some t0)
      = Inr (Some n,
          Some (case r of Some s \<Rightarrow> clobbered (select_flag r w e t) s | None \<Rightarrow> r0),
          Some (case (r, w) of (Some _, Some s) \<Rightarrow> s | _ \<Rightarrow> w0),
          Some (case (r, w, e) of (Some _, Some _, Some s) \<Rightarrow> s | _ \<Rightarrow> e0),
          Some (case (r, w, e, t) of (Some _, Some _, Some _, Some s) \<Rightarrow> s | _ \<Rightarrow> t0))"
proof -
  obtain b' where b': "serialize_select_fd_set (Some b) (Some n) r w e t = Inr (Some b')" "get_word b' 0 = n"
      "get_word b' 4 = select_flag r w e t" "\<And>s. r = Some s \<Longrightarrow> dec_fd_set (buf_get b' 5 128) = clobbered (select_flag r w e t) s"
      "\<And>s. w = Some s \<Longrightarrow> dec_fd_set (buf_get b' 133 128) = s" "\<And>s. e = Some s \<Longrightarrow> dec_fd_set (buf_get b' 261 128) = s"
      "\<And>s. t = Some s \<Longrightarrow> dec_timeval (buf_get b' 389 16) = s"
    using select_fields [of b n r w e t] by blast
  show ?thesis
    by (intro exI [of _ b'] conjI, rule b'(1), cases r; cases w; cases e; cases t;
        simp add: deserialize_select_fd_set_def b'(2-7) select_flag_digits signed_divide_int_def)
qed

text \<open>The way back: a reply has all four parts, and the caller takes those it asked for, without the timeout.\<close>

lemma select_back:
  "\<exists>b'. serialize_select_fd_set (Some b) (Some n) (Some r) (Some w) (Some e) (Some t) = Inr (Some b')
    \<and> (\<forall>n0 ro wo eo. deserialize_select_fd_set (Some b') (Some n0) ro wo eo None
      = Inr (Some n, map_option (\<lambda>_. clobbered (select_flag (Some r) (Some w) (Some e) (Some t)) r) ro,
          map_option (\<lambda>_. w) wo, map_option (\<lambda>_. e) eo, None))"
proof -
  obtain b' where b': "serialize_select_fd_set (Some b) (Some n) (Some r) (Some w) (Some e) (Some t) = Inr (Some b')" "get_word b' 0 = n"
      "get_word b' 4 = select_flag (Some r) (Some w) (Some e) (Some t)"
      "dec_fd_set (buf_get b' 5 128) = clobbered (select_flag (Some r) (Some w) (Some e) (Some t)) r"
      "dec_fd_set (buf_get b' 133 128) = w" "dec_fd_set (buf_get b' 261 128) = e"
    using select_fields [of b n "Some r" "Some w" "Some e" "Some t"] by blast
  show ?thesis
    by (intro exI [of _ b']) (simp add: deserialize_select_fd_set_def b' select_flag_digits signed_divide_int_def)
qed

text \<open>What the receiver of a \<open>select\<close> request gets: the number of descriptors always; the
  timeout and the write and exception sets exactly when they and all sets before them in
  the order read, write, exception, timeout were given, and nothing otherwise; and the read
  set, when given, with descriptors 0 to 23 overwritten by the flag.\<close>

theorem select_roundtrip:
  "\<exists>b'. serialize_select_fd_set (Some b) (Some n) r w e t = Inr (Some b')
    \<and> deserialize_select_fd_set (Some b') (Some n0) (Some r0) (Some w0) (Some e0) (Some t0)
      = Inr (Some n,
          Some (case r of Some s \<Rightarrow> clobbered (select_flag r w e t) s | None \<Rightarrow> r0),
          Some (case (r, w) of (Some _, Some s) \<Rightarrow> s | _ \<Rightarrow> w0),
          Some (case (r, w, e) of (Some _, Some _, Some s) \<Rightarrow> s | _ \<Rightarrow> e0),
          Some (case (r, w, e, t) of (Some _, Some _, Some _, Some s) \<Rightarrow> s | _ \<Rightarrow> t0))"
  by (rule select_transfer)

section \<open>The other calls\<close>

lemma serialize_poll_fits:
  assumes "length ps = unat n" and "12 + 8 * unat n \<le> BUFFER_SIZE"
  shows "serialize_poll_pollfd (Some b) (Some ps) (Some n) (Some timeout)
    = Inr (Some (put_array enc_pollfd 8 (put_word (put_word b 0 timeout) 4 n) 12 ps))"
  using assms by (simp add: serialize_poll_pollfd_def)

lemma deserialize_poll_fits:
  assumes "length ps = unat n" and "12 + 8 * unat n \<le> BUFFER_SIZE"
    and "case arr of None \<Rightarrow> ok | Some a \<Rightarrow> unat n \<le> length a"
  shows "deserialize_poll_pollfd ok
      (Some (put_array enc_pollfd 8 (put_word (put_word b 0 timeout) 4 n) 12 ps)) (Some arr) (Some n0) (Some t0)
    = Inr (Some (Some (ps @ (case arr of None \<Rightarrow> [] | Some a \<Rightarrow> drop (unat n) a))), Some n, Some timeout)"
  using assms
  by (auto simp: deserialize_poll_pollfd_def pfd_codec.put_array_get_word_below buffer_simps
      split: option.splits)

text \<open>A \<open>poll\<close> request that fits into a message arrives unchanged at a SmartNIC that
  allocates the array: the descriptors with their event masks, their number and the
  timeout.\<close>

theorem poll_roundtrip:
  assumes "length ps = unat n" and "12 + 8 * unat n \<le> BUFFER_SIZE"
  shows "\<exists>b'. serialize_poll_pollfd (Some b) (Some ps) (Some n) (Some timeout) = Inr (Some b')
    \<and> snic_deserialize_poll_pollfd True (Some b') (Some None) (Some n0) (Some t0)
        = Inr (Some (Some ps), Some n, Some timeout)"
  using assms by (simp add: serialize_poll_fits snic_copies deserialize_poll_fits)

theorem poll_roundtrip_witness:
  "\<exists>b'. serialize_poll_pollfd (Some (\<lambda>_. 0)) (Some [\<lparr>pfd_fd = 3, pfd_events = 1, pfd_revents = 0\<rparr>])
         (Some 1) (Some 500) = Inr (Some b')
    \<and> snic_deserialize_poll_pollfd True (Some b') (Some None) (Some 0) (Some 0)
        = Inr (Some (Some [\<lparr>pfd_fd = 3, pfd_events = 1, pfd_revents = 0\<rparr>]), Some 1, Some 500)"
  by (rule poll_roundtrip) (simp_all add: BUFFER_SIZE_def)

text \<open>How many bytes of argument a command carries.\<close>

definition fcntl_arg_len :: "c_int \<Rightarrow> nat" where
  "fcntl_arg_len cmd =
     (if cmd \<in> {F_SETFD, F_SETFL, F_DUPFD} then 4
      else if cmd \<in> {F_GETLK, F_SETLK, F_SETLKW} then sizeof_flock else 0)"

definition fcntl_flag :: "c_int \<Rightarrow> c_int" where
  "fcntl_flag cmd = (if fcntl_arg_len cmd = 4 then 1 else if fcntl_arg_len cmd = sizeof_flock then 2 else 0)"

lemma serialize_fcntl_dt_cases:
  assumes "fcntl_arg_len c \<le> length bs"
  shows "serialize_fcntl_dt (Some b) (Some f0) (Some c) (Some bs)
     = Inr (Some (put_word (put_word (if fcntl_arg_len c = 0 then b else
                 buf_put b 8 (take (fcntl_arg_len c) bs)) 0 c) 4 (fcntl_flag c)), Some (fcntl_flag c))"
  using assms
  by (auto simp: serialize_fcntl_dt_def put_arg_def fcntl_arg_len_def fcntl_flag_def fcntl_cmds
      sizeof_flock_def)

text \<open>The argument of \<open>fcntl\<close> reaches the SmartNIC by the command: 4 bytes for the commands
  with an integer, a \<open>struct flock\<close> for the locking commands, none for every other command;
  the caller's \<open>flag\<close> is overwritten with the kind of argument.\<close>

theorem fcntl_roundtrip:
  assumes "fcntl_arg_len cmd \<le> length bs"
  shows "\<exists>b'. serialize_fcntl_dt (Some b) (Some f0) (Some cmd) (Some bs)
           = Inr (Some b', Some (fcntl_flag cmd))
    \<and> snic_deserialize_fcntl_dt True (Some b') (Some f1) (Some c1) a1
        = (Some (fcntl_flag cmd), Some cmd,
           if fcntl_arg_len cmd = 0 then None else Some (take (fcntl_arg_len cmd) bs))"
  using assms
  by (auto simp: serialize_fcntl_dt_cases snic_deserialize_fcntl_dt_def fcntl_flag_def
      fcntl_arg_len_def sizeof_flock_def buffer_simps)

theorem fcntl_roundtrip_witness:
  "\<exists>b'. serialize_fcntl_dt (Some (\<lambda>_. 0)) (Some 9) (Some F_SETFL) (Some [0, 8, 0, 0])
           = Inr (Some b', Some (fcntl_flag F_SETFL))
    \<and> snic_deserialize_fcntl_dt True (Some b') (Some 0) (Some 0) None
        = (Some (fcntl_flag F_SETFL), Some F_SETFL,
           if fcntl_arg_len F_SETFL = 0 then None else Some (take (fcntl_arg_len F_SETFL) [0, 8, 0, 0]))"
  by (rule fcntl_roundtrip) (simp add: fcntl_arg_len_def fcntl_cmds)

text \<open>A socket option that fits into a message arrives unchanged, level, name, length and
  value; an address and its length do; and so does the flag of \<open>epoll_create1\<close>.\<close>

theorem option_and_address_roundtrip:
  assumes "length v = unat len" and "0 < len" and "12 + unat len \<le> BUFFER_SIZE"
  shows "(\<exists>b'. serialize_sockopt_dt (Some b) (Some level) (Some name) (Some v) (Some len) = Inr (Some b')
      \<and> snic_deserialize_sockopt_dt True (Some b') (Some l0) (Some n0) v0 (Some len0)
        = Inr (Some level, Some name, Some v, Some len))
    \<and> snic_deserialize_addr_dt (serialize_addr_dt (Some b) (Some alen) (Some a)) (Some alen0) (Some a0)
        = (Some alen, Some a)
    \<and> snic_deserialize_epoll_create_dt (serialize_epoll_create_dt (Some b) (Some f)) (Some f0) = Some f"
  using assms
  by (simp add: serialize_sockopt_dt_def deserialize_sockopt_dt_def snic_copies serialize_addr_dt_def
      deserialize_addr_dt_def serialize_epoll_create_dt_def deserialize_epoll_create_dt_def buffer_simps)

theorem option_and_address_roundtrip_witness:
  "(\<exists>b'. serialize_sockopt_dt (Some (\<lambda>_. 0)) (Some 1) (Some 2) (Some [1, 0, 0, 0]) (Some 4) = Inr (Some b')
      \<and> snic_deserialize_sockopt_dt True (Some b') (Some 0) (Some 0) None (Some 0)
        = Inr (Some 1, Some 2, Some [1, 0, 0, 0], Some 4))
    \<and> snic_deserialize_addr_dt (serialize_addr_dt (Some (\<lambda>_. 0)) (Some 16)
        (Some \<lparr>sin_family = 2, sin_port = 8080, sin_addr = 1, sin_zero = 0\<rparr>)) (Some 0)
        (Some \<lparr>sin_family = 0, sin_port = 0, sin_addr = 0, sin_zero = 0\<rparr>)
        = (Some 16, Some \<lparr>sin_family = 2, sin_port = 8080, sin_addr = 1, sin_zero = 0\<rparr>)
    \<and> snic_deserialize_epoll_create_dt (serialize_epoll_create_dt (Some (\<lambda>_. 0)) (Some 7)) (Some 0) = Some 7"
  by (rule option_and_address_roundtrip) (simp_all add: BUFFER_SIZE_def)

end
