(* ===== verification/Socket_Props.thy ===== *)
theory Socket_Props
  imports Socket Wire_Props
begin

text \<open>
  The contract of the socket handlers: the locale \<open>forwarding\<close> states what a handler that
  forwards one kernel call promises the dispatcher, and each handler that keeps the promise
  interprets it. The theorems after it say what the others do, on the data the host's
  serialisers produce.
\<close>

section \<open>The contract\<close>

text \<open>The reply to a request for which the calls \<open>cs\<close> (newest first) were made: it carries the
  result of the newest one, as an \<open>int\<close>; a failure carries \<open>errno\<close> and leaves the data; a
  positive result changes nothing else of the message.\<close>

definition reports_kernel :: "env \<Rightarrow> call list \<Rightarrow> rtn_msg \<Rightarrow> trace \<Rightarrow> rtn_msg \<times> trace \<Rightarrow> bool" where
  "reports_kernel E cs m h reply \<longleftrightarrow>
     (let (m', h') = reply; r = E (cs @ h) in
      h' = cs @ h \<and> ucast (rtn_value m') = ret r \<and> (negative (rtn_value m') \<longleftrightarrow> negative (ret r))
      \<and> (ret r = - 1 \<longrightarrow> rtn_value m' = - 1 \<and> rtn_errno m' = err r \<and> rtn_data m' = rtn_data m)
      \<and> (positive (ret r) \<longrightarrow> m' = m\<lparr>rtn_value := scast (ret r)\<rparr>))"

locale forwarding =
  fixes handler :: "env \<Rightarrow> rtn_msg \<Rightarrow> trace \<Rightarrow> rtn_msg \<times> trace"
    and syscall :: call and before :: trace
  assumes traces: "snd (handler E m h) = syscall # before @ h"
    and value_law: "rtn_value (fst (handler E m h)) = scast (ret (E (syscall # before @ h)))"
    and errno_law: "ret (E (syscall # before @ h)) = - 1 \<Longrightarrow>
      rtn_errno (fst (handler E m h)) = err (E (syscall # before @ h))"
    and errno_kept: "positive (ret (E (syscall # before @ h))) \<Longrightarrow>
      rtn_errno (fst (handler E m h)) = rtn_errno m"
begin

text \<open>The \<open>int\<close> the host takes out of the reply is the kernel's, and its sign is.\<close>

lemma int_result: "ucast (rtn_value (fst (handler E m h))) = ret (E (syscall # before @ h))"
  by (simp add: value_law)

lemma failure_visible:
  "negative (rtn_value (fst (handler E m h))) \<longleftrightarrow> negative (ret (E (syscall # before @ h)))"
  by (simp add: value_law)

lemma failed_reply:
  assumes "ret (E (syscall # before @ h)) = - 1"
  shows "rtn_value (fst (handler E m h)) = - 1 \<and> rtn_errno (fst (handler E m h)) = err (E (syscall # before @ h))"
  using assms by (simp add: value_law errno_law)

end

locale forwarding_plain = forwarding +
  assumes data_kept: "rtn_data (fst (handler E m h)) = rtn_data m"
begin

lemma success_reply:
  assumes "positive (ret (E (syscall # before @ h)))"
  shows "fst (handler E m h) = m\<lparr>rtn_value := scast (ret (E (syscall # before @ h)))\<rparr>"
  using assms by (simp add: value_law errno_kept data_kept rtn_msg.equality)

lemma reports: "reports_kernel E (syscall # before) m h (handler E m h)"
  using failed_reply success_reply int_result failure_visible
  by (simp add: reports_kernel_def Let_def case_prod_unfold traces data_kept)

end

lemmas handler_defs = sock_socket_def sock_bind_def sock_listen_def sock_accept_def sock_close_def
  sock_connect_def sock_epoll_create1_def sock_epoll_ctl_def sock_fcntl_def sock_getpeername_def
  sock_getsockname_def errno_if_def ext_def Let_def

interpretation fw_socket: forwarding_plain "\<lambda>E m h. snd (sock_socket E m h)"
    "Sys (Sys_socket (ucast AF_INET) SOCK_STREAM 0)" "[]"
  by unfold_locales (auto simp: handler_defs)

interpretation fw_bind: forwarding_plain "\<lambda>E m h. snd (sock_bind E L m sockfd port h)"
    "Sys (Sys_bind sockfd (in_address L port INADDR_ANY) 16)" "[]" for L sockfd port
  by unfold_locales (auto simp: handler_defs)

interpretation fw_listen: forwarding_plain "\<lambda>E m h. snd (sock_listen E m sockfd h)"
    "Sys (Sys_listen sockfd 1024)" "[]" for sockfd
  by unfold_locales (auto simp: handler_defs)

interpretation fw_accept: forwarding_plain "\<lambda>E m h. snd (sock_accept E L m sockfd port h)"
    "Sys (Sys_accept sockfd (in_address L port INADDR_ANY) 16)" "[]" for L sockfd port
  by unfold_locales (auto simp: handler_defs)

interpretation fw_close: forwarding_plain "\<lambda>E m h. sock_close E m sockfd h"
    "Sys (Sys_close sockfd)" "[]" for sockfd
  by unfold_locales (auto simp: handler_defs)

interpretation fw_connect: forwarding_plain "\<lambda>E m h. snd (sock_connect E L m sockfd port h)"
    "Sys (Sys_connect sockfd (in_address L port (inet_addr DEFAULT_RDMA_SERVER_IP)) 16)" "[]"
    for L sockfd port
  by unfold_locales (auto simp: handler_defs)

interpretation fw_epoll_create1: forwarding_plain "\<lambda>E m h. snd (sock_epoll_create1 E q m h)"
    "Sys (Sys_epoll_create1 (get_word (req_data q) 0))" "[]" for q
  by unfold_locales (auto simp: handler_defs snic_copies deserialize_epoll_create_dt_def)

text \<open>The event, the descriptors and the operation of an \<open>epoll_ctl\<close> request.\<close>

definition ctl_event :: "req_msg \<Rightarrow> epoll_event" where
  "ctl_event q = \<lparr>ev_events = get_word (req_data q) 12, ev_data = get_word (req_data q) 16\<rparr>"

interpretation fw_epoll_ctl: forwarding_plain "\<lambda>E m h. snd (sock_epoll_ctl E L q m h)"
    "Sys (Sys_epoll_ctl (get_word (req_data q) 0) (get_word (req_data q) 4) (get_word (req_data q) 8)
       (ctl_event q))"
    "[Sys (Sys_fcntl (get_word (req_data q) 8) F_GETFD None), Sys (Sys_fcntl (get_word (req_data q) 0) F_GETFD None)]"
    for L q
  by unfold_locales (auto simp: handler_defs snic_deserialize_epoll_ctl_dt_def ctl_event_def)

interpretation fw_getpeername: forwarding "\<lambda>E m h. snd (sock_getpeername E L q m sockfd h)"
    "Sys (Sys_getpeername sockfd (dec_sockaddr (buf_get (req_data q) 4 16)) (get_word (req_data q) 0))" "[]"
    for L q sockfd
  by unfold_locales (auto simp: handler_defs snic_copies deserialize_addr_dt_def)

interpretation fw_getsockname: forwarding "\<lambda>E m h. snd (sock_getsockname E L q m sockfd h)"
    "Sys (Sys_getsockname sockfd (dec_sockaddr (buf_get (req_data q) 4 16)) (get_word (req_data q) 0))" "[]"
    for L q sockfd
  by unfold_locales (auto simp: handler_defs snic_copies deserialize_addr_dt_def)

section \<open>Properties\<close>

text \<open>The replies to \<open>socket\<close>, \<open>bind\<close>, \<open>listen\<close>, \<open>accept\<close>, \<open>connect\<close>, \<open>close\<close>,
  \<open>epoll_create1\<close> and \<open>epoll_ctl\<close> requests report the result of exactly the kernel call the
  request names, made on the descriptor and port (or the event) of the request; only
  \<open>epoll_ctl\<close> makes two probing calls before it.\<close>

theorem forwarded_calls_report_kernel:
  "reports_kernel E [Sys (Sys_socket (ucast AF_INET) SOCK_STREAM 0)] m h (snd (sock_socket E m h))
   \<and> reports_kernel E [Sys (Sys_bind fd (in_address L port INADDR_ANY) 16)] m h (snd (sock_bind E L m fd port h))
   \<and> reports_kernel E [Sys (Sys_listen fd 1024)] m h (snd (sock_listen E m fd h))
   \<and> reports_kernel E [Sys (Sys_accept fd (in_address L port INADDR_ANY) 16)] m h (snd (sock_accept E L m fd port h))
   \<and> reports_kernel E [Sys (Sys_connect fd (in_address L port (inet_addr DEFAULT_RDMA_SERVER_IP)) 16)] m h
       (snd (sock_connect E L m fd port h))
   \<and> reports_kernel E [Sys (Sys_close fd)] m h (sock_close E m fd h)
   \<and> reports_kernel E [Sys (Sys_epoll_create1 (get_word (req_data q) 0))] m h (snd (sock_epoll_create1 E q m h))
   \<and> reports_kernel E [Sys (Sys_epoll_ctl (get_word (req_data q) 0) (get_word (req_data q) 4)
         (get_word (req_data q) 8) (ctl_event q)),
       Sys (Sys_fcntl (get_word (req_data q) 8) F_GETFD None), Sys (Sys_fcntl (get_word (req_data q) 0) F_GETFD None)]
       m h (snd (sock_epoll_ctl E L q m h))"
  using fw_socket.reports fw_bind.reports fw_listen.reports fw_accept.reports fw_connect.reports
    fw_close.reports fw_epoll_create1.reports fw_epoll_ctl.reports
  by simp

text \<open>Reading: if the kernel delivers \<open>n\<close> bytes, of which there is at least one and at most
  \<open>BUFFER_SIZE\<close>, the reply has the value \<open>n\<close>, the error 0, those bytes first in its data and
  the rest of the data as before; and the kernel was asked for the count the host sent, as
  the \<open>int\<close> the handler receives.\<close>

theorem sock_read_delivers:
  assumes "E (Sys (Sys_read sockfd (scast count)) # h) = r"
    and "0 < length (out_bytes r)" and "length (out_bytes r) \<le> BUFFER_SIZE"
    and "rv r = word_of_nat (length (out_bytes r))"
  shows "sock_read_message E m sockfd count h =
    Inr (word_of_nat (length (out_bytes r)),
         \<lparr>rtn_errno = 0, rtn_value = word_of_nat (length (out_bytes r)),
          rtn_data = buf_put (rtn_data m) 0 (out_bytes r)\<rparr>,
         Sys (Sys_read sockfd (scast count)) # h)
    \<and> buf_get (buf_put (rtn_data m) 0 (out_bytes r)) 0 (length (out_bytes r)) = out_bytes r"
proof -
  have small: "length (out_bytes r) < 2 ^ 63" using assms(3) by (simp add: BUFFER_SIZE_def)
  then have pos: "sint (word_of_nat (length (out_bytes r)) :: i64) = int (length (out_bytes r))"
    by (simp add: signed_of_nat signed_take_bit_int_eq_self)
  have nz: "(word_of_nat (length (out_bytes r)) :: i64) \<noteq> 0"
    using pos assms(2) by (metis length_greater_0_conv of_nat_eq_0_iff signed_0 less_numeral_extra(3))
  have nneg: "\<not> negative (word_of_nat (length (out_bytes r)) :: i64)"
    by (simp add: negative_def pos)
  have cast: "ucast (word_of_nat (length (out_bytes r)) :: i64) = (word_of_nat (length (out_bytes r)) :: c_int)"
    using small by (simp add: unsigned_of_nat take_bit_nat_eq_self)
  show ?thesis
    using assms nz nneg cast by (simp add: sock_read_message_def ext_def)
qed

theorem sock_read_delivers_witness:
  "sock_read_message (\<lambda>_. resp0\<lparr>rv := 2, out_bytes := [104, 105]\<rparr>)
      \<lparr>rtn_errno = 11, rtn_value = 0, rtn_data = \<lambda>_. 0\<rparr> 5 100 [] =
    Inr (2, \<lparr>rtn_errno = 0, rtn_value = 2, rtn_data = buf_put (\<lambda>_. 0) 0 [104, 105]\<rparr>,
         [Sys (Sys_read 5 (scast (100 :: c_int)))])
    \<and> buf_get (buf_put (\<lambda>_. 0) 0 [104, 105]) 0 2 = [104, 105]"
  using sock_read_delivers [of "\<lambda>_. resp0\<lparr>rv := 2, out_bytes := [104, 105]\<rparr>" 5 100 "[]"
      "resp0\<lparr>rv := 2, out_bytes := [104, 105]\<rparr>" "\<lparr>rtn_errno = 11, rtn_value = 0, rtn_data = \<lambda>_. 0\<rparr>"]
  by (simp add: BUFFER_SIZE_def)

text \<open>Concrete values for the witnesses.\<close>

definition locals0 :: locals where
  "locals0 = \<lparr>l_sin_zero = 0, l_readfds = 5, l_writefds = 6, l_exceptfds = 7, l_int = 0, l_nfds = 0,
     l_event = \<lparr>ev_events = 0, ev_data = 0\<rparr>, l_events = replicate 100 \<lparr>ev_events = 0, ev_data = 0\<rparr>,
     l_optval = None, l_addr = \<lparr>sin_family = 0, sin_port = 0, sin_addr = 0, sin_zero = 0\<rparr>,
     l_malloc = True, l_info = 4096\<rparr>"

definition req0 :: req_msg where
  "req0 = \<lparr>rdma_req = 0, buf_sz = 0, req_port = 0, req_data = \<lambda>_. 0\<rparr>"

definition rtn0 :: rtn_msg where
  "rtn0 = \<lparr>rtn_errno = 0, rtn_value = 7, rtn_data = \<lambda>_. 0\<rparr>"

text \<open>A \<open>setsockopt\<close> or \<open>getsockopt\<close> request never changes the value of the reply: the host
  is sent the result of whatever was answered before, whether the kernel succeeds or
  fails.\<close>

theorem sockopt_reply_value_stale:
  assumes "sock_setsockopt E L q m sockfd h = Inr (ret1, m1, h1)"
    and "sock_getsockopt E L q m sockfd h = Inr (ret2, m2, h2)"
  shows "rtn_value m1 = rtn_value m \<and> rtn_value m2 = rtn_value m"
  using assms
  by (auto simp: sock_setsockopt_def sock_getsockopt_def Let_def ext_def
      split: sum.splits prod.splits option.splits if_splits)

theorem sockopt_reply_value_stale_witness:
  "\<exists>m1 m2 h1 h2. sock_setsockopt (\<lambda>_. resp0\<lparr>rv := - 1, err := 22\<rparr>) locals0 req0 rtn0 5 [] = Inr (- 1, m1, h1)
    \<and> sock_getsockopt (\<lambda>_. resp0\<lparr>rv := - 1, err := 22\<rparr>) locals0 req0 rtn0 5 [] = Inr (- 1, m2, h2)
    \<and> rtn_value m1 = 7 \<and> rtn_value m2 = 7"
proof -
  let ?E = "\<lambda>_ :: trace. resp0\<lparr>rv := - 1, err := 22\<rparr>"
  obtain m1 h1 m2 h2 where
    1: "sock_setsockopt ?E locals0 req0 rtn0 5 [] = Inr (- 1, m1, h1)" and
    2: "sock_getsockopt ?E locals0 req0 rtn0 5 [] = Inr (- 1, m2, h2)"
    by (simp add: sock_setsockopt_def sock_getsockopt_def snic_copies deserialize_sockopt_dt_def
        locals0_def req0_def ext_def ret_def)
  from sockopt_reply_value_stale [OF 1 2] 1 2 show ?thesis by (auto simp: rtn0_def)
qed

text \<open>For the commands of \<open>fcntl\<close> that take an integer (\<open>F_SETFD\<close>, \<open>F_SETFL\<close>, \<open>F_DUPFD\<close>) the
  kernel is not passed the integer of the request but a pointer to a copy of it.\<close>

theorem fcntl_integer_passed_as_pointer:
  assumes "cmd \<in> {F_SETFD, F_SETFL, F_DUPFD}" and "length bs = 4" and "l_malloc L"
    and "serialize_fcntl_dt (Some b) (Some f) (Some cmd) (Some bs) = Inr (Some b', f')"
  shows "snd (snd (sock_fcntl E L (q\<lparr>req_data := b'\<rparr>) m sockfd h))
    = Sys (Sys_fcntl sockfd cmd (Some (Some bs))) # h"
proof -
  have len: "fcntl_arg_len cmd = 4" using assms(1) by (simp add: fcntl_arg_len_def)
  have "snic_deserialize_fcntl_dt True (Some b') (Some (l_int L)) (Some (l_int L)) None
      = (Some 1, Some cmd, Some bs)"
    using assms(4) len assms(2) serialize_fcntl_dt_cases [of cmd bs b f]
    by (auto simp: snic_deserialize_fcntl_dt_def fcntl_flag_def buffer_simps)
  then show ?thesis
    using assms(3) by (simp add: sock_fcntl_def ext_def Let_def)
qed

theorem fcntl_integer_passed_as_pointer_witness:
  "\<exists>b' f'. serialize_fcntl_dt (Some (\<lambda>_. 0)) (Some 5) (Some F_SETFL) (Some [0, 8, 0, 0]) = Inr (Some b', f')
    \<and> snd (snd (sock_fcntl (\<lambda>_. resp0) locals0 (req0\<lparr>req_data := b'\<rparr>) rtn0 5 []))
        = [Sys (Sys_fcntl 5 F_SETFL (Some (Some [0, 8, 0, 0])))]"
proof -
  obtain b' f' where s: "serialize_fcntl_dt (Some (\<lambda>_. 0)) (Some 5) (Some F_SETFL) (Some [0, 8, 0, 0]) = Inr (Some b', f')"
    by (simp add: serialize_fcntl_dt_cases fcntl_arg_len_def fcntl_cmds)
  from fcntl_integer_passed_as_pointer [OF _ _ _ s, of locals0 "\<lambda>_. resp0" req0 rtn0 5 "[]"] s
  show ?thesis by (auto simp: locals0_def)
qed

text \<open>A \<open>select\<close> without a read set: whatever write set, exception set and timeout the caller
  gave, the SmartNIC asks the kernel about the contents of its uninitialised variables, with
  a timeout of 0.\<close>

theorem select_without_readfds:
  assumes "serialize_select_fd_set (Some b) (Some n) None w e t = Inr (Some b')"
    and "sock_select E L (q\<lparr>req_data := b'\<rparr>) m h = Inr (v, m', h')"
  shows "h' = Sys (Sys_select n (l_readfds L) (l_writefds L) (l_exceptfds L) \<lparr>tv_sec = 0, tv_usec = 0\<rparr>) # h"
proof -
  have "snic_deserialize_select_fd_set (Some b') (Some (l_int L)) (Some (l_readfds L)) (Some (l_writefds L))
      (Some (l_exceptfds L)) (Some \<lparr>tv_sec = 0, tv_usec = 0\<rparr>)
    = Inr (Some n, Some (l_readfds L), Some (l_writefds L), Some (l_exceptfds L), Some \<lparr>tv_sec = 0, tv_usec = 0\<rparr>)"
    using select_transfer [of b n None w e t "l_int L" "l_readfds L" "l_writefds L" "l_exceptfds L"
        "\<lparr>tv_sec = 0, tv_usec = 0\<rparr>"] assms(1)
    by (simp add: snic_copies)
  with assms(2) show ?thesis
    by (auto simp: sock_select_def Let_def ext_def split: if_splits sum.splits)
qed

theorem select_without_readfds_witness:
  "\<exists>b'. serialize_select_fd_set (Some (\<lambda>_. 0)) (Some 8) None (Some 16) None (Some \<lparr>tv_sec = 5, tv_usec = 0\<rparr>) = Inr (Some b')
    \<and> (\<exists>v m'. sock_select (\<lambda>_. resp0) locals0 (req0\<lparr>req_data := b'\<rparr>) rtn0 []
        = Inr (v, m', [Sys (Sys_select 8 5 6 7 \<lparr>tv_sec = 0, tv_usec = 0\<rparr>)]))"
proof -
  let ?t = "Some \<lparr>tv_sec = 5, tv_usec = 0\<rparr>"
  obtain b' where s: "serialize_select_fd_set (Some (\<lambda>_. 0)) (Some 8) None (Some 16) None ?t = Inr (Some b')"
    by (simp add: serialize_select_fd_set_def)
  obtain v m' h' where r: "sock_select (\<lambda>_. resp0) locals0 (req0\<lparr>req_data := b'\<rparr>) rtn0 [] = Inr (v, m', h')"
    using select_transfer [of "\<lambda>_. 0" 8 None "Some 16" None ?t "l_int locals0" "l_readfds locals0"
        "l_writefds locals0" "l_exceptfds locals0" "\<lparr>tv_sec = 0, tv_usec = 0\<rparr>"] s
    by (auto simp: sock_select_def snic_copies ext_def ret_def resp0_def)
  from select_without_readfds [OF s r] r s show ?thesis by (auto simp: locals0_def)
qed

text \<open>\<open>epoll_wait\<close> across the link: the kernel is asked with the descriptor, limit and timeout
  the host serialised; if it reports at most 100 events the host reads the same count and the
  first 84 events out of the reply, and if it reports more the handler writes past its
  array.\<close>

theorem epoll_wait_across:
  assumes "serialize_epoll_wait_dt None (Some b) (Some 0) (Some epfd) (Some maxevents) (Some timeout) (Some [])
      = Inr (Some b')"
    and "E (Sys (Sys_epoll_wait epfd maxevents timeout) # h) = r"
    and "ret r = word_of_nat (length (out_events r))" and "length (out_events r) < 2 ^ 31"
    and "min 84 (length (out_events r)) \<le> length dest"
  shows "if length (out_events r) \<le> 100
    then \<exists>m'. sock_epoll_wait E L (q\<lparr>req_data := b'\<rparr>) m h
           = Inr (ret r, m', Sys (Sys_epoll_wait epfd maxevents timeout) # h)
      \<and> rtn_value m' = scast (ret r)
      \<and> deserialize_epoll_wait_dt (Some (rtn_data m')) (Some n0) (Some e0) (Some x0) (Some t0) (Some dest)
        = Inr (Some (ret r), Some epfd, Some maxevents, Some timeout,
               Some (take 84 (out_events r) @ drop (min 84 (length (out_events r))) dest))
    else sock_epoll_wait E L (q\<lparr>req_data := b'\<rparr>) m h = Inl Out_of_bounds"
proof -
  have "b' = put_word (put_word (put_word (put_word b 0 (0 :: c_int)) 4 epfd) 8 maxevents) 12 timeout"
    using assms(1) by (auto simp: serialize_epoll_wait_dt_def)
  then have de: "snic_deserialize_epoll_wait_dt (Some b') (Some (l_int L)) (Some (l_int L)) (Some (l_int L))
      (Some (l_int L)) None = Inr (Some 0, Some epfd, Some maxevents, Some timeout, None)"
    by (simp add: snic_copies deserialize_epoll_wait_dt_def buffer_simps)
  obtain d where d: "serialize_epoll_wait_dt None (Some (rtn_data m)) (Some (ret r)) (Some epfd) (Some maxevents)
        (Some timeout) (Some (out_events r @ drop (length (out_events r)) (l_events L))) = Inr (Some d)"
      "deserialize_epoll_wait_dt (Some d) (Some n0) (Some e0) (Some x0) (Some t0) (Some dest)
        = Inr (Some (ret r), Some epfd, Some maxevents, Some timeout,
               Some (take 84 (out_events r) @ drop (min 84 (length (out_events r))) dest))"
    using epoll_wait_transfer [OF assms(4,5), of None "rtn_data m" epfd maxevents timeout] assms(3) by metis
  have "sint (ret r) = int (length (out_events r))" using assms(3,4) by (simp add: c_arith)
  then have "ret r \<noteq> - 1" by auto
  then show ?thesis
    using assms(2) d de by (auto simp: sock_epoll_wait_def ext_def Let_def snic_copies)
qed

theorem epoll_wait_across_witness:
  "\<exists>b' m'. serialize_epoll_wait_dt None (Some (\<lambda>_. 0)) (Some 0) (Some 4) (Some 10) (Some 100) (Some []) = Inr (Some b')
    \<and> sock_epoll_wait (\<lambda>_. resp0\<lparr>rv := 1, out_events := [\<lparr>ev_events = 1, ev_data = 9\<rparr>]\<rparr>) locals0
        (req0\<lparr>req_data := b'\<rparr>) rtn0 [] = Inr (1, m', [Sys (Sys_epoll_wait 4 10 100)])
    \<and> rtn_value m' = 1"
proof -
  obtain b' where s: "serialize_epoll_wait_dt None (Some (\<lambda>_. 0)) (Some 0) (Some 4) (Some 10) (Some 100) (Some []) = Inr (Some b')"
    by (simp add: serialize_epoll_wait_dt_def)
  let ?r = "resp0\<lparr>rv := 1, out_events := [\<lparr>ev_events = 1, ev_data = 9\<rparr>]\<rparr>"
  have r: "ret ?r = 1" by (simp add: ret_def)
  show ?thesis
    using epoll_wait_across [OF s, of "\<lambda>_. ?r" "[]" ?r "[\<lparr>ev_events = 0, ev_data = 0\<rparr>]" locals0 req0 rtn0 0 0 0 0] s r
    by auto
qed

text \<open>\<open>poll\<close> across the link: a request that fits is put to the kernel with the host's array,
  count and timeout, and the array the kernel leaves is what the host reads into its own from
  the reply.\<close>

theorem poll_across:
  assumes "length ps = unat n" and "12 + 8 * unat n \<le> BUFFER_SIZE" and "l_malloc L"
    and "serialize_poll_pollfd (Some b) (Some ps) (Some n) (Some timeout) = Inr (Some b')"
    and "E (Sys (Sys_poll (Some ps) n timeout) # h) = r"
    and "length (out_pollfds r) = unat n" and "\<not> negative (ret r)"
  shows "\<exists>m'. sock_poll E L (q\<lparr>req_data := b'\<rparr>) m h = Inr (ret r, m', Sys (Sys_poll (Some ps) n timeout) # h)
      \<and> rtn_value m' = scast (ret r)
      \<and> deserialize_poll_pollfd ok (Some (rtn_data m')) (Some (Some ps)) (Some n0) (Some t0)
        = Inr (Some (Some (out_pollfds r)), Some n, Some timeout)"
  using assms
  by (auto simp: serialize_poll_fits sock_poll_def snic_copies deserialize_poll_fits ext_def)

theorem poll_across_witness:
  "\<exists>b' m'. serialize_poll_pollfd (Some (\<lambda>_. 0)) (Some [\<lparr>pfd_fd = 3, pfd_events = 1, pfd_revents = 0\<rparr>]) (Some 1) (Some 500) = Inr (Some b')
    \<and> sock_poll (\<lambda>_. resp0\<lparr>rv := 1, out_pollfds := [\<lparr>pfd_fd = 3, pfd_events = 1, pfd_revents = 1\<rparr>]\<rparr>) locals0
        (req0\<lparr>req_data := b'\<rparr>) rtn0 []
      = Inr (1, m', [Sys (Sys_poll (Some [\<lparr>pfd_fd = 3, pfd_events = 1, pfd_revents = 0\<rparr>]) 1 500)])
    \<and> deserialize_poll_pollfd False (Some (rtn_data m')) (Some (Some [\<lparr>pfd_fd = 3, pfd_events = 1, pfd_revents = 0\<rparr>]))
        (Some 0) (Some 0) = Inr (Some (Some [\<lparr>pfd_fd = 3, pfd_events = 1, pfd_revents = 1\<rparr>]), Some 1, Some 500)"
proof -
  let ?ps = "[\<lparr>pfd_fd = 3 :: c_int, pfd_events = 1 :: u16, pfd_revents = 0 :: u16\<rparr>]"
  let ?r = "resp0\<lparr>rv := 1, out_pollfds := [\<lparr>pfd_fd = 3, pfd_events = 1, pfd_revents = 1\<rparr>]\<rparr>"
  have r: "ret ?r = 1" "\<not> negative (1 :: c_int)" by (simp_all add: ret_def negative_def)
  obtain b' where s: "serialize_poll_pollfd (Some (\<lambda>_. 0)) (Some ?ps) (Some 1) (Some 500) = Inr (Some b')"
    by (simp add: serialize_poll_pollfd_def BUFFER_SIZE_def)
  show ?thesis
    using poll_across [OF _ _ _ s, of locals0 "\<lambda>_. ?r" "[]" ?r req0 rtn0 False 0 0] s r
    by (auto simp: locals0_def BUFFER_SIZE_def)
qed

end
