(* ===== verification/Fetch.thy ===== *)
theory Fetch
  imports Env
begin

text \<open>
  When a reply is read. The server posts its reply without \<open>IBV_SEND_INLINE\<close> and goes on to store into the same
  buffer without waiting for the completion: it clears the error number, and after some requests also the value or a part
  of the data. The adapter reads each byte of the buffer at some moment between the post and the completion. So the
  message that is transferred is, byte by byte, either what was posted or what the buffer holds when the server waits
  again; \<open>late\<close> says which, by the offset in the packed structure: the error number is at 0, the value at 4,
  the data at 12. Every later store is one of zeros, so these two are the only contents a byte can have.
\<close>

definition fetch_word :: "(nat \<Rightarrow> bool) \<Rightarrow> nat \<Rightarrow> 'a::len word \<Rightarrow> 'a word \<Rightarrow> 'a word" where
  "fetch_word late off a b = of_le (map (\<lambda>i. (if late (off + i) then le_bytes (LENGTH('a) div 8) b
     else le_bytes (LENGTH('a) div 8) a) ! i) [0..<LENGTH('a) div 8])"

definition fetch :: "(nat \<Rightarrow> bool) \<Rightarrow> rtn_msg \<Rightarrow> rtn_msg \<Rightarrow> rtn_msg" where
  "fetch late m m' = \<lparr>rtn_errno = fetch_word late 0 (rtn_errno m) (rtn_errno m'),
     rtn_value = fetch_word late 4 (rtn_value m) (rtn_value m'),
     rtn_data = (\<lambda>i. if late (rtn_hdr + i) then rtn_data m' i else rtn_data m i)\<rparr>"

text \<open>A word, and the first \<open>n\<close> of some bytes, of which those that are read late are 0.\<close>

definition torn :: "(nat \<Rightarrow> bool) \<Rightarrow> nat \<Rightarrow> 'a::len word \<Rightarrow> 'a word" where
  "torn late off w = fetch_word late off w 0"

definition torn_bytes :: "(nat \<Rightarrow> bool) \<Rightarrow> nat \<Rightarrow> nat \<Rightarrow> byte list \<Rightarrow> byte list" where
  "torn_bytes late off n bs = map (\<lambda>i. if i < n \<and> late (off + i) then 0 else bs ! i) [0..<length bs]"

text \<open>A failure as it is told after a late transfer.\<close>

definition told_errno :: "(nat \<Rightarrow> bool) \<Rightarrow> resp \<Rightarrow> resp" where
  "told_errno late r = r\<lparr>err := torn late 0 (err r)\<rparr>"

lemma told_errno_simps [simp]:
  "rv (told_errno late r) = rv r" "ret (told_errno late r) = ret r" "err (told_errno late r) = torn late 0 (err r)"
  "out_events (told_errno late r) = out_events r" "out_pollfds (told_errno late r) = out_pollfds r"
  by (simp_all add: told_errno_def ret_def)

lemma fetch_simps [simp]:
  "rtn_errno (fetch late m m') = fetch_word late 0 (rtn_errno m) (rtn_errno m')"
  "rtn_value (fetch late m m') = fetch_word late 4 (rtn_value m) (rtn_value m')"
  "rtn_data (fetch late m m') i = (if late (rtn_hdr + i) then rtn_data m' i else rtn_data m i)"
  by (simp_all add: fetch_def)

lemma bit_fetch_word:
  fixes a b :: "'a::len word"
  assumes "8 * (LENGTH('a) div 8) = LENGTH('a)"
  shows "bit (fetch_word late off a b) j \<longleftrightarrow> j < LENGTH('a) \<and> bit (if late (off + j div 8) then b else a) j"
proof (cases "j < LENGTH('a)")
  case True
  then have "j div 8 < LENGTH('a) div 8" using assms by auto
  then show ?thesis using True by (auto simp: fetch_word_def bit_of_le bit_ucast_iff bit_drop_bit_eq)
qed (auto simp: fetch_word_def bit_of_le)

lemma word_bytes: "8 * (LENGTH(32) div 8) = LENGTH(32)" "8 * (LENGTH(64) div 8) = LENGTH(64)"
  by simp_all

lemma fetch_word_same:
  fixes a :: "'a::len word"
  assumes "8 * (LENGTH('a) div 8) = LENGTH('a)"
  shows "fetch_word late off a a = a"
  by (rule bit_word_eqI) (simp add: bit_fetch_word [OF assms])

lemma fetch_word_early:
  fixes a b :: "'a::len word"
  assumes "8 * (LENGTH('a) div 8) = LENGTH('a)" and "\<And>i. i < LENGTH('a) div 8 \<Longrightarrow> \<not> late (off + i)"
  shows "fetch_word late off a b = a"
proof (rule bit_word_eqI)
  fix j assume j: "j < LENGTH('a)"
  then have "j div 8 < LENGTH('a) div 8" using assms(1) by auto
  then show "bit (fetch_word late off a b) j = bit a j" using j assms(2) by (simp add: bit_fetch_word [OF assms(1)])
qed

lemma negative_bit: "negative (w :: 'a::len word) \<longleftrightarrow> bit w (LENGTH('a) - 1)"
  by (simp add: negative_def bit_last_iff)

lemma torn_negative:
  fixes a :: "'a::len word"
  assumes "8 * (LENGTH('a) div 8) = LENGTH('a)" and "negative (torn late off a)"
  shows "negative a"
  using assms(2) by (simp add: negative_bit torn_def bit_fetch_word [OF assms(1)] split: if_splits)

lemmas fetch_same [simp] = fetch_word_same [OF word_bytes(1)] fetch_word_same [OF word_bytes(2)]
lemmas torn_negative32 = torn_negative [OF word_bytes(1)]
lemmas torn_negative64 = torn_negative [OF word_bytes(2)]

lemma torn_zero [simp]: "torn late off (0 :: u32) = 0" "torn late off (0 :: i64) = 0"
  by (simp_all add: torn_def)

lemma fetch_same_msg [simp]: "fetch late m m = m"
  by (simp add: fetch_def)

text \<open>A reply that is read in time is the one that was posted.\<close>

lemma fetch_early [simp]: "fetch (\<lambda>_. False) m m' = m"
  by (simp add: fetch_def fetch_word_early)

lemma torn_early: "(\<And>i. i < 4 \<Longrightarrow> \<not> late (off + i)) \<Longrightarrow> torn late off (w :: u32) = w"
  "(\<And>i. i < 8 \<Longrightarrow> \<not> late (off + i)) \<Longrightarrow> torn late off (v :: i64) = v"
  unfolding torn_def by (rule fetch_word_early; simp)+

text \<open>One that is read as late as possible has lost what was cleared.\<close>

lemma torn_late: "(\<And>i. i < 4 \<Longrightarrow> late (off + i)) \<Longrightarrow> torn late off (w :: u32) = 0"
  "(\<And>i. i < 8 \<Longrightarrow> late (off + i)) \<Longrightarrow> torn late off (v :: i64) = 0"
proof -
  show "torn late off w = 0" if "\<And>i. i < 4 \<Longrightarrow> late (off + i)"
    by (rule bit_word_eqI) (simp add: torn_def bit_fetch_word that less_mult_imp_div_less)
  show "torn late off v = 0" if "\<And>i. i < 8 \<Longrightarrow> late (off + i)"
    by (rule bit_word_eqI) (simp add: torn_def bit_fetch_word that less_mult_imp_div_less)
qed

lemma length_torn_bytes [simp]: "length (torn_bytes late off n bs) = length bs"
  by (simp add: torn_bytes_def)

lemma nth_torn_bytes [simp]: "i < length bs \<Longrightarrow> torn_bytes late off n bs ! i = (if i < n \<and> late (off + i) then 0 else bs ! i)"
  by (simp add: torn_bytes_def)

lemma torn_bytes_Nil [simp]: "torn_bytes late off n [] = []"
  by (simp add: torn_bytes_def)

lemma torn_bytes_early: "(\<And>i. i < n \<Longrightarrow> \<not> late (off + i)) \<Longrightarrow> torn_bytes late off n bs = bs"
  by (rule nth_equalityI) auto

text \<open>A word in a buffer that is cleared.\<close>

lemma of_le_fetched:
  assumes "8 * n = LENGTH('a)" and "off + n \<le> k"
  shows "of_le (buf_get (\<lambda>i. if late (12 + i) then buf_zero d 0 k i else d i) off n) = torn late (12 + off) (of_le (buf_get d off n) :: 'a::len word)"
proof (rule bit_word_eqI)
  have w: "8 * (LENGTH('a) div 8) = LENGTH('a)" unfolding assms(1) [symmetric] by simp
  fix j assume "j < LENGTH('a)"
  then have "j div 8 < n" using assms(1) by auto
  then show "bit (of_le (buf_get (\<lambda>i. if late (12 + i) then buf_zero d 0 k i else d i) off n) :: 'a word) j
      = bit (torn late (12 + off) (of_le (buf_get d off n) :: 'a word)) j"
    using assms(2) by (simp add: torn_def bit_fetch_word [OF w] bit_of_le buf_zero_def add.assoc)
qed

text \<open>What a buffer that is cleared from its start yields.\<close>

lemma buf_get_fetched:
  "buf_get (\<lambda>i. if late (off + i) then buf_zero b 0 k i else b i) 0 n = torn_bytes late off k (buf_get b 0 n)"
  by (rule nth_equalityI) (auto simp: buf_zero_def)

end
