(* ===== verification/Server_Props.thy ===== *)
theory Server_Props
  imports Server Socket_Props Fetch
begin

text \<open>
  What the SmartNIC server guarantees: how often and with what a request is answered, that a
  connection keeps its resources while it is served, what happens to the reply buffer, and
  when the loops end.
\<close>

section \<open>Kernel calls send nothing\<close>

definition quiet :: "trace \<Rightarrow> trace \<Rightarrow> bool" where
  "quiet h h' \<longleftrightarrow> (\<exists>cs. h' = map Sys cs @ h)"

lemma quiet_refl [simp]: "quiet h h"
  unfolding quiet_def by (rule exI [of _ "[]"]) simp

lemma quiet_step [simp]: "quiet h h' \<Longrightarrow> quiet h (Sys c # h')"
  unfolding quiet_def by (metis append_Cons list.simps(9))

lemma posts_sys [simp]: "posts (map Sys cs @ h) = posts h"
  by (induction cs) (simp_all add: posts_def)

lemma posts_simps [simp]:
  "posts [] = []"
  "posts (Sys c # h) = posts h"
  "posts (Cm d # h) = posts h"
  "posts (Verb (Ibv_post_send q w g p) # h) = Verb (Ibv_post_send q w g p) # posts h"
  "posts (Verb (Ibv_post_recv q g) # h) = posts h"
  "posts (Verb (Ibv_poll_cq k n) # h) = posts h"
  by (simp_all add: posts_def)

lemma quiet_posts: "quiet h h' \<Longrightarrow> posts h' = posts h"
  by (auto simp: quiet_def)

text \<open>A handler runs quietly: the traces of all of them, by the kind of their result.\<close>

lemma plain_quiet:
  "quiet h (snd (snd (sock_socket E m h)))" "quiet h (snd (snd (sock_bind E L m fd p h)))"
  "quiet h (snd (snd (sock_listen E m fd h)))" "quiet h (snd (snd (sock_accept E L m fd p h)))"
  "quiet h (snd (snd (sock_connect E L m fd p h)))" "quiet h (snd (sock_close E m fd h))"
  "quiet h (snd (snd (sock_epoll_create1 E q m h)))" "quiet h (snd (snd (sock_epoll_ctl E L q m h)))"
  "quiet h (snd (snd (sock_fcntl E L q m fd h)))" "quiet h (snd (snd (sock_getpeername E L q m fd h)))"
  "quiet h (snd (snd (sock_getsockname E L q m fd h)))"
  by (simp_all add: handler_defs split: prod.splits)

lemma checked_quiet:
  "sock_send_message E m fd d n h = Inr (m', h') \<Longrightarrow> quiet h h'"
  "sock_read_message E m fd n h = Inr (v, m', h') \<Longrightarrow> quiet h h'"
  "sock_select E L q m h = Inr (v, m', h') \<Longrightarrow> quiet h h'"
  "sock_epoll_wait E L q m h = Inr (v, m', h') \<Longrightarrow> quiet h h'"
  "sock_poll E L q m h = Inr (v, m', h') \<Longrightarrow> quiet h h'"
  "sock_setsockopt E L q m fd h = Inr (v, m', h') \<Longrightarrow> quiet h h'"
  "sock_getsockopt E L q m fd h = Inr (v, m', h') \<Longrightarrow> quiet h h'"
  by (auto simp: sock_send_message_def sock_read_message_def sock_select_def sock_epoll_wait_def
      sock_poll_def sock_setsockopt_def sock_getsockopt_def ext_def Let_def
      split: if_splits sum.splits option.splits prod.splits)

section \<open>The reply that is posted\<close>

definition reply_wr :: "s_client \<Rightarrow> send_wr" where
  "reply_wr c = \<lparr>sw_num_sge = 1, sw_opcode = IBV_WR_RDMA_WRITE_WITH_IMM, sw_signaled = True,
     sw_imm_data = htonl (sockfd c), sw_remote_addr = attr_address (client_metadata_attr c),
     sw_rkey = attr_stag (client_metadata_attr c)\<rparr>"

definition reply_post :: "s_client \<Rightarrow> ibv_mr \<Rightarrow> call" where
  "reply_post c mr = Verb (Ibv_post_send (client_qp c) (reply_wr c) (sge_of mr) (Payload_rtn (rtn c)))"

text \<open>What a connection keeps while it is served: everything but the messages, the work
  requests, the completion queue pointer and the current descriptor.\<close>

definition conn where
  "conn c = (cm_client_id c, pd c, io_completion_channel c, client_qp c, client_metadata_mr c,
     server_metadata_mr c, req_mr c, rtn_mr c, client_metadata_attr c, server_metadata_attr c, status c)"

lemma conn_updates [simp]:
  "conn (c\<lparr>rtn := m\<rparr>) = conn c" "conn (c\<lparr>req := q\<rparr>) = conn c" "conn (c\<lparr>sockfd := fd\<rparr>) = conn c"
  "conn (c\<lparr>server_send_sge := g\<rparr>) = conn c" "conn (c\<lparr>server_send_wr := w\<rparr>) = conn c"
  "conn (c\<lparr>client_recv_sge := g\<rparr>) = conn c" "conn (c\<lparr>cq := k\<rparr>) = conn c"
  by (simp_all add: conn_def)

lemma conn_fields:
  assumes "conn c' = conn c"
  shows "rtn_mr c' = rtn_mr c" "req_mr c' = req_mr c" "client_qp c' = client_qp c" "status c' = status c"
    "client_metadata_attr c' = client_metadata_attr c"
  using assms by (simp_all add: conn_def)

lemma posts_replicate [simp]: "posts (replicate k (reply_post c mr) @ h) = replicate k (reply_post c mr) @ posts h"
  by (induction k) (simp_all add: reply_post_def)

text \<open>\<open>same_reply c c'\<close>: apart from the work request itself nothing has changed that a reply is
  made of, or that a reply may not change.\<close>

definition same_reply :: "s_client \<Rightarrow> s_client \<Rightarrow> bool" where
  "same_reply c c' \<longleftrightarrow> conn c' = conn c \<and> req c' = req c \<and> rtn c' = rtn c \<and> sockfd c' = sockfd c"

lemma same_reply_refl [simp]: "same_reply c c"
  by (simp add: same_reply_def)

lemma same_reply_trans [trans]: "same_reply c c' \<Longrightarrow> same_reply c' c'' \<Longrightarrow> same_reply c c''"
  by (simp add: same_reply_def)

lemma same_reply_post: "same_reply c c' \<Longrightarrow> reply_post c' mr = reply_post c mr"
  by (simp add: same_reply_def reply_post_def reply_wr_def conn_def)

lemma same_reply_sge: "same_reply c (c\<lparr>server_send_sge := g\<rparr>)"
  by (simp add: same_reply_def)

lemma post_write_rtn_eq:
  assumes "rtn_mr c = Some mr"
  shows "\<exists>c'. post_write_rtn E c h = returns (ret (E (reply_post c mr # h)), c', reply_post c mr # h)
    \<and> same_reply c c'"
  using assms by (simp add: post_write_rtn_def ext_def reply_post_def reply_wr_def same_reply_def)

lemma write_chunks_done: "\<not> off < sz \<Longrightarrow> write_chunks E sz off c h = returns (0, c, h)"
  by (subst write_chunks.simps) simp

lemma write_chunks_step:
  assumes "off < sz"
    and "post_write_rtn E (c\<lparr>server_send_sge := (server_send_sge c)\<lparr>sge_length := ucast (chunk sz off + 1)\<rparr>\<rparr>) h
      = returns (v, c', h')"
  shows "write_chunks E sz off c h
    = (if v \<noteq> 0 then returns (v, c', h') else write_chunks E sz (off + chunk sz off) c' h')"
  using assms by (subst write_chunks.simps) (simp add: Let_def returns_def)

text \<open>The copies of a reply that are posted: another one only after all before it were accepted.\<close>

definition in_turn :: "env \<Rightarrow> call \<Rightarrow> nat \<Rightarrow> trace \<Rightarrow> bool" where
  "in_turn E P k h \<longleftrightarrow> 0 < k \<and> (\<forall>j. 0 < j \<and> j < k \<longrightarrow> ret (E (replicate j P @ h)) = 0)"

lemma in_turn_one: "in_turn E P 1 h"
  by (simp add: in_turn_def)

lemma in_turn_Suc:
  assumes "ret (E (P # h)) = 0" and "in_turn E P k (P # h)"
  shows "in_turn E P (Suc k) h"
  unfolding in_turn_def
proof (intro conjI allI impI)
  fix j assume j: "0 < j \<and> j < Suc k"
  then obtain i where i: "j = Suc i" by (cases j) auto
  show "ret (E (replicate j P @ h)) = 0"
  proof (cases "i = 0")
    case False
    then have "ret (E (replicate i P @ P # h)) = 0" using assms(2) i j by (simp add: in_turn_def)
    then show ?thesis by (simp add: i replicate_app_Cons_same)
  qed (use assms(1) i in simp)
qed simp

lemma write_chunks_returns:
  "rtn_mr c = Some mr \<Longrightarrow>
     \<exists>v c' k. write_chunks E sz off c h = returns (v, c', replicate k (reply_post c mr) @ h)
       \<and> same_reply c c'
       \<and> (if off < sz then in_turn E (reply_post c mr) k h \<and> v = ret (E (replicate k (reply_post c mr) @ h))
          else k = 0 \<and> v = 0)"
proof (induction "unat (sz - off)" arbitrary: off c h rule: less_induct)
  case less
  show ?case
  proof (cases "off < sz")
    case False
    then show ?thesis by (intro exI [of _ 0] exI [of _ c]) (simp add: write_chunks_done)
  next
    case True
    let ?P = "reply_post c mr" and ?off = "off + chunk sz off"
    define c1 where "c1 = c\<lparr>server_send_sge := (server_send_sge c)\<lparr>sge_length := ucast (chunk sz off + 1)\<rparr>\<rparr>"
    have c1: "rtn_mr c1 = Some mr" "same_reply c c1" using less.prems by (simp_all add: c1_def same_reply_sge)
    then have P1: "reply_post c1 mr = ?P" by (intro same_reply_post)
    obtain c2 where c2: "post_write_rtn E c1 h = returns (ret (E (?P # h)), c2, ?P # h)"
      "same_reply c1 c2" using post_write_rtn_eq [OF c1(1), of E h] P1 by auto
    have c2': "rtn_mr c2 = Some mr" "same_reply c c2"
      using c1 c2(2) same_reply_trans by (auto simp: same_reply_def conn_def)
    note step = write_chunks_step [OF True c2(1) [unfolded c1_def]]
    show ?thesis
    proof (cases "ret (E (?P # h)) = 0")
      case False
      then show ?thesis using c2' step in_turn_one [of E ?P h] True
        by (intro exI [of _ "ret (E (?P # h))"] exI [of _ c2] exI [of _ 1]) simp
    next
      case ok: True
      from less.hyps [OF chunk_decreases [OF True] c2'(1), of "?P # h"] obtain v c3 k where
        c3: "write_chunks E sz ?off c2 (?P # h) = returns (v, c3, replicate k ?P @ ?P # h)" "same_reply c2 c3"
        and k: "if ?off < sz then in_turn E ?P k (?P # h) \<and> v = ret (E (replicate k ?P @ ?P # h)) else k = 0 \<and> v = 0"
        unfolding same_reply_post [OF c2'(2)] by blast
      have "in_turn E ?P (Suc k) h \<and> v = ret (E (replicate (Suc k) ?P @ h))"
        using k ok in_turn_Suc [of E ?P h k] in_turn_one [of E ?P h]
        by (cases "?off < sz") (simp_all add: replicate_app_Cons_same)
      moreover have "write_chunks E sz off c h = returns (v, c3, replicate (Suc k) ?P @ h)"
        using c3(1) ok step by (simp add: replicate_app_Cons_same)
      ultimately show ?thesis using c2' c3(2) same_reply_trans True by (intro exI [of _ v] exI [of _ c3] exI [of _ "Suc k"]) auto
    qed
  qed
qed

text \<open>What the reply buffer holds after a reply has been posted. \<open>posts_accepted\<close>: the queue pair takes
  every work request.\<close>

definition settled :: "s_client \<Rightarrow> rtn_msg" where
  "settled c = (rtn c)\<lparr>rtn_errno := 0, rtn_data :=
     (if rdma_req (req c) = req_code RDMA_REQ_READ \<and> positive (rtn_value (rtn c)) then buf_zero (rtn_data (rtn c)) 0 8
      else rtn_data (rtn c))\<rparr>"

definition posts_accepted :: "env \<Rightarrow> bool" where
  "posts_accepted E \<longleftrightarrow> (\<forall>q w g p h. ret (E (Verb (Ibv_post_send q w g p) # h)) = 0)"

lemma posts_accepted_reply: "posts_accepted E \<Longrightarrow> ret (E (reply_post c mr # h)) = 0"
  by (simp add: posts_accepted_def reply_post_def)

lemma posts_accepted_replicate: "posts_accepted E \<Longrightarrow> 0 < k \<Longrightarrow> ret (E (replicate k (reply_post c mr) @ h)) = 0"
  by (cases k) (simp_all add: posts_accepted_reply)

lemma write_msg_returns:
  assumes "rtn_mr c = Some mr"
  shows "\<exists>v c' k. write_msg_to_client E c h = returns (v, c', replicate k (reply_post c mr) @ h)
    \<and> in_turn E (reply_post c mr) k h \<and> v = ret (E (replicate k (reply_post c mr) @ h))
    \<and> (rdma_req (req c) \<noteq> req_code RDMA_REQ_READ \<longrightarrow> k = 1)
    \<and> conn c' = conn c \<and> req c' = req c \<and> sockfd c' = sockfd c \<and> rtn c' = (if v = 0 then settled c else rtn c)"
proof (cases "rdma_req (req c) = req_code RDMA_REQ_READ \<and> positive (rtn_value (rtn c))")
  case True
  let ?sz = "12 + rtn_value (rtn c)"
  have "rtn_value (rtn c) \<noteq> - 12" using True by (auto simp: positive_def)
  then have "0 < ?sz" by (simp add: word_gt_0 add_eq_0_iff)
  then obtain v c' k where w: "write_chunks E ?sz 0 c h = returns (v, c', replicate k (reply_post c mr) @ h)"
      "same_reply c c'" "in_turn E (reply_post c mr) k h" "v = ret (E (replicate k (reply_post c mr) @ h))"
    using write_chunks_returns [OF assms, of E ?sz 0 h] by auto
  then show ?thesis
    using True by (cases "v = 0") (auto simp: write_msg_to_client_def Let_def same_reply_def settled_def)
next
  case False
  obtain c' where w: "post_write_rtn E c h = returns (ret (E (reply_post c mr # h)), c', reply_post c mr # h)"
      "same_reply c c'"
    using post_write_rtn_eq [OF assms] by blast
  have t: "in_turn E (reply_post c mr) 1 h" by (rule in_turn_one)
  show ?thesis
    using False w t
    by (intro exI [of _ "ret (E (reply_post c mr # h))"])
      (cases "ret (E (reply_post c mr # h)) = 0"; auto simp: write_msg_to_client_def same_reply_def settled_def intro!: exI [of _ 1])
qed

lemma write_msg_settled:
  assumes "write_msg_to_client E c h = returns (v, c', h')" and "rtn_mr c = Some mr" and "posts_accepted E"
  shows "rtn c' = settled c"
proof -
  obtain c1 k where "write_msg_to_client E c h = returns (ret (E (replicate k (reply_post c mr) @ h)), c1, replicate k (reply_post c mr) @ h)"
      "0 < k" "rtn c1 = (if ret (E (replicate k (reply_post c mr) @ h)) = 0 then settled c else rtn c)"
    using write_msg_returns [OF assms(2), of E h] by (auto simp only: in_turn_def)
  then show ?thesis using assms(1) posts_accepted_replicate [OF assms(3)] by auto
qed

text \<open>A reply other than that of a read only loses its error number.\<close>

definition spent :: "env \<Rightarrow> rtn_msg \<Rightarrow> rtn_msg \<Rightarrow> bool" where
  "spent E m m' \<longleftrightarrow> m' = m\<lparr>rtn_errno := 0\<rparr> \<or> m' = m \<and> \<not> posts_accepted E"

lemma spent_fetch:
  assumes "spent E m m'"
  shows "rtn_value (fetch late m m') = rtn_value m" "rtn_data (fetch late m m') = rtn_data m"
    and "posts_accepted E \<Longrightarrow> rtn_errno (fetch late m m') = torn late 0 (rtn_errno m)"
  using assms by (auto simp: spent_def torn_def)

lemma write_msg_plain:
  assumes "rtn_mr c = Some mr" and "rdma_req (req c) \<noteq> req_code RDMA_REQ_READ"
  shows "\<exists>c'. write_msg_to_client E c h = returns (ret (E (reply_post c mr # h)), c', reply_post c mr # h)
    \<and> spent E (rtn c) (rtn c')"
proof -
  obtain v c' k where w: "write_msg_to_client E c h = returns (v, c', replicate k (reply_post c mr) @ h)" "k = 1"
      "v = ret (E (replicate k (reply_post c mr) @ h))" "rtn c' = (if v = 0 then settled c else rtn c)"
    using write_msg_returns [OF assms(1), of E h] assms(2) by blast
  then show ?thesis using assms(2) by (intro exI [of _ c']) (auto simp: settled_def spent_def posts_accepted_reply)
qed

section \<open>Every request is answered\<close>

text \<open>The reply of a request: the descriptor it is tagged with, the message, and the trace with the kernel calls made for it.\<close>

definition reply_of :: "env \<Rightarrow> locals \<Rightarrow> s_client \<Rightarrow> trace \<Rightarrow> fault + c_int \<times> rtn_msg \<times> trace" where
  "reply_of E L c h =
     (let m = rtn c; fd = sockfd c; q = req c; port = req_port q;
          plain = (\<lambda>r. Inr (fd, r)); checked = map_sum id (\<lambda>(_, r). (fd, r)) in
      case req_of_code (rdma_req q) of
        Some RDMA_REQ_SOCKET \<Rightarrow> plain (snd (sock_socket E m h))
      | Some RDMA_REQ_ACCEPT \<Rightarrow> plain (snd (sock_accept E L m fd port h))
      | Some RDMA_REQ_CONNECT \<Rightarrow> plain (snd (sock_connect E L m fd port h))
      | Some RDMA_REQ_CLOSE \<Rightarrow> plain (sock_close E m fd h)
      | Some RDMA_REQ_READ \<Rightarrow> checked (sock_read_message E m fd (ucast (buf_sz q)) h)
      | Some RDMA_REQ_WRITE \<Rightarrow> map_sum id (Pair fd) (sock_send_message E m fd (req_data q) (ucast (buf_sz q)) h)
      | Some RDMA_REQ_BIND \<Rightarrow> plain (snd (sock_bind E L m fd port h))
      | Some RDMA_REQ_LISTEN \<Rightarrow> plain (snd (sock_listen E m fd h))
      | Some RDMA_REQ_SELECT \<Rightarrow> checked (sock_select E L q m h)
      | Some RDMA_REQ_EPOLL_CREATE1 \<Rightarrow>
          (case sock_epoll_create1 E q m h of (epfd, r) \<Rightarrow> Inr (if negative epfd then fd else epfd, r))
      | Some RDMA_REQ_EPOLL_CTL \<Rightarrow> plain (snd (sock_epoll_ctl E L q m h))
      | Some RDMA_REQ_EPOLL_WAIT \<Rightarrow> checked (sock_epoll_wait E L q m h)
      | Some RDMA_REQ_POLL \<Rightarrow> checked (sock_poll E L q m h)
      | Some RDMA_REQ_FCNTL \<Rightarrow> plain (snd (sock_fcntl E L q m fd h))
      | Some RDMA_REQ_SETSOCKOPT \<Rightarrow> checked (sock_setsockopt E L q m fd h)
      | Some RDMA_REQ_GETSOCKOPT \<Rightarrow> checked (sock_getsockopt E L q m fd h)
      | Some RDMA_REQ_GETPEERNAME \<Rightarrow> plain (snd (sock_getpeername E L q m fd h))
      | Some RDMA_REQ_GETSOCKNAME \<Rightarrow> plain (snd (sock_getsockname E L q m fd h))
      | Some RDMA_REQ_NEW_RDMA_CONN \<Rightarrow> plain (m\<lparr>rtn_value := 1\<rparr>, h)
      | Some RDMA_REQ_DEL_RDMA_CONN \<Rightarrow> plain (m\<lparr>rtn_value := 1\<rparr>, h)
      | None \<Rightarrow> plain (m\<lparr>rtn_value := - 1\<rparr>, h))"

text \<open>The reply \<open>r\<close>, tagged with \<open>fd\<close>, is sent for the request of \<open>c\<close>: apart from kernel calls, the trace \<open>h'\<close> extends \<open>h\<close> by its
  posts alone, to the address and key the host gave; a single one unless the request is a read, and another one only
  after the one before it was accepted. The connection is otherwise unchanged.\<close>

definition replied :: "env \<Rightarrow> s_client \<Rightarrow> c_int \<Rightarrow> rtn_msg \<times> trace \<Rightarrow> trace \<Rightarrow> s_client \<Rightarrow> trace \<Rightarrow> bool" where
  "replied E c fd r h c' h' \<longleftrightarrow> conn c' = conn c \<and> quiet h (snd r)
     \<and> (\<exists>mr k. rtn_mr c = Some mr
        \<and> (let P = reply_post (c\<lparr>rtn := fst r, sockfd := fd\<rparr>) mr in h' = replicate k P @ snd r \<and> in_turn E P k (snd r))
        \<and> (rdma_req (req c) \<noteq> req_code RDMA_REQ_READ \<longrightarrow> k = 1))"

definition answered :: "env \<Rightarrow> locals \<Rightarrow> s_client \<Rightarrow> trace \<Rightarrow> s_client \<Rightarrow> trace \<Rightarrow> bool" where
  "answered E L c h c' h' \<longleftrightarrow> (\<exists>fd r. reply_of E L c h = Inr (fd, r) \<and> replied E c fd r h c' h')"

lemma answer_returns:
  assumes "rtn_mr c = Some mr" and "quiet h (snd reply)"
  shows "\<exists>c' h'. answer E s c reply = returns (s, c', h') \<and> replied E c (sockfd c) reply h c' h'
    \<and> conn c' = conn c \<and> req c' = req c \<and> sockfd c' = sockfd c \<and> rtn_value (rtn c') = rtn_value (fst reply)"
proof -
  obtain m h1 where reply: "reply = (m, h1)" by (cases reply)
  let ?c = "c\<lparr>rtn := m\<rparr>"
  have "rtn_mr ?c = Some mr" using assms(1) by simp
  from write_msg_returns [OF this, of E h1] obtain v c' k where
    w0: "write_msg_to_client E ?c h1 = returns (v, c', replicate k (reply_post ?c mr) @ h1)"
      "in_turn E (reply_post ?c mr) k h1" "rdma_req (req ?c) \<noteq> req_code RDMA_REQ_READ \<longrightarrow> k = 1" "conn c' = conn ?c"
      "req c' = req ?c" "sockfd c' = sockfd ?c" "rtn c' = (if v = 0 then settled ?c else rtn ?c)" by blast
  note w = w0 [unfolded conn_updates, simplified s_client.simps]
  have "reply_post (c\<lparr>rtn := m, sockfd := sockfd c\<rparr>) mr = reply_post ?c mr"
    by (simp add: reply_post_def reply_wr_def)
  then have "replied E c (sockfd c) reply h c' (replicate k (reply_post ?c mr) @ h1)"
    unfolding replied_def using w(2-4) assms reply by (auto intro!: exI [of _ mr] exI [of _ k])
  moreover have "rtn_value (rtn c') = rtn_value m" using w(7) by (simp add: settled_def)
  ultimately show ?thesis using w by (auto simp: answer_def reply)
qed

lemma answer_replied:
  assumes "answer E s c reply = returns (s', c', h')" and "rtn_mr c = Some mr" and "quiet h (snd reply)"
  shows "replied E c (sockfd c) reply h c' h'"
  using answer_returns [OF assms(2,3), of E s] assms(1) by auto

lemma answer_checked_replied:
  assumes "answer_checked E s c reply = returns (s', c', h')" and "rtn_mr c = Some mr"
    and "\<And>v m h1. reply = Inr (v, m, h1) \<Longrightarrow> quiet h h1"
  shows "\<exists>v r. reply = Inr (v, r) \<and> replied E c (sockfd c) r h c' h'"
proof -
  obtain v m h1 where r: "reply = Inr (v, m, h1)" "answer E s c (m, h1) = returns (s', c', h')"
    using assms(1) by (auto simp: answer_checked_def split: sum.splits)
  from answer_replied [OF r(2) assms(2)] assms(3) [OF r(1)] r(1) show ?thesis by auto
qed

lemmas plain_replied = plain_quiet [THEN [3] answer_replied]
lemma checked_replied:
  assumes "rtn_mr c = Some mr"
  shows "answer_checked E s c (sock_read_message E m fd n h) = returns (s', c', h') \<Longrightarrow>
      \<exists>v r. sock_read_message E m fd n h = Inr (v, r) \<and> replied E c (sockfd c) r h c' h'"
    and "answer_checked E s c (sock_select E L q m h) = returns (s', c', h') \<Longrightarrow>
      \<exists>v r. sock_select E L q m h = Inr (v, r) \<and> replied E c (sockfd c) r h c' h'"
    and "answer_checked E s c (sock_epoll_wait E L q m h) = returns (s', c', h') \<Longrightarrow>
      \<exists>v r. sock_epoll_wait E L q m h = Inr (v, r) \<and> replied E c (sockfd c) r h c' h'"
    and "answer_checked E s c (sock_poll E L q m h) = returns (s', c', h') \<Longrightarrow>
      \<exists>v r. sock_poll E L q m h = Inr (v, r) \<and> replied E c (sockfd c) r h c' h'"
    and "answer_checked E s c (sock_setsockopt E L q m fd h) = returns (s', c', h') \<Longrightarrow>
      \<exists>v r. sock_setsockopt E L q m fd h = Inr (v, r) \<and> replied E c (sockfd c) r h c' h'"
    and "answer_checked E s c (sock_getsockopt E L q m fd h) = returns (s', c', h') \<Longrightarrow>
      \<exists>v r. sock_getsockopt E L q m fd h = Inr (v, r) \<and> replied E c (sockfd c) r h c' h'"
  by (erule answer_checked_replied [OF _ assms], erule checked_quiet)+

lemma answeredI: "reply_of E L c h = Inr (fd, r) \<Longrightarrow> replied E c fd r h c' h' \<Longrightarrow> answered E L c h c' h'"
  by (auto simp: answered_def)

lemma conn_clear [simp]: "conn (clear_req_data c) = conn c" "conn (clear_rtn_data c) = conn c"
  by (simp_all add: clear_req_data_def clear_rtn_data_def)

lemma replied_clear [simp]:
  "replied E c fd r h (clear_req_data c') h' = replied E c fd r h c' h'"
  "replied E c fd r h (clear_rtn_data c') h' = replied E c fd r h c' h'"
  by (simp_all add: replied_def)

lemma replied_sockfd:
  "replied E (c\<lparr>sockfd := fd\<rparr>) fd r h c' h' = replied E c fd r h c' h'"
  by (simp add: replied_def)

lemma epoll_create_answered:
  assumes "rdma_req_event t E L fresh s c h = returns (s', c', h')" and "rtn_mr c = Some mr"
    and "req_of_code (rdma_req (req c)) = Some RDMA_REQ_EPOLL_CREATE1"
  shows "answered E L c h c' h'"
proof -
  obtain epfd r where o: "sock_epoll_create1 E (req c) (rtn c) h = (epfd, r)" by (metis prod.collapse)
  then have q: "quiet h (snd r)" using plain_quiet(7) [of h E "req c" "rtn c"] by simp
  have rep: "reply_of E L c h = Inr (if negative epfd then sockfd c else epfd, r)" by (simp add: reply_of_def assms(3) o)
  show ?thesis
  proof (cases "negative epfd")
    case True
    then have "answer E s c r = returns (s', c', h')"
      using assms(1,3) o by (auto simp: rdma_req_event_def socket_info_init_def split: if_splits)
    from answeredI [OF rep] answer_replied [OF this assms(2) q] True show ?thesis by simp
  next
    case False
    then obtain s1 where "answer E s (c\<lparr>sockfd := epfd\<rparr>) r = returns (s1, c', h')"
      using assms(1,3) o
      by (auto simp: rdma_req_event_def socket_info_init_def split: if_splits option.splits
          elim!: and_then_returnsE)
    from answer_replied [OF this _ q, of mr] assms(2) have "replied E (c\<lparr>sockfd := epfd\<rparr>) epfd r h c' h'" by simp
    with answeredI [OF rep] False show ?thesis by (simp add: replied_sockfd)
  qed
qed

lemma request_answered':
  assumes "rdma_req_event t E L fresh s c h = returns (s', c', h')" and "rtn_mr c = Some mr"
    and "rdma_req (req c) \<notin> {req_code RDMA_REQ_NEW_RDMA_CONN, req_code RDMA_REQ_DEL_RDMA_CONN}"
  shows "answered E L c h c' h'"
proof (cases "req_of_code (rdma_req (req c))")
  case None
  then show ?thesis using assms(1,2) by (auto simp: rdma_req_event_def reply_of_def intro!: answeredI intro: answer_replied)
next
  case (Some r)
  then have code: "rdma_req (req c) = req_code r" by (rule req_of_code_Some)
  note run = assms(1) [unfolded rdma_req_event_def Some option.case]
  note rep = reply_of_def [of E L c h, unfolded Some option.case Let_def]
  show ?thesis
  proof (cases r)
    case RDMA_REQ_WRITE
    then obtain m h1 s1 c1 where send: "sock_send_message E (rtn c) (sockfd c) (req_data (req c))
          (ucast (buf_sz (req c))) h = Inr (m, h1)"
        and ans: "answer E s c (m, h1) = returns (s1, c1, h')" and c': "c' = clear_req_data c1"
      using run by (auto split: sum.splits elim!: and_then_returnsE)
    have "reply_of E L c h = Inr (sockfd c, m, h1)" using rep RDMA_REQ_WRITE send by simp
    from answeredI [OF this] answer_replied [OF ans assms(2)] checked_quiet(1) [OF send] c' show ?thesis by simp
  next
    case RDMA_REQ_SELECT
    then obtain s1 c1 where ans: "answer_checked E s c (sock_select E L (req c) (rtn c) h) = returns (s1, c1, h')"
        and c': "c' = clear_rtn_data c1"
      using run by (auto elim!: and_then_returnsE)
    from checked_replied(2) [OF assms(2) ans] c' rep RDMA_REQ_SELECT show ?thesis by (auto intro!: answeredI)
  next
    case RDMA_REQ_EPOLL_CREATE1
    then show ?thesis using epoll_create_answered [OF assms(1,2)] Some by simp
  next
    case RDMA_REQ_READ
    with run have "answer_checked E s c (sock_read_message E (rtn c) (sockfd c) (ucast (buf_sz (req c))) h) = returns (s', c', h')" by simp
    from checked_replied(1) [OF assms(2) this] rep RDMA_REQ_READ show ?thesis by (auto intro!: answeredI)
  next
    case RDMA_REQ_EPOLL_WAIT
    with run have "answer_checked E s c (sock_epoll_wait E L (req c) (rtn c) h) = returns (s', c', h')" by simp
    from checked_replied(3) [OF assms(2) this] rep RDMA_REQ_EPOLL_WAIT show ?thesis by (auto intro!: answeredI)
  next
    case RDMA_REQ_POLL
    with run have "answer_checked E s c (sock_poll E L (req c) (rtn c) h) = returns (s', c', h')" by simp
    from checked_replied(4) [OF assms(2) this] rep RDMA_REQ_POLL show ?thesis by (auto intro!: answeredI)
  next
    case RDMA_REQ_SETSOCKOPT
    with run have "answer_checked E s c (sock_setsockopt E L (req c) (rtn c) (sockfd c) h) = returns (s', c', h')" by simp
    from checked_replied(5) [OF assms(2) this] rep RDMA_REQ_SETSOCKOPT show ?thesis by (auto intro!: answeredI)
  next
    case RDMA_REQ_GETSOCKOPT
    with run have "answer_checked E s c (sock_getsockopt E L (req c) (rtn c) (sockfd c) h) = returns (s', c', h')" by simp
    from checked_replied(6) [OF assms(2) this] rep RDMA_REQ_GETSOCKOPT show ?thesis by (auto intro!: answeredI)
  qed (use run assms(2,3) code rep plain_replied answeredI in \<open>simp_all\<close>)
qed

text \<open>C13: Whenever the SmartNIC finishes handling a request other than the two that open and close a connection, it has made
  the kernel calls of that request's handler and then posted the reply the handler has filled in, and nothing else: a whole
  return message, to the address and with the key the host sent at connection time, tagged with the descriptor of
  the request (the new one for \<open>epoll_create1\<close>). It is posted once, or for a read perhaps several times, each
  time only after the queue pair has accepted it the time before. A post that is refused is the last one: the refusal is ignored, nothing is tried
  again, and the host is left without an answer. The resources of the connection are what they were.\<close>

theorem request_answered:
  assumes "rdma_req_event t E L fresh s c h = returns (s', c', h')" and "rtn_mr c = Some mr"
    and "rdma_req (req c) \<notin> {req_code RDMA_REQ_NEW_RDMA_CONN, req_code RDMA_REQ_DEL_RDMA_CONN}"
  shows "\<exists>fd m h1 k. reply_of E L c h = Inr (fd, m, h1) \<and> (\<exists>ks. h1 = map Sys ks @ h)
    \<and> (let P = reply_post (c\<lparr>rtn := m, sockfd := fd\<rparr>) mr in h' = replicate k P @ h1 \<and> 0 < k
        \<and> (rdma_req (req c) \<noteq> req_code RDMA_REQ_READ \<longrightarrow> k = 1)
        \<and> (\<forall>j. 0 < j \<and> j < k \<longrightarrow> ret (E (replicate j P @ h1)) = 0))
    \<and> conn c' = conn c"
proof -
  obtain fd r where "reply_of E L c h = Inr (fd, r)" "replied E c fd r h c' h'"
    using request_answered' [OF assms] by (auto simp: answered_def)
  then show ?thesis
    using assms(2) by (intro exI [of _ fd] exI [of _ "fst r"] exI [of _ "snd r"]) (auto simp: replied_def quiet_def in_turn_def Let_def)
qed

text \<open>A connection and a server for the witnesses.\<close>

definition mr0 :: ibv_mr where
  "mr0 = \<lparr>mr_addr = 4096, mr_length = 600012, mr_lkey = 1, mr_rkey = 2\<rparr>"

definition attr0 :: rdma_buffer_attr where
  "attr0 = \<lparr>attr_address = 4096, attr_length = 600012, attr_stag = 2, attr_eventfd_addr = 0, attr_eventfd_rkey = 0\<rparr>"

definition client0 :: "RDMA_REQ_MSG \<Rightarrow> s_client" where
  "client0 r = \<lparr>cm_client_id = 1, pd = 2, io_completion_channel = 3, cq = 4, client_qp = 5,
     client_metadata_mr = Some mr0, server_metadata_mr = Some mr0, req_mr = Some mr0, rtn_mr = Some mr0,
     client_metadata_attr = attr0, server_metadata_attr = attr0,
     req = req0\<lparr>rdma_req := req_code r\<rparr>, rtn = rtn0,
     client_recv_sge = sge_of mr0, server_send_wr = \<lparr>sw_num_sge = 0, sw_opcode = IBV_WR_RDMA_WRITE,
       sw_signaled = False, sw_imm_data = 0, sw_remote_addr = 0, sw_rkey = 0\<rparr>,
     server_send_sge = sge_of mr0, status = RDMA_CM_EVENT_ESTABLISHED, sockfd = 5\<rparr>"

definition server0 :: server where
  "server0 = \<lparr>cm_event_channel = 1, cm_server_id = 2, cm_event = None, rdma_ht = snic_createHashTable,
     sock_ht = snic_createSocketHashTable, spawned = []\<rparr>"

theorem request_answered_witness:
  "\<exists>c' h'. rdma_req_event 0 (\<lambda>_. resp0) locals0 (client0 RDMA_REQ_SOCKET) server0 (client0 RDMA_REQ_CLOSE) []
      = returns (server0, c', h') \<and> h' = [reply_post ((client0 RDMA_REQ_CLOSE)\<lparr>rtn := rtn0\<lparr>rtn_value := 0\<rparr>\<rparr>) mr0, Sys (Sys_close 5)]"
proof -
  let ?c = "client0 RDMA_REQ_CLOSE"
  have c: "rtn_mr ?c = Some mr0" "sockfd ?c = 5" "rdma_req (req ?c) = req_code RDMA_REQ_CLOSE" "rtn ?c = rtn0"
    by (simp_all add: client0_def del: req_code.simps)
  have close: "sock_close (\<lambda>_. resp0) rtn0 5 [] = (rtn0\<lparr>rtn_value := 0\<rparr>, [Sys (Sys_close 5)])"
    by (simp add: sock_close_def ext_def errno_if_def ret_def resp0_def)
  have q: "quiet [] (snd (sock_close (\<lambda>_. resp0) (rtn ?c) (sockfd ?c) []))" by (rule plain_quiet)
  have ev: "rdma_req_event 0 (\<lambda>_. resp0) locals0 (client0 RDMA_REQ_SOCKET) server0 ?c []
      = answer (\<lambda>_. resp0) server0 ?c (sock_close (\<lambda>_. resp0) (rtn ?c) (sockfd ?c) [])"
    by (simp add: rdma_req_event_def c(3) del: req_code.simps)
  then obtain c' h' where run: "rdma_req_event 0 (\<lambda>_. resp0) locals0 (client0 RDMA_REQ_SOCKET) server0 ?c []
      = returns (server0, c', h')"
    using answer_returns [OF c(1) q, of "\<lambda>_. resp0" server0] by auto
  have k: "rdma_req (req ?c) \<notin> {req_code RDMA_REQ_NEW_RDMA_CONN, req_code RDMA_REQ_DEL_RDMA_CONN}"
    by (simp add: c(3) del: req_code.simps)
  have rep: "reply_of (\<lambda>_. resp0) locals0 ?c [] = Inr (5, rtn0\<lparr>rtn_value := 0\<rparr>, [Sys (Sys_close 5)])"
    by (simp add: reply_of_def c close del: req_code.simps)
  have u: "?c\<lparr>rtn := rtn0\<lparr>rtn_value := 0\<rparr>, sockfd := 5\<rparr> = ?c\<lparr>rtn := rtn0\<lparr>rtn_value := 0\<rparr>\<rparr>" by (simp add: client0_def)
  from request_answered [OF run c(1) k] rep u have "h' = [reply_post (?c\<lparr>rtn := rtn0\<lparr>rtn_value := 0\<rparr>\<rparr>) mr0, Sys (Sys_close 5)]"
    by (auto simp: c(3) Let_def simp del: req_code.simps)
  with run show ?thesis by blast
qed

lemma write_chunks_post:
  assumes "rtn_mr c = Some mr" and "off < sz" and "ret (E (reply_post c mr # h)) = 0"
  shows "\<exists>c'. write_chunks E sz off c h = write_chunks E sz (off + chunk sz off) c' (reply_post c mr # h)
    \<and> same_reply c c'"
proof -
  define c1 where "c1 = c\<lparr>server_send_sge := (server_send_sge c)\<lparr>sge_length := ucast (chunk sz off + 1)\<rparr>\<rparr>"
  have c1: "rtn_mr c1 = Some mr" "same_reply c c1" using assms(1) by (simp_all add: c1_def same_reply_sge)
  obtain c2 where "post_write_rtn E c1 h = returns (0, c2, reply_post c mr # h)" "same_reply c1 c2"
    using post_write_rtn_eq [OF c1(1), of E h] same_reply_post [OF c1(2)] assms(3) by auto
  then show ?thesis
    using write_chunks_step [OF assms(2), folded c1_def] same_reply_trans [OF c1(2)] by (metis c1_def)
qed

text \<open>A reply with little data, or none, is posted once.\<close>

lemma write_chunks_once:
  assumes "rtn_mr c = Some mr" and "0 < sz" and "chunk sz 0 = sz"
  shows "\<exists>v c'. write_chunks E sz 0 c h = returns (v, c', reply_post c mr # h)"
proof -
  define c1 where "c1 = c\<lparr>server_send_sge := (server_send_sge c)\<lparr>sge_length := ucast (chunk sz 0 + 1)\<rparr>\<rparr>"
  obtain c2 where c2: "post_write_rtn E c1 h = returns (ret (E (reply_post c mr # h)), c2, reply_post c mr # h)"
    using post_write_rtn_eq [of c1 mr E h] same_reply_post [of c c1 mr] assms(1) by (auto simp: c1_def same_reply_sge)
  show ?thesis
    using write_chunks_step [OF assms(2) c2 [unfolded c1_def]] assms(3)
    by (cases "ret (E (reply_post c mr # h)) = 0") (simp_all add: write_chunks_done)
qed

lemma write_msg_once:
  assumes "rtn_mr c = Some mr"
    and "rtn_value (rtn c) = word_of_nat n \<and> n + 12 < BUFFER_SIZE \<or> negative (rtn_value (rtn c))"
  shows "\<exists>v c'. write_msg_to_client E c h = returns (v, c', reply_post c mr # h)"
proof (cases "rdma_req (req c) = req_code RDMA_REQ_READ \<and> positive (rtn_value (rtn c))")
  case True
  let ?sz = "12 + rtn_value (rtn c)"
  have n: "rtn_value (rtn c) = word_of_nat n" "n + 12 < BUFFER_SIZE"
    using True assms(2) by (auto simp: positive_def negative_def)
  have sz: "?sz = word_of_nat (12 + n)" using n(1) by simp
  have u: "unat ?sz = 12 + n" using n(2) unfolding sz unat_of_nat by (simp add: BUFFER_SIZE_def)
  then have "0 < ?sz" "chunk ?sz 0 = ?sz" using n(2) by (simp_all add: chunk_def word_less_nat_alt BUFFER_SIZE_def)
  then obtain v c' where "write_chunks E ?sz 0 c h = returns (v, c', reply_post c mr # h)"
    using write_chunks_once [OF assms(1)] by blast
  then show ?thesis using True by (auto simp: write_msg_to_client_def Let_def)
next
  case False
  obtain c' where "post_write_rtn E c h = returns (ret (E (reply_post c mr # h)), c', reply_post c mr # h)"
    using post_write_rtn_eq [OF assms(1)] by blast
  then show ?thesis using False by (auto simp: write_msg_to_client_def)
qed

lemma read_posts:
  assumes "rtn_mr c = Some mr" and "rdma_req (req c) = req_code RDMA_REQ_READ"
    and "rtn_value (rtn c) = word_of_nat n" and "0 < n" and "n \<le> BUFFER_SIZE"
    and "ret (E (reply_post c mr # h)) = 0" and "ret (E (reply_post c mr # reply_post c mr # h)) = 0"
  shows "\<exists>c'. write_msg_to_client E c h
    = returns (0, c', replicate (if n + 12 < BUFFER_SIZE then 1 else 2) (reply_post c mr) @ h)"
proof -
  let ?sz = "12 + rtn_value (rtn c)"
  have n63: "n < 2 ^ 63" using assms(5) by (simp add: BUFFER_SIZE_def)
  have pos: "positive (rtn_value (rtn c))"
    using n63 assms(3,4) by (simp add: positive_def signed_of_nat signed_take_bit_int_eq_self)
  have sz1: "?sz = word_of_nat (12 + n)" using assms(3) by simp
  have sz: "?sz = word_of_nat (12 + n)" "unat ?sz = 12 + n"
    using assms(5) unfolding sz1 unat_of_nat by (simp_all add: BUFFER_SIZE_def)
  then have lt: "0 < ?sz" by (simp add: word_less_nat_alt)
  have chunk1: "chunk ?sz 0 = (if n + 12 < BUFFER_SIZE then ?sz else word_of_nat (BUFFER_SIZE - 12))"
    using sz(2) by (simp add: chunk_def word_less_nat_alt BUFFER_SIZE_def)
  obtain c1 where c1: "write_chunks E ?sz 0 c h = write_chunks E ?sz (chunk ?sz 0) c1 (reply_post c mr # h)"
      "same_reply c c1"
    using write_chunks_post [OF assms(1) lt, of E h] assms(6) by auto
  have "\<exists>c2. write_chunks E ?sz 0 c h
      = returns (0, c2, replicate (if n + 12 < BUFFER_SIZE then 1 else 2) (reply_post c mr) @ h)"
  proof (cases "n + 12 < BUFFER_SIZE")
    case True
    then show ?thesis using c1 chunk1 by (simp add: write_chunks_done)
  next
    case False
    define off :: u64 where "off = word_of_nat (BUFFER_SIZE - 12)"
    have off: "unat off = BUFFER_SIZE - 12" by (simp add: off_def BUFFER_SIZE_def)
    have lt2: "off < ?sz" using False off sz(2) by (simp add: word_less_nat_alt BUFFER_SIZE_def)
    have "unat (?sz - off) = 12 + n - (BUFFER_SIZE - 12)"
      using off sz(2) lt2 by (simp add: unat_sub less_imp_le)
    then have "?sz - off < of_nat BUFFER_SIZE"
      using assms(5) unfolding word_less_nat_alt by (simp add: BUFFER_SIZE_def)
    then have chunk2: "chunk ?sz off = ?sz - off" by (simp add: chunk_def)
    have mr1: "rtn_mr c1 = Some mr" "reply_post c1 mr = reply_post c mr"
      using c1(2) assms(1) same_reply_post by (auto simp: same_reply_def conn_def)
    obtain c2 where "write_chunks E ?sz off c1 (reply_post c mr # h)
        = write_chunks E ?sz ?sz c2 (reply_post c mr # reply_post c mr # h)"
      using write_chunks_post [OF mr1(1) lt2, of E "reply_post c mr # h"] mr1(2) assms(7) chunk2 by auto
    then show ?thesis using c1 chunk1 False by (simp add: write_chunks_done off_def numeral_2_eq_2)
  qed
  then show ?thesis using assms(2) pos by (auto simp: write_msg_to_client_def Let_def)
qed

text \<open>A read is answered twice when it returns much data: if the kernel delivers \<open>n\<close> bytes, the
  reply is posted once when \<open>n + 12\<close> is below \<open>BUFFER_SIZE\<close>, and a second time, the same
  whole message, when it is not.\<close>

theorem read_reply_posts:
  assumes "rtn_mr c = Some mr" and "rdma_req (req c) = req_code RDMA_REQ_READ"
    and "rtn_value (rtn c) = word_of_nat n" and "0 < n" and "n \<le> BUFFER_SIZE"
    and "ret (E (reply_post c mr # h)) = 0" and "ret (E (reply_post c mr # reply_post c mr # h)) = 0"
  shows "\<exists>c'. write_msg_to_client E c h
    = returns (0, c', replicate (if n + 12 < BUFFER_SIZE then 1 else 2) (reply_post c mr) @ h)"
  by (rule read_posts [OF assms])

theorem read_reply_posts_witness:
  "\<exists>c'. write_msg_to_client (\<lambda>_. resp0) ((client0 RDMA_REQ_READ)\<lparr>rtn := rtn0\<lparr>rtn_value := 600000\<rparr>\<rparr>) []
    = returns (0, c', replicate 2 (reply_post ((client0 RDMA_REQ_READ)\<lparr>rtn := rtn0\<lparr>rtn_value := 600000\<rparr>\<rparr>) mr0))"
  using read_reply_posts [of "(client0 RDMA_REQ_READ)\<lparr>rtn := rtn0\<lparr>rtn_value := 600000\<rparr>\<rparr>" mr0 600000
      "\<lambda>_. resp0" "[]"]
  by (simp add: client0_def BUFFER_SIZE_def ret_def resp0_def)

lemma write_request_handled:
  assumes "rtn_mr c = Some mr" and "rdma_req (req c) = req_code RDMA_REQ_WRITE"
    and "buf_sz (req c) = word_of_nat n" and "n \<le> BUFFER_SIZE"
    and "E (Sys (Sys_send (sockfd c) (buf_get (req_data (req c)) 0 n) 0) # h) = r"
  shows "\<exists>c'. rdma_req_event t E L fresh s c h = returns (s, c',
        reply_post (c\<lparr>rtn := (rtn c)\<lparr>rtn_value := rv r,
            rtn_errno := (if negative (rv r) then err r else rtn_errno (rtn c))\<rparr>\<rparr>) mr
        # Sys (Sys_send (sockfd c) (buf_get (req_data (req c)) 0 n) 0) # h)
    \<and> rtn c' = \<lparr>rtn_errno = 0, rtn_value = 0, rtn_data = buf_zero (rtn_data (rtn c)) 0 2\<rparr>
    \<and> buf_get (req_data (req c')) 0 BUFFER_SIZE = replicate BUFFER_SIZE 0"
proof -
  have n32: "n < 2 ^ 31" using assms(4) by (simp add: BUFFER_SIZE_def)
  have "ucast (buf_sz (req c)) = (word_of_nat n :: c_int)"
    using n32 by (simp add: assms(3) unsigned_of_nat take_bit_nat_eq_self)
  moreover have "unat (scast (word_of_nat n :: c_int) :: u64) = n"
    using n32 by (simp add: signed_of_nat signed_take_bit_int_eq_self unat_of_nat)
  ultimately obtain m where
    send: "sock_send_message E (rtn c) (sockfd c) (req_data (req c)) (ucast (buf_sz (req c))) h
      = Inr (m, Sys (Sys_send (sockfd c) (buf_get (req_data (req c)) 0 n) 0) # h)"
      and m: "m = (rtn c)\<lparr>rtn_value := rv r, rtn_errno := (if negative (rv r) then err r else rtn_errno (rtn c))\<rparr>"
    using assms(4,5) by (simp add: sock_send_message_def ext_def errno_if_def Let_def)
  let ?c = "c\<lparr>rtn := m\<rparr>" and ?h1 = "Sys (Sys_send (sockfd c) (buf_get (req_data (req c)) 0 n) 0) # h"
  have "rtn_mr ?c = Some mr" "rdma_req (req ?c) \<noteq> req_code RDMA_REQ_READ" using assms(1,2) by simp_all
  with write_msg_returns [of ?c mr E ?h1] obtain v c1 where
    w: "write_msg_to_client E ?c ?h1 = returns (v, c1, reply_post ?c mr # ?h1)" "rtn c1 = (if v = 0 then settled ?c else rtn ?c)"
    by (auto simp del: req_code.simps)
  have d: "rtn_data (rtn c1) = rtn_data (rtn c)" using w(2) assms(2) by (simp add: settled_def m)
  have "rdma_req_event t E L fresh s c h
      = returns (s, clear_req_data c1, reply_post (c\<lparr>rtn := m\<rparr>) mr # Sys (Sys_send (sockfd c) (buf_get (req_data (req c)) 0 n) 0) # h)"
    using send w(1) by (simp add: rdma_req_event_def assms(2) answer_def del: req_code.simps)
  then show ?thesis using m d by (intro exI [of _ "clear_req_data c1"]) (simp add: clear_req_data_def)
qed

text \<open>Sending: the kernel is given, on the descriptor of the request, exactly the first \<open>buf_sz\<close>
  bytes of the request's data; the posted reply carries the kernel's result, with \<open>errno\<close> when
  it is an error. After it has been posted the reply buffer is overwritten: its value and error
  are 0, as is the request's data.\<close>

theorem write_request:
  assumes "rtn_mr c = Some mr" and "rdma_req (req c) = req_code RDMA_REQ_WRITE"
    and "buf_sz (req c) = word_of_nat n" and "n \<le> BUFFER_SIZE"
    and "E (Sys (Sys_send (sockfd c) (buf_get (req_data (req c)) 0 n) 0) # h) = r"
  shows "\<exists>c'. rdma_req_event t E L fresh s c h = returns (s, c',
        reply_post (c\<lparr>rtn := (rtn c)\<lparr>rtn_value := rv r,
            rtn_errno := (if negative (rv r) then err r else rtn_errno (rtn c))\<rparr>\<rparr>) mr
        # Sys (Sys_send (sockfd c) (buf_get (req_data (req c)) 0 n) 0) # h)
    \<and> rtn c' = \<lparr>rtn_errno = 0, rtn_value = 0, rtn_data = buf_zero (rtn_data (rtn c)) 0 2\<rparr>
    \<and> buf_get (req_data (req c')) 0 BUFFER_SIZE = replicate BUFFER_SIZE 0"
  using assms by (rule write_request_handled)

theorem write_request_witness:
  "\<exists>c'. rdma_req_event 0 (\<lambda>_. resp0\<lparr>rv := 2\<rparr>) locals0 (client0 RDMA_REQ_SOCKET) server0
       ((client0 RDMA_REQ_WRITE)\<lparr>req := req0\<lparr>rdma_req := req_code RDMA_REQ_WRITE, buf_sz := word_of_nat 2\<rparr>\<rparr>) []
      = returns (server0, c', [reply_post ((client0 RDMA_REQ_WRITE)
            \<lparr>req := req0\<lparr>rdma_req := req_code RDMA_REQ_WRITE, buf_sz := word_of_nat 2\<rparr>,
              rtn := rtn0\<lparr>rtn_value := 2\<rparr>\<rparr>) mr0, Sys (Sys_send 5 [0, 0] 0)])
    \<and> rtn_value (rtn c') = 0"
proof -
  let ?c = "(client0 RDMA_REQ_WRITE)\<lparr>req := req0\<lparr>rdma_req := req_code RDMA_REQ_WRITE, buf_sz := word_of_nat 2\<rparr>\<rparr>"
  have b: "buf_get (req_data (req ?c)) 0 2 = [0, 0]" by (simp add: req0_def buf_get_def numeral_2_eq_2)
  have c: "rtn_mr ?c = Some mr0" "sockfd ?c = 5" "rtn ?c = rtn0" by (simp_all add: client0_def)
  have "rtn0\<lparr>rtn_value := 2, rtn_errno := (if negative (2 :: i64) then 0 else rtn_errno rtn0)\<rparr>
      = rtn0\<lparr>rtn_value := 2\<rparr>" by (simp add: rtn0_def)
  then show ?thesis
    using write_request [of ?c mr0 2 "\<lambda>_. resp0\<lparr>rv := 2\<rparr>" "[]" "resp0\<lparr>rv := 2\<rparr>" 0 locals0
        "client0 RDMA_REQ_SOCKET" server0] b c
    by (auto simp: BUFFER_SIZE_def resp0_def negative_def)
qed

section \<open>Serving a connection\<close>

lemma rdma_req_event_conn:
  assumes "rdma_req_event t E L fresh s c h = returns (s', c', h')" and "rtn_mr c = Some mr"
  shows "conn c' = conn c"
proof -
  have ans: "\<And>m s1 c1 h1. answer E s c (m, h) = returns (s1, c1, h1) \<Longrightarrow> conn c1 = conn c"
    by (drule answer_replied [OF _ assms(2), where h = h]) (simp_all add: replied_def)
  consider "rdma_req (req c) = req_code RDMA_REQ_NEW_RDMA_CONN" | "rdma_req (req c) = req_code RDMA_REQ_DEL_RDMA_CONN"
    | "rdma_req (req c) \<notin> {req_code RDMA_REQ_NEW_RDMA_CONN, req_code RDMA_REQ_DEL_RDMA_CONN}" by blast
  then show ?thesis
  proof cases
    case 1
    then show ?thesis using assms(1) ans
      by (auto simp: rdma_req_event_def Let_def ext_def split: if_splits elim!: and_then_returnsE
          simp del: req_code.simps)
  next
    case 2
    then show ?thesis using assms(1) ans
      by (auto simp: rdma_req_event_def global_disconnect_and_cleanup_def Let_def ext_def
          split: if_splits option.splits elim!: and_then_returnsE simp del: req_code.simps)
  next
    case 3
    then show ?thesis using request_answered' [OF assms] by (auto simp: answered_def replied_def)
  qed
qed

text \<open>The states a connection goes through while its loop runs.\<close>

inductive served ::
    "thread \<Rightarrow> env \<Rightarrow> (trace \<Rightarrow> locals) \<Rightarrow> (trace \<Rightarrow> s_client) \<Rightarrow> poll_state \<Rightarrow> poll_state \<Rightarrow> bool"
  for t E L fresh where
    served_start: "served t E L fresh st st"
  | served_turn: "served t E L fresh st st1 \<Longrightarrow> poll_step t E L fresh st1 = returns (Inr st2)
      \<Longrightarrow> served t E L fresh st st2"

lemma post_recv_req_conn:
  "post_recv_req E c h = returns (v, c', h') \<Longrightarrow> conn c' = conn c"
  by (auto simp: post_recv_req_def Let_def ext_def split: option.splits if_splits)

lemma poll_step_conn:
  assumes "poll_step t E L fresh (p, s, c, h) = returns (Inr (p', s', c', h'))" and "rtn_mr c = Some mr"
  shows "conn c' = conn c"
proof (cases p)
  case False
  then show ?thesis using assms(1) by (auto simp: poll_step_def Let_def ext_def split: if_splits)
next
  case True
  let ?r = "E (Verb (Ibv_poll_cq (cq c) 1) # h)"
  define c1 where "c1 = (case out_req ?r of None \<Rightarrow> c | Some q \<Rightarrow> c\<lparr>req := q\<rparr>)"
  have c1: "conn c1 = conn c" by (simp add: c1_def split: option.splits)
  show ?thesis
  proof (cases "wc_op (hd (out_wcs ?r)) = IBV_WC_RECV_RDMA_WITH_IMM \<and> positive (ret ?r)
      \<and> wc_status (hd (out_wcs ?r)) = 0")
    case False
    then show ?thesis
      using assms(1) True c1 by (auto simp: poll_step_def Let_def ext_def c1_def split: if_splits)
  next
    case imm: True
    then obtain v c2 h2 where recv: "post_recv_req E c1 (Verb (Ibv_poll_cq (cq c) 1) # h) = returns (v, c2, h2)"
      and ev: "rdma_req_event t E (L h2) (fresh h2) s (c2\<lparr>sockfd := htonl (wc_imm_data (hd (out_wcs ?r)))\<rparr>) h2
        = returns (s', c', h')"
      using assms(1) True
      by (auto simp: poll_step_def Let_def ext_def c1_def [symmetric] elim!: and_then_returnsE
          simp del: One_nat_def)
    have "rtn_mr c2 = Some mr" using post_recv_req_conn [OF recv] c1 assms(2) by (simp add: conn_def)
    then show ?thesis using rdma_req_event_conn [OF ev] post_recv_req_conn [OF recv] c1 by simp
  qed
qed

lemma served_conn:
  assumes "served t E L fresh st st'" and "rtn_mr (fst (snd (snd st))) = Some mr"
  shows "conn (fst (snd (snd st'))) = conn (fst (snd (snd st)))"
  using assms
proof (induction rule: served.induct)
  case (served_turn st st1 st2)
  then have "rtn_mr (fst (snd (snd st1))) = Some mr" by (simp add: conn_def)
  then show ?case
    using served_turn poll_step_conn [of t E L fresh "fst st1" "fst (snd st1)" "fst (snd (snd st1))"
        "snd (snd (snd st1))" "fst st2" "fst (snd st2)" "fst (snd (snd st2))" "snd (snd (snd st2))"]
    by simp
qed simp

text \<open>As long as a connection is served its queue pair, its registered regions, the host's
  address and key and its status stay those it was set up with, whatever the requests, the
  kernel and the network do.\<close>

theorem served_keeps_connection:
  assumes "served t E L fresh (p, s, c, h) (p', s', c', h')" and "rtn_mr c = Some mr"
  shows "conn c' = conn c"
  using served_conn [OF assms(1)] assms(2) by simp

text \<open>The trace of one poll that delivers the completion of a request \<open>q\<close> on descriptor \<open>fd\<close>.\<close>

definition delivers :: "resp \<Rightarrow> req_msg \<Rightarrow> c_int \<Rightarrow> bool" where
  "delivers r q fd \<longleftrightarrow> positive (ret r) \<and> out_req r = Some q
     \<and> out_wcs r = [\<lparr>wc_status = 0, wc_op = IBV_WC_RECV_RDMA_WITH_IMM, wc_with_imm = True, wc_imm_data = htonl fd\<rparr>]"

lemma poll_step_delivers:
  assumes "delivers (E (Verb (Ibv_poll_cq (cq c) 1) # h)) q fd" and "req_mr c = Some mr"
  defines "h1 \<equiv> Verb (Ibv_post_recv (client_qp c) (sge_of mr)) # Verb (Ibv_poll_cq (cq c) 1) # h"
  shows "poll_step t E L fresh (True, s, c, h) =
    and_then (rdma_req_event t E (L h1) (fresh h1) s
        (c\<lparr>req := q, client_recv_sge := sge_of mr, sockfd := fd\<rparr>) h1)
      (\<lambda>(s, c, h). returns (Inr (True, s, c, h)))"
  using assms
  by (auto simp: delivers_def poll_step_def post_recv_req_def ext_def Let_def simp del: One_nat_def)

lemma del_request_hangs':
  assumes "rdma_req (req c) = req_code RDMA_REQ_DEL_RDMA_CONN" and "rtn_mr c = Some mr"
    and "status c \<noteq> RDMA_CM_EVENT_DISCONNECTED"
  shows "rdma_req_event t E L fresh s c h = None"
proof -
  obtain c' h' where a: "answer E s c ((rtn c)\<lparr>rtn_value := 1\<rparr>, h) = returns (s, c', h')" "conn c' = conn c"
    using answer_returns [OF assms(2), of h "((rtn c)\<lparr>rtn_value := 1\<rparr>, h)" E s] by auto
  then have "status c' = status c" by (simp add: conn_def)
  then show ?thesis using a(1) assms(1,3)
    by (simp add: rdma_req_event_def global_disconnect_and_cleanup_def del: req_code.simps)
qed

text \<open>C31: A host that closes its connection makes the SmartNIC's thread hang: in every state that
  serving an established connection reaches, the request to delete the connection is never
  finished (the loop that waits for the disconnected status does not end), so the resources
  of the connection are never released.\<close>

theorem del_request_hangs:
  assumes "served t E L fresh (p, s, c, h) (True, s', c', h')"
    and "status c = RDMA_CM_EVENT_ESTABLISHED" and "rtn_mr c = Some mr" and "req_mr c = Some mr'"
    and "delivers (E (Verb (Ibv_poll_cq (cq c') 1) # h')) q fd"
    and "rdma_req q = req_code RDMA_REQ_DEL_RDMA_CONN"
  shows "poll_step t E L fresh (True, s', c', h') = None"
proof -
  have conn: "conn c' = conn c" using served_conn [OF assms(1)] assms(3) by simp
  have fields: "rtn_mr c' = Some mr" "req_mr c' = Some mr'" "status c' = RDMA_CM_EVENT_ESTABLISHED"
    using conn_fields [OF conn] assms(2,3,4) by simp_all
  show ?thesis
    using poll_step_delivers [of E c' h' q fd mr' t L fresh s'] fields assms(5,6)
    by (simp add: del_request_hangs')
qed

theorem del_request_hangs_witness:
  "poll_step 0 (\<lambda>_. resp0\<lparr>rv := 1, out_req := Some (req0\<lparr>rdma_req := req_code RDMA_REQ_DEL_RDMA_CONN\<rparr>),
       out_wcs := [\<lparr>wc_status = 0, wc_op = IBV_WC_RECV_RDMA_WITH_IMM, wc_with_imm = True, wc_imm_data = htonl 0\<rparr>]\<rparr>)
     (\<lambda>_. locals0) (\<lambda>_. client0 RDMA_REQ_SOCKET) (True, server0, client0 RDMA_REQ_SOCKET, []) = None"
  by (rule del_request_hangs [OF served_start, where q = "req0\<lparr>rdma_req := req_code RDMA_REQ_DEL_RDMA_CONN\<rparr>"
        and fd = 0 and mr = mr0 and mr' = mr0])
    (simp_all add: client0_def delivers_def ret_def positive_def)

theorem served_keeps_connection_witness:
  "\<exists>p' s' c' h'. served 0 (\<lambda>_. resp0) (\<lambda>_. locals0) (\<lambda>_. client0 RDMA_REQ_SOCKET)
      (False, server0, client0 RDMA_REQ_SOCKET, []) (p', s', c', h') \<and> h' \<noteq> []
    \<and> conn c' = conn (client0 RDMA_REQ_SOCKET)"
proof -
  let ?E = "\<lambda>_ :: trace. resp0" and ?L = "\<lambda>_ :: trace. locals0" and ?f = "\<lambda>_ :: trace. client0 RDMA_REQ_SOCKET"
  let ?st = "(False, server0, client0 RDMA_REQ_SOCKET, [])"
  obtain c' h' where "poll_step 0 ?E ?L ?f ?st = returns (Inr (True, server0, c', h'))" "h' \<noteq> []"
    by (simp add: poll_step_def ext_def Let_def ret_def resp0_def)
  with served_turn [OF served_start this(1)] have "served 0 ?E ?L ?f ?st (True, server0, c', h')" "h' \<noteq> []"
    by simp_all
  from served_keeps_connection [OF this(1), of mr0] this show ?thesis by (auto simp: client0_def)
qed

text \<open>The documented behaviour of the verbs: a failing \<open>ibv_req_notify_cq\<close> leaves an \<open>errno\<close>.\<close>

definition notify_sets_errno :: "env \<Rightarrow> bool" where
  "notify_sets_errno E \<longleftrightarrow>
     (\<forall>k h. ret (E (Verb (Ibv_req_notify_cq k) # h)) \<noteq> 0 \<longrightarrow> err (E (Verb (Ibv_req_notify_cq k) # h)) \<noteq> 0)"

lemma poll_step_returns_error:
  assumes "poll_step t E L fresh st = returns (Inl res)" and "notify_sets_errno E"
  shows "fst res \<noteq> 0"
  using assms
  by (auto simp: poll_step_def Let_def ext_def neg_errno_def notify_sets_errno_def
      split: prod.splits if_splits elim!: and_then_returnsE)

lemma poll_loop_error:
  assumes "poll_loop t E L fresh st = Some res"
  shows "notify_sets_errno E \<longrightarrow> (\<forall>r. res = Inr r \<longrightarrow> fst r \<noteq> 0)"
proof (induction rule: poll_loop.raw_induct)
  case (1 f t E L fresh st res)
  then show ?case
    using poll_step_returns_error [of t E L fresh st] poll_loop.simps [of t E L fresh st]
    by (auto simp: returns_def split: option.splits sum.splits
        simp del: split_paired_All split_paired_Ex)
qed (rule assms)

text \<open>The completion loop of a connection is left only by an error: whenever it returns, it
  returns a value other than 0.\<close>

theorem poll_loop_returns_error:
  assumes "snic_process_poll_cq_imm t E L fresh s c h = returns (v, s', c', h')" and "notify_sets_errno E"
  shows "v \<noteq> 0"
  using assms poll_loop_error [of t E L fresh "(False, s, c, h)"]
  by (auto simp: snic_process_poll_cq_imm_def returns_def)

theorem poll_loop_returns_error_witness:
  "\<exists>v s' c' h'. snic_process_poll_cq_imm 0
      (\<lambda>h. case h of Verb (Ibv_req_notify_cq _) # _ \<Rightarrow> resp0\<lparr>rv := 1, err := 5\<rparr> | _ \<Rightarrow> resp0)
      (\<lambda>_. locals0) (\<lambda>_. client0 RDMA_REQ_SOCKET) server0 (client0 RDMA_REQ_SOCKET) [] = returns (v, s', c', h')
    \<and> v \<noteq> 0"
proof -
  let ?E = "\<lambda>h. case h of Verb (Ibv_req_notify_cq _) # _ \<Rightarrow> resp0\<lparr>rv := 1, err := 5\<rparr> | _ \<Rightarrow> resp0"
  obtain v s' c' h' where run: "snic_process_poll_cq_imm 0 ?E (\<lambda>_. locals0) (\<lambda>_. client0 RDMA_REQ_SOCKET) server0
      (client0 RDMA_REQ_SOCKET) [] = returns (v, s', c', h')"
    by (simp add: snic_process_poll_cq_imm_def poll_loop.simps poll_step_def ext_def ret_def resp0_def Let_def
        returns_def)
  have "notify_sets_errno ?E" by (simp add: notify_sets_errno_def)
  from poll_loop_returns_error [OF run this] run show ?thesis by blast
qed

section \<open>Setting up a connection\<close>

lemma connected_client:
  assumes "connect_client_r_info E s c h = returns (0, s', c', h')"
  shows "\<exists>mr wr sge h1. cm_client_id c' \<noteq> 0 \<and> client_qp c' \<noteq> 0 \<and> req_mr c' = Some mr
    \<and> attr_address (server_metadata_attr c') = mr_addr mr \<and> attr_stag (server_metadata_attr c') = mr_rkey mr
    \<and> h' = Verb (Ibv_post_recv (client_qp c') (sge_of mr))
         # Verb (Ibv_post_send (client_qp c') wr sge (Payload_attr (server_metadata_attr c'))) # h1
    \<and> (let r = E (Verb (Ibv_post_send (client_qp c') wr sge (Payload_attr (server_metadata_attr c'))) # h1) in ret r = 0 \<or> err r = 0)"
proof -
  obtain c1 h1 c2 h2 v where send: "send_server_metadata_to_client E c1 h1 = returns (0, c2, h2)"
    and recv: "post_recv_req E c2 h2 = returns (v, c', h')"
    using assms
    by (auto simp: connect_client_r_info_def split: if_splits option.splits prod.splits
        elim!: and_then_returnsE)
  from send show ?thesis
    using recv
    by (auto simp: send_server_metadata_to_client_def post_recv_req_def attr_of_def ext_def Let_def
        EINVAL_def ENOMEM_def neg_errno_def split: if_splits option.splits prod.splits)
qed

text \<open>C20: When \<open>connect_client_r_info\<close> reports success, the connection has an id and a queue pair, the request buffer is
  registered, its address and remote key are what was last sent to the host (the queue pair has taken that message, or has refused
  it without leaving an \<open>errno\<close>), and the last call has asked for a receive for the first request. Whether that receive has been posted is not reported: the
  function returns 0 also when the queue pair refuses it, as in the witness, and then the first request of the host
  finds no receive.\<close>

theorem connect_ready:
  assumes "connect_client_r_info E s c h = returns (0, s', c', h')"
  shows "\<exists>mr wr sge h1. cm_client_id c' \<noteq> 0 \<and> client_qp c' \<noteq> 0 \<and> req_mr c' = Some mr
    \<and> attr_address (server_metadata_attr c') = mr_addr mr \<and> attr_stag (server_metadata_attr c') = mr_rkey mr
    \<and> (let send = Verb (Ibv_post_send (client_qp c') wr sge (Payload_attr (server_metadata_attr c')));
           recv = Verb (Ibv_post_recv (client_qp c') (sge_of mr))
       in h' = recv # send # h1 \<and> (ret (E (send # h1)) = 0 \<or> err (E (send # h1)) = 0))"
  using connected_client [OF assms] by (simp only: Let_def)

text \<open>A network on which everything succeeds: an event for every wait and a completion for every
  poll.\<close>

definition good_net :: env where
  "good_net h = (case h of
       Cm (Rdma_get_cm_event _) # _ \<Rightarrow>
         resp0\<lparr>out_cme := \<lparr>cme_status = 0, cme_event = RDMA_CM_EVENT_CONNECT_REQUEST, cme_id = 7\<rparr>\<rparr>
     | Cm (Rdma_create_qp _ _ _) # _ \<Rightarrow> resp0\<lparr>out_ptr := 5\<rparr>
     | Cm Rdma_create_event_channel # _ \<Rightarrow> resp0\<lparr>rv := 1\<rparr>
     | Verb (Ibv_alloc_pd _) # _ \<Rightarrow> resp0\<lparr>rv := 1\<rparr>
     | Verb (Ibv_create_comp_channel _) # _ \<Rightarrow> resp0\<lparr>rv := 1\<rparr>
     | Verb (Ibv_create_cq _ _ _) # _ \<Rightarrow> resp0\<lparr>rv := 1\<rparr>
     | Verb (Ibv_reg_mr _ _) # _ \<Rightarrow> resp0\<lparr>rv := 1, out_mr := mr0\<rparr>
     | Verb (Ibv_poll_cq _ _) # _ \<Rightarrow>
         resp0\<lparr>rv := 1, out_attr := Some attr0, out_wcs := [\<lparr>wc_status = 0, wc_op = IBV_WC_RECV,
           wc_with_imm = False, wc_imm_data = 0\<rparr>]\<rparr>
     | _ \<Rightarrow> resp0)"

lemma good_net_cm:
  "good_net (Cm (Rdma_get_cm_event ch) # h) =
     resp0\<lparr>out_cme := \<lparr>cme_status = 0, cme_event = RDMA_CM_EVENT_CONNECT_REQUEST, cme_id = 7\<rparr>\<rparr>"
  "good_net (Cm (Rdma_ack_cm_event ev) # h) = resp0"
  "good_net (Cm (Rdma_create_qp a b d) # h) = resp0\<lparr>out_ptr := 5\<rparr>"
  "good_net (Cm (Rdma_accept a p) # h) = resp0"
  "good_net (Cm Rdma_create_event_channel # h) = resp0\<lparr>rv := 1\<rparr>"
  "good_net (Cm (Rdma_create_id a) # h) = resp0"
  "good_net (Cm (Rdma_bind_addr a b') # h) = resp0"
  "good_net (Cm (Rdma_listen a n) # h) = resp0"
  "good_net (Getaddrinfo d' # h) = resp0"
  by (simp_all add: good_net_def)

lemma good_net_verb:
  "good_net (Verb (Ibv_alloc_pd a) # h) = resp0\<lparr>rv := 1\<rparr>"
  "good_net (Verb (Ibv_create_comp_channel a) # h) = resp0\<lparr>rv := 1\<rparr>"
  "good_net (Verb (Ibv_create_cq a n b) # h) = resp0\<lparr>rv := 1\<rparr>"
  "good_net (Verb (Ibv_reg_mr a p) # h) = resp0\<lparr>rv := 1, out_mr := mr0\<rparr>"
  "good_net (Verb (Ibv_poll_cq a n) # h) =
     resp0\<lparr>rv := 1, out_attr := Some attr0, out_wcs := [\<lparr>wc_status = 0, wc_op = IBV_WC_RECV,
       wc_with_imm = False, wc_imm_data = 0\<rparr>]\<rparr>"
  "good_net (Verb (Ibv_req_notify_cq a) # h) = resp0"
  "good_net (Verb (Ibv_get_cq_event a) # h) = resp0"
  "good_net (Verb (Ibv_ack_cq_events a n) # h) = resp0"
  "good_net (Verb (Ibv_post_recv q g) # h) = resp0"
  "good_net (Verb (Ibv_post_send q w g p) # h) = resp0"
  "good_net (Verb (Ibv_query_qp q) # h) = resp0"
  by (simp_all add: good_net_def)

lemma resp0_simps [simp]: "rv resp0 = 0" "ret resp0 = 0" "err resp0 = 0" "out_ptr resp0 = 0"
    "out_attr resp0 = None" "out_req resp0 = None" "out_rtn resp0 = None"
  by (simp_all add: resp0_def ret_def)

lemma good_net_completion:
  "\<exists>h'. process_work_completion_events good_net ch 1 h = Some (1, Some attr0, h')"
proof -
  have "\<not> negative (1 :: c_int)" by (simp add: negative_def)
  then have "poll_wcs good_net k 1 0 [] None h0 = Some (Inr ((1, [\<lparr>wc_status = 0, wc_op = IBV_WC_RECV,
      wc_with_imm = False, wc_imm_data = 0\<rparr>], Some attr0), Verb (Ibv_poll_cq k 1) # h0))" for k h0
    using poll_wcs_once [of good_net k 1 0 h0] by (simp add: good_net_verb ret_def)
  then show ?thesis
    by (simp add: process_work_completion_events_def good_net_verb ext_def Let_def ret_def)
qed

text \<open>Setting up succeeds also when other completions are reported, as long as they carry the host's metadata, and whatever becomes of
  the last receive.\<close>

definition receive_after_send :: "trace \<Rightarrow> bool" where
  "receive_after_send h \<longleftrightarrow> (case h of Verb (Ibv_post_recv _ _) # Verb (Ibv_post_send _ _ _ _) # _ \<Rightarrow> True | _ \<Rightarrow> False)"

lemma net_connect:
  assumes E: "\<And>c h. (\<And>k n. c \<noteq> Verb (Ibv_poll_cq k n)) \<Longrightarrow> \<not> receive_after_send (c # h) \<Longrightarrow> E (c # h) = good_net (c # h)"
    and "\<And>ch h. \<exists>h'. process_work_completion_events E ch 1 h = Some (1, Some attr0, h')"
  shows "\<exists>s' c' h'. connect_client_r_info E s (snd (snic_null_client_r_info c)) h = returns (0, s', c', h')
    \<and> client_metadata_attr c' = attr0 \<and> req_mr c' = Some mr0 \<and> rtn_mr c' = Some mr0"
proof -
  let ?c0 = "snd (snic_null_client_r_info c)"
  obtain s1 c1 h1 where 1: "waiting_client_conn E s ?c0 h = returns (0, s1, c1, h1)"
      and c1: "cm_client_id c1 = 7" "status c1 = RDMA_CM_EVENT_CONNECT_REQUEST"
    by (simp add: waiting_client_conn_def snic_verbs process_rdma_cm_event_def E receive_after_send_def good_net_cm ext_def Let_def ret_def)
  obtain c2 h2 where 2: "setup_client_resources E c1 h1 = (0, c2, h2)"
      and c2: "cm_client_id c2 = 7" "client_qp c2 = 5" "pd c2 = 1" "status c2 = RDMA_CM_EVENT_CONNECT_REQUEST"
    using c1 by (simp add: setup_client_resources_def E receive_after_send_def good_net_verb good_net_cm ext_def Let_def ret_def)
  obtain H where H: "\<And>ch h. process_work_completion_events E ch 1 h = Some (1, Some attr0, H ch h)"
    using assms(2) by metis
  obtain s3 c3 h3 where 3: "accept_client_connection E s1 c2 h2 = Some (1, s3, c3, h3)"
      and c3: "cm_client_id c3 = 7" "client_qp c3 = 5" "pd c3 = 1" "client_metadata_attr c3 = attr0" "rtn_mr c3 = Some mr0"
    using c2
    by (simp add: accept_client_connection_def snic_verbs rdma_buffer_register_def process_rdma_cm_event_def
        E receive_after_send_def good_net_verb good_net_cm ext_def Let_def ret_def H del: One_nat_def)
  obtain c4 h4 where 4: "send_server_metadata_to_client E c3 h3 = returns (0, c4, h4)" "req_mr c4 = Some mr0"
      "client_metadata_attr c4 = attr0" "rtn_mr c4 = Some mr0"
    using c3 by (simp add: send_server_metadata_to_client_def snic_verbs rdma_buffer_register_def E receive_after_send_def good_net_verb
        ext_def Let_def ret_def)
  obtain v c5 h5 where 5: "post_recv_req E c4 h4 = returns (v, c5, h5)" "client_metadata_attr c5 = attr0" "req_mr c5 = Some mr0" "rtn_mr c5 = Some mr0"
    using 4(2-4) by (cases "ret (E (Verb (Ibv_post_recv (client_qp c4) (sge_of mr0)) # h4)) = 0") (simp_all add: post_recv_req_def ext_def)
  have "\<not> negative (1 :: c_int)" by (simp add: negative_def)
  with 1 2 3 4 5 show ?thesis by (simp add: connect_client_r_info_def)
qed

lemma good_net_connect:
  "\<exists>s' c' h'. connect_client_r_info good_net s (snd (snic_null_client_r_info c)) h = returns (0, s', c', h')
    \<and> client_metadata_attr c' = attr0 \<and> req_mr c' = Some mr0 \<and> rtn_mr c' = Some mr0"
  by (rule net_connect [OF refl good_net_completion])


text \<open>The same network, which refuses the receive for the first request.\<close>

definition refusing_net :: env where
  "refusing_net h = (if receive_after_send h then resp0\<lparr>rv := 12\<rparr> else good_net h)"

lemma refusing_net_completion:
  "\<exists>h'. process_work_completion_events refusing_net ch 1 h = Some (1, Some attr0, h')"
proof -
  have r: "refusing_net (Verb (Ibv_poll_cq k n) # h) = good_net (Verb (Ibv_poll_cq k n) # h)"
    "refusing_net (Verb (Ibv_get_cq_event k) # h) = resp0" "refusing_net (Verb (Ibv_req_notify_cq k) # h) = resp0"
    "refusing_net (Verb (Ibv_ack_cq_events k n) # h) = resp0" for k n h
    by (simp_all add: refusing_net_def receive_after_send_def good_net_verb)
  have "\<not> negative (1 :: c_int)" by (simp add: negative_def)
  then have "poll_wcs refusing_net k 1 0 [] None h0 = Some (Inr ((1, [\<lparr>wc_status = 0, wc_op = IBV_WC_RECV,
      wc_with_imm = False, wc_imm_data = 0\<rparr>], Some attr0), Verb (Ibv_poll_cq k 1) # h0))" for k h0
    using poll_wcs_once [of refusing_net k 1 0 h0] by (simp add: r good_net_verb ret_def)
  then show ?thesis
    by (simp add: process_work_completion_events_def r ext_def Let_def)
qed

theorem connect_ready_witness:
  "\<exists>s' c' h' mr. connect_client_r_info refusing_net server0 (snd (snic_null_client_r_info (client0 RDMA_REQ_SOCKET))) []
      = returns (0, s', c', h') \<and> req_mr c' = Some mr \<and> attr_address (server_metadata_attr c') = mr_addr mr
    \<and> hd h' = Verb (Ibv_post_recv (client_qp c') (sge_of mr)) \<and> ret (refusing_net h') = 12"
proof -
  have "refusing_net (c # h) = good_net (c # h)" if "\<not> receive_after_send (c # h)" for c h
    using that by (simp add: refusing_net_def)
  then obtain s' c' h' where run: "connect_client_r_info refusing_net server0
      (snd (snic_null_client_r_info (client0 RDMA_REQ_SOCKET))) [] = returns (0, s', c', h')"
    using net_connect [of refusing_net, OF _ refusing_net_completion] by blast
  from connect_ready [OF run] obtain mr wr sge h1 where r: "req_mr c' = Some mr" "attr_address (server_metadata_attr c') = mr_addr mr"
      "h' = Verb (Ibv_post_recv (client_qp c') (sge_of mr))
        # Verb (Ibv_post_send (client_qp c') wr sge (Payload_attr (server_metadata_attr c'))) # h1"
    by (auto simp only: Let_def)
  have "ret (refusing_net h') = 12" by (simp add: r(3) refusing_net_def receive_after_send_def ret_def)
  with run r show ?thesis by (intro exI conjI; (assumption | simp))
qed

end
