(* ===== verification/Client_Props.thy ===== *)
theory Client_Props
  imports Client Server_Props
begin

text \<open>
  The host's request path: how much of a message is copied, how often posting is tried, and
  what \<open>set_req_sock\<close> posts and returns on a link that delivers a reply.
\<close>

section \<open>Posting\<close>

text \<open>The work request of a request and its post.\<close>

definition request_wr :: "r_info \<Rightarrow> send_wr" where
  "request_wr ri = \<lparr>sw_num_sge = 1, sw_opcode = IBV_WR_RDMA_WRITE_WITH_IMM, sw_signaled = True,
     sw_imm_data = htonl (r_sockfd ri), sw_remote_addr = attr_address (r_server_metadata_attr ri),
     sw_rkey = attr_stag (r_server_metadata_attr ri)\<rparr>"

definition request_post :: "r_info \<Rightarrow> ibv_mr \<Rightarrow> call" where
  "request_post ri mr = Verb (Ibv_post_send (r_client_qp ri) (request_wr ri) (sge_of mr) (Payload_req (r_req ri)))"

text \<open>The traces with which the environment was asked to post, oldest first: its answers to them say what became of the posts.\<close>

fun post_traces :: "trace \<Rightarrow> trace list" where
  "post_traces [] = []"
| "post_traces (Verb (Ibv_post_send q w g p) # h) = post_traces h @ [Verb (Ibv_post_send q w g p) # h]"
| "post_traces (_ # h) = post_traces h"

lemma posts_traces: "posts h = rev (map hd (post_traces h))"
  by (induction h rule: post_traces.induct) (simp_all add: posts_def)

lemma drain_cq_posts:
  assumes "drain_cq E n ri h = (ri', h')"
  shows "post_traces h' = post_traces h \<and> (\<exists>m. ri' = ri\<lparr>r_rtn := m\<rparr>)"
  using assms
proof (induction n arbitrary: ri h)
  case 0
  then show ?case by (auto intro: exI [of _ "r_rtn ri"])
next
  case (Suc n)
  let ?r = "E (Verb (Ibv_poll_cq (r_client_cq ri) 1) # h)"
  show ?case
  proof (cases "negative (ret ?r) \<or> ret ?r = 0")
    case True
    then have "ri' = ri" "h' = Verb (Ibv_poll_cq (r_client_cq ri) 1) # h"
      using Suc.prems by (auto simp: ext_def)
    then show ?thesis by (auto intro: exI [of _ "r_rtn ri"])
  next
    case False
    then have "drain_cq E n (take_rtn ?r ri) (Verb (Ibv_poll_cq (r_client_cq ri) 1) # h) = (ri', h')"
      using Suc.prems by (simp add: ext_def)
    from Suc.IH [OF this] obtain m where "post_traces h' = post_traces h" "ri' = (take_rtn ?r ri)\<lparr>r_rtn := m\<rparr>" by auto
    moreover have "(take_rtn ?r ri)\<lparr>r_rtn := m\<rparr> = ri\<lparr>r_rtn := m\<rparr>" by (simp add: take_rtn_def split: option.splits)
    ultimately show ?thesis by metis
  qed
qed

text \<open>An attempt that is refused for lack of memory, and the outcome of the attempts \<open>ts\<close> of which \<open>k\<close> are allowed.\<close>

definition refused :: "env \<Rightarrow> trace \<Rightarrow> bool" where
  "refused E t \<longleftrightarrow> ret (E t) \<noteq> 0 \<and> (ret (E t) = ENOMEM \<or> err (E t) = ENOMEM)"

definition attempted :: "env \<Rightarrow> nat \<Rightarrow> trace list \<Rightarrow> c_int \<Rightarrow> bool" where
  "attempted E k ts v \<longleftrightarrow> length ts \<le> k \<and>
     (v = 1 \<and> ts \<noteq> [] \<and> ret (E (last ts)) = 0 \<and> (\<forall>t \<in> set (butlast ts). refused E t)
      \<or> v = - 1 \<and> length ts = k \<and> (\<forall>t \<in> set ts. refused E t))"

lemma attempted_refused: "refused E t \<Longrightarrow> attempted E k ts v \<Longrightarrow> attempted E (Suc k) (t # ts) v"
  by (auto simp: attempted_def)

text \<open>Every attempt posts the same work request; a failure of all of them is reported.\<close>

lemma post_attempts_posts:
  assumes "post_attempts E k ri h = returns (v, ri', h')"
  shows "\<exists>ts. post_traces h' = post_traces h @ ts \<and> attempted E k ts v
    \<and> map hd ts = replicate (length ts) (Verb (Ibv_post_send (r_client_qp ri) (r_client_send_wr ri)
            (r_client_send_sge ri) (Payload_req (r_req ri)))) \<and> (\<exists>m. ri' = ri\<lparr>r_rtn := m\<rparr>)"
  using assms
proof (induction k arbitrary: ri h)
  case 0
  then show ?case by (auto simp: attempted_def intro: exI [of _ "r_rtn ri"])
next
  case (Suc k)
  let ?P = "Verb (Ibv_post_send (r_client_qp ri) (r_client_send_wr ri) (r_client_send_sge ri) (Payload_req (r_req ri)))"
  let ?r = "E (?P # h)"
  show ?case
  proof (cases "ret ?r = 0")
    case True
    then show ?thesis using Suc.prems
      by (auto simp: ext_def attempted_def intro!: exI [of _ "[?P # h]"] exI [of _ "r_rtn ri"])
  next
    case False
    then have mem: "ret ?r = ENOMEM \<or> err ?r = ENOMEM" using Suc.prems by (auto simp: ext_def split: if_splits)
    obtain ri1 h1 where d: "drain_cq E 32 ri (?P # h) = (ri1, h1)" by fastforce
    then obtain m where m: "post_traces h1 = post_traces h @ [?P # h]" "ri1 = ri\<lparr>r_rtn := m\<rparr>"
      using drain_cq_posts [OF d] by auto
    have "post_attempts E k ri1 h1 = returns (v, ri', h')"
      using Suc.prems False mem d by (simp add: ext_def)
    from Suc.IH [OF this] obtain ts where ts: "post_traces h' = post_traces h1 @ ts" "attempted E k ts v"
      "map hd ts = replicate (length ts) ?P" "\<exists>m. ri' = ri\<lparr>r_rtn := m\<rparr>"
      using m by auto
    have "refused E (?P # h)" using False mem by (simp add: refused_def)
    then show ?thesis using m(1) ts attempted_refused by (intro exI [of _ "(?P # h) # ts"]) auto
  qed
qed

text \<open>C21: Posting a request is tried at most four times, with the same work request each time: the whole request
  message, to the address and key the SmartNIC sent, tagged with the descriptor. It reports success (1) exactly when
  the last attempt was accepted by the queue pair, all before it having been refused for lack of memory, and failure (-1) exactly when
  all four were refused. (Any other refusal ends the process.)\<close>

theorem post_write_req_bounded:
  assumes "post_write_req E ri h = returns (v, ri', h')" and "r_req_mr ri = Some mr"
  shows "\<exists>ts. post_traces h' = post_traces h @ ts \<and> map hd ts = replicate (length ts) (request_post ri mr) \<and> length ts \<le> 4
    \<and> (v = 1 \<and> ts \<noteq> [] \<and> ret (E (last ts)) = 0 \<and> (\<forall>t \<in> set (butlast ts). refused E t)
       \<or> v = - 1 \<and> length ts = 4 \<and> (\<forall>t \<in> set ts. refused E t))"
proof -
  let ?ri = "ri\<lparr>r_client_send_sge := sge_of mr, r_client_send_wr := request_wr ri\<rparr>"
  have run: "post_attempts E 4 ?ri h = returns (v, ri', h')"
    using assms by (simp add: post_write_req_def request_wr_def del: post_attempts.simps)
  from post_attempts_posts [OF run] show ?thesis
    by (auto simp: request_post_def attempted_def)
qed

text \<open>A connected host for the witnesses.\<close>

definition r_info0 :: r_info where
  "r_info0 = \<lparr>r_cm_event_channel = 1, r_cm_client_id = 2, r_pd = 3, r_io_completion_channel = 4,
     r_client_cq = 5, r_client_qp = 6, r_cm_event = None, r_client_metadata_mr = Some mr0,
     r_server_metadata_mr = Some mr0, r_req_mr = Some mr0, r_rtn_mr = Some mr0,
     r_client_metadata_attr = attr0, r_server_metadata_attr = attr0, r_req = req0, r_rtn = rtn0,
     r_client_send_wr = null_wr, r_client_send_sge = null_sge, r_server_recv_sge = null_sge,
     r_sockfd = 0, r_eventfd = - 1\<rparr>"

text \<open>A queue pair without memory.\<close>

theorem post_write_req_bounded_witness:
  "\<exists>ri' h' ts. post_write_req (\<lambda>_. resp0\<lparr>rv := 12\<rparr>) r_info0 [] = returns (- 1, ri', h')
    \<and> post_traces h' = ts \<and> map hd ts = replicate 4 (request_post r_info0 mr0)"
proof -
  let ?E = "\<lambda>_ :: trace. resp0\<lparr>rv := 12\<rparr>"
  have n: "ret (resp0\<lparr>rv := 12\<rparr>) = ENOMEM" "ENOMEM \<noteq> 0" by (simp_all add: ret_def ENOMEM_def)
  have "\<exists>ri' h'. post_attempts ?E k ri h = returns (- 1, ri', h')" for k ri h
    by (induction k arbitrary: ri h) (auto simp: ext_def n split: prod.splits)
  then obtain ri' h' where run: "post_write_req ?E r_info0 [] = returns (- 1, ri', h')"
    by (simp add: post_write_req_def r_info0_def del: post_attempts.simps) metis
  have "r_req_mr r_info0 = Some mr0" by (simp add: r_info0_def)
  from post_write_req_bounded [OF run this] n have "length (post_traces h') = 4 \<and>
      map hd (post_traces h') = replicate (length (post_traces h')) (request_post r_info0 mr0)" by auto
  with run show ?thesis by metis
qed

section \<open>Waiting\<close>

text \<open>The queue delivers \<open>k\<close> completions of other kinds and then the one of the reply \<open>m\<close>.\<close>

definition polls :: "ptr \<Rightarrow> nat \<Rightarrow> trace \<Rightarrow> trace" where
  "polls k n h = replicate n (Verb (Ibv_poll_cq k 1)) @ h"

definition other_completion :: "resp \<Rightarrow> bool" where
  "other_completion r \<longleftrightarrow> positive (ret r) \<and> out_rtn r = None
     \<and> (\<exists>w. out_wcs r = [w] \<and> wc_status w = 0 \<and> wc_op w \<noteq> IBV_WC_RECV_RDMA_WITH_IMM)"

definition reply_completion :: "resp \<Rightarrow> rtn_msg \<Rightarrow> bool" where
  "reply_completion r m \<longleftrightarrow> positive (ret r) \<and> out_rtn r = Some m
     \<and> (\<exists>w. out_wcs r = [w] \<and> wc_status w = 0 \<and> wc_op w = IBV_WC_RECV_RDMA_WITH_IMM \<and> wc_with_imm w)"

definition reply_after :: "env \<Rightarrow> ptr \<Rightarrow> trace \<Rightarrow> nat \<Rightarrow> rtn_msg \<Rightarrow> bool" where
  "reply_after E k h n m \<longleftrightarrow>
     (\<forall>j < n. other_completion (E (polls k (Suc j) h))) \<and> reply_completion (E (polls k (Suc n) h)) m"

lemma polls_shift: "polls k n (Verb (Ibv_poll_cq k 1) # h) = polls k (Suc n) h"
  by (simp add: polls_def replicate_app_Cons_same)

lemma positive_simps: "positive w \<Longrightarrow> w \<noteq> 0 \<and> \<not> negative w"
  by (auto simp: positive_def negative_def)

lemma wait_loop_reply:
  assumes "reply_after E (r_client_cq ri) h n m"
  shows "wait_loop E (True, wc, ri, h) = Some (1, ri\<lparr>r_rtn := m\<rparr>, polls (r_client_cq ri) (Suc n) h)"
  using assms
proof (induction n arbitrary: h wc)
  case 0
  then show ?case
    by (subst wait_loop.simps)
      (auto simp: reply_after_def reply_completion_def wait_step_def ext_def polls_def take_rtn_def
        dest!: positive_simps)
next
  case (Suc n)
  let ?c = "Verb (Ibv_poll_cq (r_client_cq ri) 1)"
  have o: "other_completion (E (?c # h))"
    using Suc.prems by (auto simp: reply_after_def polls_def)
  have tail: "reply_after E (r_client_cq ri) (?c # h) n m"
    using Suc.prems by (auto simp: reply_after_def polls_shift simp del: One_nat_def)
  have "\<exists>w. wait_step E (True, wc, ri, h) = Inr (True, w, ri, ?c # h)"
    using o by (auto simp: other_completion_def wait_step_def ext_def take_rtn_def dest!: positive_simps)
  then show ?case using Suc.IH [OF tail] by (subst wait_loop.simps) (auto simp: polls_shift simp del: One_nat_def)
qed

text \<open>The link delivers the reply \<open>m\<close> to what \<open>ri\<close> posts: the post succeeds, the notification
  arrives and can be renewed, and the reply is among the completions.\<close>

definition exchange :: "env \<Rightarrow> r_info \<Rightarrow> ibv_mr \<Rightarrow> trace \<Rightarrow> nat \<Rightarrow> rtn_msg \<Rightarrow> bool" where
  "exchange E ri mr h n m \<longleftrightarrow>
     (let h1 = request_post ri mr # h;
          h2 = Verb (Ibv_get_cq_event (r_io_completion_channel ri)) # h1;
          k = out_ptr (E h2);
          h4 = Verb (Ibv_req_notify_cq k) # Verb (Ibv_ack_cq_events k 1) # h2
      in ret (E h1) = 0 \<and> ret (E h2) = 0 \<and> ret (E h4) = 0 \<and> reply_after E k h4 n m)"

lemma exchange_reply:
  assumes "exchange E ri mr h n m" and "r_req_mr ri = Some mr"
  shows "\<exists>ri1 h1 ri2 h2. post_write_req E ri h = returns (1, ri1, h1)
    \<and> process_poll_cq_imm E wc ri1 h1 = Some (1, ri2, h2) \<and> r_rtn ri2 = m \<and> r_req ri2 = r_req ri
    \<and> posts h2 = request_post ri mr # posts h \<and> r_req_mr ri2 = r_req_mr ri \<and> r_rtn_mr ri2 = r_rtn_mr ri"
proof -
  define ri1 where "ri1 = ri\<lparr>r_client_send_sge := sge_of mr, r_client_send_wr := request_wr ri\<rparr>"
  let ?h1 = "request_post ri mr # h"
  let ?h2 = "Verb (Ibv_get_cq_event (r_io_completion_channel ri)) # ?h1"
  let ?k = "out_ptr (E ?h2)"
  let ?h4 = "Verb (Ibv_req_notify_cq ?k) # Verb (Ibv_ack_cq_events ?k 1) # ?h2"
  have ex: "ret (E ?h1) = 0" "ret (E ?h2) = 0" "ret (E ?h4) = 0" "reply_after E ?k ?h4 n m"
    using assms(1) by (simp_all add: exchange_def Let_def)
  have post: "post_write_req E ri h = returns (1, ri1, ?h1)"
    using assms(2) ex(1)
    by (simp add: post_write_req_def ri1_def request_wr_def request_post_def ext_def numeral_eq_Suc)
  have "wait_step E (False, wc, ri1, ?h1) = Inr (True, wc, ri1\<lparr>r_client_cq := ?k\<rparr>, ?h4)"
    using ex(2,3) by (simp add: wait_step_def process_rdma_get_cq_event_def ext_def ri1_def positive_def)
  then have "process_poll_cq_imm E wc ri1 ?h1 = Some (1, ri1\<lparr>r_client_cq := ?k, r_rtn := m\<rparr>, polls ?k (Suc n) ?h4)"
    unfolding process_poll_cq_imm_def
    using wait_loop_reply [of E "ri1\<lparr>r_client_cq := ?k\<rparr>" ?h4 n m wc] ex(4)
    by (subst wait_loop.simps) (simp del: One_nat_def)
  moreover have "posts (polls ?k (Suc n) ?h4) = request_post ri mr # posts h"
    by (induction n) (simp_all add: polls_def posts_def request_post_def)
  ultimately show ?thesis using post by (auto simp: ri1_def)
qed

lemma set_req_sock_reply:
  assumes "fill_request ri fd (req_code r) n port message = Inr ri1"
    and "r_req_mr ri1 = Some mr" and "r_rtn_mr ri1 = Some rmr"
    and "exchange E (ri1\<lparr>r_server_recv_sge := sge_of rmr\<rparr>) mr
           (Verb (Ibv_post_recv (r_client_qp ri1) (sge_of rmr)) # h) k m"
    and "finish_request (req_code r) m e buf = Inr (v, e', buf')"
  shows "\<exists>ri' h'. set_req_sock E wc (Some ri) fd (req_code r) n port message e buf h
      = returns (v, Some ri', e', buf', h') \<and> r_rtn ri' = m \<and> r_req ri' = r_req ri1
    \<and> posts h' = request_post ri1 mr # posts h
    \<and> r_req_mr ri' = Some mr \<and> r_rtn_mr ri' = Some rmr"
proof -
  let ?ri = "ri1\<lparr>r_server_recv_sge := sge_of rmr\<rparr>"
  obtain ria ha rib hb where
    x: "post_write_req E ?ri (Verb (Ibv_post_recv (r_client_qp ri1) (sge_of rmr)) # h) = returns (1, ria, ha)"
      "process_poll_cq_imm E wc ria ha = Some (1, rib, hb)" "r_rtn rib = m" "r_req rib = r_req ri1"
      "posts hb = request_post ri1 mr # posts h" "r_req_mr rib = Some mr" "r_rtn_mr rib = Some rmr"
    using exchange_reply [OF assms(4), of wc] assms(2,3) by (auto simp: request_post_def request_wr_def)
  have range: "\<not> (sint (req_code r) < sint (req_code RDMA_REQ_SOCKET)
      \<or> sint (req_code r) > sint (req_code RDMA_REQ_DEL_RDMA_CONN))"
    by (cases r) simp_all
  have nn: "\<not> negative (1 :: c_int)" by (simp add: negative_def)
  show ?thesis
    using x assms(1,3,5) nn
    by (simp add: set_req_sock_def range post_recv_rtn_def ext_def del: req_code.simps)
qed

section \<open>How much of a message is copied\<close>

lemma write_len_eq:
  assumes "n < 2 ^ 32"
  shows "unat (write_len (word_of_nat n)) = (if n + 12 < BUFFER_SIZE then n else BUFFER_SIZE - 24)"
proof -
  have "12 + word_of_nat n = (word_of_nat (12 + n) :: u64)" by simp
  moreover have "unat (word_of_nat (12 + n) :: u64) = 12 + n"
    using assms unfolding unat_of_nat by simp
  ultimately have u: "unat (12 + word_of_nat n :: u64) = 12 + n" by simp
  then have lt: "(12 + word_of_nat n :: u64) < of_nat BUFFER_SIZE \<longleftrightarrow> n + 12 < BUFFER_SIZE"
    by (simp add: word_less_nat_alt BUFFER_SIZE_def)
  have n: "unat (word_of_nat n :: u64) = n" using assms unfolding unat_of_nat by simp
  show ?thesis using lt n by (simp add: write_len_def BUFFER_SIZE_def)
qed

text \<open>C23: A write request carries the whole message when the message and a header of 12 bytes are
  shorter than \<open>BUFFER_SIZE\<close>. Otherwise only the first \<open>BUFFER_SIZE - 24\<close> bytes are copied, the
  bytes after them are what the buffer held before, and the request still announces the full
  length.\<close>

theorem write_request_copied:
  assumes "length bs < 2 ^ 32"
  shows "\<exists>ri'. fill_request ri fd (req_code RDMA_REQ_WRITE) (word_of_nat (length bs)) port (Some bs) = Inr ri'
    \<and> buf_sz (r_req ri') = word_of_nat (length bs)
    \<and> (let k = if length bs + 12 < BUFFER_SIZE then length bs else BUFFER_SIZE - 24 in
       buf_get (req_data (r_req ri')) 0 k = take k bs
       \<and> (\<forall>i. i < k \<or> req_data (r_req ri') i = req_data (r_req ri) i))"
proof (cases "length bs + 12 < BUFFER_SIZE")
  case True
  then show ?thesis
    using write_len_eq [OF assms]
    by (auto simp: fill_request_def Let_def simp del: req_code.simps) (auto simp: buf_put_def split: if_splits)
next
  case False
  then show ?thesis
    using write_len_eq [OF assms]
    by (auto simp: fill_request_def Let_def BUFFER_SIZE_def simp del: req_code.simps)
      (auto simp: buf_put_def split: if_splits)
qed

theorem write_request_copied_witness:
  "\<exists>ri'. fill_request r_info0 5 (req_code RDMA_REQ_WRITE) (word_of_nat (length [104, 105 :: byte])) 0 (Some [104, 105])
      = Inr ri' \<and> buf_get (req_data (r_req ri')) 0 (Suc (Suc 0)) = [104, 105]"
  using write_request_copied [of "[104, 105]" r_info0 5 0] by (auto simp: BUFFER_SIZE_def)

end
