(* ===== verification/Hook_Props.thy ===== *)
theory Hook_Props
  imports Hook Client_Props
begin

text \<open>
  What the hooks do on a connected thread: which request a call of the application becomes, what
  it returns for the reply, and how the descriptor table follows. The contract of a call that is
  either passed on to the C library or made one request is the locale \<open>forwarded_hook\<close>.
\<close>

section \<open>A request on a connected thread\<close>

text \<open>The thread has a connection with both messages registered.\<close>

definition linked :: "host \<Rightarrow> r_info \<Rightarrow> ibv_mr \<Rightarrow> ibv_mr \<Rightarrow> bool" where
  "linked hs ri mr rmr \<longleftrightarrow> tls hs = Some ri \<and> \<not> tls_freed hs \<and> r_req_mr ri = Some mr \<and> r_rtn_mr ri = Some rmr"

text \<open>The request message \<open>ri\<close> holds is sent, and the reply \<open>m\<close> is delivered.\<close>

definition replies :: "env \<Rightarrow> r_info \<Rightarrow> ibv_mr \<Rightarrow> ibv_mr \<Rightarrow> trace \<Rightarrow> nat \<Rightarrow> rtn_msg \<Rightarrow> bool" where
  "replies E ri mr rmr h k m \<longleftrightarrow>
     exchange E (ri\<lparr>r_server_recv_sge := sge_of rmr\<rparr>) mr (Verb (Ibv_post_recv (r_client_qp ri) (sge_of rmr)) # h) k m"

text \<open>The connection with the fields of a request other than a write filled in.\<close>

definition outgoing :: "r_info \<Rightarrow> c_int \<Rightarrow> RDMA_REQ_MSG \<Rightarrow> u64 \<Rightarrow> u16 \<Rightarrow> r_info" where
  "outgoing ri fd r n port =
     ri\<lparr>r_req := (r_req ri)\<lparr>rdma_req := req_code r, buf_sz := n, req_port := port\<rparr>, r_sockfd := fd\<rparr>"

lemma req_code_eq [simp]: "req_code r = req_code r' \<longleftrightarrow> r = r'"
  by (cases r; cases r') simp_all

declare req_code.simps [simp del]

lemma fill_request_outgoing:
  "r \<noteq> RDMA_REQ_WRITE \<Longrightarrow> fill_request ri fd (req_code r) n port message = Inr (outgoing ri fd r n port)"
  by (simp add: fill_request_def outgoing_def)

lemma outgoing_mrs [simp]:
  "r_req_mr (outgoing ri fd r n port) = r_req_mr ri" "r_rtn_mr (outgoing ri fd r n port) = r_rtn_mr ri"
  by (simp_all add: outgoing_def)

lemma get_r_info_linked: "linked hs ri mr rmr \<Longrightarrow> get_r_info E J hs h = returns (Some ri, hs, h)"
  by (simp add: get_r_info_def linked_def)

lemma linked_after:
  "\<not> tls_freed hs \<Longrightarrow> r_req_mr ri = Some mr \<Longrightarrow> r_rtn_mr ri = Some rmr \<Longrightarrow>
     linked (hs\<lparr>tls := Some ri, errno := e\<rparr>) ri mr rmr"
  by (simp add: linked_def)

lemma request_reply:
  assumes "linked hs ri mr rmr" and "fill_request ri fd (req_code r) n port message = Inr ri1"
    and "r_req_mr ri1 = r_req_mr ri" and "r_rtn_mr ri1 = r_rtn_mr ri"
    and "replies E ri1 mr rmr h k m"
    and "finish_request (req_code r) m (Some (errno hs)) buf = Inr (v, e', buf')"
  obtains ri' h' where "request E J hs fd r n port message buf h
        = returns (v, buf', hs\<lparr>tls := Some ri', errno := the e'\<rparr>, h')"
    "r_rtn ri' = m" "r_req ri' = r_req ri1" "posts h' = request_post ri1 mr # posts h"
    "linked (hs\<lparr>tls := Some ri', errno := the e'\<rparr>) ri' mr rmr"
proof -
  have l: "tls hs = Some ri" "\<not> tls_freed hs" "r_req_mr ri1 = Some mr" "r_rtn_mr ri1 = Some rmr"
    using assms(1,3,4) by (simp_all add: linked_def)
  from set_req_sock_reply [OF assms(2) l(3,4) assms(5) [unfolded replies_def] assms(6), of "j_wc J"]
  obtain ri' h' where "set_req_sock E (j_wc J) (Some ri) fd (req_code r) n port message (Some (errno hs)) buf h
      = returns (v, Some ri', e', buf', h')" "r_rtn ri' = m" "r_req ri' = r_req ri1"
    "posts h' = request_post ri1 mr # posts h" "r_req_mr ri' = Some mr" "r_rtn_mr ri' = Some rmr" by blast
  then show thesis using that [of ri' h'] l by (simp add: request_def linked_after)
qed

text \<open>What the caller of a plain request gets for the reply \<open>m\<close>: the value, or -1 and \<open>errno\<close>.\<close>

definition plain_result :: "rtn_msg \<Rightarrow> c_int" where
  "plain_result m = (if negative (rtn_value m) then - 1 else ucast (rtn_value m))"

definition errno_after :: "rtn_msg \<Rightarrow> u32 \<Rightarrow> u32" where
  "errno_after m e = (if negative (rtn_value m) then rtn_errno m else e)"

definition plain :: "RDMA_REQ_MSG \<Rightarrow> bool" where
  "plain r \<longleftrightarrow> r \<notin> {RDMA_REQ_READ, RDMA_REQ_WRITE, RDMA_REQ_EPOLL_CREATE1, RDMA_REQ_EPOLL_CTL,
     RDMA_REQ_EPOLL_WAIT, RDMA_REQ_POLL}"

lemma finish_plain:
  "plain r \<Longrightarrow> finish_request (req_code r) m (Some e) buf = Inr (plain_result m, Some (errno_after m e), buf)"
  by (auto simp: finish_request_def plain_def plain_result_def errno_after_def store_errno_def)

lemma plain_request:
  assumes "linked hs ri mr rmr" and "plain r" and "replies E (outgoing ri fd r n port) mr rmr h k m"
  obtains ri' h' where "request E J hs fd r n port None None h
        = returns (plain_result m, None, hs\<lparr>tls := Some ri', errno := errno_after m (errno hs)\<rparr>, h')"
    "r_rtn ri' = m" "r_req ri' = r_req (outgoing ri fd r n port)"
    "posts h' = request_post (outgoing ri fd r n port) mr # posts h"
    "linked (hs\<lparr>tls := Some ri', errno := errno_after m (errno hs)\<rparr>) ri' mr rmr"
proof -
  have "r \<noteq> RDMA_REQ_WRITE" using assms(2) by (simp add: plain_def)
  from request_reply [OF assms(1) fill_request_outgoing [OF this] _ _ assms(3) finish_plain [OF assms(2)]]
  show thesis using that by simp metis
qed

section \<open>The contract of the hooks\<close>

text \<open>A hook passes a call it does not know on, and makes one request of a call it knows, whose
  result it finishes locally.\<close>

locale forwarded_hook =
  fixes known :: "FDHashTable \<Rightarrow> bool"
    and hook :: "env \<Rightarrow> hook_locals \<Rightarrow> host \<Rightarrow> trace \<Rightarrow> (c_int \<times> host \<times> trace) run"
    and orig :: orig_call and fd :: c_int and kind :: RDMA_REQ_MSG and port :: u16
    and finish :: "hook_locals \<Rightarrow> host \<Rightarrow> c_int \<Rightarrow> c_int \<times> host"
  assumes unknown: "\<not> known (fd_ht hs) \<Longrightarrow> hook E J hs h =
      (let (r, hs, h) = original E hs orig h in returns (ret r, hs, h))"
    and forwards: "known (fd_ht hs) \<Longrightarrow> linked hs ri mr rmr \<Longrightarrow> hook E J hs h =
      and_then (request E J hs fd kind 0 port None None h) (\<lambda>(v, _, hs, h).
        let (v, hs) = finish J hs v in returns (v, hs, h))"
    and kind_plain: "plain kind"
begin

lemma passed_on:
  "\<not> known (fd_ht hs) \<Longrightarrow> hook E J hs h =
     returns (ret (E (Libc orig # h)), hs\<lparr>errno := err (E (Libc orig # h))\<rparr>, Libc orig # h)"
  by (simp add: unknown original_def ext_def)

lemma one_request:
  assumes "known (fd_ht hs)" and "linked hs ri mr rmr"
    and "replies E (outgoing ri fd kind 0 port) mr rmr h k m"
  shows "\<exists>ri' h'. hook E J hs h =
      (let (v, hs) = finish J (hs\<lparr>tls := Some ri', errno := errno_after m (errno hs)\<rparr>) (plain_result m)
       in returns (v, hs, h')) \<and> r_rtn ri' = m
    \<and> linked (hs\<lparr>tls := Some ri', errno := errno_after m (errno hs)\<rparr>) ri' mr rmr
    \<and> posts h' = request_post (outgoing ri fd kind 0 port) mr # posts h"
proof -
  obtain ri' h' where "request E J hs fd kind 0 port None None h
        = returns (plain_result m, None, hs\<lparr>tls := Some ri', errno := errno_after m (errno hs)\<rparr>, h')"
    "r_rtn ri' = m" "posts h' = request_post (outgoing ri fd kind 0 port) mr # posts h"
    "linked (hs\<lparr>tls := Some ri', errno := errno_after m (errno hs)\<rparr>) ri' mr rmr"
    using plain_request [OF assms(2) kind_plain assms(3)] by blast
  then show ?thesis using forwards [OF assms(1,2), of E J h] by auto
qed

end

lemma request_keeps:
  "request E J hs fd r n port message buf h = returns (v, b, hs', h') \<Longrightarrow> fd_ht hs' = fd_ht hs \<and> tid hs' = tid hs"
  by (auto simp: request_def elim!: and_then_returnsE)

text \<open>What \<open>accept\<close> and \<open>connect\<close> do with the result of their request.\<close>

definition finish_accept :: "hook_locals \<Rightarrow> host \<Rightarrow> c_int \<Rightarrow> c_int \<times> host" where
  "finish_accept J hs v =
     (if positive v then let (ok, hs) = register_fd J hs v (tid hs) in (if ok then v else - 1, hs) else (v, hs))"

definition finish_connect :: "c_int \<Rightarrow> hook_locals \<Rightarrow> host \<Rightarrow> c_int \<Rightarrow> c_int \<times> host" where
  "finish_connect fd J hs v =
     (let (ok, hs) = register_fd J hs fd (searchByKey_fd (fd_ht hs) fd) in (if ok then 1 else - 1, hs))"

interpretation listen_hook: forwarded_hook "\<lambda>ht. fd_searchByKey ht fd \<noteq> 0"
    "\<lambda>E J hs. req_listen E J hs fd backlog" "Orig_listen fd backlog" fd RDMA_REQ_LISTEN 0 "\<lambda>J hs v. (v, hs)"
  for fd backlog
  by unfold_locales (simp_all add: req_listen_def get_r_info_linked plain_def)

interpretation bind_hook: forwarded_hook "\<lambda>ht. fd_searchByKey ht fd \<noteq> 0"
    "\<lambda>E J hs. req_bind E J hs fd addr addrlen" "Orig_bind fd addr addrlen" fd RDMA_REQ_BIND 8080
    "\<lambda>J hs v. (v, hs)"
  for fd addr addrlen
  by unfold_locales (simp_all add: req_bind_def get_r_info_linked plain_def)

interpretation close_hook: forwarded_hook "\<lambda>ht. searchByKey_fd ht fd \<noteq> 0"
    "\<lambda>E J hs. req_close E J hs fd" "Orig_close fd" fd RDMA_REQ_CLOSE 0
    "\<lambda>J hs v. (v, hs\<lparr>fd_ht := fd_deleteByKey (fd_ht hs) fd\<rparr>)"
  for fd
  by unfold_locales (simp_all add: req_close_def get_r_info_linked plain_def)

interpretation accept_hook: forwarded_hook "\<lambda>ht. fd_searchByKey ht fd \<noteq> 0"
    "\<lambda>E J hs. req_accept E J hs fd" "Orig_accept fd" fd RDMA_REQ_ACCEPT 0 finish_accept
  for fd
  by unfold_locales
    (auto simp: req_accept_def get_r_info_linked plain_def finish_accept_def split: prod.splits intro!: and_then_cong)

interpretation connect_hook: forwarded_hook "\<lambda>ht. searchByKey_fd ht fd \<noteq> 0"
    "\<lambda>E J hs. req_connect E J hs fd addr addrlen" "Orig_connect fd addr addrlen" fd RDMA_REQ_CONNECT
    "port_of addr" "finish_connect fd"
  for fd addr addrlen
  by unfold_locales
    (auto simp: req_connect_def get_r_info_linked plain_def finish_connect_def dest!: request_keeps
      split: prod.splits intro!: and_then_cong)

section \<open>Descriptors that are not forwarded\<close>

lemma searchByKey_fd_absent: "ht_inv ht \<Longrightarrow> assoc ht k = [] \<Longrightarrow> searchByKey_fd ht k = 0"
  by (auto simp: searchByKey_fd_def assoc_def bucket_def split: list.splits if_splits)

text \<open>What remains of a call that is passed on to the C library.\<close>

definition passed_on :: "env \<Rightarrow> host \<Rightarrow> orig_call \<Rightarrow> trace \<Rightarrow> host \<times> trace" where
  "passed_on E hs c h = (hs\<lparr>errno := err (E (Libc c # h))\<rparr>, Libc c # h)"

lemma original_passed_on: "original E hs c h = (E (Libc c # h), passed_on E hs c h)"
  by (simp add: original_def ext_def passed_on_def)

text \<open>C22: A call on a descriptor that is not in the descriptor table reaches the C library, and its
  result is the library's. Nothing is sent to the SmartNIC: the call is the only one made, and of
  the host's state only \<open>errno\<close> changes. \<open>connect\<close>, \<open>bind\<close>, \<open>listen\<close>, \<open>accept\<close>, \<open>close\<close>, \<open>send\<close>, \<open>write\<close>, \<open>read\<close>, \<open>recv\<close>,
  \<open>epoll_ctl\<close> and \<open>setsockopt\<close> are passed the arguments of the application. \<open>fcntl\<close> is not: its third
  argument is the address of the hook's own \<open>va_list\<close>, whatever the application has passed, so an
  \<open>F_SETFL\<close> on an ordinary file sets the flags to the bits of a pointer.\<close>

theorem foreign_descriptor_passed_on:
  assumes "ht_inv (fd_ht hs)" and "assoc (fd_ht hs) fd = []"
  shows "req_connect E J hs fd addr addrlen h
      = returns (ret (E (Libc (Orig_connect fd addr addrlen) # h)), passed_on E hs (Orig_connect fd addr addrlen) h)
    \<and> req_bind E J hs fd addr addrlen h
      = returns (ret (E (Libc (Orig_bind fd addr addrlen) # h)), passed_on E hs (Orig_bind fd addr addrlen) h)
    \<and> req_listen E J hs fd n h = returns (ret (E (Libc (Orig_listen fd n) # h)), passed_on E hs (Orig_listen fd n) h)
    \<and> req_accept E J hs fd h = returns (ret (E (Libc (Orig_accept fd) # h)), passed_on E hs (Orig_accept fd) h)
    \<and> req_close E J hs fd h = returns (ret (E (Libc (Orig_close fd) # h)), passed_on E hs (Orig_close fd) h)
    \<and> req_send E J hs fd bs n h = returns (rv (E (Libc (Orig_send fd bs n) # h)), passed_on E hs (Orig_send fd bs n) h)
    \<and> req_write E J hs fd bs h = returns (rv (E (Libc (Orig_write fd bs) # h)), passed_on E hs (Orig_write fd bs) h)
    \<and> (let c = Orig_read fd (word_of_nat (length bs)); out = out_bytes (E (Libc c # h)) in
       req_read E J hs fd bs h = returns (rv (E (Libc c # h)), out @ drop (length out) bs, passed_on E hs c h))
    \<and> (let c = Orig_recv fd (word_of_nat (length bs)) n; out = out_bytes (E (Libc c # h)) in
       req_recv E J hs fd bs n h = returns (rv (E (Libc c # h)), out @ drop (length out) bs, passed_on E hs c h))
    \<and> req_epoll_ctl E J hs fd op n ev h
      = returns (ret (E (Libc (Orig_epoll_ctl fd op n ev) # h)), passed_on E hs (Orig_epoll_ctl fd op n ev) h)
    \<and> req_fcntl E J hs fd n h
      = returns (ret (E (Libc (Orig_fcntl fd n (j_va_list J)) # h)), passed_on E hs (Orig_fcntl fd n (j_va_list J)) h)
    \<and> req_setsockopt E J hs fd op n val addrlen h = returns (ret (E (Libc (Orig_setsockopt fd op n val addrlen) # h)),
        passed_on E hs (Orig_setsockopt fd op n val addrlen) h)"
proof -
  have "fd_searchByKey (fd_ht hs) fd = 0" "searchByKey_fd (fd_ht hs) fd = 0"
    using assms fd_tab.search_absent searchByKey_fd_absent by simp_all
  then show ?thesis
    by (simp add: connect_hook.unknown bind_hook.unknown listen_hook.unknown accept_hook.unknown close_hook.unknown
        req_send_def req_write_def req_read_def req_recv_def req_epoll_ctl_def req_fcntl_def req_setsockopt_def
        original_passed_on passed_on_def Let_def)
qed

text \<open>A connected thread and a link that answers every request by \<open>m\<close>, for the witnesses.\<close>

definition host0 :: host where
  "host0 = \<lparr>fd_ht = createFDHashTable, tls = Some r_info0, tls_freed = False, global_r_info = None,
     server_sockaddr = \<lparr>sin_family = 2, sin_port = 0, sin_addr = 0, sin_zero = 0\<rparr>, tid = 1, errno = 0\<rparr>"

definition hook_locals0 :: hook_locals where
  "hook_locals0 = \<lparr>j_wc = \<lparr>wc_status = 0, wc_op = IBV_WC_RECV_RDMA_WITH_IMM, wc_with_imm = True, wc_imm_data = 0\<rparr>,
     j_fresh = r_info0, j_malloc = True, j_node = True, j_va_int = [0, 8, 0, 0], j_va_ptr = None, j_va_list = 0x7FFC0010\<rparr>"

definition replying :: "rtn_msg \<Rightarrow> env" where
  "replying m h = (case h of Verb (Ibv_poll_cq k n) # _ \<Rightarrow>
       resp0\<lparr>rv := 1, out_rtn := Some m,
         out_wcs := [\<lparr>wc_status = 0, wc_op = IBV_WC_RECV_RDMA_WITH_IMM, wc_with_imm = True, wc_imm_data = 0\<rparr>]\<rparr>
     | _ \<Rightarrow> resp0)"

lemma replying_replies: "replies (replying m) ri mr rmr h 0 m"
  by (simp add: replies_def exchange_def replying_def reply_after_def reply_completion_def polls_def
      request_post_def ret_def positive_def resp0_def)

lemma linked_host0: "linked host0 r_info0 mr0 mr0"
  by (simp add: linked_def host0_def r_info0_def)

theorem foreign_descriptor_passed_on_witness:
  "req_close (\<lambda>_. resp0) hook_locals0 host0 9 [] = returns (0, host0, [Libc (Orig_close 9)])
    \<and> req_write (\<lambda>_. resp0) hook_locals0 host0 9 [104] [] = returns (0, host0, [Libc (Orig_write 9 [104])])
    \<and> req_fcntl (\<lambda>_. resp0) hook_locals0 host0 9 F_SETFL [] = returns (0, host0, [Libc (Orig_fcntl 9 F_SETFL 0x7FFC0010)])"
proof -
  have t: "ht_inv (fd_ht host0)" "assoc (fd_ht host0) 9 = []" by (simp_all add: host0_def createFDHashTable_def)
  show ?thesis
    using foreign_descriptor_passed_on [OF t, of "\<lambda>_. resp0" hook_locals0 "server_sockaddr host0" 16 "[]" F_SETFL "[104]"]
    by (simp add: passed_on_def host0_def ret_def resp0_def hook_locals0_def)
qed

section \<open>New descriptors\<close>

lemma register_fd_ok:
  "j_node J \<Longrightarrow> register_fd J hs fd v = (True, hs\<lparr>fd_ht := snd (fd_insertByValue True (fd_ht hs) fd v)\<rparr>)"
  by (simp add: register_fd_def table_ops)

lemma register_fd_fail:
  "\<not> j_node J \<Longrightarrow> register_fd J hs fd v = (False, hs\<lparr>tls_freed := True\<rparr>)"
  by (simp add: register_fd_def fd_insertByValue_def)

lemma positive_above: "2 < sint v \<Longrightarrow> positive v"
  by (simp add: positive_def)

text \<open>C14: \<open>socket\<close> on a connected thread posts one request. A descriptor above 2 in the reply is
  returned and recorded for the thread, and is found again when no other descriptor was in
  its slot; anything else is reported as -1 with the table unchanged. If there is no memory to
  record it, -1 is returned, the connection is freed and the next request of the thread
  uses it after that.\<close>

theorem socket_registers_descriptor:
  assumes "ht_inv (fd_ht hs)" and "linked hs ri mr rmr"
    and "replies E (outgoing ri 0 RDMA_REQ_SOCKET 0 0) mr rmr h k m"
  shows "\<exists>hs' h'. req_sock E J hs h
      = returns (if 2 < sint (plain_result m) \<and> j_node J then plain_result m else - 1, hs', h')
    \<and> posts h' = request_post (outgoing ri 0 RDMA_REQ_SOCKET 0 0) mr # posts h
    \<and> errno hs' = errno_after m (errno hs)
    \<and> (if 2 < sint (plain_result m) \<and> j_node J then
         assoc (fd_ht hs') = (assoc (fd_ht hs))(plain_result m := assoc (fd_ht hs) (plain_result m) @ [tid hs])
         \<and> (front (fd_ht hs) (plain_result m) = None \<longrightarrow> fd_searchByKey (fd_ht hs') (plain_result m) = tid hs)
       else fd_ht hs' = fd_ht hs)
    \<and> (2 < sint (plain_result m) \<and> \<not> j_node J \<longrightarrow> req_sock E J hs' h' = faults Use_after_free)"
proof -
  let ?v = "plain_result m"
  obtain ri' h' where r: "request E J hs 0 RDMA_REQ_SOCKET 0 0 None None h
        = returns (?v, None, hs\<lparr>tls := Some ri', errno := errno_after m (errno hs)\<rparr>, h')"
      "posts h' = request_post (outgoing ri 0 RDMA_REQ_SOCKET 0 0) mr # posts h"
    by (rule plain_request [OF assms(2) _ assms(3), of J]) (simp add: plain_def)
  define hs1 where "hs1 = hs\<lparr>tls := Some ri', errno := errno_after m (errno hs)\<rparr>"
  have run: "req_sock E J hs h = (if 2 < sint ?v then
      (let (ok, hs2) = register_fd J hs1 ?v (tid hs) in returns (if ok then ?v else - 1, hs2, h'))
      else returns (- 1, hs1, h'))"
    using r positive_above [of ?v]
    by (simp add: req_sock_def get_r_info_linked [OF assms(2)] hs1_def split: prod.splits)
  show ?thesis
  proof (cases "2 < sint ?v \<and> j_node J")
    case True
    let ?hs = "hs1\<lparr>fd_ht := snd (fd_insertByValue True (fd_ht hs) ?v (tid hs))\<rparr>"
    have "req_sock E J hs h = returns (?v, ?hs, h')"
      using True run by (simp add: register_fd_ok hs1_def)
    moreover have "assoc (fd_ht ?hs) = (assoc (fd_ht hs))(?v := assoc (fd_ht hs) ?v @ [tid hs])"
      using fd_tab.assoc_insert [OF assms(1), of ?v "tid hs"] by (auto simp: fun_eq_iff)
    ultimately show ?thesis
      using True r(2) fd_tab.search_insert_empty_slot [OF assms(1), of ?v "tid hs"]
      by (intro exI [of _ ?hs] exI [of _ h']) (simp add: hs1_def)
  next
    case False
    then show ?thesis using run r(2)
      by (cases "2 < sint ?v") (auto simp: register_fd_fail hs1_def req_sock_def get_r_info_def)
  qed
qed

theorem socket_registers_descriptor_witness:
  "\<exists>hs' h'. req_sock (replying rtn0) hook_locals0 host0 [] = returns (7, hs', h')
    \<and> fd_searchByKey (fd_ht hs') 7 = 1"
proof -
  have v: "plain_result rtn0 = 7" by (simp add: plain_result_def rtn0_def negative_def)
  have f: "front (fd_ht host0) 7 = None" "ht_inv (fd_ht host0)"
    by (simp_all add: host0_def createFDHashTable_def empty_table_def front_def ht_inv_def)
  show ?thesis
    using socket_registers_descriptor [OF f(2) linked_host0 replying_replies [of rtn0], of hook_locals0 "[]"] v f(1)
    by (auto simp: hook_locals0_def host0_def)
qed

section \<open>Connecting and closing\<close>

lemma searchByKey_fd_insert_again:
  "searchByKey_fd ht k \<noteq> 0 \<Longrightarrow> searchByKey_fd (snd (fd_insertByValue True ht k v)) k = searchByKey_fd ht k"
  by (auto simp: searchByKey_fd_def table_ops link_node_def bucket_def split: list.splits if_splits)

lemma linked_table: "linked (hs\<lparr>fd_ht := ht\<rparr>) ri mr rmr = linked hs ri mr rmr"
  by (simp add: linked_def)

lemma finish_connect_eq:
  "j_node J \<Longrightarrow> finish_connect fd J hs v
     = (1, hs\<lparr>fd_ht := snd (fd_insertByValue True (fd_ht hs) fd (searchByKey_fd (fd_ht hs) fd))\<rparr>)"
  by (simp add: finish_connect_def register_fd_ok)

text \<open>C25: \<open>connect\<close> on a forwarded descriptor sends the request with the port of the address, and
  returns 1 whatever the SmartNIC answered, a refused connection included. The descriptor is
  recorded a second time, with the number of its slot for a thread; so after it has been closed it is
  still in the table, although the SmartNIC has closed it.\<close>

theorem connect_always_succeeds_and_outlives_close:
  assumes "ht_inv (fd_ht hs)" and "linked hs ri mr rmr" and "j_node J"
    and "assoc (fd_ht hs) fd = [t]" and "searchByKey_fd (fd_ht hs) fd \<noteq> 0"
    and "replies E (outgoing ri fd RDMA_REQ_CONNECT 0 (port_of addr)) mr rmr h k m"
  shows "\<exists>ri1 hs1 h1. req_connect E J hs fd addr addrlen h = returns (1, hs1, h1)
    \<and> posts h1 = request_post (outgoing ri fd RDMA_REQ_CONNECT 0 (port_of addr)) mr # posts h
    \<and> assoc (fd_ht hs1) fd = [t, searchByKey_fd (fd_ht hs) fd] \<and> linked hs1 ri1 mr rmr
    \<and> (\<forall>k' m'. replies E (outgoing ri1 fd RDMA_REQ_CLOSE 0 0) mr rmr h1 k' m' \<longrightarrow>
        (\<exists>hs2 h2. req_close E J hs1 fd h1 = returns (plain_result m', hs2, h2)
          \<and> posts h2 = request_post (outgoing ri1 fd RDMA_REQ_CLOSE 0 0) mr # posts h1
          \<and> assoc (fd_ht hs2) fd = [searchByKey_fd (fd_ht hs) fd]))"
proof -
  let ?t = "searchByKey_fd (fd_ht hs) fd"
  let ?ht = "snd (fd_insertByValue True (fd_ht hs) fd ?t)"
  obtain ri1 h1 where c: "req_connect E J hs fd addr addrlen h
        = returns (1, hs\<lparr>tls := Some ri1, errno := errno_after m (errno hs), fd_ht := ?ht\<rparr>, h1)"
      "linked (hs\<lparr>tls := Some ri1, errno := errno_after m (errno hs)\<rparr>) ri1 mr rmr"
      "posts h1 = request_post (outgoing ri fd RDMA_REQ_CONNECT 0 (port_of addr)) mr # posts h"
    using connect_hook.one_request [OF assms(5,2,6), of J addrlen] by (auto simp: finish_connect_eq assms(3))
  define hs1 where "hs1 = hs\<lparr>tls := Some ri1, errno := errno_after m (errno hs), fd_ht := ?ht\<rparr>"
  have l: "linked hs1 ri1 mr rmr" using c(2) by (simp add: hs1_def linked_table)
  have a: "assoc (fd_ht hs1) fd = [t, ?t]" "ht_inv (fd_ht hs1)"
    using fd_tab.assoc_insert [OF assms(1)] fd_tab.invar_insert [OF assms(1)] assms(4) by (simp_all add: hs1_def)
  have known: "searchByKey_fd (fd_ht hs1) fd \<noteq> 0"
    using searchByKey_fd_insert_again [OF assms(5)] assms(5) by (simp add: hs1_def)
  have "\<exists>hs2 h2. req_close E J hs1 fd h1 = returns (plain_result m', hs2, h2)
      \<and> posts h2 = request_post (outgoing ri1 fd RDMA_REQ_CLOSE 0 0) mr # posts h1
      \<and> assoc (fd_ht hs2) fd = [?t]"
    if "replies E (outgoing ri1 fd RDMA_REQ_CLOSE 0 0) mr rmr h1 k' m'" for k' m'
    using close_hook.one_request [OF known l that, of J] fd_tab.assoc_delete [OF a(2), of fd fd] a(1) by auto
  then show ?thesis using c(1,3) l a(1) unfolding hs1_def [symmetric] by blast
qed

lemma slot_of_7: "hashFunction 7 \<noteq> 0"
  by (simp add: hashFunction_def MurmurHash3_int HT_SZ_def HT_SEED_def
      murmur_fmix_def murmur_block_def murmur_k1_def murmur_c1_def murmur_c2_def rotl32_def Let_def)

text \<open>A thread with the forwarded descriptor 7.\<close>

definition host7 :: host where
  "host7 = host0\<lparr>fd_ht := snd (fd_insertByValue True createFDHashTable 7 1)\<rparr>"

lemma host7_facts:
  "ht_inv (fd_ht host7)" "linked host7 r_info0 mr0 mr0" "assoc (fd_ht host7) 7 = [1]"
  "fd_searchByKey (fd_ht host7) 7 \<noteq> 0" "searchByKey_fd (fd_ht host7) 7 \<noteq> 0"
  using slot_of_7 fd_insert_example [of 7 1]
  by (simp_all add: host7_def linked_table linked_host0 contract_simps searchByKey_fd_def bucket_def)
    (simp_all add: link_node_def head_value_def bucket_def createFDHashTable_def)

theorem connect_always_succeeds_and_outlives_close_witness:
  "\<exists>hs1 h1 hs2 h2 t. req_connect (replying (rtn0\<lparr>rtn_value := - 1\<rparr>)) hook_locals0 host7 7 (server_sockaddr host0) 16 []
      = returns (1, hs1, h1)
    \<and> req_close (replying (rtn0\<lparr>rtn_value := - 1\<rparr>)) hook_locals0 hs1 7 h1 = returns (- 1, hs2, h2)
    \<and> assoc (fd_ht hs2) 7 = [t]"
proof -
  have j: "j_node hook_locals0" by (simp add: hook_locals0_def)
  have v: "plain_result (rtn0\<lparr>rtn_value := - 1\<rparr>) = - 1" by (simp add: plain_result_def negative_def)
  show ?thesis
    using connect_always_succeeds_and_outlives_close [OF host7_facts(1,2) j host7_facts(3,5) replying_replies,
        where m = "rtn0\<lparr>rtn_value := - 1\<rparr>" and addr = "server_sockaddr host0" and h = "[]" and addrlen = 16] replying_replies v by metis
qed

section \<open>Requests that say something else\<close>

definition with_data :: "r_info \<Rightarrow> buf \<Rightarrow> r_info" where
  "with_data ri d = ri\<lparr>r_req := (r_req ri)\<lparr>req_data := d\<rparr>\<rparr>"

lemma linked_with_data: "linked hs ri mr rmr \<Longrightarrow> linked (hs\<lparr>tls := Some (with_data ri d)\<rparr>) (with_data ri d) mr rmr"
  by (simp add: linked_def with_data_def)

lemma errno_tls [simp]: "hs\<lparr>tls := x, errno := e, tls := y\<rparr> = hs\<lparr>tls := y, errno := e\<rparr>"
  by simp

text \<open>Three hooks send something else than the application asked for. \<open>bind\<close> sends the
  port 8080 whatever the address says. \<open>getpeername\<close> sends a \<open>getsockopt\<close> request. \<open>fcntl\<close>
  addresses its request not to the descriptor of the call but to the descriptor 0, 1 or 2 whose
  number is the kind of the argument.\<close>

theorem misdirected_requests:
  assumes "linked hs ri mr rmr" and "fd_searchByKey (fd_ht hs) fd \<noteq> 0"
    and "replies E (outgoing ri fd RDMA_REQ_BIND 0 8080) mr rmr h k m"
    and "replies E (outgoing (with_data ri (the (serialize_addr_dt (Some (req_data (r_req ri))) len peer)))
           fd RDMA_REQ_GETSOCKOPT 0 0) mr rmr h k m"
    and "(if cmd = F_GETLK \<or> cmd = F_SETLK \<or> cmd = F_SETLKW then j_va_ptr J else Some (j_va_int J)) = Some arg"
    and "serialize_fcntl_dt (Some (req_data (r_req ri))) (Some fd) (Some cmd) (Some arg) = Inr (Some d, Some f)"
    and "replies E (outgoing (with_data ri d) f RDMA_REQ_FCNTL 0 0) mr rmr h k m"
  shows "(\<exists>hs' h'. req_bind E J hs fd addr addrlen h = returns (plain_result m, hs', h')
      \<and> posts h' = request_post (outgoing ri fd RDMA_REQ_BIND 0 8080) mr # posts h)
    \<and> (\<exists>peer' len' hs' h'. req_getpeername E J hs fd peer len h = returns (plain_result m, peer', len', hs', h')
      \<and> posts h' = request_post (outgoing (with_data ri (the (serialize_addr_dt (Some (req_data (r_req ri))) len peer)))
           fd RDMA_REQ_GETSOCKOPT 0 0) mr # posts h)
    \<and> (\<exists>hs' h'. req_fcntl E J hs fd cmd h = returns (plain_result m, hs', h')
      \<and> posts h' = request_post (outgoing (with_data ri d) f RDMA_REQ_FCNTL 0 0) mr # posts h
      \<and> f = fcntl_flag cmd \<and> f \<in> {0, 1, 2})"
proof (intro conjI)
  have t: "tls hs = Some ri" using assms(1) by (simp add: linked_def)
  show "\<exists>hs' h'. req_bind E J hs fd addr addrlen h = returns (plain_result m, hs', h')
      \<and> posts h' = request_post (outgoing ri fd RDMA_REQ_BIND 0 8080) mr # posts h"
    using bind_hook.one_request [OF assms(2,1,3), where J = J and addr = addr and addrlen = addrlen] by auto
  let ?d = "the (serialize_addr_dt (Some (req_data (r_req ri))) len peer)"
  obtain ri' h' where "request E J (hs\<lparr>tls := Some (with_data ri ?d)\<rparr>) fd RDMA_REQ_GETSOCKOPT 0 0 None None h
        = returns (plain_result m, None, hs\<lparr>tls := Some ri', errno := errno_after m (errno hs)\<rparr>, h')"
      "posts h' = request_post (outgoing (with_data ri ?d) fd RDMA_REQ_GETSOCKOPT 0 0) mr # posts h"
    by (rule plain_request [OF linked_with_data [OF assms(1)] _ assms(4), of J]) (simp_all add: plain_def)
  then show "\<exists>peer' len' hs' h'. req_getpeername E J hs fd peer len h = returns (plain_result m, peer', len', hs', h')
      \<and> posts h' = request_post (outgoing (with_data ri ?d) fd RDMA_REQ_GETSOCKOPT 0 0) mr # posts h"
    using assms(2) t
    by (auto simp: req_getpeername_def get_r_info_linked [OF assms(1)] with_req_data_def with_data_def split: prod.splits)
  obtain ri' h' where "request E J (hs\<lparr>tls := Some (with_data ri d)\<rparr>) f RDMA_REQ_FCNTL 0 0 None None h
        = returns (plain_result m, None, hs\<lparr>tls := Some ri', errno := errno_after m (errno hs)\<rparr>, h')"
      "posts h' = request_post (outgoing (with_data ri d) f RDMA_REQ_FCNTL 0 0) mr # posts h"
    by (rule plain_request [OF linked_with_data [OF assms(1)] _ assms(7), of J]) (simp_all add: plain_def)
  moreover have "f = fcntl_flag cmd"
    using assms(6) by (auto simp: serialize_fcntl_dt_def put_arg_def fcntl_flag_def fcntl_cmds
        fcntl_arg_len_def sizeof_flock_def split: if_splits)
  ultimately show "\<exists>hs' h'. req_fcntl E J hs fd cmd h = returns (plain_result m, hs', h')
      \<and> posts h' = request_post (outgoing (with_data ri d) f RDMA_REQ_FCNTL 0 0) mr # posts h
      \<and> f = fcntl_flag cmd \<and> f \<in> {0, 1, 2}"
    using assms(2,5,6) t
    by (auto simp: req_fcntl_def get_r_info_linked [OF assms(1)] with_data_def fcntl_flag_def Let_def)
qed

theorem misdirected_requests_witness:
  "\<exists>hs' h' hs'' h'' d. req_bind (replying rtn0) hook_locals0 host7 7 (server_sockaddr host0) 16 [] = returns (7, hs', h')
    \<and> posts h' = [request_post (outgoing r_info0 7 RDMA_REQ_BIND 0 8080) mr0]
    \<and> req_fcntl (replying rtn0) hook_locals0 host7 7 F_SETFL [] = returns (7, hs'', h'')
    \<and> posts h'' = [request_post (outgoing (with_data r_info0 d) 1 RDMA_REQ_FCNTL 0 0) mr0]"
proof -
  have v: "plain_result rtn0 = 7" by (simp add: plain_result_def rtn0_def negative_def)
  have a: "(if F_SETFL = F_GETLK \<or> F_SETFL = F_SETLK \<or> F_SETFL = F_SETLKW then j_va_ptr hook_locals0
      else Some (j_va_int hook_locals0)) = Some [0, 8, 0, 0]"
    by (simp add: fcntl_cmds hook_locals0_def)
  obtain d where d: "serialize_fcntl_dt (Some (req_data (r_req r_info0))) (Some 7) (Some F_SETFL) (Some [0, 8, 0, 0])
      = Inr (Some d, Some 1)"
    by (simp add: serialize_fcntl_dt_cases fcntl_arg_len_def fcntl_flag_def fcntl_cmds)
  from misdirected_requests [OF host7_facts(2,4) replying_replies replying_replies a d replying_replies,
      where m = rtn0 and h = "[]" and addr = "server_sockaddr host0" and addrlen = 16 and len = None and peer = None] v
  show ?thesis by (auto simp: posts_simps)
qed

text \<open>\<open>getsockname\<close> on a forwarded descriptor: whatever address the SmartNIC reports for the
  socket, the application gets one whose family is the length of an address (16, not
  \<open>AF_INET\<close>) and whose port is 0, with the configured host address.\<close>

theorem getsockname_wrong_address:
  assumes "linked hs ri mr rmr" and "fd_searchByKey (fd_ht hs) fd \<noteq> 0"
    and "replies E (outgoing (with_data ri (the (serialize_addr_dt (Some (req_data (r_req ri))) (Some len) (Some a0))))
           fd RDMA_REQ_GETSOCKNAME 0 0) mr rmr h k m"
    and "rtn_value m = 0" and "snic_serialize_addr_dt (Some b) (Some 16) (Some a) = Some (rtn_data m)"
  shows "\<exists>z hs' h'. req_getsockname E J hs fd (Some a0) (Some len) h
    = returns (0, Some \<lparr>sin_family = 16, sin_port = 0, sin_addr = of_le DEFAULT_RDMA_CLIENT_IP, sin_zero = z\<rparr>,
        Some 16, hs', h')"
proof -
  let ?d = "the (serialize_addr_dt (Some (req_data (r_req ri))) (Some len) (Some a0))"
  have t: "tls hs = Some ri" using assms(1) by (simp add: linked_def)
  obtain ri' h' where r: "request E J (hs\<lparr>tls := Some (with_data ri ?d)\<rparr>) fd RDMA_REQ_GETSOCKNAME 0 0 None None h
        = returns (plain_result m, None, hs\<lparr>tls := Some ri', errno := errno_after m (errno hs)\<rparr>, h')" "r_rtn ri' = m"
    by (rule plain_request [OF linked_with_data [OF assms(1)] _ assms(3), of J]) (simp_all add: plain_def)
  have v: "plain_result m = 0" using assms(4) by (simp add: plain_result_def negative_def)
  have sixteen: "le_bytes 4 (16 :: u32) = [16, 0, 0, 0]" by code_simp
  have fam: "buf_get (rtn_data m) 0 4 = le_bytes 4 (16 :: u32)"
    using assms(5) [symmetric] by (simp add: snic_serialize_addr_dt_def serialize_addr_dt_def put_word_def buffer_simps)
  have "buf_get (rtn_data m) 0 16 = buf_get (rtn_data m) 0 4 @ buf_get (rtn_data m) 4 12"
    by (simp add: buf_get_def numeral_eq_Suc)
  then have "\<exists>z. (dec_sockaddr (buf_get (rtn_data m) 0 16))\<lparr>sin_addr := of_le DEFAULT_RDMA_CLIENT_IP\<rparr>
      = \<lparr>sin_family = 16, sin_port = 0, sin_addr = of_le DEFAULT_RDMA_CLIENT_IP, sin_zero = z\<rparr>"
    by (simp add: fam sixteen dec_sockaddr_def)
  then show ?thesis
    using r v assms(2) t
    by (auto simp: req_getsockname_def get_r_info_linked [OF assms(1)] with_req_data_def with_data_def
        rtn_data_of_def deserialize_addr_dt_def split: prod.splits)
qed

definition addr0 :: sockaddr where
  "addr0 = \<lparr>sin_family = AF_INET, sin_port = 36895, sin_addr = 5, sin_zero = 0\<rparr>"

definition name_reply :: rtn_msg where
  "name_reply = \<lparr>rtn_errno = 0, rtn_value = 0, rtn_data = buf_put (put_word (\<lambda>_. 0) 0 (16 :: u32)) 4 (enc_sockaddr addr0)\<rparr>"

theorem getsockname_wrong_address_witness:
  "\<exists>z hs' h'. req_getsockname (replying name_reply) hook_locals0 host7 7 (Some addr0) (Some 16) []
    = returns (0, Some \<lparr>sin_family = 16, sin_port = 0, sin_addr = of_le DEFAULT_RDMA_CLIENT_IP, sin_zero = z\<rparr>,
        Some 16, hs', h')"
  by (rule getsockname_wrong_address [OF host7_facts(2,4) replying_replies, where b = "\<lambda>_. 0" and a = addr0])
    (simp_all add: name_reply_def snic_serialize_addr_dt_def serialize_addr_dt_def)

end
