(* ===== verification/Bridge.thy ===== *)
theory Bridge
  imports Hook_Props Server_Props
begin

text \<open>
  The host and the SmartNIC together: what the host posts arrives at the completion loop of the
  SmartNIC, which asks its kernel and posts the reply, which arrives at the host.
\<close>

section \<open>Arrival of a request\<close>

text \<open>The next completion the SmartNIC polls is that of the posted request: its message is in the
  connection's memory and its immediate data in the completion.\<close>

definition arrives :: "env \<Rightarrow> s_client \<Rightarrow> trace \<Rightarrow> call \<Rightarrow> bool" where
  "arrives ES c hS p \<longleftrightarrow>
     (case p of Verb (Ibv_post_send _ w _ (Payload_req q)) \<Rightarrow>
        let r = ES (Verb (Ibv_poll_cq (cq c) 1) # hS) in
        positive (ret r) \<and> out_req r = Some q
        \<and> (\<exists>wc. out_wcs r = [wc] \<and> wc_status wc = 0 \<and> wc_op wc = IBV_WC_RECV_RDMA_WITH_IMM
             \<and> wc_imm_data wc = sw_imm_data w)
      | _ \<Rightarrow> False)"

text \<open>The trace of the SmartNIC when it starts to handle the request, and its connection then.\<close>

definition polled :: "s_client \<Rightarrow> ibv_mr \<Rightarrow> trace \<Rightarrow> trace" where
  "polled c qmr hS = Verb (Ibv_post_recv (client_qp c) (sge_of qmr)) # Verb (Ibv_poll_cq (cq c) 1) # hS"

definition received :: "s_client \<Rightarrow> ibv_mr \<Rightarrow> r_info \<Rightarrow> s_client" where
  "received c qmr ri = c\<lparr>req := r_req ri, client_recv_sge := sge_of qmr, sockfd := r_sockfd ri\<rparr>"

lemma received_fields [simp]:
  "req (received c qmr ri) = r_req ri" "sockfd (received c qmr ri) = r_sockfd ri"
  "rtn_mr (received c qmr ri) = rtn_mr c" "rtn (received c qmr ri) = rtn c"
  by (simp_all add: received_def)

lemma poll_step_arrival:
  assumes "arrives ES c hS (request_post ri mr)" and "req_mr c = Some qmr"
  shows "poll_step t ES L fresh (True, s, c, hS) =
    and_then (rdma_req_event t ES (L (polled c qmr hS)) (fresh (polled c qmr hS)) s (received c qmr ri) (polled c qmr hS))
      (\<lambda>(s, c, h). returns (Inr (True, s, c, h)))"
  using assms
  by (auto simp: arrives_def request_post_def request_wr_def poll_step_def post_recv_req_def ext_def
      polled_def received_def Let_def)

section \<open>Writing\<close>

text \<open>The connection with a write request filled in.\<close>

definition outgoing_write :: "r_info \<Rightarrow> c_int \<Rightarrow> byte list \<Rightarrow> r_info" where
  "outgoing_write ri fd bs =
     ri\<lparr>r_req := (r_req ri)\<lparr>rdma_req := req_code RDMA_REQ_WRITE, buf_sz := word_of_nat (length bs), req_port := 0,
          req_data := buf_put (req_data (r_req ri)) 0 bs\<rparr>, r_sockfd := fd\<rparr>"

lemma buf_put_Nil [simp]: "buf_put b off [] = b"
  by (rule ext) (auto simp: buf_put_def)

lemma fill_write:
  assumes "length bs + 12 < BUFFER_SIZE"
  shows "fill_request ri fd (req_code RDMA_REQ_WRITE) (word_of_nat (length bs)) 0 (Some bs) = Inr (outgoing_write ri fd bs)"
proof -
  have "unat (write_len (word_of_nat (length bs))) = length bs"
    using assms write_len_eq [of "length bs"] by (simp add: BUFFER_SIZE_def)
  then show ?thesis using assms
    by (cases "bs = []") (simp_all add: fill_request_def outgoing_write_def Let_def)
qed

lemma forward_write_reply:
  assumes "linked hs ri mr rmr" and "length bs + 12 < BUFFER_SIZE"
    and "replies E (outgoing_write ri fd bs) mr rmr h k m"
  obtains ri' h' where "forward_write E J hs fd bs h = returns (scast (ucast (rtn_value m) :: c_int),
      clear_data (hs\<lparr>tls := Some ri', errno := errno_after m (errno hs)\<rparr>), h')"
    "posts h' = request_post (outgoing_write ri fd bs) mr # posts h"
    "linked (hs\<lparr>tls := Some ri', errno := errno_after m (errno hs)\<rparr>) ri' mr rmr"
proof -
  have f: "finish_request (req_code RDMA_REQ_WRITE) m (Some (errno hs)) None
      = Inr (ucast (rtn_value m), Some (errno_after m (errno hs)), None)"
    by (simp add: finish_request_def errno_after_def store_errno_def)
  show thesis
    by (rule request_reply [OF assms(1) fill_write [OF assms(2)] _ _ assms(3) f, of J])
      (use that assms(1) in \<open>simp_all add: outgoing_write_def forward_write_def get_r_info_linked\<close>)
qed

text \<open>C3: A write of the application on a forwarded descriptor, end to end. With fewer than
  \<open>BUFFER_SIZE - 12\<close> bytes the SmartNIC's kernel is asked once to send exactly those bytes on that
  descriptor, one reply with the kernel's result is posted, the completion loop goes on, and then the reply buffer's
  error number and value are 0. When the reply is delivered, \<open>send\<close> and \<open>write\<close> have posted one request and return the kernel's result (as an
  \<open>int\<close>), of which every byte that the adapter reads only after the post (\<open>late\<close>) is 0; \<open>errno\<close> is set if what
  arrives is negative, to the kernel's with the same loss. So the result is the kernel's when the
  adapter reads the message at once, and a failing or partial \<open>send\<close> can also come back as 0, as in the witness.\<close>

theorem write_end_to_end:
  assumes "linked hs ri mr rmr" and "length bs + 12 < BUFFER_SIZE"
    and "searchByKey_fd (fd_ht hs) fd \<noteq> 0" and "fd_searchByKey (fd_ht hs) fd \<noteq> 0"
    and "arrives ES c hS (request_post (outgoing_write ri fd bs) mr)"
    and "req_mr c = Some qmr" and "rtn_mr c = Some smr"
    and "ES (Sys (Sys_send fd bs 0) # polled c qmr hS) = r"
    and "m = (rtn c)\<lparr>rtn_value := rv r, rtn_errno := (if negative (rv r) then err r else rtn_errno (rtn c))\<rparr>"
  shows "\<exists>c'. poll_step t ES L fresh (True, s, c, hS) = returns (Inr (True, s, c',
        reply_post ((received c qmr (outgoing_write ri fd bs))\<lparr>rtn := m\<rparr>) smr # Sys (Sys_send fd bs 0) # polled c qmr hS))
    \<and> rtn_errno (rtn c') = 0 \<and> rtn_value (rtn c') = 0
    \<and> (\<forall>E J h k flags late. replies E (outgoing_write ri fd bs) mr rmr h k (fetch late m (rtn c')) \<longrightarrow>
        (\<exists>hs' h'. let v = scast (ucast (torn late 4 (rv r)) :: c_int) in
          req_send E J hs fd bs flags h = returns (v, hs', h') \<and> req_write E J hs fd bs h = returns (v, hs', h')
          \<and> errno hs' = (if negative (torn late 4 (rv r)) then torn late 0 (err r) else errno hs)
          \<and> posts h' = request_post (outgoing_write ri fd bs) mr # posts h))"
proof -
  let ?c = "received c qmr (outgoing_write ri fd bs)"
  have q: "rdma_req (req ?c) = req_code RDMA_REQ_WRITE" "buf_sz (req ?c) = word_of_nat (length bs)" "sockfd ?c = fd"
      "buf_get (req_data (req ?c)) 0 (length bs) = bs" "rtn_mr ?c = Some smr" "rtn ?c = rtn c"
    using assms(7) by (simp_all add: outgoing_write_def)
  from write_request_handled [OF q(5,1,2), of ES "polled c qmr hS" r t "L (polled c qmr hS)" "fresh (polled c qmr hS)" s] assms(2,8)
  obtain c' where c': "rdma_req_event t ES (L (polled c qmr hS)) (fresh (polled c qmr hS)) s ?c (polled c qmr hS)
      = returns (s, c', reply_post (?c\<lparr>rtn := m\<rparr>) smr # Sys (Sys_send fd bs 0) # polled c qmr hS)"
      "rtn_errno (rtn c') = 0" "rtn_value (rtn c') = 0"
    unfolding assms(9) q(3,4,6) by auto
  have step: "poll_step t ES L fresh (True, s, c, hS) = returns (Inr (True, s, c',
        reply_post (?c\<lparr>rtn := m\<rparr>) smr # Sys (Sys_send fd bs 0) # polled c qmr hS))"
    using c' by (simp add: poll_step_arrival [OF assms(5,6)])
  have "\<exists>hs' h'. let v = scast (ucast (torn late 4 (rv r)) :: c_int) in
      req_send E J hs fd bs flags h = returns (v, hs', h') \<and> req_write E J hs fd bs h = returns (v, hs', h')
      \<and> errno hs' = (if negative (torn late 4 (rv r)) then torn late 0 (err r) else errno hs)
      \<and> posts h' = request_post (outgoing_write ri fd bs) mr # posts h"
    if rep: "replies E (outgoing_write ri fd bs) mr rmr h k (fetch late m (rtn c'))" for E J h k flags late
  proof -
    obtain ri' h' where f: "forward_write E J hs fd bs h = returns (scast (ucast (rtn_value (fetch late m (rtn c'))) :: c_int),
        clear_data (hs\<lparr>tls := Some ri', errno := errno_after (fetch late m (rtn c')) (errno hs)\<rparr>), h')"
      "posts h' = request_post (outgoing_write ri fd bs) mr # posts h"
      by (rule forward_write_reply [OF assms(1,2) rep])
    have "rtn_value (fetch late m (rtn c')) = torn late 4 (rv r)"
      "errno_after (fetch late m (rtn c')) e = (if negative (torn late 4 (rv r)) then torn late 0 (err r) else e)" for e
      using c'(2,3) by (auto simp: assms(9) errno_after_def torn_def dest: torn_negative64 [unfolded torn_def])
    then show ?thesis using f assms(3,4) by (auto simp: req_send_def req_write_def clear_data_def)
  qed
  with step c'(2,3) show ?thesis by blast
qed

text \<open>A SmartNIC to which the request of \<open>ri\<close> arrives and whose kernel answers \<open>r\<close>, for the
  witnesses.\<close>

definition serving :: "r_info \<Rightarrow> resp \<Rightarrow> env" where
  "serving ri r h = (case h of Verb (Ibv_poll_cq _ _) # _ \<Rightarrow>
       resp0\<lparr>rv := 1, out_req := Some (r_req ri), out_wcs := [\<lparr>wc_status = 0, wc_op = IBV_WC_RECV_RDMA_WITH_IMM,
         wc_with_imm = True, wc_imm_data = htonl (r_sockfd ri)\<rparr>]\<rparr>
     | Sys _ # _ \<Rightarrow> r | _ \<Rightarrow> resp0)"

lemma serving_arrives: "arrives (serving ri r) c hS (request_post ri mr)"
  by (simp add: arrives_def request_post_def request_wr_def serving_def ret_def positive_def)

lemma serving_kernel: "serving ri r (Sys call # h) = r"
  by (simp add: serving_def)

lemma posts_accepted_serving: "posts_accepted (serving ri r)"
  by (simp add: posts_accepted_def serving_def)

lemma client0_mrs: "req_mr (client0 r) = Some mr0" "rtn_mr (client0 r) = Some mr0" "rtn (client0 r) = rtn0"
  by (simp_all add: client0_def)

theorem write_end_to_end_witness:
  "\<exists>c' hs' h' hs'' h'' m. poll_step 0 (serving (outgoing_write r_info0 7 [104, 105]) (resp0\<lparr>rv := 2\<rparr>)) (\<lambda>_. locals0)
        (\<lambda>_. client0 RDMA_REQ_SOCKET) (True, server0, client0 RDMA_REQ_SOCKET, [])
      = returns (Inr (True, server0, c', reply_post ((received (client0 RDMA_REQ_SOCKET) mr0
            (outgoing_write r_info0 7 [104, 105]))\<lparr>rtn := m\<rparr>) mr0
          # Sys (Sys_send 7 [104, 105] 0) # polled (client0 RDMA_REQ_SOCKET) mr0 []))
    \<and> req_send (replying (fetch (\<lambda>_. False) m (rtn c'))) hook_locals0 host7 7 [104, 105] 0 [] = returns (2, hs', h')
    \<and> req_send (replying (fetch (\<lambda>_. True) m (rtn c'))) hook_locals0 host7 7 [104, 105] 0 [] = returns (0, hs'', h'')"
proof -
  let ?c = "client0 RDMA_REQ_SOCKET" and ?ri = "outgoing_write r_info0 7 [104, 105]" and ?r = "resp0\<lparr>rv := 2\<rparr>"
  define m where "m = (rtn ?c)\<lparr>rtn_value := rv ?r, rtn_errno := (if negative (rv ?r) then err ?r else rtn_errno (rtn ?c))\<rparr>"
  have l: "length [104, 105 :: byte] + 12 < BUFFER_SIZE" by (simp add: BUFFER_SIZE_def)
  have v: "scast (ucast (torn (\<lambda>_. False) 4 (rv ?r)) :: c_int) = (2 :: i64)" "scast (ucast (torn (\<lambda>_. True) 4 (rv ?r)) :: c_int) = (0 :: i64)"
    by (simp_all add: torn_early torn_late)
  from write_end_to_end [OF host7_facts(2) l host7_facts(5,4) serving_arrives client0_mrs(1,2) serving_kernel m_def,
      where hS = "[]" and t = 0 and L = "\<lambda>_. locals0" and s = server0 and fresh = "\<lambda>_. ?c"]
  show ?thesis
  proof (elim exE conjE, goal_cases)
    case (1 c')
    note host = 1(4) [rule_format, OF replying_replies, unfolded Let_def]
    from 1(1) host [where late = "\<lambda>_. False" and J = hook_locals0 and h = "[]" and flags = 0]
      host [where late = "\<lambda>_. True" and J = hook_locals0 and h = "[]" and flags = 0] show ?thesis
      unfolding v by (elim exE conjE) (intro exI conjI, assumption+)
  qed
qed

section \<open>Reading\<close>

text \<open>What a call that fills a buffer may return: a count with that many bytes, or an error and
  none.\<close>

definition fills :: "resp \<Rightarrow> nat \<Rightarrow> bool" where
  "fills r n \<longleftrightarrow> length (out_bytes r) \<le> n
     \<and> (rv r = word_of_nat (length (out_bytes r)) \<or> negative (rv r) \<and> out_bytes r = [])"

text \<open>The reply to a read.\<close>

definition read_reply :: "rtn_msg \<Rightarrow> resp \<Rightarrow> rtn_msg" where
  "read_reply m0 r = \<lparr>rtn_errno = (if negative (rv r) \<or> rv r = 0 then err r else 0), rtn_value = rv r,
     rtn_data = buf_put (rtn_data m0) 0 (out_bytes r)\<rparr>"

lemma sock_read_reply:
  assumes "n \<le> BUFFER_SIZE" and "E (Sys (Sys_read fd (word_of_nat n)) # h) = r" and "fills r n"
  shows "sock_read_message E m0 fd (ucast (word_of_nat n :: u64)) h
    = Inr (ret r, read_reply m0 r, Sys (Sys_read fd (word_of_nat n)) # h)"
proof -
  have n: "n < 2 ^ 31" using assms(1) by (simp add: BUFFER_SIZE_def)
  then have "scast (ucast (word_of_nat n :: u64) :: c_int) = (word_of_nat n :: u64)"
    by (simp add: unsigned_of_nat take_bit_nat_eq_self signed_of_nat signed_take_bit_int_eq_self)
  then show ?thesis using assms
    by (auto simp: sock_read_message_def ext_def read_reply_def ret_def fills_def Let_def)
qed

text \<open>The message reports what a call that fills a buffer has returned.\<close>

definition reports_bytes :: "resp \<Rightarrow> rtn_msg \<Rightarrow> bool" where
  "reports_bytes r m \<longleftrightarrow> rtn_value m = rv r \<and> (negative (rv r) \<longrightarrow> rtn_errno m = err r)
     \<and> buf_get (rtn_data m) 0 (length (out_bytes r)) = out_bytes r"

text \<open>What is left of it after a late transfer: the error number and the first eight bytes may be lost.\<close>

definition told_bytes :: "(nat \<Rightarrow> bool) \<Rightarrow> resp \<Rightarrow> resp" where
  "told_bytes late r = r\<lparr>err := torn late 0 (err r), out_bytes := torn_bytes late 12 8 (out_bytes r)\<rparr>"

lemma told_bytes_simps [simp]:
  "rv (told_bytes late r) = rv r" "ret (told_bytes late r) = ret r" "err (told_bytes late r) = torn late 0 (err r)"
  "out_bytes (told_bytes late r) = torn_bytes late 12 8 (out_bytes r)"
  by (simp_all add: told_bytes_def ret_def)

lemma fills_told [simp]: "fills (told_bytes late r) n = fills r n"
  by (auto simp: fills_def torn_bytes_def)

lemma fills_nonempty:
  assumes "fills r n" and "n \<le> BUFFER_SIZE" and "out_bytes r \<noteq> []"
  shows "rv r = word_of_nat (length (out_bytes r))" "positive (rv r)"
proof -
  show v: "rv r = word_of_nat (length (out_bytes r))" using assms(1,3) by (auto simp: fills_def)
  have "0 < length (out_bytes r)" "length (out_bytes r) < 2 ^ 31" using assms by (auto simp: fills_def BUFFER_SIZE_def)
  then show "positive (rv r)" unfolding v by (simp add: positive_def signed_of_nat signed_take_bit_int_eq_self)
qed

lemma read_reply_reports:
  assumes "fills r n" and "n \<le> BUFFER_SIZE" and "rdma_req (req c) = req_code RDMA_REQ_READ" and "rtn c = read_reply m0 r"
  shows "reports_bytes (told_bytes late r) (fetch late (rtn c) (settled c))"
proof (cases "out_bytes r = []")
  case True
  then show ?thesis using assms(4) by (auto simp: reports_bytes_def settled_def read_reply_def torn_def)
next
  case False
  note f = fills_nonempty [OF assms(1,2) False]
  have m: "rtn_value (rtn c) = rv r" "buf_get (rtn_data (rtn c)) 0 (length (out_bytes r)) = out_bytes r"
    by (simp_all add: assms(4) read_reply_def)
  have "\<not> negative (rv r)" using f(2) positive_simps by blast
  moreover have "rtn_data (fetch late (rtn c) (settled c))
      = (\<lambda>i. if late (12 + i) then buf_zero (rtn_data (rtn c)) 0 8 i else rtn_data (rtn c) i)"
    using assms(3) f(2) m(1) by (intro ext) (simp add: settled_def rtn_hdr_def)
  ultimately show ?thesis using m buf_get_fetched [of late 12 "rtn_data (rtn c)" 8 "length (out_bytes r)"]
    by (simp add: reports_bytes_def) (simp add: settled_def)
qed

lemma finish_read:
  assumes "fills r (length bs)" and "length bs \<le> BUFFER_SIZE" and "reports_bytes r m"
  shows "finish_request (req_code RDMA_REQ_READ) m (Some e) (Some bs)
    = Inr (ret r, Some (if negative (rv r) then err r else e), Some (out_bytes r @ drop (length (out_bytes r)) bs))"
proof (cases "negative (rv r)")
  case True
  moreover have "out_bytes r = []"
    using fills_nonempty [OF assms(1,2)] True positive_simps by blast
  ultimately show ?thesis using assms(3) by (simp add: finish_request_def reports_bytes_def store_errno_def ret_def)
next
  case False
  let ?n = "length (out_bytes r)"
  have n: "rv r = word_of_nat ?n" "?n \<le> length bs" "?n < 2 ^ 31"
    using False assms by (auto simp: fills_def BUFFER_SIZE_def)
  then have "unat (scast (ucast (rv r) :: c_int) :: u64) = ?n"
    by (simp add: unsigned_of_nat take_bit_nat_eq_self signed_of_nat signed_take_bit_int_eq_self unat_of_nat)
  then show ?thesis using False n(2) assms(2,3)
    by (simp add: finish_request_def reports_bytes_def ret_def)
qed

text \<open>Only a write looks at its message.\<close>

lemma request_message:
  "r \<noteq> RDMA_REQ_WRITE \<Longrightarrow> request E J hs fd r n port message buf h = request E J hs fd r n port None buf h"
  by (cases "tls hs") (simp_all add: request_def set_req_sock_def fill_request_outgoing)

text \<open>C4: A read of the application on a forwarded descriptor, end to end, whose reply the queue pair takes. For a buffer of at most
  \<open>BUFFER_SIZE\<close> bytes the SmartNIC's kernel is asked for that many bytes of that descriptor,
  the completion loop goes on after at least one post of the reply, and when the reply is delivered \<open>read\<close> and \<open>recv\<close> have posted
  one request and return the kernel's
  result. The buffer starts with the bytes the kernel delivered, except that every one of the first eight that the adapter reads only
  after the post (\<open>late\<close>) is 0, and is unchanged after them; if the kernel failed, \<open>errno\<close> is the kernel's with the same loss.\<close>

theorem read_end_to_end:
  assumes "linked hs ri mr rmr" and "length bs \<le> BUFFER_SIZE" and "searchByKey_fd (fd_ht hs) fd \<noteq> 0"
    and "ri1 = outgoing ri fd RDMA_REQ_READ (word_of_nat (length bs)) 0"
    and "arrives ES c hS (request_post ri1 mr)" and "req_mr c = Some qmr" and "rtn_mr c = Some smr"
    and "ES (Sys (Sys_read fd (word_of_nat (length bs))) # polled c qmr hS) = r" and "fills r (length bs)"
    and "posts_accepted ES"
  shows "\<exists>c' j. poll_step t ES L fresh (True, s, c, hS) = returns (Inr (True, s, c',
        replicate j (reply_post ((received c qmr ri1)\<lparr>rtn := read_reply (rtn c) r\<rparr>) smr)
        @ Sys (Sys_read fd (word_of_nat (length bs))) # polled c qmr hS)) \<and> 0 < j
    \<and> (\<forall>E J h k flags late. replies E ri1 mr rmr h k (fetch late (read_reply (rtn c) r) (rtn c')) \<longrightarrow>
        (\<exists>hs' h'. let got = torn_bytes late 12 8 (out_bytes r) @ drop (length (out_bytes r)) bs in
          req_read E J hs fd bs h = returns (scast (ret r), got, hs', h')
          \<and> req_recv E J hs fd bs flags h = returns (scast (ret r), got, hs', h')
          \<and> errno hs' = (if negative (rv r) then torn late 0 (err r) else errno hs)
          \<and> posts h' = request_post ri1 mr # posts h))"
proof -
  let ?h = "polled c qmr hS" and ?m = "read_reply (rtn c) r"
  let ?c = "(received c qmr ri1)\<lparr>rtn := ?m\<rparr>" and ?h1 = "Sys (Sys_read fd (word_of_nat (length bs))) # ?h"
  have q: "rdma_req (req ?c) = req_code RDMA_REQ_READ" "sockfd ?c = fd" "rtn_mr ?c = Some smr"
      "buf_sz (req ?c) = word_of_nat (length bs)" "rtn ?c = ?m"
    using assms(7) by (simp_all add: assms(4) outgoing_def)
  obtain v c' j where w: "write_msg_to_client ES ?c ?h1 = returns (v, c', replicate j (reply_post ?c smr) @ ?h1)" "0 < j"
    using write_msg_returns [OF q(3), of ES ?h1] by (auto simp: in_turn_def)
  have c': "rtn c' = settled ?c" by (rule write_msg_settled [OF w(1) q(3) assms(10)])
  have "rdma_req_event t ES (L ?h) (fresh ?h) s (received c qmr ri1) ?h
      = returns (s, c', replicate j (reply_post ?c smr) @ ?h1)"
    using sock_read_reply [where E = ES, OF assms(2,8,9), of "rtn c"] w(1) q
    by (simp add: rdma_req_event_def answer_checked_def answer_def)
  then have step: "poll_step t ES L fresh (True, s, c, hS) = returns (Inr (True, s, c', replicate j (reply_post ?c smr) @ ?h1))"
    by (simp add: poll_step_arrival [OF assms(5,6)])
  have fill: "fill_request ri fd (req_code RDMA_REQ_READ) (word_of_nat (length bs)) 0 None = Inr ri1"
    by (simp add: assms(4) fill_request_outgoing)
  have "\<exists>hs' h'. let got = torn_bytes late 12 8 (out_bytes r) @ drop (length (out_bytes r)) bs in
      req_read E J hs fd bs h = returns (scast (ret r), got, hs', h')
      \<and> req_recv E J hs fd bs flags h = returns (scast (ret r), got, hs', h')
      \<and> errno hs' = (if negative (rv r) then torn late 0 (err r) else errno hs)
      \<and> posts h' = request_post ri1 mr # posts h"
    if rep: "replies E ri1 mr rmr h k (fetch late ?m (rtn c'))" for E J h k flags late
  proof -
    let ?r = "told_bytes late r"
    have "reports_bytes ?r (fetch late ?m (rtn c'))"
      using read_reply_reports [OF assms(9,2) q(1,5)] by (simp add: c')
    then have finish: "finish_request (req_code RDMA_REQ_READ) (fetch late ?m (rtn c')) (Some (errno hs)) (Some bs)
      = Inr (ret ?r, Some (if negative (rv ?r) then err ?r else errno hs), Some (out_bytes ?r @ drop (length (out_bytes ?r)) bs))"
      by (intro finish_read) (simp_all add: assms(2,9))
    obtain ri' h' where "request E J hs fd RDMA_REQ_READ (word_of_nat (length bs)) 0 None (Some bs) h
        = returns (ret ?r, Some (out_bytes ?r @ drop (length (out_bytes ?r)) bs),
            hs\<lparr>tls := Some ri', errno := if negative (rv ?r) then err ?r else errno hs\<rparr>, h')"
      "posts h' = request_post ri1 mr # posts h"
      by (rule request_reply [OF assms(1) fill _ _ rep finish, of J]) (simp_all add: assms(4))
    then show ?thesis
      using assms(3)
      by (auto simp: req_read_def req_recv_def get_r_info_linked [OF assms(1)] request_message [where message = "Some bs"])
  qed
  with step w(2) show ?thesis by blast
qed

theorem read_end_to_end_witness:
  "\<exists>hs' h' hs'' h'' m m'. req_read (replying m) hook_locals0 host7 7 [9, 9, 9, 9] [] = returns (2, [104, 105, 9, 9], hs', h')
    \<and> req_read (replying m') hook_locals0 host7 7 [9, 9, 9, 9] [] = returns (2, [0, 105, 9, 9], hs'', h'')"
proof -
  let ?r = "resp0\<lparr>rv := 2, out_bytes := [104, 105]\<rparr>" and ?c = "client0 RDMA_REQ_SOCKET" and ?bs = "[9, 9, 9, 9 :: byte]"
  let ?ri = "outgoing r_info0 7 RDMA_REQ_READ (word_of_nat (length ?bs)) 0"
  have l: "length ?bs \<le> BUFFER_SIZE" by (simp add: BUFFER_SIZE_def)
  have f: "fills ?r (length ?bs)" by (simp add: fills_def)
  have v: "scast (ret ?r) = (2 :: i64)" by (simp add: ret_def)
  have b: "torn_bytes (\<lambda>_. False) 12 8 (out_bytes ?r) = [104, 105]" "torn_bytes (\<lambda>i. i = 12) 12 8 (out_bytes ?r) = [0, 105]"
    by (simp_all add: torn_bytes_def upt_rec)
  from read_end_to_end [OF host7_facts(2) l host7_facts(5) refl serving_arrives client0_mrs(1,2) [of RDMA_REQ_SOCKET] serving_kernel f posts_accepted_serving,
      where hS = "[]" and t = 0 and L = "\<lambda>_. locals0" and s = server0 and fresh = "\<lambda>_. ?c"]
  show ?thesis
  proof (elim exE conjE, goal_cases)
    case (1 c' j)
    note host = 1(3) [rule_format, OF replying_replies, unfolded Let_def]
    from host [where late = "\<lambda>_. False" and J = hook_locals0 and h = "[]" and flags = 0]
      host [where late = "\<lambda>i. i = 12" and J = hook_locals0 and h = "[]" and flags = 0] show ?thesis
      unfolding b v by auto
  qed
qed

end
