(* ===== verification/Process.thy ===== *)
theory Process
  imports Hook_Props
begin

text \<open>
  The host process: its threads share the descriptor table and the first connection, and each
  has a connection of its own. A state is reachable when it comes from the start of the process
  by calls of the hooks, made by any thread in any order. A hook is one step: the library takes
  no lock that would be visible in between except the one around the creation of a connection.
\<close>

section \<open>The set-up of a connection\<close>

text \<open>What no request changes of a connection: everything but the messages, the work requests
  and the completion queue the last notification came from.\<close>

definition r_conn where
  "r_conn (ri :: r_info) = (r_cm_event_channel ri, r_cm_client_id ri, r_pd ri, r_io_completion_channel ri,
     r_client_qp ri, r_client_metadata_mr ri, r_server_metadata_mr ri, r_req_mr ri, r_rtn_mr ri,
     r_client_metadata_attr ri, r_server_metadata_attr ri)"

lemma r_conn_updates [simp]:
  "r_conn (ri\<lparr>r_rtn := m\<rparr>) = r_conn ri" "r_conn (ri\<lparr>r_req := q\<rparr>) = r_conn ri"
  "r_conn (ri\<lparr>r_sockfd := fd\<rparr>) = r_conn ri" "r_conn (ri\<lparr>r_client_send_sge := g\<rparr>) = r_conn ri"
  "r_conn (ri\<lparr>r_client_send_wr := w\<rparr>) = r_conn ri" "r_conn (ri\<lparr>r_server_recv_sge := g\<rparr>) = r_conn ri"
  "r_conn (ri\<lparr>r_client_cq := k\<rparr>) = r_conn ri"
  by (simp_all add: r_conn_def)

text \<open>A connection that has been set up: both messages are registered, the SmartNIC is told
  where the return message is, and this has been sent to it.\<close>

definition ready :: "r_info \<Rightarrow> bool" where
  "ready ri \<longleftrightarrow> (\<exists>mr rmr. r_req_mr ri = Some mr \<and> r_rtn_mr ri = Some rmr
     \<and> attr_address (r_client_metadata_attr ri) = mr_addr rmr
     \<and> attr_stag (r_client_metadata_attr ri) = mr_rkey rmr)"

lemma ready_conn: "r_conn ri' = r_conn ri \<Longrightarrow> ready ri' = ready ri"
  by (simp add: r_conn_def ready_def)

lemma pre_post_success:
  "client_pre_post_req_buffer E ri h = (0, ri', h') \<Longrightarrow> r_req_mr ri' \<noteq> None"
  by (auto simp: client_pre_post_req_buffer_def ENOMEM_def Let_def split: prod.splits option.splits)

lemma await_event_mrs:
  "await_event E ev ri h = (v, ri', h') \<Longrightarrow> r_req_mr ri' = r_req_mr ri"
  by (auto simp: await_event_def Let_def split: prod.splits if_splits)

lemma connect_to_server_mrs:
  "client_connect_to_server E ri h = (v, ri', h') \<Longrightarrow> r_req_mr ri' = r_req_mr ri"
  by (auto simp: client_connect_to_server_def Let_def split: prod.splits if_splits dest: await_event_mrs)

lemma xchange_success:
  assumes "client_xchange_metadata_with_server E ri h = Some (0, ri', h')"
  shows "\<exists>rmr. r_rtn_mr ri' = Some rmr \<and> r_req_mr ri' = r_req_mr ri
    \<and> attr_address (r_client_metadata_attr ri') = mr_addr rmr
    \<and> attr_stag (r_client_metadata_attr ri') = mr_rkey rmr"
  using assms
  by (auto simp: client_xchange_metadata_with_server_def attr_of_def ENOMEM_def Let_def ext_def
      split: prod.splits option.splits if_splits)

lemma connect_server_ready:
  assumes "connect_server E a ri h = Some (0, ri', h')"
  shows "ready ri'"
proof -
  obtain ri2 h2 ri3 h3 where s: "client_pre_post_req_buffer E ri2 h2 = (0, ri3, h3)"
    "\<exists>ri4 h4. client_connect_to_server E ri3 h3 = (0, ri4, h4)
       \<and> client_xchange_metadata_with_server E ri4 h4 = Some (0, ri', h')"
    using assms by (auto simp: connect_server_def Let_def split: prod.splits if_splits)
  then obtain ri4 h4 where c: "client_connect_to_server E ri3 h3 = (0, ri4, h4)"
    and x: "client_xchange_metadata_with_server E ri4 h4 = Some (0, ri', h')" by blast
  show ?thesis
    using xchange_success [OF x] connect_to_server_mrs [OF c] pre_post_success [OF s(1)]
    by (auto simp: ready_def)
qed

section \<open>Requests keep the connection\<close>

lemma fill_request_conn: "fill_request ri fd r n port message = Inr ri' \<Longrightarrow> r_conn ri' = r_conn ri"
  by (auto simp: fill_request_def Let_def split: if_splits option.splits)

lemma post_recv_rtn_conn: "post_recv_rtn E ri h = (v, ri', h') \<Longrightarrow> r_conn ri' = r_conn ri"
  by (auto simp: post_recv_rtn_def Let_def ext_def split: option.splits)

lemma post_write_req_conn:
  assumes "post_write_req E ri h = returns (v, ri', h')"
  shows "r_conn ri' = r_conn ri"
proof -
  obtain mr where mr: "r_req_mr ri = Some mr"
    using assms by (auto simp: post_write_req_def split: option.splits)
  let ?ri = "ri\<lparr>r_client_send_sge := sge_of mr, r_client_send_wr := request_wr ri\<rparr>"
  have "post_attempts E 4 ?ri h = returns (v, ri', h')"
    using assms mr by (simp add: post_write_req_def request_wr_def del: post_attempts.simps)
  from post_attempts_posts [OF this] show ?thesis by auto
qed

lemma take_rtn_conn [simp]: "r_conn (take_rtn r ri) = r_conn ri"
  by (simp add: take_rtn_def split: option.splits)

lemma get_cq_event_conn: "process_rdma_get_cq_event E ri h = (v, ri', h') \<Longrightarrow> r_conn ri' = r_conn ri"
  by (auto simp: process_rdma_get_cq_event_def Let_def ext_def split: if_splits)

lemma wait_step_conn:
  "wait_step E (p, wc, ri, h) = Inl (v, ri', h') \<Longrightarrow> r_conn ri' = r_conn ri"
  "wait_step E (p, wc, ri, h) = Inr (p', wc', ri', h') \<Longrightarrow> r_conn ri' = r_conn ri"
  by (auto simp: wait_step_def Let_def ext_def split: if_splits prod.splits dest: get_cq_event_conn)

lemma wait_loop_conn:
  assumes "wait_loop E st = Some res"
  shows "r_conn (fst (snd res)) = r_conn (fst (snd (snd st)))"
proof (induction rule: wait_loop.raw_induct)
  case (1 f E st res)
  obtain p wc ri h where st: "st = (p, wc, ri, h)" by (cases st)
  show ?case
  proof (cases "wait_step E st")
    case (Inl x)
    then show ?thesis using 1(2) st wait_step_conn(1) by (cases x) auto
  next
    case (Inr st')
    then have "r_conn (fst (snd res)) = r_conn (fst (snd (snd st')))" using 1(2) by (intro 1(1)) simp
    moreover obtain p' wc' ri' h' where "st' = (p', wc', ri', h')" by (cases st')
    ultimately show ?thesis using Inr st wait_step_conn(2) by simp
  qed
qed (rule assms)

lemma process_poll_conn:
  "process_poll_cq_imm E wc ri h = Some (v, ri', h') \<Longrightarrow> r_conn ri' = r_conn ri"
  using wait_loop_conn [of E "(False, wc, ri, h)" "(v, ri', h')"] by (simp add: process_poll_cq_imm_def)

lemmas request_path_conn = fill_request_conn post_recv_rtn_conn post_write_req_conn process_poll_conn

lemma set_req_sock_conn:
  assumes "set_req_sock E wc r fd code n port message e buf h = returns (v, r', e', buf', h')"
  shows "map_option r_conn r' = map_option r_conn r"
  using assms
  by (auto simp: set_req_sock_def Let_def split: if_splits option.splits sum.splits prod.splits
      elim!: and_then_returnsE dest!: request_path_conn)

section \<open>What a hook may change\<close>

text \<open>A connection stays set up as it is; a new one is ready.\<close>

definition link_kept :: "r_info option \<Rightarrow> r_info option \<Rightarrow> bool" where
  "link_kept r r' \<longleftrightarrow>
     (case r of Some ri \<Rightarrow> map_option r_conn r' = Some (r_conn ri) | None \<Rightarrow> (\<forall>ri. r' = Some ri \<longrightarrow> ready ri))"

definition steady :: "host \<Rightarrow> host \<Rightarrow> bool" where
  "steady hs hs' \<longleftrightarrow> fd_ht hs' = fd_ht hs \<and> tid hs' = tid hs \<and> server_sockaddr hs' = server_sockaddr hs
     \<and> map_option r_conn (global_r_info hs') = map_option r_conn (global_r_info hs)
     \<and> link_kept (tls hs) (tls hs')"

lemma link_kept_refl [simp]: "link_kept r r"
  by (simp add: link_kept_def split: option.splits)

lemma link_kept_same: "link_kept r r' \<Longrightarrow> map_option r_conn r'' = map_option r_conn r' \<Longrightarrow> link_kept r r''"
  by (cases r; cases r'; cases r'') (auto simp: link_kept_def dest: ready_conn)

lemma steady_refl [simp]: "steady hs hs"
  by (simp add: steady_def)

lemma steady_same_tls:
  assumes "steady hs0 hs" and "map_option r_conn r = map_option r_conn (tls hs)"
  shows "steady hs0 (hs\<lparr>tls := r, errno := e\<rparr>)" "steady hs0 (hs\<lparr>tls := r\<rparr>)" "steady hs0 (hs\<lparr>errno := e\<rparr>)"
  using assms by (auto simp: steady_def intro: link_kept_same)

lemma request_steady:
  assumes "steady hs0 hs"
  shows "yields (\<lambda>(v, b, hs', h'). steady hs0 hs') (request E J hs fd r n port message buf h)"
proof -
  have "steady hs0 (hs\<lparr>tls := r', errno := the e\<rparr>)"
    if "set_req_sock E (j_wc J) (tls hs) fd (req_code r) n port message (Some (errno hs)) buf h = returns (v, r', e, b, h')"
    for v r' e b h'
    using steady_same_tls(1) [OF assms set_req_sock_conn [OF that]] .
  then show ?thesis by (auto simp: request_def yields_def elim!: and_then_returnsE)
qed

lemma get_r_info_steady:
  assumes "steady hs0 hs"
  shows "yields (\<lambda>(r, hs', h'). steady hs0 hs') (get_r_info E J hs h)"
proof (cases "tls hs")
  case (Some ri)
  then show ?thesis using assms by (simp add: get_r_info_def)
next
  case None
  then have kept: "link_kept (tls hs0) None" "tls hs0 = None"
    using assms by (auto simp: steady_def link_kept_def split: option.splits)
  have g: "steady hs0 (hs\<lparr>global_r_info := g, errno := e\<rparr>)"
      "ready ri \<Longrightarrow> steady hs0 (hs\<lparr>global_r_info := g, errno := e, tls := Some ri\<rparr>)"
    if "map_option r_conn g = map_option r_conn (global_r_info hs)" for g e ri
    using that assms kept None by (auto simp: steady_def link_kept_def)
  show ?thesis
    using None
    by (auto simp: get_r_info_def yields_def Let_def split: if_splits option.splits prod.splits
        elim!: and_then_returnsE intro!: g dest!: set_req_sock_conn connect_server_ready)
qed

lemma original_steady:
  "steady hs0 hs \<Longrightarrow> original E hs c h = (r, hs', h') \<Longrightarrow> steady hs0 hs'"
  by (auto simp: original_def ext_def steady_same_tls)

lemma with_req_data_steady:
  assumes "steady hs0 hs" and "\<And>hs'. steady hs0 hs' \<Longrightarrow> yields Q (k hs')"
  shows "yields Q (with_req_data hs f k)"
  using assms by (auto simp: with_req_data_def split: option.splits sum.splits intro!: assms(2) steady_same_tls(2))

lemma clear_data_steady: "steady hs0 hs \<Longrightarrow> steady hs0 (clear_data hs)"
  by (cases "tls hs") (auto simp: clear_data_def intro!: steady_same_tls(2))

text \<open>The table holds well-formed chains of positive descriptors.\<close>

definition table_ok :: "FDHashTable \<Rightarrow> bool" where
  "table_ok ht \<longleftrightarrow> ht_inv ht \<and> (\<forall>fd. assoc ht fd \<noteq> [] \<longrightarrow> positive fd)"

definition evolves :: "host \<Rightarrow> host \<Rightarrow> bool" where
  "evolves hs hs' \<longleftrightarrow> (table_ok (fd_ht hs) \<longrightarrow> table_ok (fd_ht hs')) \<and> steady hs (hs'\<lparr>fd_ht := fd_ht hs\<rparr>)"

lemma steady_evolves: "steady hs hs' \<Longrightarrow> evolves hs hs'"
  by (simp add: evolves_def steady_def)

lemma table_ok_insert:
  "table_ok ht \<Longrightarrow> positive fd \<Longrightarrow> table_ok (snd (fd_insertByValue ok ht fd v))"
  using fd_tab.assoc_insert [of ht fd v] fd_tab.invar_insert [of ht fd v]
  by (cases ok) (auto simp: table_ok_def fd_insertByValue_def [of False] split: if_splits)

lemma table_ok_delete: "table_ok ht \<Longrightarrow> table_ok (fd_deleteByKey ht fd)"
  using fd_tab.assoc_delete [of ht fd] fd_tab.invar_delete [of ht fd]
  by (auto simp: table_ok_def split: if_splits) (metis list.sel(2))

lemma register_fd_evolves:
  assumes "register_fd J hs fd v = (ok, hs')" and "steady hs0 hs"
    and "table_ok (fd_ht hs0) \<Longrightarrow> positive fd"
  shows "evolves hs0 hs'"
proof -
  have "fd_ht hs' = snd (fd_insertByValue (j_node J) (fd_ht hs) fd v)"
      "tid hs' = tid hs" "server_sockaddr hs' = server_sockaddr hs" "global_r_info hs' = global_r_info hs" "tls hs' = tls hs"
    using assms(1,2) by (auto simp: register_fd_def steady_def Let_def split: prod.splits if_splits)
  then show ?thesis
    using assms(2,3) table_ok_insert by (auto simp: evolves_def steady_def)
qed

lemma known_positive:
  "table_ok ht \<Longrightarrow> searchByKey_fd ht fd \<noteq> 0 \<Longrightarrow> positive fd"
  using searchByKey_fd_absent by (auto simp: table_ok_def)

section \<open>Every hook\<close>

text \<open>The calls of the application and their effect on the state.\<close>

datatype (plugins only: code size) hook_call =
    H_socket
  | H_connect c_int sockaddr u32
  | H_close c_int
  | H_bind c_int sockaddr u32
  | H_listen c_int c_int
  | H_accept c_int
  | H_send c_int "byte list" c_int
  | H_write c_int "byte list"
  | H_read c_int "byte list"
  | H_recv c_int "byte list" c_int
  | H_select c_int "fd_set option" "fd_set option" "fd_set option" "timeval option"
  | H_epoll_create1 c_int
  | H_epoll_ctl c_int c_int c_int "epoll_event option"
  | H_epoll_wait c_int "epoll_event list option" c_int c_int
  | H_poll "pollfd list" u64 c_int
  | H_fcntl c_int c_int
  | H_setsockopt c_int c_int c_int "byte list option" u32
  | H_getsockopt c_int c_int c_int "byte list option" "u32 option"
  | H_getpeername c_int "sockaddr option" "u32 option"
  | H_getsockname c_int "sockaddr option" "u32 option"
  | H_pthread_exit

fun run_hook :: "env \<Rightarrow> hook_locals \<Rightarrow> hook_call \<Rightarrow> host \<Rightarrow> trace \<Rightarrow> (host \<times> trace) run" where
  "run_hook E J H_socket hs h = and_then (req_sock E J hs h) (\<lambda>(v, st). returns st)"
| "run_hook E J (H_connect fd a n) hs h = and_then (req_connect E J hs fd a n h) (\<lambda>(v, st). returns st)"
| "run_hook E J (H_close fd) hs h = and_then (req_close E J hs fd h) (\<lambda>(v, st). returns st)"
| "run_hook E J (H_bind fd a n) hs h = and_then (req_bind E J hs fd a n h) (\<lambda>(v, st). returns st)"
| "run_hook E J (H_listen fd n) hs h = and_then (req_listen E J hs fd n h) (\<lambda>(v, st). returns st)"
| "run_hook E J (H_accept fd) hs h = and_then (req_accept E J hs fd h) (\<lambda>(v, st). returns st)"
| "run_hook E J (H_send fd bs n) hs h = and_then (req_send E J hs fd bs n h) (\<lambda>(v, st). returns st)"
| "run_hook E J (H_write fd bs) hs h = and_then (req_write E J hs fd bs h) (\<lambda>(v, st). returns st)"
| "run_hook E J (H_read fd bs) hs h = and_then (req_read E J hs fd bs h) (\<lambda>(v, b, st). returns st)"
| "run_hook E J (H_recv fd bs n) hs h = and_then (req_recv E J hs fd bs n h) (\<lambda>(v, b, st). returns st)"
| "run_hook E J (H_select n r w x t) hs h = and_then (req_select E J hs n r w x t h) (\<lambda>(v, s, st). returns st)"
| "run_hook E J (H_epoll_create1 n) hs h = and_then (req_epoll_create1 E J hs n h) (\<lambda>(v, st). returns st)"
| "run_hook E J (H_epoll_ctl ep op fd ev) hs h = and_then (req_epoll_ctl E J hs ep op fd ev h) (\<lambda>(v, st). returns st)"
| "run_hook E J (H_epoll_wait ep evs n t) hs h = and_then (req_epoll_wait E J hs ep evs n t h) (\<lambda>(v, e, st). returns st)"
| "run_hook E J (H_poll fds n t) hs h = and_then (req_poll E J hs fds n t h) (\<lambda>(v, f, st). returns st)"
| "run_hook E J (H_fcntl fd cmd) hs h = and_then (req_fcntl E J hs fd cmd h) (\<lambda>(v, st). returns st)"
| "run_hook E J (H_setsockopt fd l n v len) hs h =
     and_then (req_setsockopt E J hs fd l n v len h) (\<lambda>(v, st). returns st)"
| "run_hook E J (H_getsockopt fd l n v len) hs h =
     and_then (req_getsockopt E J hs fd l n v len h) (\<lambda>(v, ov, ol, st). returns st)"
| "run_hook E J (H_getpeername fd a n) hs h =
     and_then (req_getpeername E J hs fd a n h) (\<lambda>(v, a, n, st). returns st)"
| "run_hook E J (H_getsockname fd a n) hs h =
     and_then (req_getsockname E J hs fd a n h) (\<lambda>(v, a, n, st). returns st)"
| "run_hook E J H_pthread_exit hs h = req_pthread_exit E J hs h"

text \<open>The rules by which the proofs follow a hook.\<close>

definition ends :: "host \<Rightarrow> ('a \<Rightarrow> host) \<Rightarrow> 'a run \<Rightarrow> bool" where
  "ends hs0 sel m \<longleftrightarrow> yields (\<lambda>x. evolves hs0 (sel x)) m"

lemma ends_simps [simp]:
  "ends hs0 sel (returns x) = evolves hs0 (sel x)" "ends hs0 sel (faults e)" "ends hs0 sel None"
  by (simp_all add: ends_def)

lemma ends_if: "(b \<Longrightarrow> ends hs0 sel m) \<Longrightarrow> (\<not> b \<Longrightarrow> ends hs0 sel n) \<Longrightarrow> ends hs0 sel (if b then m else n)"
  by simp

lemma after_get_r_info:
  assumes "steady hs0 hs" and "\<And>r hs' h'. steady hs0 hs' \<Longrightarrow> ends hs0 sel (f r hs' h')"
  shows "ends hs0 sel (and_then (get_r_info E J hs h) (\<lambda>(r, hs, h). f r hs h))"
  unfolding ends_def
  by (rule yields_bind [OF get_r_info_steady [OF assms(1)]]) (use assms(2) in \<open>auto simp: ends_def\<close>)

lemma after_request:
  assumes "steady hs0 hs" and "\<And>v b hs' h'. steady hs0 hs' \<Longrightarrow> ends hs0 sel (f v b hs' h')"
  shows "ends hs0 sel (and_then (request E J hs fd r n port message buf h) (\<lambda>(v, b, hs, h). f v b hs h))"
  unfolding ends_def
  by (rule yields_bind [OF request_steady [OF assms(1)]]) (use assms(2) in \<open>auto simp: ends_def\<close>)

lemma after_original:
  assumes "steady hs0 hs" and "\<And>r hs' h'. steady hs0 hs' \<Longrightarrow> ends hs0 sel (f r hs' h')"
  shows "ends hs0 sel (let (r, hs, h) = original E hs c h in f r hs h)"
  using original_steady [OF assms(1)] assms(2) by (auto split: prod.splits)

lemma after_register:
  assumes "steady hs0 hs" and "table_ok (fd_ht hs0) \<Longrightarrow> positive fd"
    and "\<And>ok hs'. evolves hs0 hs' \<Longrightarrow> ends hs0 sel (f ok hs')"
  shows "ends hs0 sel (let (ok, hs) = register_fd J hs fd v in f ok hs)"
  using register_fd_evolves [OF _ assms(1,2)] assms(3) by (auto split: prod.splits)

lemma after_serialising:
  assumes "steady hs0 hs" and "\<And>hs'. steady hs0 hs' \<Longrightarrow> ends hs0 sel (k hs')"
  shows "ends hs0 sel (with_req_data hs f k)"
  using assms(2) unfolding ends_def by (rule with_req_data_steady [OF assms(1)])

lemmas hook_intros = ends_if after_get_r_info after_request after_original after_register after_serialising
lemmas hook_facts = steady_evolves clear_data_steady positive_above

lemma deleted_evolves: "steady hs hs' \<Longrightarrow> evolves hs (hs'\<lparr>fd_ht := fd_deleteByKey (fd_ht hs') fd\<rparr>)"
  by (auto simp: evolves_def steady_def table_ok_delete)

lemma req_sock_ends: "ends hs (\<lambda>(v, hs, h). hs) (req_sock E J hs h)"
  unfolding req_sock_def by (intro hook_intros) (auto simp: hook_facts)

lemma req_close_ends: "ends hs (\<lambda>(v, hs, h). hs) (req_close E J hs fd h)"
  unfolding req_close_def by (intro hook_intros) (auto simp: hook_facts deleted_evolves)

lemma req_bind_ends: "ends hs (\<lambda>(v, hs, h). hs) (req_bind E J hs fd a n h)"
  unfolding req_bind_def Let_def [of "port_of _"] by (intro hook_intros) (auto simp: hook_facts)

lemma req_listen_ends: "ends hs (\<lambda>(v, hs, h). hs) (req_listen E J hs fd n h)"
  unfolding req_listen_def by (intro hook_intros) (auto simp: hook_facts)

lemma req_accept_ends: "ends hs (\<lambda>(v, hs, h). hs) (req_accept E J hs fd h)"
  unfolding req_accept_def by (intro hook_intros) (auto simp: hook_facts)

lemma forward_write_ends: "ends hs (\<lambda>(v, hs, h). hs) (forward_write E J hs fd bs h)"
  unfolding forward_write_def by (intro hook_intros) (auto simp: hook_facts)

lemma req_read_ends: "ends hs (\<lambda>(v, b, hs, h). hs) (req_read E J hs fd bs h)"
  unfolding req_read_def by (intro hook_intros) (auto simp: hook_facts)

lemma req_recv_ends: "ends hs (\<lambda>(v, b, hs, h). hs) (req_recv E J hs fd bs n h)"
  unfolding req_recv_def by (intro hook_intros) (auto simp: hook_facts)

lemma req_epoll_create1_ends: "ends hs (\<lambda>(v, hs, h). hs) (req_epoll_create1 E J hs n h)"
  unfolding req_epoll_create1_def by (intro hook_intros) (auto simp: hook_facts)

lemma req_epoll_ctl_ends: "ends hs (\<lambda>(v, hs, h). hs) (req_epoll_ctl E J hs ep op fd ev h)"
  unfolding req_epoll_ctl_def by (intro hook_intros) (auto simp: hook_facts)

lemma req_setsockopt_ends: "ends hs (\<lambda>(v, hs, h). hs) (req_setsockopt E J hs fd l n ov len h)"
  unfolding req_setsockopt_def by (intro hook_intros) (auto simp: hook_facts)

lemma req_connect_ends: "ends hs (\<lambda>(v, hs, h). hs) (req_connect E J hs fd a n h)"
  unfolding req_connect_def Let_def [of "searchByKey_fd _ _"]
  by (intro hook_intros) (auto simp: hook_facts dest: known_positive)

lemma req_send_ends: "ends hs (\<lambda>(v, hs, h). hs) (req_send E J hs fd bs n h)"
  unfolding req_send_def by (intro hook_intros forward_write_ends) (auto simp: hook_facts)

lemma req_write_ends: "ends hs (\<lambda>(v, hs, h). hs) (req_write E J hs fd bs h)"
  unfolding req_write_def by (intro hook_intros forward_write_ends) (auto simp: hook_facts)

lemma req_select_ends: "ends hs (\<lambda>(v, b, hs, h). hs) (req_select E J hs n rd wr ex t h)"
  unfolding req_select_def by (intro hook_intros) (auto simp: hook_facts split: sum.splits)

lemma req_epoll_wait_ends: "ends hs (\<lambda>(v, b, hs, h). hs) (req_epoll_wait E J hs ep evs n t h)"
  unfolding req_epoll_wait_def by (intro hook_intros) (auto simp: hook_facts split: sum.splits)

lemma req_poll_ends: "ends hs (\<lambda>(v, b, hs, h). hs) (req_poll E J hs fds n t h)"
proof (cases fds)
  case (Cons p ps)
  then show ?thesis
    unfolding req_poll_def list.case Cons
    by (intro hook_intros) (auto simp: hook_facts split: sum.splits option.splits)
qed (simp add: req_poll_def)

lemma req_getsockopt_ends: "ends hs (\<lambda>(v, a, b, hs, h). hs) (req_getsockopt E J hs fd l n ov len h)"
  unfolding req_getsockopt_def by (intro hook_intros) (auto simp: hook_facts split: sum.splits)

lemma req_getpeername_ends: "ends hs (\<lambda>(v, a, b, hs, h). hs) (req_getpeername E J hs fd a n h)"
  unfolding req_getpeername_def by (intro hook_intros) (auto simp: hook_facts split: prod.splits)

lemma req_getsockname_ends: "ends hs (\<lambda>(v, a, b, hs, h). hs) (req_getsockname E J hs fd a n h)"
  unfolding req_getsockname_def by (intro hook_intros) (auto simp: hook_facts Let_def split: prod.splits)

lemma req_fcntl_ends: "ends hs (\<lambda>(v, hs, h). hs) (req_fcntl E J hs fd cmd h)"
proof -
  have "ends hs (\<lambda>(v, hs, h). hs) (and_then (request E J (hs'\<lparr>tls := Some (ri\<lparr>r_req := q\<rparr>)\<rparr>) fd' RDMA_REQ_FCNTL 0 0 None None h')
          (\<lambda>(v, b, hs, h). returns (v, hs, h)))" if "steady hs hs'" "tls hs' = Some ri" for hs' ri q fd' h'
    by (rule after_request [OF steady_same_tls(2) [OF that(1)]]) (simp_all add: that(2) hook_facts)
  then show ?thesis
    unfolding req_fcntl_def
    by (intro hook_intros) (auto simp: hook_facts Let_def split: option.splits sum.splits)
qed

lemma req_pthread_exit_ends: "ends hs fst (req_pthread_exit E J hs h)"
  unfolding req_pthread_exit_def
  by (intro hook_intros) (auto split: option.splits prod.splits)

lemma ends_then:
  "ends hs0 (\<lambda>(v, hs, h). hs) m3 \<Longrightarrow> ends hs0 fst (and_then m3 (\<lambda>(v, st). returns st))"
  "ends hs0 (\<lambda>(v, b, hs, h). hs) m4 \<Longrightarrow> ends hs0 fst (and_then m4 (\<lambda>(v, b, st). returns st))"
  "ends hs0 (\<lambda>(v, a, b, hs, h). hs) m5 \<Longrightarrow> ends hs0 fst (and_then m5 (\<lambda>(v, a, b, st). returns st))"
  by (auto simp: ends_def yields_def elim!: and_then_returnsE)

lemmas hook_ends = req_sock_ends req_connect_ends req_close_ends req_bind_ends req_listen_ends req_accept_ends
  req_send_ends req_write_ends req_read_ends req_recv_ends req_select_ends req_epoll_create1_ends
  req_epoll_ctl_ends req_epoll_wait_ends req_poll_ends req_fcntl_ends req_setsockopt_ends
  req_getsockopt_ends req_getpeername_ends req_getsockname_ends req_pthread_exit_ends

lemma run_hook_evolves:
  assumes "run_hook E J c hs h = returns (hs', h')"
  shows "evolves hs hs'"
proof -
  have "ends hs fst (run_hook E J c hs h)"
    by (cases c) (simp_all only: run_hook.simps, (intro ends_then hook_ends)+)
  then show ?thesis using assms by (simp add: ends_def)
qed

section \<open>The process\<close>

text \<open>A thread's own state: its connection, whether that has been freed, and \<open>errno\<close>.\<close>

record process =
  p_fds :: FDHashTable
  p_global :: "r_info option"
  p_addr :: sockaddr
  p_threads :: "c_int \<Rightarrow> r_info option \<times> bool \<times> u32"

definition view :: "process \<Rightarrow> c_int \<Rightarrow> host" where
  "view p t = (case p_threads p t of (r, freed, e) \<Rightarrow>
     \<lparr>fd_ht = p_fds p, tls = r, tls_freed = freed, global_r_info = p_global p, server_sockaddr = p_addr p,
      tid = t, errno = e\<rparr>)"

definition put :: "process \<Rightarrow> c_int \<Rightarrow> host \<Rightarrow> process" where
  "put p t hs = p\<lparr>p_fds := fd_ht hs, p_global := global_r_info hs,
     p_threads := (p_threads p)(t := (tls hs, tls_freed hs, errno hs))\<rparr>"

text \<open>The start is that of \<open>my_main\<close>: the table is empty and the shared connection is made.\<close>

inductive process_run :: "env \<Rightarrow> process \<Rightarrow> trace \<Rightarrow> bool" for E where
    process_start: "set_sockaddr E h = (a, h1) \<Longrightarrow>
      connect_server E a (the (snd (null_client_r_info (Some fresh)))) h1 = Some (0, g, h2) \<Longrightarrow>
      process_run E \<lparr>p_fds = createFDHashTable, p_global = Some g, p_addr = a, p_threads = \<lambda>_. (None, False, 0)\<rparr> h2"
  | process_call: "process_run E p h \<Longrightarrow> run_hook E J c (view p t) h = returns (hs, h') \<Longrightarrow>
      process_run E (put p t hs) h'"

inductive_cases process_runE: "process_run E p h"

definition process_ok :: "process \<Rightarrow> bool" where
  "process_ok p \<longleftrightarrow> table_ok (p_fds p) \<and> (\<exists>g. p_global p = Some g \<and> ready g)
     \<and> (\<forall>t ri. fst (p_threads p t) = Some ri \<longrightarrow> ready ri)"

lemma process_ok_put:
  assumes "process_ok p" and "evolves (view p t) hs"
  shows "process_ok (put p t hs)"
proof -
  obtain r freed e where v: "p_threads p t = (r, freed, e)" by (cases "p_threads p t")
  have st: "table_ok (fd_ht hs)" "map_option r_conn (global_r_info hs) = map_option r_conn (p_global p)"
      "link_kept r (tls hs)"
    using assms v by (auto simp: evolves_def steady_def view_def process_ok_def)
  have "ready ri" if "r = Some ri" for ri
    using assms(1) v that unfolding process_ok_def by (metis fst_conv)
  then have "ready ri" if "tls hs = Some ri" for ri
    using st(3) that by (cases r) (auto simp: link_kept_def dest: ready_conn)
  moreover have "\<exists>g. global_r_info hs = Some g \<and> ready g"
    using st(2) assms(1) ready_conn unfolding process_ok_def by (metis map_option_eq_Some)
  ultimately show ?thesis using st(1) assms(1) by (auto simp: process_ok_def put_def)
qed

lemma process_run_ok: "process_run E p h \<Longrightarrow> process_ok p"
proof (induction rule: process_run.induct)
  case (process_start h a h1 fresh g h2)
  then show ?case
    using connect_server_ready by (auto simp: process_ok_def table_ok_def createFDHashTable_def)
next
  case (process_call p h J c t hs h')
  then show ?case using process_ok_put run_hook_evolves by blast
qed

lemma post_attempts_fault: "post_attempts E k ri h = faults e \<Longrightarrow> e = Exit_failure"
proof (induction k arbitrary: ri h)
  case (Suc k)
  then show ?case by (auto simp: ext_def faults_def returns_def Let_def split: if_splits prod.splits)
qed simp

lemma post_write_req_fault:
  "post_write_req E ri h = faults e \<Longrightarrow> r_req_mr ri \<noteq> None \<Longrightarrow> e = Exit_failure"
  using post_attempts_fault by (auto simp: post_write_req_def simp del: post_attempts.simps)

lemma faults_eq [simp]: "faults e = faults e' \<longleftrightarrow> e = e'"
  by (simp add: faults_def)

lemma and_then_faults:
  "and_then m f = faults e \<longleftrightarrow> m = faults e \<or> (\<exists>x. m = returns x \<and> f x = faults e)"
  by (auto simp: and_then_def returns_def faults_def split: option.splits sum.splits)

lemma finish_request_fault: "finish_request r m e buf = Inl f \<Longrightarrow> f = Out_of_bounds"
  by (auto simp: finish_request_def Let_def split: if_splits option.splits)

lemma fill_request_fault:
  "fill_request ri fd r n port message = Inl f \<Longrightarrow> r \<noteq> req_code RDMA_REQ_WRITE \<or> message \<noteq> None \<Longrightarrow> f = Out_of_bounds"
  by (auto simp: fill_request_def Let_def split: if_splits option.splits)

lemma ready_not_null:
  assumes "ready ri" and "r \<noteq> req_code RDMA_REQ_WRITE \<or> message \<noteq> None"
  shows "set_req_sock E wc (Some ri) fd r n port message e buf h \<noteq> faults Null_deref"
proof
  assume "set_req_sock E wc (Some ri) fd r n port message e buf h = faults Null_deref"
  then obtain ri1 where f: "fill_request ri fd r n port message = Inr ri1"
    and run: "(let (v, ri, h) = post_recv_rtn E ri1 h in
       if v \<noteq> 0 then returns (- 1, Some ri, e, buf, h)
       else and_then (post_write_req E ri h) (\<lambda>(v, ri, h).
         if negative v then returns (- 1, Some ri, e, buf, h)
         else case process_poll_cq_imm E wc ri h of None \<Rightarrow> None
           | Some (v, ri, h) \<Rightarrow>
               if negative v then returns (- 1, Some ri, e, buf, h)
               else case finish_request r (r_rtn ri) e buf of Inl f \<Rightarrow> faults f
                 | Inr (v, e, buf) \<Rightarrow> returns (v, Some ri, e, buf, h))) = faults Null_deref"
    by (auto simp: set_req_sock_def faults_def returns_def split: if_splits sum.splits
        dest: fill_request_fault [OF _ assms(2)])
  obtain v ri2 h2 where p: "post_recv_rtn E ri1 h = (v, ri2, h2)" by (cases "post_recv_rtn E ri1 h") auto
  have "ready ri2" using ready_conn fill_request_conn [OF f] post_recv_rtn_conn [OF p] assms(1) by metis
  then have "r_req_mr ri2 \<noteq> None" by (auto simp: ready_def)
  then show False
    using run p
    by (auto simp: and_then_faults split: if_splits option.splits sum.splits
        dest: post_write_req_fault finish_request_fault)
qed

text \<open>C5: In every state the process can get into, whatever its threads call in whatever order and
  whatever the network and the kernels answer: the chains of the descriptor table are
  well-formed and hold positive descriptors only, the shared connection and that of every
  thread have both messages registered and have told the SmartNIC where the return message
  is, and no request on them follows a null pointer.\<close>

theorem process_invariant:
  assumes "process_run E p h"
  shows "ht_inv (p_fds p) \<and> (\<forall>fd. assoc (p_fds p) fd = [] \<or> positive fd)
    \<and> (\<exists>g. p_global p = Some g \<and> ready g)
    \<and> (\<forall>t ri. fst (p_threads p t) = Some ri \<longrightarrow> ready ri
        \<and> (\<forall>E' wc fd r n port bs e buf h'.
            set_req_sock E' wc (Some ri) fd (req_code r) n port (Some bs) e buf h' \<noteq> faults Null_deref))"
  using process_run_ok [OF assms] ready_not_null unfolding process_ok_def table_ok_def by blast

text \<open>A network on which the set-up succeeds: the events are those that are waited for.\<close>

definition ok_wc :: ibv_wc where
  "ok_wc = \<lparr>wc_status = 0, wc_op = IBV_WC_RECV, wc_with_imm = False, wc_imm_data = 0\<rparr>"

definition host_event :: "cm_event_type \<Rightarrow> resp" where
  "host_event ev = resp0\<lparr>out_cme := \<lparr>cme_status = 0, cme_event = ev, cme_id = 7\<rparr>\<rparr>"

definition host_net :: env where
  "host_net h = (case h of
       Cm (Rdma_get_cm_event _) # Cm (Rdma_resolve_addr _ _ _) # _ \<Rightarrow> host_event RDMA_CM_EVENT_ADDR_RESOLVED
     | Cm (Rdma_get_cm_event _) # Cm (Rdma_resolve_route _ _) # _ \<Rightarrow> host_event RDMA_CM_EVENT_ROUTE_RESOLVED
     | Cm (Rdma_get_cm_event _) # _ \<Rightarrow> host_event RDMA_CM_EVENT_ESTABLISHED
     | Cm Rdma_create_event_channel # _ \<Rightarrow> resp0\<lparr>rv := 1\<rparr>
     | Verb (Ibv_alloc_pd _) # _ \<Rightarrow> resp0\<lparr>rv := 1\<rparr>
     | Verb (Ibv_create_comp_channel _) # _ \<Rightarrow> resp0\<lparr>rv := 1\<rparr>
     | Verb (Ibv_create_cq _ _ _) # _ \<Rightarrow> resp0\<lparr>rv := 1\<rparr>
     | Verb (Ibv_reg_mr _ _) # _ \<Rightarrow> resp0\<lparr>rv := 1, out_mr := mr0\<rparr>
     | Verb (Ibv_poll_cq _ _) # _ \<Rightarrow> resp0\<lparr>rv := 2, out_attr := Some attr0, out_wcs := [ok_wc, ok_wc]\<rparr>
     | _ \<Rightarrow> resp0)"

lemma host_net_completions:
  "\<exists>h'. process_work_completion_events host_net ch 2 h = Some (2, Some attr0, h')"
proof -
  have "\<not> negative (2 :: c_int)" by (simp add: negative_def)
  then have "\<exists>h'. poll_wcs host_net k 2 0 [] None h0 = Some (Inr ((2, [ok_wc, ok_wc], Some attr0), h'))" for k h0
    by (subst poll_wcs.simps) (simp add: host_net_def ext_def ret_def)
  then obtain H where "\<And>k h0. poll_wcs host_net k 2 0 [] None h0 = Some (Inr ((2, [ok_wc, ok_wc], Some attr0), H k h0))"
    by metis
  then show ?thesis
    by (simp add: process_work_completion_events_def host_net_def ext_def ret_def resp0_def ok_wc_def)
qed

lemma host_net_connects:
  "\<exists>ri' h'. connect_server host_net a ri h = Some (0, ri', h') \<and> r_server_metadata_attr ri' = attr0 \<and> r_rtn_mr ri' = Some mr0"
proof -
  obtain H where "\<And>ch h. process_work_completion_events host_net ch 2 h = Some (2, Some attr0, H ch h)"
    using host_net_completions by metis
  then show ?thesis
    by (simp add: connect_server_def client_prepare_connection_def resolve_connection_def await_event_def
        process_rdma_cm_event_def client_pre_post_req_buffer_def client_connect_to_server_def
        client_xchange_metadata_with_server_def rdma_buffer_register_def ext_def host_net_def host_event_def Let_def
        ret_def neg_errno_def resp0_def)
qed

theorem process_invariant_witness:
  "\<exists>p h. process_run host_net p h \<and> (\<exists>g. p_global p = Some g \<and> ready g)"
proof -
  obtain a h1 where a: "set_sockaddr host_net [] = (a, h1)" by fastforce
  obtain g h2 where "connect_server host_net a (the (snd (null_client_r_info (Some r_info0)))) h1 = Some (0, g, h2)"
    using host_net_connects by blast
  note run = process_start [OF a this]
  from process_invariant [OF run] run show ?thesis by blast
qed

end
