(* ===== verification/Calls.thy ===== *)
theory Calls
  imports Bridge Process
begin

text \<open>
  The calls without data end to end, and the set-up of the link they use: the contract of a
  hook on the host and that of a handler on the SmartNIC give the contract of the call.
\<close>

section \<open>The contract of a forwarded call\<close>

text \<open>What the application may expect of a call that is carried out on the SmartNIC, if the queue pair takes the reply: when its
  request arrives there, the kernel is asked \<open>syscall\<close> once, the loop goes on with one reply posted,
  and when this reply is delivered the hook finishes with the kernel's result (-1 for a failure); a failure also sets
  \<open>errno\<close> to the kernel's, of which every byte that the adapter reads only after the post (\<open>late\<close>) is 0. One request is posted
  for it and the thread's connection stays usable.\<close>

definition bridged ::
    "(FDHashTable \<Rightarrow> bool) \<Rightarrow> (env \<Rightarrow> hook_locals \<Rightarrow> host \<Rightarrow> trace \<Rightarrow> (c_int \<times> host \<times> trace) run)
      \<Rightarrow> c_int \<Rightarrow> RDMA_REQ_MSG \<Rightarrow> u16 \<Rightarrow> (locals \<Rightarrow> call)
      \<Rightarrow> (hook_locals \<Rightarrow> host \<Rightarrow> c_int \<Rightarrow> c_int \<times> host) \<Rightarrow> bool" where
  "bridged known hook fd kind port syscall finish \<longleftrightarrow>
     (\<forall>hs ri mr rmr ES c hS qmr smr t L fresh s.
        known (fd_ht hs) \<and> linked hs ri mr rmr \<and> req_mr c = Some qmr \<and> rtn_mr c = Some smr
        \<and> arrives ES c hS (request_post (outgoing ri fd kind 0 port) mr) \<and> posts_accepted ES \<longrightarrow>
        (let h1 = polled c qmr hS; call = syscall (L h1); v = ret (ES (call # h1));
             c1 = received c qmr (outgoing ri fd kind 0 port)
         in \<exists>m c'. poll_step t ES L fresh (True, s, c, hS)
              = returns (Inr (True, s, c', reply_post (c1\<lparr>rtn := m\<rparr>) smr # call # h1))
            \<and> (\<forall>E J h k late. replies E (outgoing ri fd kind 0 port) mr rmr h k (fetch late m (rtn c')) \<longrightarrow>
                (\<exists>hs1 h'. fd_ht hs1 = fd_ht hs \<and> (\<exists>ri'. linked hs1 ri' mr rmr)
                  \<and> (v = - 1 \<longrightarrow> errno hs1 = torn late 0 (err (ES (call # h1)))) \<and> (\<not> negative v \<longrightarrow> errno hs1 = errno hs)
                  \<and> hook E J hs h = (let (v, hs) = finish J hs1 (if negative v then - 1 else v) in returns (v, hs, h'))
                  \<and> posts h' = request_post (outgoing ri fd kind 0 port) mr # posts h))))"

text \<open>A hook and a handler belong together when the dispatcher gives the hook's request to the
  handler.\<close>

locale bridged_call =
  forwarded_hook known hook orig fd kind port finish
  for known hook orig fd kind port finish +
  fixes handler :: "locals \<Rightarrow> env \<Rightarrow> rtn_msg \<Rightarrow> trace \<Rightarrow> rtn_msg \<times> trace" and syscall :: "locals \<Rightarrow> call"
  assumes handled: "forwarding (handler L) (syscall L) []"
    and dispatched: "rdma_req (req c) = req_code kind \<Longrightarrow> sockfd c = fd \<Longrightarrow> req_port (req c) = port \<Longrightarrow>
      rdma_req_event t E L fresh s c h = answer E s c (handler L E (rtn c) h)"
begin

lemma served_once:
  assumes "rtn_mr c = Some smr" and "rdma_req (req c) = req_code kind" and "sockfd c = fd" and "req_port (req c) = port"
  shows "\<exists>c'. rdma_req_event t E L fresh s c h = returns (s, c',
    reply_post (c\<lparr>rtn := fst (handler L E (rtn c) h)\<rparr>) smr # syscall L # h)
    \<and> (posts_accepted E \<longrightarrow> rtn c' = (fst (handler L E (rtn c) h))\<lparr>rtn_errno := 0\<rparr>)"
proof -
  let ?m = "fst (handler L E (rtn c) h)"
  have h: "handler L E (rtn c) h = (?m, syscall L # h)"
    using forwarding.traces [OF handled [of L]] by (metis append_Nil prod.collapse)
  have k: "rdma_req (req c) \<noteq> req_code RDMA_REQ_READ" using assms(2) kind_plain by (auto simp: plain_def)
  obtain v c' where w: "write_msg_to_client E (c\<lparr>rtn := ?m\<rparr>) (syscall L # h)
      = returns (v, c', reply_post (c\<lparr>rtn := ?m\<rparr>) smr # syscall L # h)"
      "posts_accepted E \<longrightarrow> rtn c' = ?m\<lparr>rtn_errno := 0\<rparr>"
    using write_msg_plain [of "c\<lparr>rtn := ?m\<rparr>" smr E "syscall L # h"] assms(1) k by (auto simp: spent_def)
  have "rdma_req_event t E L fresh s c h = answer E s c (?m, syscall L # h)"
    using dispatched [OF assms(2-4)] h by metis
  then show ?thesis using w by (simp add: answer_def)
qed

lemma reply_result:
  assumes "m = fst (handler L ES m0 h1)" and "v = ret (ES (syscall L # h1))" and "m' = fetch late m (m\<lparr>rtn_errno := 0\<rparr>)"
  shows "plain_result m' = (if negative v then - 1 else v)"
    and "v = - 1 \<Longrightarrow> errno_after m' e = torn late 0 (err (ES (syscall L # h1)))"
    and "\<not> negative v \<Longrightarrow> errno_after m' e = e"
  using forwarding.int_result [OF handled [of L], of ES m0 h1] forwarding.failure_visible [OF handled [of L], of ES m0 h1]
    forwarding.failed_reply [OF handled [of L], of ES h1 m0] assms
  by (auto simp: plain_result_def errno_after_def torn_def)

lemma bridges: "bridged known hook fd kind port syscall finish"
  unfolding bridged_def Let_def
proof (intro allI impI, elim conjE)
  fix hs ri mr rmr ES c hS qmr smr t fresh s and L :: "trace \<Rightarrow> locals"
  let ?ri = "outgoing ri fd kind 0 port" and ?h = "polled c qmr hS"
  let ?c = "received c qmr ?ri" and ?call = "syscall (L ?h)"
  let ?m = "fst (handler (L ?h) ES (rtn c) ?h)" and ?v = "ret (ES (?call # ?h))"
  assume known: "known (fd_ht hs)" and link: "linked hs ri mr rmr" and c: "req_mr c = Some qmr" "rtn_mr c = Some smr"
    and arr: "arrives ES c hS (request_post ?ri mr)" and acc: "posts_accepted ES"
  have q: "rtn_mr ?c = Some smr" "rdma_req (req ?c) = req_code kind" "sockfd ?c = fd" "req_port (req ?c) = port"
    "rtn ?c = rtn c"
    using c(2) by (simp_all add: outgoing_def)
  from served_once [OF q(1-4), of t ES "L ?h" "fresh ?h" s ?h]
  obtain c' where c': "rdma_req_event t ES (L ?h) (fresh ?h) s ?c ?h = returns (s, c', reply_post (?c\<lparr>rtn := ?m\<rparr>) smr # ?call # ?h)"
      "rtn c' = ?m\<lparr>rtn_errno := 0\<rparr>"
    unfolding q(5) using acc by blast
  then have step: "poll_step t ES L fresh (True, s, c, hS) = returns (Inr (True, s, c', reply_post (?c\<lparr>rtn := ?m\<rparr>) smr # ?call # ?h))"
    by (simp add: poll_step_arrival [OF arr c(1)])
  have "\<exists>hs1 h'. fd_ht hs1 = fd_ht hs \<and> (\<exists>ri'. linked hs1 ri' mr rmr)
      \<and> (?v = - 1 \<longrightarrow> errno hs1 = torn late 0 (err (ES (?call # ?h)))) \<and> (\<not> negative ?v \<longrightarrow> errno hs1 = errno hs)
      \<and> hook E J hs h = (case finish J hs1 (if negative ?v then - 1 else ?v) of (v, hs) \<Rightarrow> returns (v, hs, h'))
      \<and> posts h' = request_post ?ri mr # posts h" if rep: "replies E ?ri mr rmr h k (fetch late ?m (rtn c'))" for E J h k late
  proof -
    let ?m' = "fetch late ?m (rtn c')"
    from one_request [OF known link rep, of J] obtain ri' h' where
      r: "hook E J hs h = (let (v, hs) = finish J (hs\<lparr>tls := Some ri', errno := errno_after ?m' (errno hs)\<rparr>) (plain_result ?m')
         in returns (v, hs, h'))" "linked (hs\<lparr>tls := Some ri', errno := errno_after ?m' (errno hs)\<rparr>) ri' mr rmr"
      "posts h' = request_post ?ri mr # posts h" by blast
    note res = reply_result [OF refl refl, of ?m' late "L ?h" ES "rtn c" ?h, folded c'(2), OF refl]
    show ?thesis
      using r res(2,3) [of "errno hs"] unfolding res(1)
      by (intro exI [of _ "hs\<lparr>tls := Some ri', errno := errno_after ?m' (errno hs)\<rparr>"] exI [of _ h']) (auto simp: Let_def)
  qed
  with step show "\<exists>m c'. poll_step t ES L fresh (True, s, c, hS) = returns (Inr (True, s, c', reply_post (?c\<lparr>rtn := m\<rparr>) smr # ?call # ?h))
      \<and> (\<forall>E J h k late. replies E ?ri mr rmr h k (fetch late m (rtn c')) \<longrightarrow> (\<exists>hs1 h'. fd_ht hs1 = fd_ht hs \<and> (\<exists>ri'. linked hs1 ri' mr rmr)
          \<and> (?v = - 1 \<longrightarrow> errno hs1 = torn late 0 (err (ES (?call # ?h)))) \<and> (\<not> negative ?v \<longrightarrow> errno hs1 = errno hs)
          \<and> hook E J hs h = (case finish J hs1 (if negative ?v then - 1 else ?v) of (v, hs) \<Rightarrow> returns (v, hs, h'))
          \<and> posts h' = request_post ?ri mr # posts h))"
    by blast
qed

end

interpretation listen_call: bridged_call "\<lambda>ht. fd_searchByKey ht fd \<noteq> 0"
    "\<lambda>E J hs. req_listen E J hs fd backlog" "Orig_listen fd backlog" fd RDMA_REQ_LISTEN 0 "\<lambda>J hs v. (v, hs)"
    "\<lambda>L E m h. snd (sock_listen E m fd h)" "\<lambda>L. Sys (Sys_listen fd 1024)"
  for fd backlog
  by unfold_locales (simp_all add: rdma_req_event_def handler_defs)

interpretation bind_call: bridged_call "\<lambda>ht. fd_searchByKey ht fd \<noteq> 0"
    "\<lambda>E J hs. req_bind E J hs fd addr addrlen" "Orig_bind fd addr addrlen" fd RDMA_REQ_BIND 8080 "\<lambda>J hs v. (v, hs)"
    "\<lambda>L E m h. snd (sock_bind E L m fd 8080 h)" "\<lambda>L. Sys (Sys_bind fd (in_address L 8080 INADDR_ANY) 16)"
  for fd addr addrlen
  by unfold_locales (simp_all add: rdma_req_event_def handler_defs)

interpretation close_call: bridged_call "\<lambda>ht. searchByKey_fd ht fd \<noteq> 0"
    "\<lambda>E J hs. req_close E J hs fd" "Orig_close fd" fd RDMA_REQ_CLOSE 0
    "\<lambda>J hs v. (v, hs\<lparr>fd_ht := fd_deleteByKey (fd_ht hs) fd\<rparr>)"
    "\<lambda>L E m h. sock_close E m fd h" "\<lambda>L. Sys (Sys_close fd)"
  for fd
  by unfold_locales (simp_all add: rdma_req_event_def handler_defs)

interpretation accept_call: bridged_call "\<lambda>ht. fd_searchByKey ht fd \<noteq> 0"
    "\<lambda>E J hs. req_accept E J hs fd" "Orig_accept fd" fd RDMA_REQ_ACCEPT 0 finish_accept
    "\<lambda>L E m h. snd (sock_accept E L m fd 0 h)" "\<lambda>L. Sys (Sys_accept fd (in_address L 0 INADDR_ANY) 16)"
  for fd
  by unfold_locales (simp_all add: rdma_req_event_def handler_defs)

interpretation connect_call: bridged_call "\<lambda>ht. searchByKey_fd ht fd \<noteq> 0"
    "\<lambda>E J hs. req_connect E J hs fd addr addrlen" "Orig_connect fd addr addrlen" fd RDMA_REQ_CONNECT
    "port_of addr" "finish_connect fd"
    "\<lambda>L E m h. snd (sock_connect E L m fd (port_of addr) h)"
    "\<lambda>L. Sys (Sys_connect fd (in_address L (port_of addr) (inet_addr DEFAULT_RDMA_SERVER_IP)) 16)"
  for fd addr addrlen
  by unfold_locales (simp_all add: rdma_req_event_def handler_defs)

text \<open>C6: The calls \<open>listen\<close>, \<open>bind\<close>, \<open>close\<close>, \<open>accept\<close> and \<open>connect\<close> on a forwarded descriptor, end to end. For
  any link whose queue pair takes the reply, any kernels and any state of the server: when the request arrives, the SmartNIC's
  kernel is asked once for that call on that descriptor and one reply is posted; when the reply
  is delivered, the hook has posted one request and has the kernel's result, with -1 for every negative one. If the kernel returned -1, \<open>errno\<close> is the kernel's,
  of which every byte that the adapter reads after the post is 0; it is not touched by a success. What the
  SmartNIC asks for is fixed in part: a backlog of 1024, port 8080 for \<open>bind\<close>, the server's own address for
  \<open>connect\<close>. That result is what \<open>listen\<close> and \<open>bind\<close> return, and \<open>close\<close>, which then removes the descriptor, and \<open>accept\<close>, which
  registers a new one. \<open>connect\<close> discards it: it registers the descriptor a second time and
  returns 1 or, without memory, -1.\<close>

theorem plain_calls_end_to_end:
  "bridged (\<lambda>ht. fd_searchByKey ht fd \<noteq> 0) (\<lambda>E J hs. req_listen E J hs fd backlog) fd RDMA_REQ_LISTEN 0
     (\<lambda>L. Sys (Sys_listen fd 1024)) (\<lambda>J hs v. (v, hs))
   \<and> bridged (\<lambda>ht. fd_searchByKey ht fd \<noteq> 0) (\<lambda>E J hs. req_bind E J hs fd addr addrlen) fd RDMA_REQ_BIND 8080
     (\<lambda>L. Sys (Sys_bind fd (in_address L 8080 INADDR_ANY) 16)) (\<lambda>J hs v. (v, hs))
   \<and> bridged (\<lambda>ht. searchByKey_fd ht fd \<noteq> 0) (\<lambda>E J hs. req_close E J hs fd) fd RDMA_REQ_CLOSE 0
     (\<lambda>L. Sys (Sys_close fd)) (\<lambda>J hs v. (v, hs\<lparr>fd_ht := fd_deleteByKey (fd_ht hs) fd\<rparr>))
   \<and> bridged (\<lambda>ht. fd_searchByKey ht fd \<noteq> 0) (\<lambda>E J hs. req_accept E J hs fd) fd RDMA_REQ_ACCEPT 0
     (\<lambda>L. Sys (Sys_accept fd (in_address L 0 INADDR_ANY) 16)) finish_accept
   \<and> bridged (\<lambda>ht. searchByKey_fd ht fd \<noteq> 0) (\<lambda>E J hs. req_connect E J hs fd addr addrlen) fd RDMA_REQ_CONNECT (port_of addr)
     (\<lambda>L. Sys (Sys_connect fd (in_address L (port_of addr) (inet_addr DEFAULT_RDMA_SERVER_IP)) 16)) (finish_connect fd)"
  using listen_call.bridges bind_call.bridges close_call.bridges accept_call.bridges connect_call.bridges by blast

theorem plain_calls_end_to_end_witness:
  "\<exists>m c' hs' h' hs'' h''. poll_step 0 (serving (outgoing r_info0 7 RDMA_REQ_LISTEN 0 0) (resp0\<lparr>rv := - 1, err := 98\<rparr>)) (\<lambda>_. locals0)
        (\<lambda>_. client0 RDMA_REQ_SOCKET) (True, server0, client0 RDMA_REQ_SOCKET, [])
      = returns (Inr (True, server0, c', reply_post ((received (client0 RDMA_REQ_SOCKET) mr0
            (outgoing r_info0 7 RDMA_REQ_LISTEN 0 0))\<lparr>rtn := m\<rparr>) mr0
          # Sys (Sys_listen 7 1024) # polled (client0 RDMA_REQ_SOCKET) mr0 []))
    \<and> req_listen (replying (fetch (\<lambda>_. False) m (rtn c'))) hook_locals0 host7 7 5 [] = returns (- 1, hs', h') \<and> errno hs' = 98
    \<and> req_listen (replying (fetch (\<lambda>_. True) m (rtn c'))) hook_locals0 host7 7 5 [] = returns (- 1, hs'', h'') \<and> errno hs'' = 0"
proof -
  let ?c = "client0 RDMA_REQ_SOCKET" and ?ri = "outgoing r_info0 7 RDMA_REQ_LISTEN 0 0" and ?r = "resp0\<lparr>rv := - 1, err := 98\<rparr>"
  let ?ES = "serving ?ri ?r"
  have v: "ret (?ES (Sys (Sys_listen 7 1024) # polled ?c mr0 [])) = - 1" "err (?ES (Sys (Sys_listen 7 1024) # polled ?c mr0 [])) = 98"
    by (simp_all add: serving_kernel ret_def)
  have n: "negative (- 1 :: c_int)" "\<And>a b x. (if True then a else b) = (a :: c_int)" by (simp_all add: negative_def)
  have t: "torn (\<lambda>_. False) 0 (98 :: u32) = 98" "torn (\<lambda>_. True) 0 (98 :: u32) = 0" by (simp_all add: torn_early torn_late)
  have "bridged (\<lambda>ht. fd_searchByKey ht 7 \<noteq> 0) (\<lambda>E J hs. req_listen E J hs 7 5) 7 RDMA_REQ_LISTEN 0
      (\<lambda>L. Sys (Sys_listen 7 1024)) (\<lambda>J hs v. (v, hs))"
    using plain_calls_end_to_end by blast
  from this [unfolded bridged_def, rule_format, of host7 r_info0 mr0 mr0 ?c mr0 mr0 ?ES "[]" 0 "\<lambda>_. locals0" "\<lambda>_. ?c" server0,
      OF conjI [OF host7_facts(4) conjI [OF host7_facts(2) conjI [OF client0_mrs(1) conjI [OF client0_mrs(2) conjI [OF serving_arrives posts_accepted_serving]]]]]]
  obtain m c' where 1: "poll_step 0 ?ES (\<lambda>_. locals0) (\<lambda>_. ?c) (True, server0, ?c, [])
      = returns (Inr (True, server0, c', reply_post ((received ?c mr0 ?ri)\<lparr>rtn := m\<rparr>) mr0
          # Sys (Sys_listen 7 1024) # polled ?c mr0 []))"
    and 2: "\<And>E J h k late. replies E ?ri mr0 mr0 h k (fetch late m (rtn c')) \<Longrightarrow>
      \<exists>hs1 h'. req_listen E J host7 7 5 h = returns (- 1, hs1, h') \<and> errno hs1 = torn late 0 98"
    unfolding Let_def v prod.case by (simp only: n if_True not_True_eq_False simp_thms) blast
  from 1 2 [OF replying_replies, of "\<lambda>_. False" hook_locals0 "[]"] 2 [OF replying_replies, of "\<lambda>_. True" hook_locals0 "[]"]
  show ?thesis unfolding t by (elim exE conjE) (intro exI conjI, assumption+)
qed

section \<open>The set-up of a link\<close>

text \<open>Each side has received what the other one has sent about its memory.\<close>

definition metadata_exchanged :: "r_info \<Rightarrow> s_client \<Rightarrow> bool" where
  "metadata_exchanged ri c \<longleftrightarrow>
     attr_address (r_server_metadata_attr ri) = attr_address (server_metadata_attr c)
     \<and> attr_stag (r_server_metadata_attr ri) = attr_stag (server_metadata_attr c)
     \<and> attr_address (client_metadata_attr c) = attr_address (r_client_metadata_attr ri)
     \<and> attr_stag (client_metadata_attr c) = attr_stag (r_client_metadata_attr ri)"

text \<open>C10: The set-up of a link. When \<open>connect_server\<close> on the host and \<open>connect_client_r_info\<close> on the SmartNIC report
  success and the two metadata messages have been delivered, then for as long as the two
  connections are kept, whatever requests and replies have gone over them, every request is
  written to the SmartNIC's registered request message with the key of that registration, and every
  reply to the host's registered return message with its key.\<close>

theorem link_setup:
  assumes "connect_server E a ri h = Some (0, ri1, h1)" and "connect_client_r_info ES s c hS = returns (0, s1, c1, hS1)"
    and "metadata_exchanged ri1 c1" and "r_conn ri2 = r_conn ri1" and "conn c2 = conn c1"
  shows "\<exists>qmr rmr. req_mr c2 = Some qmr \<and> r_rtn_mr ri2 = Some rmr \<and> r_req_mr ri2 \<noteq> None
    \<and> sw_remote_addr (request_wr ri2) = mr_addr qmr \<and> sw_rkey (request_wr ri2) = mr_rkey qmr
    \<and> sw_remote_addr (reply_wr c2) = mr_addr rmr \<and> sw_rkey (reply_wr c2) = mr_rkey rmr"
proof -
  have "ready ri2" using connect_server_ready [OF assms(1)] ready_conn [OF assms(4)] by simp
  then obtain mr rmr where r: "r_req_mr ri2 = Some mr" "r_rtn_mr ri2 = Some rmr"
    "attr_address (r_client_metadata_attr ri2) = mr_addr rmr" "attr_stag (r_client_metadata_attr ri2) = mr_rkey rmr"
    by (auto simp: ready_def)
  obtain qmr where "req_mr c1 = Some qmr" "attr_address (server_metadata_attr c1) = mr_addr qmr"
    "attr_stag (server_metadata_attr c1) = mr_rkey qmr"
    using connected_client [OF assms(2)] by blast
  moreover have "r_client_metadata_attr ri2 = r_client_metadata_attr ri1" "r_server_metadata_attr ri2 = r_server_metadata_attr ri1"
    "req_mr c2 = req_mr c1" "client_metadata_attr c2 = client_metadata_attr c1"
    using assms(4,5) by (simp_all add: r_conn_def conn_def)
  ultimately show ?thesis using r assms(3)
    by (intro exI [of _ qmr] exI [of _ rmr]) (simp add: request_wr_def reply_wr_def metadata_exchanged_def)
qed

theorem link_setup_witness:
  "\<exists>ri1 h1 s1 c1 hS1. connect_server host_net (server_sockaddr host0) r_info0 [] = Some (0, ri1, h1)
    \<and> connect_client_r_info good_net server0 (snd (snic_null_client_r_info (client0 RDMA_REQ_SOCKET))) [] = returns (0, s1, c1, hS1)
    \<and> sw_remote_addr (request_wr ri1) = 4096 \<and> sw_rkey (request_wr ri1) = 2"
proof -
  obtain ri1 h1 where 1: "connect_server host_net (server_sockaddr host0) r_info0 [] = Some (0, ri1, h1)"
      "r_server_metadata_attr ri1 = attr0" "r_rtn_mr ri1 = Some mr0" using host_net_connects by blast
  obtain s1 c1 hS1 where 2: "connect_client_r_info good_net server0 (snd (snic_null_client_r_info (client0 RDMA_REQ_SOCKET))) []
      = returns (0, s1, c1, hS1)" "client_metadata_attr c1 = attr0" "req_mr c1 = Some mr0" using good_net_connect by blast
  have "metadata_exchanged ri1 c1"
    using connect_server_ready [OF 1(1)] 1(2,3) connected_client [OF 2(1)] 2(2,3)
    by (auto simp: metadata_exchanged_def ready_def attr0_def mr0_def)
  from link_setup [OF 1(1) 2(1) this refl refl] 1(1) 2(1,3) show ?thesis by (auto simp: mr0_def)
qed

end
