(* ===== verification/Waits.thy ===== *)
theory Waits
  imports Calls
begin

text \<open>
  The calls whose arguments travel in the data of the request, end to end: \<open>epoll_ctl\<close>, \<open>epoll_wait\<close> and
  \<open>poll\<close>. What their serialisers and handlers do is in \<open>Wire_Props\<close> and \<open>Socket_Props\<close>; here they are put
  between the hook, the link and the completion loop.
\<close>

section \<open>A request with data\<close>

definition carrying :: "r_info \<Rightarrow> buf \<Rightarrow> r_info" where
  "carrying ri b = ri\<lparr>r_req := (r_req ri)\<lparr>req_data := b\<rparr>\<rparr>"

text \<open>The requests whose reply is returned as it is.\<close>

definition raw_kind :: "RDMA_REQ_MSG \<Rightarrow> bool" where
  "raw_kind r \<longleftrightarrow> r \<in> {RDMA_REQ_EPOLL_CREATE1, RDMA_REQ_EPOLL_CTL, RDMA_REQ_EPOLL_WAIT, RDMA_REQ_POLL}"

lemma finish_raw:
  "raw_kind r \<Longrightarrow> finish_request (req_code r) m (Some e) buf = Inr (ucast (rtn_value m), Some (errno_after m e), buf)"
  by (auto simp: raw_kind_def finish_request_def errno_after_def store_errno_def)

text \<open>The host's side: the serialised request is sent, and the rest of the hook runs on the reply.\<close>

lemma data_request_by:
  fixes f :: "buf \<Rightarrow> fault + buf option" and g :: "c_int \<Rightarrow> host \<Rightarrow> trace \<Rightarrow> 'a run"
  assumes "linked hs ri mr rmr" and "r \<noteq> RDMA_REQ_WRITE" and "f (req_data (r_req ri)) = Inr (Some b)"
    and "replies E (outgoing (carrying ri b) fd r 0 0) mr rmr h k m"
    and "\<And>e. finish_request (req_code r) m (Some e) None = Inr (v, Some (errno_after m e), None)"
  shows "\<exists>ri' h'. with_req_data hs f (\<lambda>hs. and_then (request E J hs fd r 0 0 None None h) (\<lambda>(v, _, hs, h). g v hs h))
       = g v (hs\<lparr>tls := Some ri', errno := errno_after m (errno hs)\<rparr>) h'
    \<and> r_rtn ri' = m \<and> linked (hs\<lparr>tls := Some ri', errno := errno_after m (errno hs)\<rparr>) ri' mr rmr
    \<and> posts h' = request_post (outgoing (carrying ri b) fd r 0 0) mr # posts h"
proof -
  let ?hs = "hs\<lparr>tls := Some (carrying ri b)\<rparr>"
  have l: "linked ?hs (carrying ri b) mr rmr" using assms(1) by (simp add: linked_def carrying_def)
  obtain ri' h' where r: "request E J ?hs fd r 0 0 None None h
        = returns (v, None, ?hs\<lparr>tls := Some ri', errno := errno_after m (errno hs)\<rparr>, h')"
    "r_rtn ri' = m" "linked (?hs\<lparr>tls := Some ri', errno := errno_after m (errno hs)\<rparr>) ri' mr rmr"
    "posts h' = request_post (outgoing (carrying ri b) fd r 0 0) mr # posts h"
    using request_reply [OF l fill_request_outgoing [OF assms(2)] _ _ assms(4,5), where J = J and message = None] by simp metis
  have "with_req_data hs f (\<lambda>hs. and_then (request E J hs fd r 0 0 None None h) (\<lambda>(v, _, hs, h). g v hs h))
      = and_then (request E J ?hs fd r 0 0 None None h) (\<lambda>(v, _, hs, h). g v hs h)"
    using assms(1,3) by (simp add: with_req_data_def linked_def carrying_def)
  then show ?thesis using r by auto
qed

lemma data_request:
  fixes f :: "buf \<Rightarrow> fault + buf option" and g :: "c_int \<Rightarrow> host \<Rightarrow> trace \<Rightarrow> 'a run"
  assumes "linked hs ri mr rmr" and "raw_kind r" and "f (req_data (r_req ri)) = Inr (Some b)"
    and "replies E (outgoing (carrying ri b) fd r 0 0) mr rmr h k m"
  shows "\<exists>ri' h'. with_req_data hs f (\<lambda>hs. and_then (request E J hs fd r 0 0 None None h) (\<lambda>(v, _, hs, h). g v hs h))
       = g (ucast (rtn_value m)) (hs\<lparr>tls := Some ri', errno := errno_after m (errno hs)\<rparr>) h'
    \<and> r_rtn ri' = m \<and> linked (hs\<lparr>tls := Some ri', errno := errno_after m (errno hs)\<rparr>) ri' mr rmr
    \<and> posts h' = request_post (outgoing (carrying ri b) fd r 0 0) mr # posts h"
proof (rule data_request_by [where f = f, OF assms(1) _ assms(3,4) finish_raw [OF assms(2)]])
  show "r \<noteq> RDMA_REQ_WRITE" using assms(2) by (auto simp: raw_kind_def)
qed

text \<open>The SmartNIC's side: a request that is answered with \<open>m\<close> makes one reply, and the loop goes on.\<close>

lemma step_answers:
  assumes "arrives ES c hS (request_post ri1 mr)" and "req_mr c = Some qmr" and "rtn_mr c = Some smr"
    and "rdma_req (r_req ri1) \<noteq> req_code RDMA_REQ_READ"
    and "rdma_req_event t ES (L (polled c qmr hS)) (fresh (polled c qmr hS)) s (received c qmr ri1) (polled c qmr hS)
      = answer ES s (received c qmr ri1) (m, h1)"
  shows "\<exists>c'. poll_step t ES L fresh (True, s, c, hS)
    = returns (Inr (True, s, c', reply_post ((received c qmr ri1)\<lparr>rtn := m\<rparr>) smr # h1)) \<and> spent ES m (rtn c')"
proof -
  let ?c = "(received c qmr ri1)\<lparr>rtn := m\<rparr>"
  obtain v c' where "write_msg_to_client ES ?c h1 = returns (v, c', reply_post ?c smr # h1)" "spent ES m (rtn c')"
    using write_msg_plain [of ?c smr ES h1] assms(3,4) by auto
  then show ?thesis by (simp add: poll_step_arrival [OF assms(1,2)] assms(5) answer_def)
qed

lemma int_reply: "negative (scast (v :: c_int) :: i64) = negative v" "ucast (scast (v :: c_int) :: i64) = v"
  by (simp_all add: negative_def)

section \<open>epoll\<close>

text \<open>An event for the witnesses.\<close>

definition event9 :: epoll_event where "event9 = \<lparr>ev_events = 1, ev_data = 9\<rparr>"

definition ctl_data :: "buf \<Rightarrow> c_int \<Rightarrow> c_int \<Rightarrow> c_int \<Rightarrow> epoll_event \<Rightarrow> buf" where
  "ctl_data b epfd op fd ev = the (serialize_epoll_ctl_dt (Some b) (Some epfd) (Some op) (Some fd) (Some ev))"

lemma ctl_data_read:
  "snic_deserialize_epoll_ctl_dt (Some (ctl_data b epfd op fd ev)) (Some e0) (Some o0) (Some f0) (Some ev0)
     = (Some epfd, Some op, Some fd, Some ev)"
  by (simp add: ctl_data_def serialize_epoll_ctl_dt_def snic_deserialize_epoll_ctl_dt_def buffer_simps)

text \<open>A reply that is returned as it is.\<close>

definition reports_raw :: "resp \<Rightarrow> rtn_msg \<Rightarrow> bool" where
  "reports_raw r m \<longleftrightarrow> rtn_value m = scast (ret r) \<and> (ret r = - 1 \<longrightarrow> rtn_errno m = err r)"

lemma reports_raw_simps:
  assumes "reports_raw r m"
  shows "ucast (rtn_value m) = ret r" "\<not> negative (ret r) \<Longrightarrow> errno_after m e = e" "ret r = - 1 \<Longrightarrow> errno_after m e = err r"
  using assms by (auto simp: reports_raw_def int_reply errno_after_def)

lemma reports_raw_fetch:
  "reports_raw r m \<Longrightarrow> spent E m m' \<Longrightarrow> posts_accepted E \<Longrightarrow> reports_raw (told_errno late r) (fetch late m m')"
  by (auto simp: reports_raw_def spent_fetch simp del: fetch_simps)

lemma reports_raw_success: "reports_raw r m \<Longrightarrow> \<not> negative (ret r) \<Longrightarrow> spent E m m' \<Longrightarrow> reports_raw r (fetch late m m')"
  by (auto simp: reports_raw_def spent_fetch negative_def simp del: fetch_simps)

definition ctl_message :: "r_info \<Rightarrow> c_int \<Rightarrow> c_int \<Rightarrow> c_int \<Rightarrow> epoll_event \<Rightarrow> r_info" where
  "ctl_message ri epfd op fd ev = outgoing (carrying ri (ctl_data (req_data (r_req ri)) epfd op fd ev)) epfd RDMA_REQ_EPOLL_CTL 0 0"

definition probes_of :: "c_int \<Rightarrow> c_int \<Rightarrow> call list" where
  "probes_of epfd fd = [Sys (Sys_fcntl fd F_GETFD None), Sys (Sys_fcntl epfd F_GETFD None)]"

lemma epoll_ctl_nic:
  assumes "arrives ES c hS (request_post (ctl_message ri epfd op fd ev) mr)" and "req_mr c = Some qmr" and "rtn_mr c = Some smr"
    and "h1 = Sys (Sys_epoll_ctl epfd op fd ev) # probes_of epfd fd @ polled c qmr hS"
  shows "\<exists>m c'. poll_step t ES L fresh (True, s, c, hS)
      = returns (Inr (True, s, c', reply_post ((received c qmr (ctl_message ri epfd op fd ev))\<lparr>rtn := m\<rparr>) smr # h1))
    \<and> reports_raw (ES h1) m \<and> spent ES m (rtn c')"
proof -
  let ?ri = "ctl_message ri epfd op fd ev"
  let ?c = "received c qmr ?ri" and ?h = "polled c qmr hS" and ?v = "ret (ES h1)"
  let ?m = "(if ?v = - 1 then (rtn c)\<lparr>rtn_value := scast ?v, rtn_errno := err (ES h1)\<rparr> else (rtn c)\<lparr>rtn_value := scast ?v\<rparr>)"
  have q: "rdma_req (r_req ?ri) = req_code RDMA_REQ_EPOLL_CTL" "req_data (r_req ?ri) = ctl_data (req_data (r_req ri)) epfd op fd ev"
    by (simp_all add: ctl_message_def outgoing_def carrying_def)
  have "snd (sock_epoll_ctl ES L (req ?c) (rtn ?c) ?h) = (?m, h1)" for L
    by (simp add: sock_epoll_ctl_def q(2) ctl_data_read ext_def assms(4) probes_of_def Let_def)
  then have "rdma_req_event t ES (L ?h) (fresh ?h) s ?c ?h = answer ES s ?c (?m, h1)" for L fresh
    using q(1) by (simp add: rdma_req_event_def)
  then show ?thesis
    using step_answers [OF assms(1-3)] q(1) by (intro exI [of _ ?m]) (auto simp: reports_raw_def)
qed

lemma epoll_ctl_app:
  assumes "linked hs ri mr rmr" and "fd_searchByKey (fd_ht hs) epfd \<noteq> 0" and "reports_raw r m"
    and "replies E (ctl_message ri epfd op fd ev) mr rmr h k m"
  shows "\<exists>ri' h'. req_epoll_ctl E J hs epfd op fd (Some ev) h
      = returns (ret r, hs\<lparr>tls := Some ri', errno := errno_after m (errno hs)\<rparr>, h')
    \<and> linked (hs\<lparr>tls := Some ri', errno := errno_after m (errno hs)\<rparr>) ri' mr rmr
    \<and> posts h' = request_post (ctl_message ri epfd op fd ev) mr # posts h"
proof -
  let ?f = "\<lambda>d. Inr (serialize_epoll_ctl_dt (Some d) (Some epfd) (Some op) (Some fd) (Some ev))"
  have f: "?f (req_data (r_req ri)) = Inr (Some (ctl_data (req_data (r_req ri)) epfd op fd ev))"
    by (simp add: ctl_data_def serialize_epoll_ctl_dt_def)
  have k: "raw_kind RDMA_REQ_EPOLL_CTL" by (simp add: raw_kind_def)
  from data_request [where f = ?f and g = "\<lambda>v hs h. returns (v, hs, h)" and J = J, OF assms(1) k f assms(4) [unfolded ctl_message_def]]
  show ?thesis
    using assms(2) reports_raw_simps(1) [OF assms(3)]
    by (auto simp: req_epoll_ctl_def get_r_info_linked [OF assms(1)] ctl_message_def)
qed

text \<open>\<open>epoll_ctl\<close> on a forwarded descriptor, end to end: after probing the two descriptors the SmartNIC's
  kernel is asked once to make the change the application asked for, with the same descriptors,
  operation and event; one reply is posted, and when it is delivered the application gets the kernel's result
  and, if it is -1, its \<open>errno\<close>, of which every byte that the adapter reads only after the post is 0.\<close>

theorem epoll_ctl_end_to_end:
  assumes "linked hs ri mr rmr" and "fd_searchByKey (fd_ht hs) epfd \<noteq> 0"
    and "arrives ES c hS (request_post (ctl_message ri epfd op fd ev) mr)" and "req_mr c = Some qmr" and "rtn_mr c = Some smr"
    and "h1 = Sys (Sys_epoll_ctl epfd op fd ev) # probes_of epfd fd @ polled c qmr hS" and "posts_accepted ES"
  shows "\<exists>m c'. poll_step t ES L fresh (True, s, c, hS)
        = returns (Inr (True, s, c', reply_post ((received c qmr (ctl_message ri epfd op fd ev))\<lparr>rtn := m\<rparr>) smr # h1))
    \<and> (\<forall>E J h k late. replies E (ctl_message ri epfd op fd ev) mr rmr h k (fetch late m (rtn c')) \<longrightarrow>
        (\<exists>hs' h'. req_epoll_ctl E J hs epfd op fd (Some ev) h = returns (ret (ES h1), hs', h')
          \<and> (ret (ES h1) = - 1 \<longrightarrow> errno hs' = torn late 0 (err (ES h1))) \<and> (\<not> negative (ret (ES h1)) \<longrightarrow> errno hs' = errno hs)
          \<and> posts h' = request_post (ctl_message ri epfd op fd ev) mr # posts h))"
proof -
  obtain m c' where m: "poll_step t ES L fresh (True, s, c, hS)
      = returns (Inr (True, s, c', reply_post ((received c qmr (ctl_message ri epfd op fd ev))\<lparr>rtn := m\<rparr>) smr # h1))"
    "reports_raw (ES h1) m" "spent ES m (rtn c')" using epoll_ctl_nic [OF assms(3-6)] by blast
  have "\<exists>hs' h'. req_epoll_ctl E J hs epfd op fd (Some ev) h = returns (ret (ES h1), hs', h')
      \<and> (ret (ES h1) = - 1 \<longrightarrow> errno hs' = torn late 0 (err (ES h1))) \<and> (\<not> negative (ret (ES h1)) \<longrightarrow> errno hs' = errno hs)
      \<and> posts h' = request_post (ctl_message ri epfd op fd ev) mr # posts h"
    if rep: "replies E (ctl_message ri epfd op fd ev) mr rmr h k (fetch late m (rtn c'))" for E J h k late
  proof -
    note r = reports_raw_fetch [OF m(2,3) assms(7), of late]
    from epoll_ctl_app [OF assms(1,2) r rep, of J] reports_raw_simps(2,3) [OF r] show ?thesis by auto
  qed
  with m(1) show ?thesis by blast
qed

theorem epoll_ctl_end_to_end_witness:
  "\<exists>m c' hs' h'. poll_step 0 (serving (ctl_message r_info0 7 1 9 event9) resp0)
        (\<lambda>_. locals0) (\<lambda>_. client0 RDMA_REQ_SOCKET) (True, server0, client0 RDMA_REQ_SOCKET, [])
      = returns (Inr (True, server0, c', reply_post ((received (client0 RDMA_REQ_SOCKET) mr0 (ctl_message r_info0 7 1 9 event9))\<lparr>rtn := m\<rparr>) mr0
        # Sys (Sys_epoll_ctl 7 1 9 event9) # probes_of 7 9 @ polled (client0 RDMA_REQ_SOCKET) mr0 []))
    \<and> req_epoll_ctl (replying (fetch (\<lambda>_. True) m (rtn c'))) hook_locals0 host7 7 1 9 (Some event9) [] = returns (0, hs', h')"
proof -
  let ?ri = "ctl_message r_info0 7 1 9 event9"
  have v: "ret (serving ?ri resp0 (Sys call # h)) = 0" for call h by (simp add: serving_kernel ret_def resp0_def)
  from epoll_ctl_end_to_end [where t = 0 and L = "\<lambda>_. locals0" and fresh = "\<lambda>_. client0 RDMA_REQ_SOCKET" and s = server0
      and hS = "[]" and ES = "serving ?ri resp0", OF host7_facts(2,4) serving_arrives client0_mrs(1,2) refl]
  show ?thesis unfolding v using replying_replies by (metis posts_accepted_serving)
qed

text \<open>\<open>epoll_create1\<close>: the new descriptor is also put into the server's table of sockets, under its lock.\<close>

definition create_message :: "r_info \<Rightarrow> c_int \<Rightarrow> r_info" where
  "create_message ri flags = outgoing (carrying ri (put_word (req_data (r_req ri)) 0 flags)) 0 RDMA_REQ_EPOLL_CREATE1 0 0"

lemma epoll_create_nic:
  assumes "arrives ES c hS (request_post (create_message ri flags) mr)" and "req_mr c = Some qmr" and "rtn_mr c = Some smr"
    and "h1 = Sys (Sys_epoll_create1 flags) # polled c qmr hS" and "l_malloc (L (polled c qmr hS))" and "lock (sock_ht s) = Unlocked"
  shows "\<exists>s' c' c1. poll_step t ES L fresh (True, s, c, hS) = returns (Inr (True, s', c', reply_post c1 smr # h1))
    \<and> lock (sock_ht s') = Unlocked \<and> reports_raw (ES h1) (rtn c1) \<and> spent ES (rtn c1) (rtn c')"
proof -
  let ?ri = "create_message ri flags" and ?h = "polled c qmr hS" and ?v = "ret (ES h1)"
  let ?c = "received c qmr ?ri"
  define m where "m = (if ?v = - 1 then (rtn c)\<lparr>rtn_value := scast ?v, rtn_errno := err (ES h1)\<rparr> else (rtn c)\<lparr>rtn_value := scast ?v\<rparr>)"
  define c1 where "c1 = (if negative ?v then ?c else ?c\<lparr>sockfd := ?v\<rparr>)"
  have c1: "rtn_mr c1 = Some smr" "req c1 = r_req ?ri" using assms(3) by (simp_all add: c1_def)
  have q: "rdma_req (r_req ?ri) = req_code RDMA_REQ_EPOLL_CREATE1" "get_word (req_data (r_req ?ri)) 0 = flags"
    by (simp_all add: create_message_def outgoing_def carrying_def buffer_simps)
  have h: "sock_epoll_create1 ES (req ?c) (rtn ?c) ?h = (?v, m, h1)"
    by (simp add: sock_epoll_create1_def m_def q(2) snic_deserialize_epoll_create_dt_def deserialize_epoll_create_dt_def ext_def assms(4) Let_def)
  obtain v c2 where w: "write_msg_to_client ES (c1\<lparr>rtn := m\<rparr>) h1 = returns (v, c2, reply_post (c1\<lparr>rtn := m\<rparr>) smr # h1)"
      "spent ES m (rtn c2)"
    using write_msg_plain [of "c1\<lparr>rtn := m\<rparr>" smr ES h1] c1 q(1) by auto
  then have ans: "answer ES s c1 (m, h1) = returns (s, c2, reply_post (c1\<lparr>rtn := m\<rparr>) smr # h1)" by (simp add: answer_def)
  obtain ok ht where ins: "snic_socket_insertByValue t True (sock_ht s) ?v (l_info (L ?h)) = Some (ok, ht)" "lock ht = Unlocked"
    using assms(6) by (auto simp: snic_socket_insertByValue_def Let_def)
  have "rdma_req_event t ES (L ?h) (fresh ?h) s ?c ?h
      = returns (if negative ?v then s else s\<lparr>sock_ht := ht\<rparr>, c2, reply_post (c1\<lparr>rtn := m\<rparr>) smr # h1)"
    using q(1) h ans ins(1) assms(5) by (cases "negative ?v") (simp_all add: rdma_req_event_def socket_info_init_def c1_def)
  then show ?thesis
    using ins(2) assms(6) w(2)
    by (simp add: poll_step_arrival [OF assms(1,2)]) (intro exI [of _ "c1\<lparr>rtn := m\<rparr>"], simp add: reports_raw_def m_def)
qed

lemma epoll_create_app:
  assumes "linked hs ri mr rmr" and "reports_raw r m" and "replies E (create_message ri flags) mr rmr h k m" and "j_node J"
  shows "\<exists>ri' h'. let hs' = hs\<lparr>tls := Some ri', errno := errno_after m (errno hs)\<rparr> in
      req_epoll_create1 E J hs flags h = returns (ret r, if positive (ret r)
        then hs'\<lparr>fd_ht := snd (fd_insertByValue True (fd_ht hs) (ret r) (tid hs))\<rparr> else hs', h')
      \<and> linked hs' ri' mr rmr \<and> posts h' = request_post (create_message ri flags) mr # posts h"
proof -
  let ?f = "\<lambda>d. Inr (serialize_epoll_create_dt (Some d) (Some flags))"
  let ?g = "\<lambda>epfd hs h. if positive epfd then let (ok, hs) = register_fd J hs epfd (tid hs)
      in if ok then returns (epfd, hs, h) else returns (- 1, hs, h) else returns (epfd, hs, h)"
  have f: "?f (req_data (r_req ri)) = Inr (Some (put_word (req_data (r_req ri)) 0 flags))"
    by (simp add: serialize_epoll_create_dt_def)
  have k: "raw_kind RDMA_REQ_EPOLL_CREATE1" by (simp add: raw_kind_def)
  obtain ri' h' where "with_req_data hs ?f (\<lambda>hs. and_then (request E J hs 0 RDMA_REQ_EPOLL_CREATE1 0 0 None None h)
        (\<lambda>(v, _, hs, h). ?g v hs h)) = ?g (ret r) (hs\<lparr>tls := Some ri', errno := errno_after m (errno hs)\<rparr>) h'"
    "linked (hs\<lparr>tls := Some ri', errno := errno_after m (errno hs)\<rparr>) ri' mr rmr" "posts h' = request_post (create_message ri flags) mr # posts h"
    using data_request [where f = ?f and g = ?g and J = J, OF assms(1) k f assms(3) [unfolded create_message_def]]
    unfolding create_message_def reports_raw_simps(1) [OF assms(2)] by blast
  then show ?thesis
    by (intro exI [of _ ri'] exI [of _ h']) (simp add: req_epoll_create1_def get_r_info_linked [OF assms(1)] register_fd_ok [OF assms(4)] Let_def)
qed

definition wait_data :: "buf \<Rightarrow> c_int \<Rightarrow> c_int \<Rightarrow> c_int \<Rightarrow> buf" where
  "wait_data b epfd maxevents timeout =
     put_word (put_word (put_word (put_word b 0 (0 :: c_int)) 4 epfd) 8 maxevents) 12 timeout"

lemma serialize_wait_data:
  "serialize_epoll_wait_dt None (Some b) (Some 0) (Some epfd) (Some maxevents) (Some timeout) (Some [])
     = Inr (Some (wait_data b epfd maxevents timeout))"
  by (simp add: serialize_epoll_wait_dt_def wait_data_def)

definition wait_message :: "r_info \<Rightarrow> c_int \<Rightarrow> c_int \<Rightarrow> c_int \<Rightarrow> r_info" where
  "wait_message ri epfd maxevents timeout
     = outgoing (carrying ri (wait_data (req_data (r_req ri)) epfd maxevents timeout)) epfd RDMA_REQ_EPOLL_WAIT 0 0"

text \<open>What \<open>epoll_wait\<close> may report: as many events as it says, no more than the SmartNIC's array holds, and of
  those that fit into a message no more than the application has room for.\<close>

definition event_list :: "resp \<Rightarrow> epoll_event list \<Rightarrow> bool" where
  "event_list r dest \<longleftrightarrow> ret r = word_of_nat (length (out_events r)) \<and> length (out_events r) \<le> 100
     \<and> min 84 (length (out_events r)) \<le> length dest"

definition reports_events :: "c_int \<Rightarrow> c_int \<Rightarrow> c_int \<Rightarrow> epoll_event list \<Rightarrow> resp \<Rightarrow> rtn_msg \<Rightarrow> bool" where
  "reports_events epfd maxevents timeout dest r m \<longleftrightarrow> reports_raw r m \<and> \<not> negative (ret r)
     \<and> deserialize_epoll_wait_dt (Some (rtn_data m)) (Some 0) (Some epfd) (Some maxevents) (Some timeout) (Some dest)
       = Inr (Some (ret r), Some epfd, Some maxevents, Some timeout,
           Some (take 84 (out_events r) @ drop (min 84 (length (out_events r))) dest))"

lemma reports_events_fetch:
  "reports_events epfd maxevents timeout dest r m \<Longrightarrow> spent E m m' \<Longrightarrow> reports_events epfd maxevents timeout dest r (fetch late m m')"
  by (simp add: reports_events_def reports_raw_success spent_fetch(2))

lemma epoll_wait_nic:
  assumes "arrives ES c hS (request_post (wait_message ri epfd maxevents timeout) mr)" and "req_mr c = Some qmr"
    and "rtn_mr c = Some smr" and "h1 = Sys (Sys_epoll_wait epfd maxevents timeout) # polled c qmr hS" and "event_list (ES h1) dest"
  shows "\<exists>m c'. poll_step t ES L fresh (True, s, c, hS)
      = returns (Inr (True, s, c', reply_post ((received c qmr (wait_message ri epfd maxevents timeout))\<lparr>rtn := m\<rparr>) smr # h1))
    \<and> reports_events epfd maxevents timeout dest (ES h1) m \<and> spent ES m (rtn c')"
proof -
  let ?ri = "wait_message ri epfd maxevents timeout" and ?b = "wait_data (req_data (r_req ri)) epfd maxevents timeout"
  let ?c = "received c qmr ?ri" and ?h = "polled c qmr hS" and ?v = "ret (ES h1)"
  have q: "rdma_req (r_req ?ri) = req_code RDMA_REQ_EPOLL_WAIT" "r_req ?ri = (r_req ?ri)\<lparr>req_data := ?b\<rparr>"
    by (simp_all add: wait_message_def outgoing_def carrying_def)
  have n: "?v = word_of_nat (length (out_events (ES h1)))" "length (out_events (ES h1)) < 2 ^ 31"
    "min 84 (length (out_events (ES h1))) \<le> length dest" "length (out_events (ES h1)) \<le> 100"
    "ES (Sys (Sys_epoll_wait epfd maxevents timeout) # ?h) = ES h1"
    using assms(4,5) by (simp_all add: event_list_def)
  have "sint ?v = int (length (out_events (ES h1)))" using n(1,4) by (simp add: c_arith)
  then have nn: "\<not> negative ?v" by (simp add: negative_def)
  then have "?v \<noteq> - 1" by (auto simp: negative_def)
  with nn obtain m where m: "sock_epoll_wait ES (L ?h) (r_req ?ri) (rtn c) ?h = Inr (?v, m, h1)"
      "reports_events epfd maxevents timeout dest (ES h1) m"
    using epoll_wait_across [where E = ES and h = ?h and L = "L ?h" and q = "r_req ?ri" and m = "rtn c" and ?n0.0 = 0 and ?e0.0 = epfd
        and ?x0.0 = maxevents and ?t0.0 = timeout, OF serialize_wait_data n(5,1-3), where b = "req_data (r_req ri)"] n(4) q(2) assms(4)
    by (auto simp: reports_events_def reports_raw_def)
  have "rdma_req_event t ES (L ?h) (fresh ?h) s ?c ?h = answer ES s ?c (m, h1)"
    using q(1) m(1) by (simp add: rdma_req_event_def answer_checked_def)
  then show ?thesis using step_answers [OF assms(1-3)] q(1) m(2) by (intro exI [of _ m]) auto
qed

lemma epoll_wait_app:
  assumes "linked hs ri mr rmr" and "fd_searchByKey (fd_ht hs) epfd \<noteq> 0" and "reports_events epfd maxevents timeout dest r m"
    and "replies E (wait_message ri epfd maxevents timeout) mr rmr h k m"
  shows "\<exists>ri' h'. req_epoll_wait E J hs epfd (Some dest) maxevents timeout h
      = returns (ret r, Some (take 84 (out_events r) @ drop (min 84 (length (out_events r))) dest), hs\<lparr>tls := Some ri', errno := errno hs\<rparr>, h')
    \<and> linked (hs\<lparr>tls := Some ri', errno := errno hs\<rparr>) ri' mr rmr
    \<and> posts h' = request_post (wait_message ri epfd maxevents timeout) mr # posts h"
proof -
  let ?f = "\<lambda>d. serialize_epoll_wait_dt None (Some d) (Some 0) (Some epfd) (Some maxevents) (Some timeout) (Some [])"
  let ?g = "\<lambda>v hs h. case deserialize_epoll_wait_dt (Some (rtn_data_of hs)) (Some 0) (Some epfd) (Some maxevents)
        (Some timeout) (Some dest) of Inl e \<Rightarrow> faults e | Inr (_, _, _, _, evs) \<Rightarrow> returns (v, evs, hs, h)"
  have k: "raw_kind RDMA_REQ_EPOLL_WAIT" by (simp add: raw_kind_def)
  have m: "ucast (rtn_value m) = ret r" "errno_after m (errno hs) = errno hs"
    using assms(3) reports_raw_simps(1,2) by (auto simp: reports_events_def)
  obtain ri' h' where r: "with_req_data hs ?f (\<lambda>hs. and_then (request E J hs epfd RDMA_REQ_EPOLL_WAIT 0 0 None None h)
        (\<lambda>(v, _, hs, h). ?g v hs h)) = ?g (ret r) (hs\<lparr>tls := Some ri', errno := errno hs\<rparr>) h'"
    "r_rtn ri' = m" "linked (hs\<lparr>tls := Some ri', errno := errno hs\<rparr>) ri' mr rmr"
    "posts h' = request_post (wait_message ri epfd maxevents timeout) mr # posts h"
    using data_request [where f = ?f and g = ?g and J = J, OF assms(1) k serialize_wait_data assms(4) [unfolded wait_message_def]]
    unfolding m wait_message_def by blast
  have "req_epoll_wait E J hs epfd (Some dest) maxevents timeout h = ?g (ret r) (hs\<lparr>tls := Some ri', errno := errno hs\<rparr>) h'"
    using assms(2) r(1) by (simp add: req_epoll_wait_def get_r_info_linked [OF assms(1)])
  then show ?thesis using r(2-4) assms(3) by (auto simp: rtn_data_of_def reports_events_def)
qed

text \<open>C7: \<open>epoll_wait\<close> on a forwarded descriptor, end to end: the SmartNIC's kernel is asked once with the
  descriptor, limit and timeout of the application and one reply is posted. When the kernel reports at
  most 100 events and the reply is delivered, no matter when the adapter reads it, the application gets the kernel's count, the first 84 events
  at the start of its array and the rest of the array unchanged: of more than 84 events the last ones are
  counted but not delivered.\<close>

theorem epoll_wait_end_to_end:
  assumes "linked hs ri mr rmr" and "fd_searchByKey (fd_ht hs) epfd \<noteq> 0"
    and "arrives ES c hS (request_post (wait_message ri epfd maxevents timeout) mr)" and "req_mr c = Some qmr" and "rtn_mr c = Some smr"
    and "h1 = Sys (Sys_epoll_wait epfd maxevents timeout) # polled c qmr hS" and "evs = out_events (ES h1)" and "event_list (ES h1) dest"
  shows "\<exists>m c'. poll_step t ES L fresh (True, s, c, hS)
        = returns (Inr (True, s, c', reply_post ((received c qmr (wait_message ri epfd maxevents timeout))\<lparr>rtn := m\<rparr>) smr # h1))
    \<and> (\<forall>E J h k late. replies E (wait_message ri epfd maxevents timeout) mr rmr h k (fetch late m (rtn c')) \<longrightarrow>
        (\<exists>hs' h'. req_epoll_wait E J hs epfd (Some dest) maxevents timeout h
            = returns (ret (ES h1), Some (take 84 evs @ drop (min 84 (length evs)) dest), hs', h')
          \<and> errno hs' = errno hs \<and> posts h' = request_post (wait_message ri epfd maxevents timeout) mr # posts h))"
proof -
  obtain m c' where m: "poll_step t ES L fresh (True, s, c, hS)
      = returns (Inr (True, s, c', reply_post ((received c qmr (wait_message ri epfd maxevents timeout))\<lparr>rtn := m\<rparr>) smr # h1))"
    "reports_events epfd maxevents timeout dest (ES h1) m" "spent ES m (rtn c')" using epoll_wait_nic [OF assms(3-6,8)] by blast
  have "\<exists>hs' h'. req_epoll_wait E J hs epfd (Some dest) maxevents timeout h
        = returns (ret (ES h1), Some (take 84 evs @ drop (min 84 (length evs)) dest), hs', h')
      \<and> errno hs' = errno hs \<and> posts h' = request_post (wait_message ri epfd maxevents timeout) mr # posts h"
    if "replies E (wait_message ri epfd maxevents timeout) mr rmr h k (fetch late m (rtn c'))" for E J h k late
    using epoll_wait_app [OF assms(1,2) reports_events_fetch [OF m(2,3)] that, of J] assms(7) by auto
  with m(1) show ?thesis by blast
qed

text \<open>The kernel's answer for the witness: one event.\<close>

definition one_event :: resp where "one_event = resp0\<lparr>rv := 1, out_events := [event9]\<rparr>"

theorem epoll_wait_end_to_end_witness:
  "\<exists>m hs' h'. req_epoll_wait (replying m) hook_locals0 host7 7 (Some [event9\<lparr>ev_data := 0\<rparr>, event9]) 2 100 []
    = returns (1, Some [event9, event9], hs', h')"
proof -
  let ?ri = "wait_message r_info0 7 2 100"
  let ?ES = "serving ?ri one_event"
  have v: "?ES (Sys call # h) = one_event" "ret one_event = 1" "out_events one_event = [event9]" for call h
    by (simp_all add: serving_kernel ret_def one_event_def)
  from epoll_wait_end_to_end [where t = 0 and L = "\<lambda>_. locals0" and fresh = "\<lambda>_. client0 RDMA_REQ_SOCKET" and s = server0
      and hS = "[]" and ES = ?ES and dest = "[event9\<lparr>ev_data := 0\<rparr>, event9]", OF host7_facts(2,4) serving_arrives client0_mrs(1,2) refl refl]
  show ?thesis unfolding event_list_def v using replying_replies by fastforce
qed

section \<open>poll\<close>

definition poll_data :: "buf \<Rightarrow> pollfd list \<Rightarrow> u64 \<Rightarrow> c_int \<Rightarrow> buf" where
  "poll_data b ps n timeout = put_array enc_pollfd 8 (put_word (put_word b 0 timeout) 4 n) 12 ps"

definition poll_message :: "r_info \<Rightarrow> pollfd list \<Rightarrow> u64 \<Rightarrow> c_int \<Rightarrow> r_info" where
  "poll_message ri ps n timeout
     = outgoing (carrying ri (poll_data (req_data (r_req ri)) ps n timeout)) (pfd_fd (hd ps)) RDMA_REQ_POLL 0 0"

text \<open>An array of the length that is announced, which fits into a message.\<close>

definition poll_array :: "pollfd list \<Rightarrow> u64 \<Rightarrow> bool" where
  "poll_array ps n \<longleftrightarrow> ps \<noteq> [] \<and> length ps = unat n \<and> 12 + 8 * unat n \<le> BUFFER_SIZE"

definition reports_polled :: "pollfd list \<Rightarrow> u64 \<Rightarrow> c_int \<Rightarrow> resp \<Rightarrow> rtn_msg \<Rightarrow> bool" where
  "reports_polled ps n timeout r m \<longleftrightarrow> reports_raw r m \<and> \<not> negative (ret r)
     \<and> deserialize_poll_pollfd True (Some (rtn_data m)) (Some (Some ps)) (Some n) (Some timeout)
       = Inr (Some (Some (out_pollfds r)), Some n, Some timeout)"

lemma reports_polled_fetch: "reports_polled ps n timeout r m \<Longrightarrow> spent E m m' \<Longrightarrow> reports_polled ps n timeout r (fetch late m m')"
  by (simp add: reports_polled_def reports_raw_success spent_fetch(2))

lemma serialize_poll_data:
  "poll_array ps n \<Longrightarrow>
     serialize_poll_pollfd (Some b) (Some ps) (Some n) (Some timeout) = Inr (Some (poll_data b ps n timeout))"
  using serialize_poll_fits [of ps n] by (simp add: poll_data_def poll_array_def)

lemma poll_nic:
  assumes "arrives ES c hS (request_post (poll_message ri ps n timeout) mr)" and "req_mr c = Some qmr" and "rtn_mr c = Some smr"
    and "h1 = Sys (Sys_poll (Some ps) n timeout) # polled c qmr hS" and "poll_array ps n" and "l_malloc (L (polled c qmr hS))"
    and "length (out_pollfds (ES h1)) = unat n" and "\<not> negative (ret (ES h1))"
  shows "\<exists>m c'. poll_step t ES L fresh (True, s, c, hS)
      = returns (Inr (True, s, c', reply_post ((received c qmr (poll_message ri ps n timeout))\<lparr>rtn := m\<rparr>) smr # h1))
    \<and> reports_polled ps n timeout (ES h1) m \<and> spent ES m (rtn c')"
proof -
  let ?ri = "poll_message ri ps n timeout" and ?b = "poll_data (req_data (r_req ri)) ps n timeout"
  let ?c = "received c qmr ?ri" and ?h = "polled c qmr hS" and ?v = "ret (ES h1)"
  have q: "rdma_req (r_req ?ri) = req_code RDMA_REQ_POLL" "r_req ?ri = (r_req ?ri)\<lparr>req_data := ?b\<rparr>"
    by (simp_all add: poll_message_def outgoing_def carrying_def)
  have a: "length ps = unat n" "12 + 8 * unat n \<le> BUFFER_SIZE" using assms(5) by (simp_all add: poll_array_def)
  have k: "ES (Sys (Sys_poll (Some ps) n timeout) # ?h) = ES h1" by (simp add: assms(4))
  have "?v \<noteq> - 1" using assms(8) by (auto simp: negative_def)
  then obtain m where m: "sock_poll ES (L ?h) (r_req ?ri) (rtn c) ?h = Inr (?v, m, h1)" "reports_polled ps n timeout (ES h1) m"
    using poll_across [where E = ES and h = ?h and q = "r_req ?ri" and m = "rtn c" and ok = True and ?n0.0 = n and ?t0.0 = timeout,
        OF a assms(6) serialize_poll_data [OF assms(5)] k assms(7,8), where b = "req_data (r_req ri)"] q(2) assms(4,8)
    by (auto simp: reports_polled_def reports_raw_def)
  have "rdma_req_event t ES (L ?h) (fresh ?h) s ?c ?h = answer ES s ?c (m, h1)"
    using q(1) m(1) by (simp add: rdma_req_event_def answer_checked_def)
  then show ?thesis using step_answers [OF assms(1-3)] q(1) m(2) by (intro exI [of _ m]) auto
qed

lemma poll_app:
  assumes "linked hs ri mr rmr" and "poll_array ps n" and "fd_searchByKey (fd_ht hs) (pfd_fd (hd ps)) \<noteq> 0"
    and "reports_polled ps n timeout r m" and "replies E (poll_message ri ps n timeout) mr rmr h k m"
  shows "\<exists>ri' h'. req_poll E J hs ps n timeout h
      = returns (ret r, if positive (ret r) then out_pollfds r else ps, hs\<lparr>tls := Some ri', errno := errno hs\<rparr>, h')
    \<and> linked (hs\<lparr>tls := Some ri', errno := errno hs\<rparr>) ri' mr rmr
    \<and> posts h' = request_post (poll_message ri ps n timeout) mr # posts h"
proof -
  obtain p ps' where ps: "ps = p # ps'" using assms(2) by (cases ps) (auto simp: poll_array_def)
  let ?f = "\<lambda>d. serialize_poll_pollfd (Some d) (Some ps) (Some n) (Some timeout)"
  let ?g = "\<lambda>v hs h. if positive v then
        (case deserialize_poll_pollfd True (Some (rtn_data_of hs)) (Some (Some ps)) (Some n) (Some timeout) of
           Inr (Some (Some fds'), _, _) \<Rightarrow> returns (v, fds', hs, h)
         | Inr _ \<Rightarrow> returns (v, ps, hs, h)
         | Inl e \<Rightarrow> faults e)
      else returns (v, ps, hs, h)"
  have k: "raw_kind RDMA_REQ_POLL" by (simp add: raw_kind_def)
  have m: "ucast (rtn_value m) = ret r" "errno_after m (errno hs) = errno hs"
    using assms(4) reports_raw_simps(1,2) by (auto simp: reports_polled_def)
  obtain ri' h' where r: "with_req_data hs ?f (\<lambda>hs. and_then (request E J hs (pfd_fd (hd ps)) RDMA_REQ_POLL 0 0 None None h)
        (\<lambda>(v, _, hs, h). ?g v hs h)) = ?g (ret r) (hs\<lparr>tls := Some ri', errno := errno hs\<rparr>) h'"
    "r_rtn ri' = m" "linked (hs\<lparr>tls := Some ri', errno := errno hs\<rparr>) ri' mr rmr"
    "posts h' = request_post (poll_message ri ps n timeout) mr # posts h"
    using data_request [where f = ?f and g = ?g and J = J, OF assms(1) k serialize_poll_data [OF assms(2)] assms(5) [unfolded poll_message_def]]
    unfolding m poll_message_def by blast
  have "req_poll E J hs ps n timeout h = ?g (ret r) (hs\<lparr>tls := Some ri', errno := errno hs\<rparr>) h'"
    using assms(3) r(1) unfolding ps req_poll_def by (simp add: get_r_info_linked [OF assms(1)])
  then show ?thesis using r(2-4) assms(4) by (auto simp: rtn_data_of_def reports_polled_def)
qed

text \<open>C8: \<open>poll\<close> on an array that fits into a message and whose first descriptor is forwarded, end to end:
  the SmartNIC's kernel is asked once with the application's array and timeout, and one reply is posted;
  when it is delivered, no matter when the adapter reads it, the application gets the kernel's count and, if this is not 0, the array as the
  kernel has left it. All descriptors of the array are taken for descriptors of the SmartNIC.\<close>

theorem poll_end_to_end:
  assumes "linked hs ri mr rmr" and "poll_array ps n" and "fd_searchByKey (fd_ht hs) (pfd_fd (hd ps)) \<noteq> 0"
    and "arrives ES c hS (request_post (poll_message ri ps n timeout) mr)" and "req_mr c = Some qmr" and "rtn_mr c = Some smr"
    and "h1 = Sys (Sys_poll (Some ps) n timeout) # polled c qmr hS" and "l_malloc (L (polled c qmr hS))"
    and "length (out_pollfds (ES h1)) = unat n" and "\<not> negative (ret (ES h1))"
  shows "\<exists>m c'. poll_step t ES L fresh (True, s, c, hS)
        = returns (Inr (True, s, c', reply_post ((received c qmr (poll_message ri ps n timeout))\<lparr>rtn := m\<rparr>) smr # h1))
    \<and> (\<forall>E J h k late. replies E (poll_message ri ps n timeout) mr rmr h k (fetch late m (rtn c')) \<longrightarrow>
        (\<exists>hs' h'. req_poll E J hs ps n timeout h
            = returns (ret (ES h1), if positive (ret (ES h1)) then out_pollfds (ES h1) else ps, hs', h')
          \<and> errno hs' = errno hs \<and> posts h' = request_post (poll_message ri ps n timeout) mr # posts h))"
proof -
  obtain m c' where m: "poll_step t ES L fresh (True, s, c, hS)
      = returns (Inr (True, s, c', reply_post ((received c qmr (poll_message ri ps n timeout))\<lparr>rtn := m\<rparr>) smr # h1))"
    "reports_polled ps n timeout (ES h1) m" "spent ES m (rtn c')" using poll_nic [where L = L and ES = ES, OF assms(4-7,2,8-10)] by blast
  have "\<exists>hs' h'. req_poll E J hs ps n timeout h
        = returns (ret (ES h1), if positive (ret (ES h1)) then out_pollfds (ES h1) else ps, hs', h')
      \<and> errno hs' = errno hs \<and> posts h' = request_post (poll_message ri ps n timeout) mr # posts h"
    if "replies E (poll_message ri ps n timeout) mr rmr h k (fetch late m (rtn c'))" for E J h k late
    using poll_app [OF assms(1-3) reports_polled_fetch [OF m(2,3)] that, of J] by auto
  with m(1) show ?thesis by blast
qed

definition pollfd7 :: "u16 \<Rightarrow> pollfd" where "pollfd7 r = \<lparr>pfd_fd = 7, pfd_events = 1, pfd_revents = r\<rparr>"

theorem poll_end_to_end_witness:
  "\<exists>m hs' h'. req_poll (replying m) hook_locals0 host7 [pollfd7 0] 1 500 [] = returns (1, [pollfd7 1], hs', h')"
proof -
  let ?ri = "poll_message r_info0 [pollfd7 0] 1 500"
  let ?r = "resp0\<lparr>rv := 1, out_pollfds := [pollfd7 1]\<rparr>"
  have v: "serving ?ri ?r (Sys call # h) = ?r" "ret ?r = 1" "out_pollfds ?r = [pollfd7 1]" "pfd_fd (hd [pollfd7 0]) = 7" for call h
    by (simp_all add: serving_kernel ret_def pollfd7_def)
  have p: "positive (1 :: c_int)" "\<not> negative (1 :: c_int)" by (simp_all add: positive_def negative_def)
  have a: "poll_array [pollfd7 0] 1" by (simp add: poll_array_def BUFFER_SIZE_def)
  from poll_end_to_end [where t = 0 and L = "\<lambda>_. locals0" and fresh = "\<lambda>_. client0 RDMA_REQ_SOCKET" and s = server0
      and hS = "[]" and ES = "serving ?ri ?r" and c = "client0 RDMA_REQ_SOCKET"
      and qmr = mr0 and smr = mr0, OF host7_facts(2) a _ serving_arrives _ _ refl]
  show ?thesis unfolding v
    using host7_facts(4) client0_mrs replying_replies p by (fastforce simp: locals0_def)
qed

end
