(* ===== verification/Session.thy ===== *)
theory Session
  imports Waits
begin

text \<open>
  The whole system as one closed program: an application's calls go through the hooks, over a link, into the
  completion loop of the SmartNIC and its kernel, and back. The abstract machine is a kernel that is asked directly
  (\<open>direct\<close>), and what the programs make of its answers on the way back (\<open>remote\<close>); the detailed one is the two programs joined by a link that takes and delivers every message once and
  in order for as long as there is a receive for it (\<open>host_env\<close>, \<open>nic_env\<close>). Nothing is assumed of the link: both environments are defined here, and
  only the kernel is a parameter, and the moments at which the adapter reads the bytes of the replies (\<open>late\<close>, see \<open>Fetch\<close>).
\<close>

section \<open>The operations of an application\<close>

datatype (plugins only: code size) sock_op =
    Op_socket
  | Op_bind c_int sockaddr u32
  | Op_listen c_int c_int
  | Op_accept c_int
  | Op_connect c_int sockaddr u32
  | Op_close c_int
  | Op_send c_int "byte list" c_int
  | Op_write c_int "byte list"
  | Op_read c_int "byte list"
  | Op_recv c_int "byte list" c_int
  | Op_epoll_create1 c_int
  | Op_epoll_ctl c_int c_int c_int epoll_event
  | Op_epoll_wait c_int "epoll_event list" c_int c_int
  | Op_poll "pollfd list" u64 c_int

text \<open>What the application sees of a call.\<close>

datatype (plugins only: code size) outcome = Value c_int | Count i64 | Bytes i64 "byte list" | Events c_int "epoll_event list option"
  | Polled c_int "pollfd list"

fun perform :: "env \<Rightarrow> hook_locals \<Rightarrow> sock_op \<Rightarrow> host \<Rightarrow> trace \<Rightarrow> (outcome \<times> host \<times> trace) run" where
  "perform E J Op_socket hs h = and_then (req_sock E J hs h) (\<lambda>(v, st). returns (Value v, st))"
| "perform E J (Op_bind fd a n) hs h = and_then (req_bind E J hs fd a n h) (\<lambda>(v, st). returns (Value v, st))"
| "perform E J (Op_listen fd n) hs h = and_then (req_listen E J hs fd n h) (\<lambda>(v, st). returns (Value v, st))"
| "perform E J (Op_accept fd) hs h = and_then (req_accept E J hs fd h) (\<lambda>(v, st). returns (Value v, st))"
| "perform E J (Op_connect fd a n) hs h = and_then (req_connect E J hs fd a n h) (\<lambda>(v, st). returns (Value v, st))"
| "perform E J (Op_close fd) hs h = and_then (req_close E J hs fd h) (\<lambda>(v, st). returns (Value v, st))"
| "perform E J (Op_send fd bs n) hs h = and_then (req_send E J hs fd bs n h) (\<lambda>(v, st). returns (Count v, st))"
| "perform E J (Op_write fd bs) hs h = and_then (req_write E J hs fd bs h) (\<lambda>(v, st). returns (Count v, st))"
| "perform E J (Op_read fd bs) hs h = and_then (req_read E J hs fd bs h) (\<lambda>(v, b, st). returns (Bytes v b, st))"
| "perform E J (Op_recv fd bs n) hs h = and_then (req_recv E J hs fd bs n h) (\<lambda>(v, b, st). returns (Bytes v b, st))"
| "perform E J (Op_epoll_create1 n) hs h = and_then (req_epoll_create1 E J hs n h) (\<lambda>(v, st). returns (Value v, st))"
| "perform E J (Op_epoll_ctl ep n fd ev) hs h = and_then (req_epoll_ctl E J hs ep n fd (Some ev) h) (\<lambda>(v, st). returns (Value v, st))"
| "perform E J (Op_epoll_wait ep d n t) hs h = and_then (req_epoll_wait E J hs ep (Some d) n t h) (\<lambda>(v, b, st). returns (Events v b, st))"
| "perform E J (Op_poll ps n t) hs h = and_then (req_poll E J hs ps n t h) (\<lambda>(v, b, st). returns (Polled v b, st))"

fun perform_all :: "env \<Rightarrow> hook_locals \<Rightarrow> sock_op list \<Rightarrow> host \<Rightarrow> trace \<Rightarrow> (outcome list \<times> host \<times> trace) run" where
  "perform_all E J [] hs h = returns ([], hs, h)"
| "perform_all E J (x # xs) hs h =
     and_then (perform E J x hs h) (\<lambda>(v, hs, h).
       and_then (perform_all E J xs hs h) (\<lambda>(vs, hs, h). returns (v # vs, hs, h)))"

section \<open>The abstract machine: a kernel that is asked directly\<close>

text \<open>A kernel answers the calls made so far, newest first. Its state as the application sees it: the calls
  made, the table of descriptors and \<open>errno\<close>.\<close>

type_synonym kernel = "sys_call list \<Rightarrow> resp"
type_synonym view = "FDHashTable \<times> u32"

text \<open>The call an operation makes; \<open>L\<close> supplies the padding of the addresses the SmartNIC makes up.\<close>

fun kernel_call :: "locals \<Rightarrow> sock_op \<Rightarrow> sys_call" where
  "kernel_call L Op_socket = Sys_socket (ucast AF_INET) SOCK_STREAM 0"
| "kernel_call L (Op_bind fd a n) = Sys_bind fd (in_address L 8080 INADDR_ANY) 16"
| "kernel_call L (Op_listen fd n) = Sys_listen fd 1024"
| "kernel_call L (Op_accept fd) = Sys_accept fd (in_address L 0 INADDR_ANY) 16"
| "kernel_call L (Op_connect fd a n) = Sys_connect fd (in_address L (port_of a) (inet_addr DEFAULT_RDMA_SERVER_IP)) 16"
| "kernel_call L (Op_close fd) = Sys_close fd"
| "kernel_call L (Op_send fd bs n) = Sys_send fd bs 0"
| "kernel_call L (Op_write fd bs) = Sys_send fd bs 0"
| "kernel_call L (Op_read fd bs) = Sys_read fd (word_of_nat (length bs))"
| "kernel_call L (Op_recv fd bs n) = Sys_read fd (word_of_nat (length bs))"
| "kernel_call L (Op_epoll_create1 n) = Sys_epoll_create1 n"
| "kernel_call L (Op_epoll_ctl ep n fd ev) = Sys_epoll_ctl ep n fd ev"
| "kernel_call L (Op_epoll_wait ep d n t) = Sys_epoll_wait ep n t"
| "kernel_call L (Op_poll ps n t) = Sys_poll (Some ps) n t"

text \<open>\<open>epoll_ctl\<close> probes its descriptors first.\<close>

fun probes :: "sock_op \<Rightarrow> sys_call list" where
  "probes (Op_epoll_ctl ep n fd ev) = [Sys_fcntl fd F_GETFD None, Sys_fcntl ep F_GETFD None]"
| "probes x = []"

definition asked :: "locals \<Rightarrow> sock_op \<Rightarrow> sys_call list \<Rightarrow> sys_call list" where
  "asked L x ks = kernel_call L x # probes x @ ks"

definition enter :: "FDHashTable \<Rightarrow> c_int \<Rightarrow> c_int \<Rightarrow> FDHashTable" where
  "enter ht fd t = snd (fd_insertByValue True ht fd t)"

definition int_errno :: "resp \<Rightarrow> u32 \<Rightarrow> u32" where
  "int_errno r e = (if ret r = - 1 then err r else e)"

definition size_errno :: "resp \<Rightarrow> u32 \<Rightarrow> u32" where
  "size_errno r e = (if negative (rv r) then err r else e)"

definition filled :: "resp \<Rightarrow> byte list \<Rightarrow> outcome" where
  "filled r bs = Bytes (scast (ret r)) (out_bytes r @ drop (length (out_bytes r)) bs)"

text \<open>What the answer \<open>r\<close> means to the thread \<open>t\<close>, if it asks the kernel itself. The table is part of the hooks: a new descriptor is
  entered and a closed one is taken out.\<close>

fun effect :: "c_int \<Rightarrow> sock_op \<Rightarrow> resp \<Rightarrow> view \<Rightarrow> outcome \<times> view" where
  "effect t Op_socket r (ht, e) =
     (if 2 < sint (ret r) then (Value (ret r), enter ht (ret r) t, e) else (Value (- 1), ht, int_errno r e))"
| "effect t (Op_bind fd a n) r (ht, e) = (Value (ret r), ht, int_errno r e)"
| "effect t (Op_listen fd n) r (ht, e) = (Value (ret r), ht, int_errno r e)"
| "effect t (Op_accept fd) r (ht, e) = (Value (ret r), if positive (ret r) then enter ht (ret r) t else ht, int_errno r e)"
| "effect t (Op_connect fd a n) r (ht, e) = (Value (ret r), ht, int_errno r e)"
| "effect t (Op_close fd) r (ht, e) = (Value (ret r), fd_deleteByKey ht fd, int_errno r e)"
| "effect t (Op_send fd bs n) r (ht, e) = (Count (scast (ret r)), ht, size_errno r e)"
| "effect t (Op_write fd bs) r (ht, e) = (Count (scast (ret r)), ht, size_errno r e)"
| "effect t (Op_read fd bs) r (ht, e) = (filled r bs, ht, size_errno r e)"
| "effect t (Op_recv fd bs n) r (ht, e) = (filled r bs, ht, size_errno r e)"
| "effect t (Op_epoll_create1 n) r (ht, e) = (Value (ret r), if positive (ret r) then enter ht (ret r) t else ht, int_errno r e)"
| "effect t (Op_epoll_ctl ep n fd ev) r (ht, e) = (Value (ret r), ht, int_errno r e)"
| "effect t (Op_epoll_wait ep d n tm) r (ht, e) = (Events (ret r) (Some (out_events r @ drop (length (out_events r)) d)), ht, e)"
| "effect t (Op_poll ps n tm) r (ht, e) = (Polled (ret r) (if positive (ret r) then out_pollfds r else ps), ht, e)"

text \<open>One operation and a list of them, asked directly.\<close>

definition direct :: "kernel \<Rightarrow> locals \<Rightarrow> c_int \<Rightarrow> sock_op \<Rightarrow> sys_call list \<times> view \<Rightarrow> outcome \<times> sys_call list \<times> view" where
  "direct K L t x st = (case st of (ks, w) \<Rightarrow>
     let ks = asked L x ks; (v, w) = effect t x (K ks) w in (v, ks, w))"

fun direct_all :: "kernel \<Rightarrow> locals \<Rightarrow> c_int \<Rightarrow> sock_op list \<Rightarrow> sys_call list \<times> view \<Rightarrow> outcome list \<times> sys_call list \<times> view" where
  "direct_all K L t [] st = ([], st)"
| "direct_all K L t (x # xs) st = (case direct K L t x st of (v, st) \<Rightarrow> (case direct_all K L t xs st of (vs, st) \<Rightarrow> (v # vs, st)))"

text \<open>The two things the programs change. What the adapter reads late it reads from a reply buffer that has been cleared in part: all of the error
  number, the value of a write and the first eight bytes of a read. And \<open>connect\<close> enters the descriptor a second time and returns 1.\<close>

definition told_size :: "(nat \<Rightarrow> bool) \<Rightarrow> resp \<Rightarrow> resp" where
  "told_size late r = r\<lparr>err := torn late 0 (err r), rv := torn late 4 (rv r)\<rparr>"

fun told :: "(nat \<Rightarrow> bool) \<Rightarrow> sock_op \<Rightarrow> resp \<Rightarrow> resp" where
  "told late (Op_send fd bs n) r = told_size late r"
| "told late (Op_write fd bs) r = told_size late r"
| "told late (Op_read fd bs) r = told_bytes late r"
| "told late (Op_recv fd bs n) r = told_bytes late r"
| "told late x r = told_errno late r"

fun distort :: "sock_op \<Rightarrow> outcome \<times> view \<Rightarrow> outcome \<times> view" where
  "distort (Op_connect fd a n) (v, ht, e) = (Value 1, enter ht fd (searchByKey_fd ht fd), e)"
| "distort x w = w"

definition remote ::
    "kernel \<Rightarrow> locals \<Rightarrow> c_int \<Rightarrow> (nat \<Rightarrow> bool) \<Rightarrow> sock_op \<Rightarrow> sys_call list \<times> view \<Rightarrow> outcome \<times> sys_call list \<times> view" where
  "remote K L t late x st = (case st of (ks, w) \<Rightarrow>
     let ks = asked L x ks; (v, w) = distort x (effect t x (told late x (K ks)) w) in (v, ks, w))"

text \<open>\<open>late n\<close> is for the reply to the request with the number \<open>n\<close>.\<close>

fun remote_all ::
    "kernel \<Rightarrow> locals \<Rightarrow> c_int \<Rightarrow> (nat \<Rightarrow> nat \<Rightarrow> bool) \<Rightarrow> sock_op list \<Rightarrow> sys_call list \<times> view \<Rightarrow> outcome list \<times> sys_call list \<times> view" where
  "remote_all K L t late [] st = ([], st)"
| "remote_all K L t late (x # xs) st = (case remote K L t (late 0) x st of (v, st) \<Rightarrow>
     (case remote_all K L t (\<lambda>n. late (Suc n)) xs st of (vs, st) \<Rightarrow> (v # vs, st)))"

text \<open>When an operation is forwarded: the descriptor is found, and the data fit into one message. The
  functions that use \<open>searchByKey_fd\<close> and those that use \<open>fd_searchByKey\<close> are told apart as in the source.\<close>

fun known_op :: "sock_op \<Rightarrow> FDHashTable \<Rightarrow> bool" where
  "known_op Op_socket ht = True"
| "known_op (Op_bind fd a n) ht = (fd_searchByKey ht fd \<noteq> 0)"
| "known_op (Op_listen fd n) ht = (fd_searchByKey ht fd \<noteq> 0)"
| "known_op (Op_accept fd) ht = (fd_searchByKey ht fd \<noteq> 0)"
| "known_op (Op_connect fd a n) ht = (searchByKey_fd ht fd \<noteq> 0)"
| "known_op (Op_close fd) ht = (searchByKey_fd ht fd \<noteq> 0)"
| "known_op (Op_send fd bs n) ht = (searchByKey_fd ht fd \<noteq> 0 \<and> length bs + 12 < BUFFER_SIZE)"
| "known_op (Op_write fd bs) ht = (fd_searchByKey ht fd \<noteq> 0 \<and> length bs + 12 < BUFFER_SIZE)"
| "known_op (Op_read fd bs) ht = (searchByKey_fd ht fd \<noteq> 0 \<and> length bs + 12 < BUFFER_SIZE)"
| "known_op (Op_recv fd bs n) ht = (searchByKey_fd ht fd \<noteq> 0 \<and> length bs + 12 < BUFFER_SIZE)"
| "known_op (Op_epoll_create1 n) ht = True"
| "known_op (Op_epoll_ctl ep n fd ev) ht = (fd_searchByKey ht ep \<noteq> 0)"
| "known_op (Op_epoll_wait ep d n t) ht = (fd_searchByKey ht ep \<noteq> 0)"
| "known_op (Op_poll ps n t) ht = (poll_array ps n \<and> fd_searchByKey ht (pfd_fd (hd ps)) \<noteq> 0)"

text \<open>What a kernel may answer: an \<open>int\<close> call fails with -1 only, a read delivers as many bytes as it says and at
  most as many as it was asked for, \<open>epoll_wait\<close> as many events as it says and at most as many as a message and the
  application's array hold, and \<open>poll\<close> leaves an array of the same length. The failure of the last two is left
  out: what the application then finds in its array is left over from earlier replies.\<close>

fun fits :: "sock_op \<Rightarrow> resp \<Rightarrow> bool" where
  "fits (Op_send fd bs n) r = True"
| "fits (Op_write fd bs) r = True"
| "fits (Op_read fd bs) r = fills r (length bs)"
| "fits (Op_recv fd bs n) r = fills r (length bs)"
| "fits (Op_epoll_wait ep d n t) r = (event_list r d \<and> length (out_events r) \<le> 84)"
| "fits (Op_poll ps n t) r = (length (out_pollfds r) = unat n \<and> \<not> negative (ret r))"
| "fits x r = (negative (ret r) \<longrightarrow> ret r = - 1)"

fun admissible :: "kernel \<Rightarrow> locals \<Rightarrow> c_int \<Rightarrow> (nat \<Rightarrow> nat \<Rightarrow> bool) \<Rightarrow> sock_op list \<Rightarrow> sys_call list \<times> view \<Rightarrow> bool" where
  "admissible K L t late [] st = True"
| "admissible K L t late (x # xs) st = (case st of (ks, ht, e) \<Rightarrow>
     known_op x ht \<and> fits x (K (asked L x ks)) \<and> admissible K L t (\<lambda>n. late (Suc n)) xs (snd (remote K L t (late 0) x st)))"

section \<open>The link\<close>

text \<open>The kernel calls of a trace, and the requests it has sent, oldest first, with
  their immediate data.\<close>

fun sys_calls :: "trace \<Rightarrow> sys_call list" where
  "sys_calls [] = []"
| "sys_calls (Sys c # h) = c # sys_calls h"
| "sys_calls (_ # h) = sys_calls h"

fun requests :: "trace \<Rightarrow> (req_msg \<times> u32) list" where
  "requests [] = []"
| "requests (Verb (Ibv_post_send _ w _ (Payload_req q)) # h) = requests h @ [(q, sw_imm_data w)]"
| "requests (_ # h) = requests h"

definition completion :: "wc_opcode \<Rightarrow> u32 \<Rightarrow> resp" where
  "completion opcode imm = resp0\<lparr>rv := 1, out_wcs := [\<lparr>wc_status = 0, wc_op = opcode,
     wc_with_imm = (opcode = IBV_WC_RECV_RDMA_WITH_IMM), wc_imm_data = imm\<rparr>]\<rparr>"

definition failed :: "c_int \<Rightarrow> resp" where
  "failed w = (completion IBV_WC_OTHER 0)\<lparr>out_wcs := [\<lparr>wc_status = w, wc_op = IBV_WC_OTHER, wc_with_imm = False, wc_imm_data = 0\<rparr>]\<rparr>"

definition IBV_WC_RETRY_EXC_ERR :: c_int where "IBV_WC_RETRY_EXC_ERR = 12"
definition IBV_WC_RNR_RETRY_EXC_ERR :: c_int where "IBV_WC_RNR_RETRY_EXC_ERR = 13"

text \<open>The posts at the front of a trace, and the polls.\<close>

fun posts_made :: "trace \<Rightarrow> nat" where
  "posts_made (Verb (Ibv_post_send _ _ _ _) # h) = Suc (posts_made h)"
| "posts_made _ = 0"

fun polls_made :: "trace \<Rightarrow> nat" where
  "polls_made (Verb (Ibv_poll_cq _ _) # h) = Suc (polls_made h)"
| "polls_made _ = 0"

text \<open>The SmartNIC's surroundings when the requests \<open>qs\<close> have been sent: after a notification its queue holds the
  next request, after a reply the completions of its posts, and otherwise nothing. The host has posted one receive for the request, so the first of these posts succeeds.
  Another one finds no receive, and as neither side asks for retries (\<open>rnr_retry_count\<close> is 0) it fails.\<close>

definition nic_queue :: "(req_msg \<times> u32) list \<Rightarrow> trace \<Rightarrow> resp" where
  "nic_queue qs h =
     (case h of Verb (Ibv_req_notify_cq _) # h \<Rightarrow>
        (case drop (receives h) qs of [] \<Rightarrow> resp0
         | (q, imm) # _ \<Rightarrow> (completion IBV_WC_RECV_RDMA_WITH_IMM imm)\<lparr>out_req := Some q\<rparr>)
      | _ \<Rightarrow>
        (let n = polls_made h in
         if posts_made (drop n h) \<le> n then resp0
         else if n = 0 then completion IBV_WC_OTHER 0 else failed IBV_WC_RNR_RETRY_EXC_ERR))"

definition nic_env :: "kernel \<Rightarrow> (req_msg \<times> u32) list \<Rightarrow> env" where
  "nic_env K qs h =
     (case h of Sys c # h \<Rightarrow> K (c # sys_calls h) | Verb (Ibv_poll_cq _ _) # h \<Rightarrow> nic_queue qs h | _ \<Rightarrow> resp0)"

text \<open>\<open>n\<close> turns of the completion loop; a loop that has ended (\<open>Inl\<close>) makes no further turn.\<close>

fun turns :: "nat \<Rightarrow> thread \<Rightarrow> env \<Rightarrow> (trace \<Rightarrow> locals) \<Rightarrow> (trace \<Rightarrow> s_client) \<Rightarrow> poll_state \<Rightarrow> (poll_result + poll_state) run" where
  "turns 0 t E L fresh st = returns (Inr st)"
| "turns (Suc n) t E L fresh st =
     and_then (poll_step t E L fresh st) (\<lambda>x. case x of Inl r \<Rightarrow> returns (Inl r) | Inr st \<Rightarrow> turns n t E L fresh st)"

text \<open>The SmartNIC after it has served the requests \<open>qs\<close>. A request takes four turns: the notification, the
  request, the completion of the reply, and the empty queue.\<close>

definition nic_after ::
    "kernel \<Rightarrow> thread \<Rightarrow> locals \<Rightarrow> (trace \<Rightarrow> s_client) \<Rightarrow> server \<Rightarrow> s_client \<Rightarrow> (req_msg \<times> u32) list \<Rightarrow> (poll_result + poll_state) run" where
  "nic_after K t L fresh s c qs = turns (4 * length qs) t (nic_env K qs) (\<lambda>_. L) fresh (False, s, c, [])"

text \<open>The replies a trace has posted, oldest first.\<close>

fun reply_list :: "trace \<Rightarrow> rtn_msg list" where
  "reply_list [] = []"
| "reply_list (Verb (Ibv_post_send _ _ _ (Payload_rtn m)) # h) = reply_list h @ [m]"
| "reply_list (_ # h) = reply_list h"

text \<open>The connection and the trace of a loop that goes on or has ended.\<close>

definition left :: "poll_result + poll_state \<Rightarrow> s_client \<times> trace" where
  "left x = (case x of Inl (_, _, c, h) \<Rightarrow> (c, h) | Inr (_, _, c, h) \<Rightarrow> (c, h))"

text \<open>The host's surroundings: after a notification its queue holds the completion of its own write and then that
  of a reply, read when \<open>late\<close> says so. Every reply takes one posted receive, and \<open>set_req_sock\<close> posts one before each request, so the \<open>n\<close>-th request is
  followed by the first copy of the \<open>n\<close>-th reply. When the loop of the SmartNIC has ended before, because a copy failed there, the connection is broken, and it is the host's own
  write that fails.\<close>

definition host_queue :: "(nat \<Rightarrow> nat \<Rightarrow> bool) \<Rightarrow> ((req_msg \<times> u32) list \<Rightarrow> (poll_result + poll_state) run) \<Rightarrow> trace \<Rightarrow> resp" where
  "host_queue late N h =
     (case h of Verb (Ibv_poll_cq _ _) # h \<Rightarrow>
        (let n = length (requests h) - 1 in case N (requests h) of
           Some (Inr x) \<Rightarrow>
             (case left x of (c, hS) \<Rightarrow>
                case drop n (reply_list hS) of [] \<Rightarrow> resp0
                | m # _ \<Rightarrow> (completion IBV_WC_RECV_RDMA_WITH_IMM 0)\<lparr>out_rtn := Some (fetch (late n) m (rtn c))\<rparr>)
         | _ \<Rightarrow> resp0)
      | _ \<Rightarrow>
        (case N (butlast (requests h)) of Some (Inr (Inl _)) \<Rightarrow> failed IBV_WC_RETRY_EXC_ERR
         | _ \<Rightarrow> completion IBV_WC_OTHER 0))"

definition host_env :: "(nat \<Rightarrow> nat \<Rightarrow> bool) \<Rightarrow> ((req_msg \<times> u32) list \<Rightarrow> (poll_result + poll_state) run) \<Rightarrow> env" where
  "host_env late N h = (case h of Verb (Ibv_poll_cq _ _) # h \<Rightarrow> host_queue late N h | _ \<Rightarrow> resp0)"

text \<open>The system: the application's operations over the hooks, with everything else behind them.\<close>

definition system ::
    "kernel \<Rightarrow> thread \<Rightarrow> locals \<Rightarrow> (trace \<Rightarrow> s_client) \<Rightarrow> server \<Rightarrow> s_client \<Rightarrow> hook_locals \<Rightarrow> (nat \<Rightarrow> nat \<Rightarrow> bool) \<Rightarrow> sock_op list \<Rightarrow> host
      \<Rightarrow> (outcome list \<times> host \<times> trace) run" where
  "system K t L fresh s c J late xs hs = perform_all (host_env late (nic_after K t L fresh s c)) J xs hs []"

end
