(* ===== verification/Session_Props.thy ===== *)
theory Session_Props
  imports Session
begin

text \<open>
  The system of \<open>Session\<close> does what the abstract machine does. The contract of one operation is the locale
  \<open>remote_op\<close>: what the SmartNIC makes of its message and what the application makes of the reply; it is interpreted for every
  operation, and a run is put together from it by induction.
\<close>

section \<open>The link delivers\<close>

lemma turns_add: "turns m t E L fresh st = returns (Inr st') \<Longrightarrow> turns (m + n) t E L fresh st = turns n t E L fresh st'"
  by (induction m arbitrary: st) (auto elim!: and_then_returnsE split: sum.splits)

lemma turns_round:
  assumes "poll_step t E L fresh st = returns (Inr st1)" and "poll_step t E L fresh st1 = returns (Inr st2)"
  shows "turns 4 t E L fresh st = turns 2 t E L fresh st2"
proof -
  have "4 = Suc (Suc 2)" by simp
  then show ?thesis by (simp only: turns.simps(2) assms and_then_simps sum.case)
qed

lemma sys_calls_append [simp]: "sys_calls (h1 @ h2) = sys_calls h1 @ sys_calls h2"
  by (induction h1 rule: sys_calls.induct) simp_all

lemma map_Sys_trace [simp]: "sys_calls (map Sys ks) = ks" "receives (map Sys ks @ h) = receives h" "reply_list (map Sys ks @ h) = reply_list h"
  by (induction ks) simp_all

lemma requests_posts: "requests (posts h) = requests h"
  by (induction h rule: requests.induct) (simp_all add: posts_def)

lemma requests_request_post:
  "posts h' = request_post ri mr # posts h \<Longrightarrow> requests h' = requests h @ [(r_req ri, htonl (r_sockfd ri))]"
  using requests_posts [of h'] requests_posts [of h] by (simp add: request_post_def request_wr_def)

lemma completion_simps [simp]:
  "ret (completion opcode imm) = 1" "ret ((completion opcode imm)\<lparr>out_req := q\<rparr>) = 1" "ret ((completion opcode imm)\<lparr>out_rtn := m\<rparr>) = 1"
  "out_req (completion opcode imm) = None" "out_rtn (completion opcode imm) = None"
  "out_wcs (completion opcode imm) = [\<lparr>wc_status = 0, wc_op = opcode, wc_with_imm = (opcode = IBV_WC_RECV_RDMA_WITH_IMM), wc_imm_data = imm\<rparr>]"
  by (simp_all add: completion_def ret_def resp0_def)

lemma failed_simps [simp]: "ret (failed w) = 1" "out_req (failed w) = None" "out_rtn (failed w) = None"
  "out_wcs (failed w) = [\<lparr>wc_status = w, wc_op = IBV_WC_OTHER, wc_with_imm = False, wc_imm_data = 0\<rparr>]"
  by (simp_all add: failed_def ret_def completion_def resp0_def)

lemma one_positive [simp]: "positive (1 :: c_int)" by (simp add: positive_def)

lemmas link_defs = nic_env_def nic_queue_def host_env_def host_queue_def

text \<open>The notification, and the two turns after a reply.\<close>

lemma turn_notified:
  "poll_step t (nic_env K qs) L fresh (False, s, c, h) = returns (Inr (True, s, c\<lparr>cq := 0\<rparr>,
     Verb (Ibv_req_notify_cq 0) # Verb (Ibv_ack_cq_events 0 1) # Verb (Ibv_get_cq_event (io_completion_channel c)) # h))"
  by (simp add: poll_step_def ext_def Let_def link_defs)

lemma turns_after_reply:
  "turns 2 t (nic_env K qs) L fresh (True, s, c, reply_post c1 mr # h)
     = returns (Inr (False, s, c, Verb (Ibv_poll_cq (cq c) 1) # Verb (Ibv_poll_cq (cq c) 1) # reply_post c1 mr # h))"
  if "posts_made h = 0"
  using that by (simp add: numeral_2_eq_2 poll_step_def ext_def Let_def reply_post_def link_defs)

lemma nic_env_arrives:
  "drop (receives h) qs = (r_req ri, htonl (r_sockfd ri)) # qs' \<Longrightarrow>
     arrives (nic_env K qs) c (Verb (Ibv_req_notify_cq k) # h) (request_post ri mr)"
  by (simp add: arrives_def request_post_def request_wr_def link_defs)

text \<open>The host gets the reply whose turn it is.\<close>

lemma nic_env_accepts: "posts_accepted (nic_env K qs)"
  by (simp add: posts_accepted_def nic_env_def)

lemma host_env_replies:
  assumes "N (requests h @ [(r_req ri, htonl (r_sockfd ri))]) = returns (Inr (p, s, c, hS))"
    and "drop (length (requests h)) (reply_list hS) = m # ms" and "N (requests h) = returns (Inr st)"
  shows "replies (host_env late N) ri mr rmr h 1 (fetch (late (length (requests h))) m (rtn c))"
  using assms
  by (simp add: replies_def exchange_def reply_after_def other_completion_def reply_completion_def polls_def
      request_post_def request_wr_def returns_def Let_def numeral_2_eq_2 link_defs left_def)

section \<open>One operation\<close>

text \<open>The contract of an operation that crosses the link: the SmartNIC turns its message into one kernel call and one
  reply that reports the answer, or \<open>told\<close> what is left of it when it is read late, and the application makes of that reply what it would make of that answer.\<close>

definition unlocked :: "server \<Rightarrow> bool" where
  "unlocked s \<longleftrightarrow> lock (sock_ht s) = Unlocked"

locale remote_op =
  fixes known :: "FDHashTable \<Rightarrow> bool" and message :: "r_info \<Rightarrow> r_info" and kcall :: "locals \<Rightarrow> sys_call" and before :: "sys_call list"
    and ok :: "resp \<Rightarrow> bool" and told :: "(nat \<Rightarrow> bool) \<Rightarrow> resp \<Rightarrow> resp" and reporting :: "resp \<Rightarrow> rtn_msg \<Rightarrow> bool"
    and hook :: "env \<Rightarrow> hook_locals \<Rightarrow> host \<Rightarrow> trace \<Rightarrow> (outcome \<times> host \<times> trace) run"
    and meaning :: "c_int \<Rightarrow> resp \<Rightarrow> view \<Rightarrow> outcome \<times> view"
  assumes nic_turn: "arrives ES c h (request_post (message ri) mr) \<Longrightarrow> req_mr c = Some qmr \<Longrightarrow> rtn_mr c = Some smr \<Longrightarrow>
      h1 = Sys (kcall L) # map Sys before @ polled c qmr h \<Longrightarrow> ok (ES h1) \<Longrightarrow> known ht \<Longrightarrow> l_malloc L \<Longrightarrow> unlocked s \<Longrightarrow>
      posts_accepted ES \<Longrightarrow>
      \<exists>s' c' c1. poll_step t ES (\<lambda>_. L) fresh (True, s, c, h) = returns (Inr (True, s', c', reply_post c1 smr # h1))
        \<and> unlocked s' \<and> (\<forall>late. reporting (told late (ES h1)) (fetch late (rtn c1) (rtn c')))"
    and ok_told: "ok r \<Longrightarrow> ok (told late r)"
    and app_turn: "known (fd_ht hs) \<Longrightarrow> linked hs ri mr rmr \<Longrightarrow> j_node J \<Longrightarrow> ok r \<Longrightarrow> reporting r m \<Longrightarrow>
      replies E (message ri) mr rmr h k m \<Longrightarrow>
      \<exists>v hs' h' ri'. hook E J hs h = returns (v, hs', h') \<and> (v, fd_ht hs', errno hs') = meaning (tid hs) r (fd_ht hs, errno hs)
        \<and> tid hs' = tid hs \<and> linked hs' ri' mr rmr \<and> posts h' = request_post (message ri) mr # posts h"
begin

text \<open>The four turns the SmartNIC makes for it.\<close>

lemma nic_round:
  assumes "drop (receives h) qs = (r_req (message ri), htonl (r_sockfd (message ri))) # qs'"
    and "req_mr c = Some qmr" and "rtn_mr c = Some smr" and "ks = kcall L # before @ sys_calls h" and "ok (K ks)" and "known ht"
    and "l_malloc L" and "unlocked s"
  shows "\<exists>m s' c' h'. turns 4 t (nic_env K qs) (\<lambda>_. L) fresh (False, s, c, h) = returns (Inr (False, s', c', h')) \<and> unlocked s'
    \<and> conn c' = conn c \<and> receives h' = Suc (receives h) \<and> sys_calls h' = ks \<and> reply_list h' = reply_list h @ [m]
    \<and> (\<forall>late. reporting (told late (K ks)) (fetch late m (rtn c')))"
proof -
  let ?E = "nic_env K qs" and ?c = "c\<lparr>cq := 0\<rparr>" and ?ri = "message ri"
  let ?h = "Verb (Ibv_req_notify_cq 0) # Verb (Ibv_ack_cq_events 0 1) # Verb (Ibv_get_cq_event (io_completion_channel c)) # h"
  let ?h1 = "Sys (kcall L) # map Sys before @ polled ?c qmr ?h"
  have r: "?E ?h1 = K ks" by (simp add: nic_env_def polled_def assms(4))
  have a: "arrives ?E ?c ?h (request_post ?ri mr)" for mr using assms(1) by (intro nic_env_arrives) simp
  have mrs: "req_mr ?c = Some qmr" "rtn_mr ?c = Some smr" using assms(2,3) by simp_all
  obtain s' c' c1 where m: "poll_step t ?E (\<lambda>_. L) fresh (True, s, ?c, ?h) = returns (Inr (True, s', c', reply_post c1 smr # ?h1))"
      "unlocked s'" "\<forall>late. reporting (told late (K ks)) (fetch late (rtn c1) (rtn c'))"
    using nic_turn [of ?E ?c ?h ri _ qmr smr ?h1 L ht s t fresh, OF a mrs refl _ assms(6-8) nic_env_accepts, unfolded r, OF assms(5)] by blast
  have c': "conn c' = conn c" using poll_step_conn [OF m(1), of smr] assms(3) by simp
  have "turns 4 t ?E (\<lambda>_. L) fresh (False, s, c, h) = turns 2 t ?E (\<lambda>_. L) fresh (True, s', c', reply_post c1 smr # ?h1)"
    by (rule turns_round [OF turn_notified m(1)])
  moreover have "posts_made ?h1 = 0" by simp
  ultimately have "turns 4 t ?E (\<lambda>_. L) fresh (False, s, c, h) = returns (Inr (False, s', c',
      Verb (Ibv_poll_cq (cq c') 1) # Verb (Ibv_poll_cq (cq c') 1) # reply_post c1 smr # ?h1))"
    by (simp only: turns_after_reply)
  then show ?thesis by (intro exI conjI, assumption)
      (use m(2,3) c' assms(4) in \<open>simp_all add: polled_def reply_post_def\<close>)
qed

end

text \<open>A reply that reports an \<open>int\<close>, as the host reads it.\<close>

definition reports_int :: "resp \<Rightarrow> rtn_msg \<Rightarrow> bool" where
  "reports_int r m \<longleftrightarrow> plain_result m = (if negative (ret r) then - 1 else ret r)
     \<and> (\<forall>e. (ret r = - 1 \<longrightarrow> errno_after m e = err r) \<and> (\<not> negative (ret r) \<longrightarrow> errno_after m e = e))"

definition minus_one :: "resp \<Rightarrow> bool" where
  "minus_one r \<longleftrightarrow> (negative (ret r) \<longrightarrow> ret r = - 1)"

lemma reports_int_simps:
  assumes "reports_int r m" and "minus_one r"
  shows "plain_result m = ret r" "errno_after m e = int_errno r e"
proof -
  have n: "negative (- 1 :: c_int)" by (simp add: negative_def)
  show "plain_result m = ret r" using assms by (cases "negative (ret r)") (simp_all add: reports_int_def minus_one_def)
  show "errno_after m e = int_errno r e"
    using assms n by (cases "ret r = - 1") (simp_all add: reports_int_def minus_one_def int_errno_def)
qed

lemma reports_raw_errno:
  assumes "reports_raw r m" and "minus_one r"
  shows "errno_after m e = int_errno r e"
proof -
  have n: "negative (- 1 :: c_int)" by (simp add: negative_def)
  show ?thesis
    using assms(2) n reports_raw_simps(2,3) [OF assms(1), of e] by (cases "ret r = - 1") (simp_all add: minus_one_def int_errno_def)
qed

context bridged_call
begin

lemma remote:
  assumes sys: "\<And>L. syscall L = Sys (kcall L)"
    and fin: "\<And>J hs r ri mr rmr e. j_node J \<Longrightarrow> linked hs ri mr rmr \<Longrightarrow> errno hs = int_errno r e \<Longrightarrow>
      case finish J hs (ret r) of (v, hs') \<Rightarrow> (Value v, fd_ht hs', errno hs') = meaning (tid hs) r (fd_ht hs, e)
        \<and> tid hs' = tid hs \<and> linked hs' ri mr rmr"
  shows "remote_op known (\<lambda>ri. outgoing ri fd kind 0 port) kcall [] minus_one told_errno reports_int
    (\<lambda>E J hs h. and_then (hook E J hs h) (\<lambda>(v, st). returns (Value v, st))) meaning"
proof
  fix ES c h ri mr qmr smr h1 L ht s t fresh
  let ?ri = "outgoing ri fd kind 0 port" and ?h = "polled c qmr h"
  assume a: "arrives ES c h (request_post ?ri mr)" "req_mr c = Some qmr" "rtn_mr c = Some smr"
    "h1 = Sys (kcall L) # map Sys [] @ polled c qmr h" "unlocked s" "posts_accepted ES"
  let ?c = "received c qmr ?ri" and ?m = "fst (handler L ES (rtn c) ?h)"
  have "rtn_mr ?c = Some smr" "rdma_req (req ?c) = req_code kind" "sockfd ?c = fd" "req_port (req ?c) = port"
    using a(3) by (simp_all add: outgoing_def)
  from served_once [OF this, of t ES L "fresh ?h" s ?h]
  obtain c' where c': "rdma_req_event t ES L (fresh ?h) s ?c ?h = returns (s, c', reply_post (?c\<lparr>rtn := ?m\<rparr>) smr # syscall L # ?h)"
      "rtn c' = ?m\<lparr>rtn_errno := 0\<rparr>"
    using a(6) by auto
  then have "poll_step t ES (\<lambda>_. L) fresh (True, s, c, h) = returns (Inr (True, s, c', reply_post (?c\<lparr>rtn := ?m\<rparr>) smr # h1))"
    by (simp add: poll_step_arrival [OF a(1,2)] sys a(4))
  moreover have "reports_int (told_errno late (ES h1)) (fetch late (rtn (?c\<lparr>rtn := ?m\<rparr>)) (rtn c'))" for late
    using reply_result [OF refl refl, of "fetch late ?m (rtn c')" late L ES "rtn c" ?h, folded c'(2), OF refl]
    by (simp add: reports_int_def sys a(4))
  ultimately show "\<exists>s' c' c1. poll_step t ES (\<lambda>_. L) fresh (True, s, c, h) = returns (Inr (True, s', c', reply_post c1 smr # h1))
      \<and> unlocked s' \<and> (\<forall>late. reports_int (told_errno late (ES h1)) (fetch late (rtn c1) (rtn c')))"
    using a(5) by blast
next
  show "minus_one (told_errno late r)" if "minus_one r" for r late using that by (simp add: minus_one_def)
next
  fix hs ri mr rmr r m E h k and J :: hook_locals
  let ?ri = "outgoing ri fd kind 0 port"
  assume a: "known (fd_ht hs)" "linked hs ri mr rmr" "j_node J" "minus_one r" "reports_int r m" "replies E ?ri mr rmr h k m"
  obtain ri' h' where
    r: "hook E J hs h = (let (v, hs) = finish J (hs\<lparr>tls := Some ri', errno := int_errno r (errno hs)\<rparr>) (ret r) in returns (v, hs, h'))"
      "linked (hs\<lparr>tls := Some ri', errno := int_errno r (errno hs)\<rparr>) ri' mr rmr"
      "posts h' = request_post ?ri mr # posts h"
    using one_request [OF a(1,2,6), of J] unfolding reports_int_simps [OF a(5,4)] by blast
  show "\<exists>v hs' h' ri'. and_then (hook E J hs h) (\<lambda>(v, st). returns (Value v, st)) = returns (v, hs', h')
      \<and> (v, fd_ht hs', errno hs') = meaning (tid hs) r (fd_ht hs, errno hs)
      \<and> tid hs' = tid hs \<and> linked hs' ri' mr rmr \<and> posts h' = request_post ?ri mr # posts h"
    using r(1,3) fin [OF a(3) r(2), of r "errno hs"]
    by (cases "finish J (hs\<lparr>tls := Some ri', errno := int_errno r (errno hs)\<rparr>) (ret r)") (auto simp: Let_def)
qed

end

text \<open>\<open>socket\<close> is a forwarded call too; it has no descriptor to look up.\<close>

definition finish_socket :: "hook_locals \<Rightarrow> host \<Rightarrow> c_int \<Rightarrow> c_int \<times> host" where
  "finish_socket J hs v =
     (if 2 < sint v then let (ok, hs) = register_fd J hs v (tid hs) in (if ok then v else - 1, hs) else (- 1, hs))"

interpretation socket_call: bridged_call "\<lambda>_. True" req_sock "Orig_socket 0 0 0" 0 RDMA_REQ_SOCKET 0 finish_socket
    "\<lambda>L E m h. snd (sock_socket E m h)" "\<lambda>L. Sys (Sys_socket (ucast AF_INET) SOCK_STREAM 0)"
  by unfold_locales
    (auto simp: req_sock_def get_r_info_linked plain_def finish_socket_def positive_def rdma_req_event_def handler_defs
      split: prod.splits intro!: and_then_cong)

text \<open>Replies to a write and to a read.\<close>

definition reports_size :: "resp \<Rightarrow> rtn_msg \<Rightarrow> bool" where
  "reports_size r m \<longleftrightarrow> rtn_value m = rv r \<and> (negative (rv r) \<longrightarrow> rtn_errno m = err r)"

lemma write_nic_turn:
  assumes "arrives ES c h (request_post (outgoing_write ri fd bs) mr)" and "req_mr c = Some qmr" and "rtn_mr c = Some smr"
    and "length bs + 12 < BUFFER_SIZE"
  shows "\<exists>c' c1. poll_step t ES (\<lambda>_. L) fresh (True, s, c, h)
      = returns (Inr (True, s, c', reply_post c1 smr # Sys (Sys_send fd bs 0) # polled c qmr h))
    \<and> (\<forall>late. reports_size (told_size late (ES (Sys (Sys_send fd bs 0) # polled c qmr h))) (fetch late (rtn c1) (rtn c')))"
proof -
  let ?c = "received c qmr (outgoing_write ri fd bs)" and ?h = "polled c qmr h"
  let ?r = "ES (Sys (Sys_send fd bs 0) # ?h)"
  let ?m = "(rtn c)\<lparr>rtn_value := rv ?r, rtn_errno := (if negative (rv ?r) then err ?r else rtn_errno (rtn c))\<rparr>"
  have q: "rtn_mr ?c = Some smr" "rdma_req (req ?c) = req_code RDMA_REQ_WRITE" "buf_sz (req ?c) = word_of_nat (length bs)"
      "sockfd ?c = fd" "buf_get (req_data (req ?c)) 0 (length bs) = bs" "rtn ?c = rtn c"
    using assms(3) by (simp_all add: outgoing_write_def)
  from write_request_handled [OF q(1-3), of ES ?h ?r t L "fresh ?h" s] assms(4) q(4-6)
  obtain c' where c': "rdma_req_event t ES L (fresh ?h) s ?c ?h
      = returns (s, c', reply_post (?c\<lparr>rtn := ?m\<rparr>) smr # Sys (Sys_send fd bs 0) # ?h)" "rtn_errno (rtn c') = 0" "rtn_value (rtn c') = 0"
    by force
  then have step: "poll_step t ES (\<lambda>_. L) fresh (True, s, c, h)
      = returns (Inr (True, s, c', reply_post (?c\<lparr>rtn := ?m\<rparr>) smr # Sys (Sys_send fd bs 0) # ?h))"
    by (simp only: poll_step_arrival [OF assms(1,2)] and_then_simps prod.case)
  have "reports_size (told_size late ?r) (fetch late (rtn (?c\<lparr>rtn := ?m\<rparr>)) (rtn c'))" for late
    using c'(2,3) by (auto simp: reports_size_def told_size_def torn_def dest: torn_negative64 [unfolded torn_def])
  with step show ?thesis by blast
qed

lemma write_app_turn:
  assumes "linked hs ri mr rmr" and "length bs + 12 < BUFFER_SIZE" and "reports_size r m"
    and "replies E (outgoing_write ri fd bs) mr rmr h k m"
  shows "\<exists>hs' h' ri'. forward_write E J hs fd bs h = returns (scast (ret r), hs', h') \<and> fd_ht hs' = fd_ht hs
    \<and> errno hs' = size_errno r (errno hs) \<and> tid hs' = tid hs \<and> linked hs' ri' mr rmr
    \<and> posts h' = request_post (outgoing_write ri fd bs) mr # posts h"
proof -
  have m: "scast (ucast (rtn_value m) :: c_int) = (scast (ret r) :: i64)" "errno_after m e = size_errno r e" for e
    using assms(3) by (auto simp: reports_size_def ret_def errno_after_def size_errno_def)
  have l: "\<exists>ri''. linked (clear_data (hs\<lparr>tls := Some ri', errno := e\<rparr>)) ri'' mr rmr"
    if "linked (hs\<lparr>tls := Some ri', errno := e\<rparr>) ri' mr rmr" for ri' e
    using that by (simp add: linked_def clear_data_def)
  show ?thesis
    by (rule forward_write_reply [OF assms(1,2,4), of J]) (use l m in \<open>force simp: clear_data_def\<close>)
qed

lemma read_nic_turn:
  assumes "arrives ES c h (request_post (outgoing ri fd RDMA_REQ_READ (word_of_nat n) 0) mr)" and "req_mr c = Some qmr"
    and "rtn_mr c = Some smr" and "n + 12 < BUFFER_SIZE" and "fills (ES (Sys (Sys_read fd (word_of_nat n)) # polled c qmr h)) n"
    and "posts_accepted ES"
  shows "\<exists>c' c1. poll_step t ES (\<lambda>_. L) fresh (True, s, c, h)
      = returns (Inr (True, s, c', reply_post c1 smr # Sys (Sys_read fd (word_of_nat n)) # polled c qmr h))
    \<and> (\<forall>late. reports_bytes (told_bytes late (ES (Sys (Sys_read fd (word_of_nat n)) # polled c qmr h))) (fetch late (rtn c1) (rtn c')))"
proof -
  let ?c = "received c qmr (outgoing ri fd RDMA_REQ_READ (word_of_nat n) 0)" and ?h = "polled c qmr h"
  let ?h1 = "Sys (Sys_read fd (word_of_nat n)) # ?h"
  let ?m = "read_reply (rtn c) (ES ?h1)"
  have q: "rdma_req (req ?c) = req_code RDMA_REQ_READ" "sockfd ?c = fd" "buf_sz (req ?c) = word_of_nat n"
    by (simp_all add: outgoing_def)
  have n: "n \<le> BUFFER_SIZE" using assms(4) by simp
  note reply = sock_read_reply [where E = ES, OF n refl assms(5), of "rtn c"]
  have "rtn_value ?m = word_of_nat (length (out_bytes (ES ?h1))) \<and> length (out_bytes (ES ?h1)) + 12 < BUFFER_SIZE
      \<or> negative (rtn_value ?m)"
    using assms(4,5) by (auto simp: read_reply_def fills_def)
  then obtain v c' where w: "write_msg_to_client ES (?c\<lparr>rtn := ?m\<rparr>) ?h1 = returns (v, c', reply_post (?c\<lparr>rtn := ?m\<rparr>) smr # ?h1)"
    using write_msg_once [of "?c\<lparr>rtn := ?m\<rparr>" smr "length (out_bytes (ES ?h1))" ES ?h1] assms(3) by auto
  have c': "rtn c' = settled (?c\<lparr>rtn := ?m\<rparr>)" by (rule write_msg_settled [OF w _ assms(6), of smr]) (simp add: assms(3))
  from w have "rdma_req_event t ES L (fresh ?h) s ?c ?h = returns (s, c', reply_post (?c\<lparr>rtn := ?m\<rparr>) smr # ?h1)"
    using reply q by (simp add: rdma_req_event_def answer_checked_def answer_def)
  then have step: "poll_step t ES (\<lambda>_. L) fresh (True, s, c, h) = returns (Inr (True, s, c', reply_post (?c\<lparr>rtn := ?m\<rparr>) smr # ?h1))"
    by (simp only: poll_step_arrival [OF assms(1,2)] and_then_simps prod.case)
  have "reports_bytes (told_bytes late (ES ?h1)) (fetch late (rtn (?c\<lparr>rtn := ?m\<rparr>)) (rtn c'))" for late
    unfolding c' by (rule read_reply_reports [OF assms(5) n]) (use q(1) in simp_all)
  with step show ?thesis by blast
qed

lemma read_app_turn:
  assumes "linked hs ri mr rmr" and "length bs \<le> BUFFER_SIZE" and "fills r (length bs)" and "reports_bytes r m"
    and "replies E (outgoing ri fd RDMA_REQ_READ (word_of_nat (length bs)) 0) mr rmr h k m"
  shows "\<exists>hs' h' ri'. request E J hs fd RDMA_REQ_READ (word_of_nat (length bs)) 0 message (Some bs) h
      = returns (ret r, Some (out_bytes r @ drop (length (out_bytes r)) bs), hs', h')
    \<and> fd_ht hs' = fd_ht hs \<and> errno hs' = size_errno r (errno hs) \<and> tid hs' = tid hs \<and> linked hs' ri' mr rmr
    \<and> posts h' = request_post (outgoing ri fd RDMA_REQ_READ (word_of_nat (length bs)) 0) mr # posts h"
proof -
  note finish = finish_read [OF assms(3,2,4)]
  have fill: "fill_request ri fd (req_code RDMA_REQ_READ) (word_of_nat (length bs)) 0 message
      = Inr (outgoing ri fd RDMA_REQ_READ (word_of_nat (length bs)) 0)"
    by (simp add: fill_request_outgoing)
  show ?thesis
    by (rule request_reply [OF assms(1) fill _ _ assms(5) finish, of J]) (auto simp: size_errno_def)
qed

section \<open>Every operation\<close>

text \<open>The message of an operation and what its reply reports.\<close>

fun message :: "sock_op \<Rightarrow> r_info \<Rightarrow> r_info" where
  "message Op_socket ri = outgoing ri 0 RDMA_REQ_SOCKET 0 0"
| "message (Op_bind fd a n) ri = outgoing ri fd RDMA_REQ_BIND 0 8080"
| "message (Op_listen fd n) ri = outgoing ri fd RDMA_REQ_LISTEN 0 0"
| "message (Op_accept fd) ri = outgoing ri fd RDMA_REQ_ACCEPT 0 0"
| "message (Op_connect fd a n) ri = outgoing ri fd RDMA_REQ_CONNECT 0 (port_of a)"
| "message (Op_close fd) ri = outgoing ri fd RDMA_REQ_CLOSE 0 0"
| "message (Op_send fd bs n) ri = outgoing_write ri fd bs"
| "message (Op_write fd bs) ri = outgoing_write ri fd bs"
| "message (Op_read fd bs) ri = outgoing ri fd RDMA_REQ_READ (word_of_nat (length bs)) 0"
| "message (Op_recv fd bs n) ri = outgoing ri fd RDMA_REQ_READ (word_of_nat (length bs)) 0"
| "message (Op_epoll_create1 n) ri = create_message ri n"
| "message (Op_epoll_ctl ep n fd ev) ri = ctl_message ri ep n fd ev"
| "message (Op_epoll_wait ep d n t) ri = wait_message ri ep n t"
| "message (Op_poll ps n t) ri = poll_message ri ps n t"

fun op_reports :: "sock_op \<Rightarrow> resp \<Rightarrow> rtn_msg \<Rightarrow> bool" where
  "op_reports (Op_send fd bs n) = reports_size"
| "op_reports (Op_write fd bs) = reports_size"
| "op_reports (Op_read fd bs) = reports_bytes"
| "op_reports (Op_recv fd bs n) = reports_bytes"
| "op_reports (Op_epoll_create1 n) = reports_raw"
| "op_reports (Op_epoll_ctl ep n fd ev) = reports_raw"
| "op_reports (Op_epoll_wait ep d n t) = reports_events ep n t d"
| "op_reports (Op_poll ps n t) = reports_polled ps n t"
| "op_reports x = reports_int"

definition crosses :: "sock_op \<Rightarrow> bool" where
  "crosses x \<longleftrightarrow> remote_op (known_op x) (message x) (\<lambda>L. kernel_call L x) (probes x) (fits x) (\<lambda>late. told late x) (op_reports x)
     (\<lambda>E J. perform E J x) (\<lambda>t r w. distort x (effect t x r w))"

text \<open>The calls with an \<open>int\<close> result, by what they do with it.\<close>

lemma crosses_int:
  assumes "remote_op k m (\<lambda>L. kernel_call L x) [] minus_one told_errno reports_int g (\<lambda>t r w. distort x (effect t x r w))"
    and "\<And>ht. known_op x ht = k ht" and "\<And>ri. message x ri = m ri" and "\<And>r. fits x r = minus_one r"
    and "op_reports x = reports_int" and "probes x = []" and "\<And>E J hs h. perform E J x hs h = g E J hs h"
    and "\<And>late r. told late x r = told_errno late r"
  shows "crosses x"
proof -
  have "known_op x = k" "message x = m" "fits x = minus_one" "(\<lambda>E J. perform E J x) = g" "(\<lambda>late. told late x) = told_errno"
    using assms(2-4,7,8) by (auto simp: fun_eq_iff)
  then show ?thesis using assms(1,5,6) by (simp add: crosses_def)
qed

lemma registers:
  assumes "j_node J"
  shows "register_fd J hs fd v = (True, hs\<lparr>fd_ht := enter (fd_ht hs) fd v\<rparr>)"
  using register_fd_ok [OF assms, of hs fd v] by (simp add: enter_def)

lemma above_not_failed: "2 < sint (ret r) \<Longrightarrow> int_errno r e = e"
  by (auto simp: int_errno_def)

lemma crosses_plain:
  "crosses Op_socket" "crosses (Op_bind fd a n)" "crosses (Op_listen fd b)" "crosses (Op_accept fd)"
  "crosses (Op_connect fd a n)" "crosses (Op_close fd)"
proof -
  show "crosses Op_socket"
    by (rule crosses_int [OF socket_call.remote])
      (auto simp: minus_one_def finish_socket_def registers linked_table above_not_failed)
  show "crosses (Op_bind fd a n)"
    by (rule crosses_int [OF bind_call.remote [where fd = fd and addr = a and addrlen = n]]) (auto simp: minus_one_def)
  show "crosses (Op_listen fd b)"
    by (rule crosses_int [OF listen_call.remote [where fd = fd and backlog = b]]) (auto simp: minus_one_def)
  show "crosses (Op_accept fd)"
    by (rule crosses_int [OF accept_call.remote [where fd = fd]]) (auto simp: minus_one_def finish_accept_def registers linked_table)
  show "crosses (Op_connect fd a n)"
    by (rule crosses_int [OF connect_call.remote [where fd = fd and addr = a and addrlen = n]]) (auto simp: minus_one_def finish_connect_def registers linked_table)
  show "crosses (Op_close fd)"
    by (rule crosses_int [OF close_call.remote [where fd = fd]]) (auto simp: minus_one_def linked_table)
qed

lemma crosses_writing:
  assumes x: "\<And>ri. message x ri = outgoing_write ri fd bs" "\<And>L. kernel_call L x = Sys_send fd bs 0" "op_reports x = reports_size" "probes x = []"
      "\<And>t r ht e. effect t x r (ht, e) = (Count (scast (ret r)), ht, size_errno r e)"
      "\<And>late r. told late x r = told_size late r" "\<And>w. distort x w = w" "\<And>r. fits x r"
    and fit: "\<And>ht. known_op x ht \<Longrightarrow> length bs + 12 < BUFFER_SIZE"
    and hook: "\<And>E J hs h. known_op x (fd_ht hs) \<Longrightarrow>
      perform E J x hs h = and_then (forward_write E J hs fd bs h) (\<lambda>(v, st). returns (Count v, st))"
  shows "crosses x"
  unfolding crosses_def x(1-4,6,7) [abs_def] list.map append_Nil
proof (unfold_locales, goal_cases)
  case (1 ES c h ri mr qmr smr h1 L ht s t fresh)
  then show ?case using write_nic_turn [OF 1(1-3) fit [OF 1(6)], of t L fresh s] by auto
next
  case 2
  show ?case by (rule x(8))
next
  case (3 hs ri mr rmr J r m E h k)
  then show ?case using write_app_turn [OF 3(2) fit [OF 3(1)] 3(5,6), of J] by (auto simp: hook x(5))
qed

lemma crosses_reading:
  assumes x: "\<And>ri. message x ri = outgoing ri fd RDMA_REQ_READ (word_of_nat (length bs)) 0"
      "\<And>L. kernel_call L x = Sys_read fd (word_of_nat (length bs))" "op_reports x = reports_bytes" "probes x = []"
      "\<And>t r ht e. effect t x r (ht, e) = (filled r bs, ht, size_errno r e)" "\<And>r. fits x r = fills r (length bs)"
      "\<And>late r. told late x r = told_bytes late r" "\<And>w. distort x w = w"
    and fit: "\<And>ht. known_op x ht \<Longrightarrow> length bs + 12 < BUFFER_SIZE"
    and hook: "\<And>E J hs h. known_op x (fd_ht hs) \<Longrightarrow>
      perform E J x hs h = and_then (get_r_info E J hs h) (\<lambda>(_, hs, h).
        and_then (request E J hs fd RDMA_REQ_READ (word_of_nat (length bs)) 0 message1 (Some bs) h)
          (\<lambda>(v, b, hs, h). returns (Bytes (scast v) (the b), hs, h)))"
  shows "crosses x"
  unfolding crosses_def x(1-4,6-8) [abs_def] list.map append_Nil
proof (unfold_locales, goal_cases)
  case (1 ES c h ri mr qmr smr h1 L ht s t fresh)
  then show ?case using read_nic_turn [OF 1(1-3) fit [OF 1(6)], of t L fresh s] by auto
next
  case 2
  then show ?case by simp
next
  case (3 hs ri mr rmr J r m E h k)
  have "length bs \<le> BUFFER_SIZE" using fit [OF 3(1)] by simp
  then show ?case using 3(1) read_app_turn [OF 3(2) _ 3(4-6), of J message1]
    by (auto simp: hook x(5) get_r_info_linked [OF 3(2)] filled_def)
qed

lemma crosses_epoll_create: "crosses (Op_epoll_create1 n)"
  unfolding crosses_def
proof (unfold_locales, goal_cases)
  case (1 ES c h ri mr qmr smr h1 L ht s t fresh)
  then obtain s' c' c1 where "poll_step t ES (\<lambda>_. L) fresh (True, s, c, h) = returns (Inr (True, s', c', reply_post c1 smr # h1))"
      "unlocked s'" "reports_raw (ES h1) (rtn c1)" "spent ES (rtn c1) (rtn c')"
    using epoll_create_nic [of ES c h ri n mr qmr smr h1 "\<lambda>_. L" s t fresh] by (auto simp: unlocked_def)
  then show ?case using 1(9) reports_raw_fetch by (simp only: told.simps op_reports.simps) blast
next
  case 2
  then show ?case by simp
next
  case (3 hs ri mr rmr J r m E h k)
  then have e: "errno_after m (errno hs) = int_errno r (errno hs)" by (intro reports_raw_errno) (simp_all add: minus_one_def)
  obtain ri' h' where "req_epoll_create1 E J hs n h = returns (ret r, if positive (ret r)
        then hs\<lparr>tls := Some ri', errno := int_errno r (errno hs), fd_ht := enter (fd_ht hs) (ret r) (tid hs)\<rparr>
        else hs\<lparr>tls := Some ri', errno := int_errno r (errno hs)\<rparr>, h')"
      "linked (hs\<lparr>tls := Some ri', errno := int_errno r (errno hs)\<rparr>) ri' mr rmr" "posts h' = request_post (create_message ri n) mr # posts h"
    using epoll_create_app [OF 3(2), of r m E n h k J] 3(3,5,6) unfolding e Let_def enter_def [symmetric]
    by (simp only: op_reports.simps message.simps) blast
  then show ?case by (cases "positive (ret r)") (auto simp: linked_table)
qed

lemma crosses_epoll_ctl: "crosses (Op_epoll_ctl ep n fd ev)"
  unfolding crosses_def
proof (unfold_locales, goal_cases)
  case (1 ES c h ri mr qmr smr h1 L ht s t fresh)
  then have "h1 = Sys (Sys_epoll_ctl ep n fd ev) # probes_of ep fd @ polled c qmr h" by (simp add: probes_of_def)
  then obtain m c' where "poll_step t ES (\<lambda>_. L) fresh (True, s, c, h)
      = returns (Inr (True, s, c', reply_post ((received c qmr (ctl_message ri ep n fd ev))\<lparr>rtn := m\<rparr>) smr # h1))" "reports_raw (ES h1) m"
      "spent ES m (rtn c')"
    using epoll_ctl_nic [of ES c h ri ep n fd ev mr qmr smr h1 t "\<lambda>_. L" fresh s] 1(1-3) by auto
  then show ?case using 1(8) reports_raw_fetch [OF _ _ 1(9)] by (intro exI conjI) (assumption, simp_all)
next
  case 2
  then show ?case by simp
next
  case (3 hs ri mr rmr J r m E h k)
  then have "errno_after m (errno hs) = int_errno r (errno hs)" by (intro reports_raw_errno) (simp_all add: minus_one_def)
  then show ?case using epoll_ctl_app [OF 3(2), of ep r m E n fd ev h k J] 3(1,5,6) by auto
qed

text \<open>These two report no failure, so a late error number is the same to them.\<close>

lemma reports_told:
  "reports_events ep n tm d r m \<Longrightarrow> reports_events ep n tm d (told_errno late r) m"
  "reports_polled ps k tm r m \<Longrightarrow> reports_polled ps k tm (told_errno late r) m"
  by (auto simp: reports_events_def reports_polled_def reports_raw_def negative_def)

lemma crosses_epoll_wait: "crosses (Op_epoll_wait ep d n tm)"
  unfolding crosses_def
proof (unfold_locales, goal_cases)
  case (1 ES c h ri mr qmr smr h1 L ht s t fresh)
  then obtain m c' where "poll_step t ES (\<lambda>_. L) fresh (True, s, c, h)
      = returns (Inr (True, s, c', reply_post ((received c qmr (wait_message ri ep n tm))\<lparr>rtn := m\<rparr>) smr # h1))"
      "reports_events ep n tm d (ES h1) m" "spent ES m (rtn c')"
    using epoll_wait_nic [of ES c h ri ep n tm mr qmr smr h1 d t "\<lambda>_. L" fresh s] by auto
  then show ?case using 1(8) reports_events_fetch [THEN reports_told(1)] by (intro exI conjI) (assumption, simp_all)
next
  case 2
  then show ?case by (auto simp: event_list_def)
next
  case (3 hs ri mr rmr J r m E h k)
  then show ?case using epoll_wait_app [OF 3(2), of ep n tm d r m E h k J] by auto
qed

lemma crosses_poll: "crosses (Op_poll ps n tm)"
  unfolding crosses_def
proof (unfold_locales, goal_cases)
  case (1 ES c h ri mr qmr smr h1 L ht s t fresh)
  then obtain m c' where "poll_step t ES (\<lambda>_. L) fresh (True, s, c, h)
      = returns (Inr (True, s, c', reply_post ((received c qmr (poll_message ri ps n tm))\<lparr>rtn := m\<rparr>) smr # h1))"
      "reports_polled ps n tm (ES h1) m" "spent ES m (rtn c')"
    using poll_nic [of ES c h ri ps n tm mr qmr smr h1 "\<lambda>_. L" t fresh s] by auto
  then show ?case using 1(8) reports_polled_fetch [THEN reports_told(2)] by (intro exI conjI) (assumption, simp_all)
next
  case 2
  then show ?case by simp
next
  case (3 hs ri mr rmr J r m E h k)
  then show ?case using poll_app [OF 3(2), of ps n tm r m E h k J] by auto
qed

lemma crosses_all: "crosses x"
proof (cases x)
  case (Op_send fd bs n)
  show ?thesis by (rule crosses_writing [of x fd bs]) (simp_all add: Op_send req_send_def)
next
  case (Op_write fd bs)
  show ?thesis by (rule crosses_writing [of x fd bs]) (simp_all add: Op_write req_write_def)
next
  case (Op_read fd bs)
  show ?thesis
    by (rule crosses_reading [of x fd bs "Some bs"]) (auto simp: Op_read req_read_def and_then_assoc split: prod.splits intro!: and_then_cong)
next
  case (Op_recv fd bs n)
  show ?thesis
    by (rule crosses_reading [of x fd bs None]) (auto simp: Op_recv req_recv_def and_then_assoc split: prod.splits intro!: and_then_cong)
qed (simp_all add: crosses_plain crosses_epoll_create crosses_epoll_ctl crosses_epoll_wait crosses_poll)

interpretation op: remote_op "known_op x" "message x" "\<lambda>L. kernel_call L x" "probes x" "fits x" "\<lambda>late. told late x" "op_reports x"
    "\<lambda>E J. perform E J x" "\<lambda>t r w. distort x (effect t x r w)" for x
  using crosses_all by (simp add: crosses_def)

section \<open>The system is the remote kernel\<close>

text \<open>The SmartNIC has served the requests \<open>qs\<close>, whatever comes after them, and has made the kernel calls \<open>ks\<close>.\<close>

definition in_step ::
    "kernel \<Rightarrow> thread \<Rightarrow> locals \<Rightarrow> (trace \<Rightarrow> s_client) \<Rightarrow> server \<Rightarrow> s_client \<Rightarrow> (req_msg \<times> u32) list \<Rightarrow> sys_call list \<Rightarrow> bool" where
  "in_step K t L fresh s c qs ks \<longleftrightarrow>
     (\<forall>qs'. \<exists>s' c' h. turns (4 * length qs) t (nic_env K (qs @ qs')) (\<lambda>_. L) fresh (False, s, c, []) = returns (Inr (False, s', c', h))
        \<and> unlocked s' \<and> conn c' = conn c \<and> receives h = length qs \<and> length (reply_list h) = length qs \<and> sys_calls h = ks)"

lemma in_step_start: "unlocked s \<Longrightarrow> in_step K t L fresh s c [] []"
  by (simp add: in_step_def)

lemma in_step_served:
  "in_step K t L fresh s c qs ks \<Longrightarrow>
     \<exists>s' c' h. nic_after K t L fresh s c qs = returns (Inr (False, s', c', h)) \<and> unlocked s' \<and> conn c' = conn c \<and> sys_calls h = ks
       \<and> length (reply_list h) = length qs"
  unfolding in_step_def nic_after_def by (drule spec [of _ "[]"]) auto

text \<open>One more request.\<close>

definition serves :: "s_client \<Rightarrow> bool" where
  "serves c \<longleftrightarrow> req_mr c \<noteq> None \<and> rtn_mr c \<noteq> None"

lemma in_step_request:
  assumes "in_step K t L fresh s c qs ks" and "serves c" and "l_malloc L" and "known_op x ht"
    and "fits x (K (asked L x ks))" and "q = (r_req (message x ri), htonl (r_sockfd (message x ri)))"
  shows "\<exists>m s' c' h. turns (4 * length (qs @ [q])) t (nic_env K (qs @ q # qs')) (\<lambda>_. L) fresh (False, s, c, []) = returns (Inr (False, s', c', h))
    \<and> unlocked s' \<and> conn c' = conn c \<and> receives h = length (qs @ [q]) \<and> length (reply_list h) = length (qs @ [q])
    \<and> sys_calls h = asked L x ks \<and> drop (length qs) (reply_list h) = [m] \<and> (\<forall>late. op_reports x (told late x (K (asked L x ks))) (fetch late m (rtn c')))"
proof -
  obtain s1 c1 h1 where 1: "turns (4 * length qs) t (nic_env K (qs @ q # qs')) (\<lambda>_. L) fresh (False, s, c, []) = returns (Inr (False, s1, c1, h1))"
      "conn c1 = conn c" "receives h1 = length qs" "sys_calls h1 = ks" "unlocked s1" "length (reply_list h1) = length qs"
    using assms(1) unfolding in_step_def by blast
  obtain qmr smr where mr: "req_mr c1 = Some qmr" "rtn_mr c1 = Some smr" using 1(2) assms(2) by (auto simp: conn_def serves_def)
  have d: "drop (receives h1) (qs @ q # qs') = (r_req (message x ri), htonl (r_sockfd (message x ri))) # qs'"
    by (simp add: 1(3) assms(6))
  have ks: "asked L x ks = kernel_call L x # probes x @ sys_calls h1" by (simp add: asked_def 1(4))
  obtain m s2 c2 h2 where "turns 4 t (nic_env K (qs @ q # qs')) (\<lambda>_. L) fresh (False, s1, c1, h1) = returns (Inr (False, s2, c2, h2))"
      "unlocked s2" "conn c2 = conn c1" "receives h2 = Suc (receives h1)" "sys_calls h2 = asked L x ks" "reply_list h2 = reply_list h1 @ [m]"
      "\<forall>late. op_reports x (told late x (K (asked L x ks))) (fetch late m (rtn c2))"
    using op.nic_round [where K = K, OF d mr ks assms(5,4,3) 1(5)] by blast
  moreover have "turns (4 * length (qs @ [q])) t (nic_env K (qs @ q # qs')) (\<lambda>_. L) fresh (False, s, c, [])
      = turns 4 t (nic_env K (qs @ q # qs')) (\<lambda>_. L) fresh (False, s1, c1, h1)"
    using turns_add [OF 1(1), of 4] by (simp add: add.commute)
  ultimately show ?thesis using 1(2-4,6) by auto
qed

lemma in_step_grows:
  assumes "in_step K t L fresh s c qs ks" and "serves c" and "l_malloc L" and "known_op x ht"
    and "fits x (K (asked L x ks))" and "q = (r_req (message x ri), htonl (r_sockfd (message x ri)))"
  shows "in_step K t L fresh s c (qs @ [q]) (asked L x ks)"
    "\<exists>m s' c' h. nic_after K t L fresh s c (qs @ [q]) = returns (Inr (False, s', c', h)) \<and> drop (length qs) (reply_list h) = [m]
      \<and> (\<forall>late. op_reports x (told late x (K (asked L x ks))) (fetch late m (rtn c')))"
proof -
  note r = in_step_request [OF assms]
  show "in_step K t L fresh s c (qs @ [q]) (asked L x ks)"
    unfolding in_step_def append_assoc append_Cons append_Nil using r by metis
  show "\<exists>m s' c' h. nic_after K t L fresh s c (qs @ [q]) = returns (Inr (False, s', c', h)) \<and> drop (length qs) (reply_list h) = [m]
      \<and> (\<forall>late. op_reports x (told late x (K (asked L x ks))) (fetch late m (rtn c')))"
    unfolding nic_after_def using r [of "[]"] by metis
qed

lemma perform_step:
  assumes "linked hs ri mr rmr" and "serves c" and "l_malloc L" and "j_node J" and "in_step K t L fresh s c (requests h) ks"
    and "known_op x (fd_ht hs)" and "fits x (K (asked L x ks))"
  shows "\<exists>v hs' h' ri'. perform (host_env late (nic_after K t L fresh s c)) J x hs h = returns (v, hs', h')
    \<and> remote K L (tid hs) (late (length (requests h))) x (ks, fd_ht hs, errno hs) = (v, asked L x ks, fd_ht hs', errno hs') \<and> tid hs' = tid hs
    \<and> linked hs' ri' mr rmr \<and> in_step K t L fresh s c (requests h') (asked L x ks) \<and> length (requests h') = Suc (length (requests h))"
proof -
  let ?E = "host_env late (nic_after K t L fresh s c)" and ?ks = "asked L x ks" and ?l = "late (length (requests h))"
  let ?q = "(r_req (message x ri), htonl (r_sockfd (message x ri)))"
  note grow = in_step_grows [OF assms(5,2,3,6,7) refl, of ri]
  obtain m s' c' hS where m: "nic_after K t L fresh s c (requests h @ [?q]) = returns (Inr (False, s', c', hS))"
      "drop (length (requests h)) (reply_list hS) = [m]" "op_reports x (told ?l x (K ?ks)) (fetch ?l m (rtn c'))" using grow(2) by blast
  obtain st where st: "nic_after K t L fresh s c (requests h) = returns (Inr st)" using in_step_served [OF assms(5)] by blast
  obtain v hs1 h1 ri1 where 1: "perform ?E J x hs h = returns (v, hs1, h1)"
      "(v, fd_ht hs1, errno hs1) = distort x (effect (tid hs) x (told ?l x (K ?ks)) (fd_ht hs, errno hs))" "tid hs1 = tid hs"
      "linked hs1 ri1 mr rmr" "posts h1 = request_post (message x ri) mr # posts h"
    using op.app_turn [OF assms(6,1,4) op.ok_told [OF assms(7), where late = ?l] m(3)
        host_env_replies [where N = "nic_after K t L fresh s c" and late = late, OF m(1,2) st]] by blast
  have "remote K L (tid hs) ?l x (ks, fd_ht hs, errno hs) = (v, ?ks, fd_ht hs1, errno hs1)"
    using 1(2) [symmetric] by (simp add: remote_def Let_def)
  with 1 grow(1) requests_request_post [OF 1(5)] show ?thesis by auto
qed

lemma performs:
  assumes "linked hs ri mr rmr" and "serves c" and "l_malloc L" and "j_node J"
    and "in_step K t L fresh s c (requests h) ks"
    and "admissible K L (tid hs) (\<lambda>n. late (length (requests h) + n)) xs (ks, fd_ht hs, errno hs)"
    and "remote_all K L (tid hs) (\<lambda>n. late (length (requests h) + n)) xs (ks, fd_ht hs, errno hs) = (vs, ks', ht, e)"
  shows "\<exists>hs' h'. perform_all (host_env late (nic_after K t L fresh s c)) J xs hs h = returns (vs, hs', h')
    \<and> fd_ht hs' = ht \<and> errno hs' = e \<and> in_step K t L fresh s c (requests h') ks'"
  using assms(1,5-7)
proof (induction xs arbitrary: hs ri h ks vs)
  case (Cons x xs)
  have ok: "known_op x (fd_ht hs)" "fits x (K (asked L x ks))" using Cons.prems(3) by simp_all
  obtain v hs1 h1 ri1 where 1: "perform (host_env late (nic_after K t L fresh s c)) J x hs h = returns (v, hs1, h1)"
      "remote K L (tid hs) (late (length (requests h))) x (ks, fd_ht hs, errno hs) = (v, asked L x ks, fd_ht hs1, errno hs1)" "tid hs1 = tid hs"
      "linked hs1 ri1 mr rmr" "in_step K t L fresh s c (requests h1) (asked L x ks)" "length (requests h1) = Suc (length (requests h))"
    using perform_step [OF Cons.prems(1) assms(2-4) Cons.prems(2) ok] by blast
  obtain vs1 where vs: "vs = v # vs1"
      "remote_all K L (tid hs1) (\<lambda>n. late (length (requests h1) + n)) xs (asked L x ks, fd_ht hs1, errno hs1) = (vs1, ks', ht, e)"
    using Cons.prems(4) 1(2,3,6) by (auto split: prod.splits)
  have "admissible K L (tid hs1) (\<lambda>n. late (length (requests h1) + n)) xs (asked L x ks, fd_ht hs1, errno hs1)"
    using Cons.prems(3) 1(2,3,6) by simp
  from Cons.IH [OF 1(4,5) this vs(2)] show ?case using 1(1) vs(1) by auto
qed simp

text \<open>The calls the kernel is asked do not depend on the moments of the transfers, and without a \<open>connect\<close> and with replies that are
  read at once the programs change nothing.\<close>

definition is_connect :: "sock_op \<Rightarrow> bool" where
  "is_connect x \<longleftrightarrow> (case x of Op_connect _ _ _ \<Rightarrow> True | _ \<Rightarrow> False)"

lemma remote_asks: "fst (snd (remote K L t late x st)) = asked L x (fst st)"
  by (cases st) (simp add: remote_def Let_def split: prod.splits)

lemma remote_all_asks: "fst (snd (remote_all K L t late xs st)) = fold (asked L) xs (fst st)"
proof (induction xs arbitrary: late st)
  case (Cons x xs)
  obtain v st' where "remote K L t (late 0) x st = (v, st')" by (metis surj_pair)
  with remote_asks [of K L t "late 0" x st] Cons.IH [of "\<lambda>n. late (Suc n)" st'] show ?case by (auto split: prod.splits)
qed simp

lemma told_early: "told (\<lambda>_. False) x r = r"
  by (cases x) (simp_all add: told_size_def told_bytes_def told_errno_def torn_early torn_bytes_early)

lemma remote_direct: "\<not> is_connect x \<Longrightarrow> remote K L t (\<lambda>_. False) x st = direct K L t x st"
  by (cases x) (simp_all add: remote_def direct_def told_early is_connect_def)

lemma remote_all_direct: "\<forall>x \<in> set xs. \<not> is_connect x \<Longrightarrow> remote_all K L t (\<lambda>_ _. False) xs st = direct_all K L t xs st"
  by (induction xs arbitrary: st) (simp_all add: remote_direct split: prod.splits)


text \<open>A kernel with one client, which sends two bytes, and a server that echoes them.\<close>

fun echo_kernel :: kernel where
  "echo_kernel (Sys_socket _ _ _ # _) = resp0\<lparr>rv := 7\<rparr>"
| "echo_kernel (Sys_epoll_create1 _ # _) = resp0\<lparr>rv := 8\<rparr>"
| "echo_kernel (Sys_epoll_wait _ _ _ # _) = resp0\<lparr>rv := 1, out_events := [event9\<lparr>ev_data := 7\<rparr>]\<rparr>"
| "echo_kernel (Sys_accept _ _ _ # _) = resp0\<lparr>rv := 9\<rparr>"
| "echo_kernel (Sys_read _ _ # _) = resp0\<lparr>rv := 2, out_bytes := [104, 105]\<rparr>"
| "echo_kernel (Sys_send _ bs _ # _) = resp0\<lparr>rv := word_of_nat (length bs)\<rparr>"
| "echo_kernel _ = resp0"

definition echo_server :: "sock_op list" where
  "echo_server = [Op_socket, Op_bind 7 (server_sockaddr host0) 16, Op_listen 7 5, Op_epoll_create1 0,
     Op_epoll_ctl 8 1 7 (event9\<lparr>ev_data := 7\<rparr>), Op_epoll_wait 8 [event9, event9] 2 100, Op_accept 7, Op_read 9 [0, 0, 0, 0],
     Op_write 9 [104, 105], Op_close 9, Op_close 7]"

lemma slots_7_8_9: "hashFunction 7 = 973" "hashFunction 8 = 894" "hashFunction 9 = 130"
  by (simp_all add: hashFunction_def MurmurHash3_int HT_SZ_def HT_SEED_def
      murmur_fmix_def murmur_block_def murmur_k1_def murmur_c1_def murmur_c2_def rotl32_def Let_def)

text \<open>A run in which the reply to the read has lost its first byte.\<close>

definition first_byte_late :: "nat \<Rightarrow> nat \<Rightarrow> bool" where
  "first_byte_late n i \<longleftrightarrow> n = 7 \<and> i = 12"


end
