(* ===== verification/Threads.thy ===== *)
theory Threads
  imports Session_Props
begin

text \<open>
  Several threads of the application. Each has its own connection and, on the SmartNIC, its own thread with its own completion
  loop; they share the host's table of descriptors, the globals of the server and the kernel of the SmartNIC. A schedule is a
  list of calls, each by one of the threads. The system of both programs that runs it (\<open>world_run\<close>) is compared to a
  kernel that is asked by all threads (\<open>remote_schedule\<close>).
\<close>

section \<open>The system\<close>

text \<open>\<open>w_nic u\<close> is the SmartNIC's end of the connection of thread \<open>u\<close>, with the place of its loop unless that has ended; \<open>w_calls\<close> are the calls the kernel has been
  asked, newest first.\<close>

record world =
  w_host :: process
  w_server :: server
  w_nic :: "c_int \<Rightarrow> s_client + bool \<times> s_client"
  w_calls :: "sys_call list"

text \<open>The SmartNIC's thread for \<open>u\<close> serves the requests \<open>qs\<close>, unless its loop has ended; the kernel remembers all calls that were made before.\<close>

definition serve ::
    "kernel \<Rightarrow> locals \<Rightarrow> (trace \<Rightarrow> s_client) \<Rightarrow> c_int \<Rightarrow> world \<Rightarrow> (req_msg \<times> u32) list \<Rightarrow> (poll_result + poll_state) run" where
  "serve K L fresh u w qs =
     (case w_nic w u of Inl c \<Rightarrow> returns (Inl (0, w_server w, c, []))
      | Inr (p, c) \<Rightarrow>
          turns (4 * length qs) (unat u) (nic_env (\<lambda>ks. K (ks @ w_calls w)) qs) (\<lambda>_. L) fresh (p, w_server w, c, []))"

text \<open>What the SmartNIC's thread leaves behind.\<close>

definition served_by :: "c_int \<Rightarrow> poll_result + poll_state \<Rightarrow> world \<Rightarrow> world" where
  "served_by u x w =
     (case x of
        Inl (_, s, c, hS) \<Rightarrow> w\<lparr>w_server := s, w_nic := (w_nic w)(u := Inl c), w_calls := sys_calls hS @ w_calls w\<rparr>
      | Inr (p, s, c, hS) \<Rightarrow> w\<lparr>w_server := s, w_nic := (w_nic w)(u := Inr (p, c)), w_calls := sys_calls hS @ w_calls w\<rparr>)"

definition world_call ::
    "kernel \<Rightarrow> locals \<Rightarrow> (trace \<Rightarrow> s_client) \<Rightarrow> hook_locals \<Rightarrow> (nat \<Rightarrow> bool) \<Rightarrow> c_int \<Rightarrow> sock_op \<Rightarrow> world \<Rightarrow> (outcome \<times> world) run" where
  "world_call K L fresh J late u x w =
     and_then (perform (host_env (\<lambda>_. late) (serve K L fresh u w)) J x (view (w_host w) u) [])
       (\<lambda>(v, hs, h). and_then (serve K L fresh u w (requests h)) (\<lambda>y.
          returns (v, served_by u y (w\<lparr>w_host := put (w_host w) u hs\<rparr>))))"

text \<open>\<open>late n\<close> is for the reply of the call with the number \<open>n\<close>.\<close>

fun world_run ::
    "kernel \<Rightarrow> locals \<Rightarrow> (trace \<Rightarrow> s_client) \<Rightarrow> hook_locals \<Rightarrow> (nat \<Rightarrow> nat \<Rightarrow> bool) \<Rightarrow> (c_int \<times> sock_op) list \<Rightarrow> world \<Rightarrow> (outcome list \<times> world) run" where
  "world_run K L fresh J late [] w = returns ([], w)"
| "world_run K L fresh J late ((u, x) # xs) w =
     and_then (world_call K L fresh J (late 0) u x w) (\<lambda>(v, w).
       and_then (world_run K L fresh J (\<lambda>n. late (Suc n)) xs w) (\<lambda>(vs, w). returns (v # vs, w)))"

section \<open>The abstract machine\<close>

text \<open>The threads share the calls made and the table; each has its own \<open>errno\<close>.\<close>

type_synonym shared = "sys_call list \<times> FDHashTable \<times> (c_int \<Rightarrow> u32)"

definition remote_by :: "kernel \<Rightarrow> locals \<Rightarrow> (nat \<Rightarrow> bool) \<Rightarrow> c_int \<Rightarrow> sock_op \<Rightarrow> shared \<Rightarrow> outcome \<times> shared" where
  "remote_by K L late u x st = (case st of (ks, ht, es) \<Rightarrow>
     (case remote K L u late x (ks, ht, es u) of (v, ks, ht, e) \<Rightarrow> (v, ks, ht, es(u := e))))"

fun remote_schedule :: "kernel \<Rightarrow> locals \<Rightarrow> (nat \<Rightarrow> nat \<Rightarrow> bool) \<Rightarrow> (c_int \<times> sock_op) list \<Rightarrow> shared \<Rightarrow> outcome list \<times> shared" where
  "remote_schedule K L late [] st = ([], st)"
| "remote_schedule K L late ((u, x) # xs) st =
     (case remote_by K L (late 0) u x st of (v, st) \<Rightarrow> (case remote_schedule K L (\<lambda>n. late (Suc n)) xs st of (vs, st) \<Rightarrow> (v # vs, st)))"

fun admissible_schedule :: "kernel \<Rightarrow> locals \<Rightarrow> (nat \<Rightarrow> nat \<Rightarrow> bool) \<Rightarrow> (c_int \<times> sock_op) list \<Rightarrow> shared \<Rightarrow> bool" where
  "admissible_schedule K L late [] st = True"
| "admissible_schedule K L late ((u, x) # xs) st = (case st of (ks, ht, es) \<Rightarrow>
     known_op x ht \<and> fits x (K (asked L x ks)) \<and> admissible_schedule K L (\<lambda>n. late (Suc n)) xs (snd (remote_by K L (late 0) u x st)))"

text \<open>The same for threads that ask the kernel themselves.\<close>

definition direct_by :: "kernel \<Rightarrow> locals \<Rightarrow> c_int \<Rightarrow> sock_op \<Rightarrow> shared \<Rightarrow> outcome \<times> shared" where
  "direct_by K L u x st = (case st of (ks, ht, es) \<Rightarrow>
     (case direct K L u x (ks, ht, es u) of (v, ks, ht, e) \<Rightarrow> (v, ks, ht, es(u := e))))"

fun direct_schedule :: "kernel \<Rightarrow> locals \<Rightarrow> (c_int \<times> sock_op) list \<Rightarrow> shared \<Rightarrow> outcome list \<times> shared" where
  "direct_schedule K L [] st = ([], st)"
| "direct_schedule K L ((u, x) # xs) st =
     (case direct_by K L u x st of (v, st) \<Rightarrow> (case direct_schedule K L xs st of (vs, st) \<Rightarrow> (v # vs, st)))"

lemma remote_schedule_direct:
  "\<forall>(u, x) \<in> set xs. \<not> is_connect x \<Longrightarrow> remote_schedule K L (\<lambda>_ _. False) xs st = direct_schedule K L xs st"
  by (induction xs arbitrary: st) (auto simp: remote_by_def direct_by_def remote_direct split: prod.splits)

lemma remote_schedule_asks:
  "fst (snd (remote_schedule K L late xs st)) = fold (\<lambda>(u, x). asked L x) xs (fst st)"
proof (induction xs arbitrary: late st)
  case (Cons y ys)
  obtain u x where y: "y = (u, x)" by (cases y)
  obtain ks ht es where st: "st = (ks, ht, es)" by (metis prod_cases3)
  obtain v ks' ht' e where r: "remote K L u (late 0) x (ks, ht, es u) = (v, ks', ht', e)" by (metis prod_cases4)
  have "ks' = asked L x ks" using remote_asks [of K L u "late 0" x "(ks, ht, es u)"] r by simp
  with r Cons.IH [of "\<lambda>n. late (Suc n)" "(ks', ht', es(u := e))"] show ?case
    by (auto simp: y st remote_by_def split: prod.splits)
qed simp

definition seen :: "world \<Rightarrow> shared" where
  "seen w = (w_calls w, p_fds (w_host w), \<lambda>u. snd (snd (p_threads (w_host w) u)))"

section \<open>One call\<close>

text \<open>A thread is connected: its connection is set up on both sides and its loop waits for a completion.\<close>

definition connected :: "world \<Rightarrow> c_int \<Rightarrow> bool" where
  "connected w u \<longleftrightarrow> (\<exists>ri mr rmr. linked (view (w_host w) u) ri mr rmr) \<and> (\<exists>c. w_nic w u = Inr (False, c) \<and> serves c)"

definition all_connected :: "c_int set \<Rightarrow> world \<Rightarrow> bool" where
  "all_connected U w \<longleftrightarrow> unlocked (w_server w) \<and> (\<forall>u \<in> U. connected w u)"

lemma asked_append: "asked L x [] @ ks = asked L x ks"
  by (simp add: asked_def)

lemma remote_shift:
  assumes "remote (\<lambda>ks'. K (ks' @ ks)) L u late x ([], w) = (v, ks', w')"
  shows "remote K L u late x (ks, w) = (v, ks' @ ks, w')"
  using assms by (auto simp: remote_def asked_append Let_def split: prod.splits)

lemma view_simps [simp]:
  "fd_ht (view p u) = p_fds p" "tid (view p u) = u" "errno (view p u) = snd (snd (p_threads p u))"
  by (simp_all add: view_def split: prod.splits)

lemma linked_put: "linked (view (put p u hs) u') ri mr rmr = (if u' = u then linked hs ri mr rmr else linked (view p u') ri mr rmr)"
  by (simp add: linked_def view_def put_def split: prod.splits)

lemma put_simps [simp]: "p_fds (put p u hs) = fd_ht hs"
  "p_threads (put p u hs) = (p_threads p)(u := (tls hs, tls_freed hs, errno hs))"
  by (simp_all add: put_def)

lemma world_call_step:
  assumes "all_connected U w" and "u \<in> U" and "l_malloc L" and "j_node J"
    and "known_op x (p_fds (w_host w))" and "fits x (K (asked L x (w_calls w)))"
  shows "\<exists>v w'. world_call K L fresh J late u x w = returns (v, w') \<and> all_connected U w' \<and> remote_by K L late u x (seen w) = (v, seen w')"
proof -
  obtain ri mr rmr c where c: "linked (view (w_host w) u) ri mr rmr" "w_nic w u = Inr (False, c)" "serves c"
    using assms(1,2) by (metis all_connected_def connected_def)
  let ?K = "\<lambda>ks. K (ks @ w_calls w)" and ?s = "w_server w" and ?hs = "view (w_host w) u"
  have N: "serve K L fresh u w = nic_after ?K (unat u) L fresh ?s c" by (rule ext) (simp add: serve_def nic_after_def c(2))
  have start: "in_step ?K (unat u) L fresh ?s c (requests []) []"
    using assms(1) in_step_start [of ?s] by (simp add: all_connected_def)
  have ok: "known_op x (fd_ht ?hs)" "fits x (?K (asked L x []))" using assms(5,6) by (simp_all add: asked_append)
  obtain v hs' h' ri' where 1: "perform (host_env (\<lambda>_. late) (nic_after ?K (unat u) L fresh ?s c)) J x ?hs [] = returns (v, hs', h')"
      "remote ?K L u late x ([], fd_ht ?hs, errno ?hs) = (v, asked L x [], fd_ht hs', errno hs')" "linked hs' ri' mr rmr"
      "in_step ?K (unat u) L fresh ?s c (requests h') (asked L x [])" "length (requests h') = 1"
    using perform_step [OF c(1,3) assms(3,4) start ok, where late = "\<lambda>_. late"] by auto
  obtain s' c' hS where 2: "nic_after ?K (unat u) L fresh ?s c (requests h') = returns (Inr (False, s', c', hS))" "unlocked s'" "conn c' = conn c"
      "sys_calls hS = asked L x []"
    using in_step_served [OF 1(4)] by auto
  define w' where "w' = w\<lparr>w_host := put (w_host w) u hs', w_server := s', w_nic := (w_nic w)(u := Inr (False, c')),
      w_calls := asked L x (w_calls w)\<rparr>"
  have "world_call K L fresh J late u x w = returns (v, w')"
    using 1(1) 2(1,4) by (simp add: world_call_def N w'_def served_by_def asked_append)
  moreover have "serves c'" using 2(3) c(3) by (simp add: conn_def serves_def)
  then have "all_connected U w'" using assms(1) 1(3) 2(2) by (auto simp: all_connected_def connected_def w'_def linked_put)
  moreover have "remote_by K L late u x (seen w) = (v, seen w')"
    using remote_shift [OF 1(2)] by (auto simp: remote_by_def seen_def w'_def asked_append)
  ultimately show ?thesis by blast
qed

section \<open>Any schedule\<close>

lemma world_run_steps:
  assumes "l_malloc L" and "j_node J"
  shows "all_connected U w \<Longrightarrow> fst ` set xs \<subseteq> U \<Longrightarrow> admissible_schedule K L late xs (seen w) \<Longrightarrow>
    \<exists>vs w'. world_run K L fresh J late xs w = returns (vs, w') \<and> all_connected U w' \<and> remote_schedule K L late xs (seen w) = (vs, seen w')"
proof (induction xs arbitrary: w late)
  case (Cons y ys)
  obtain u x where y: "y = (u, x)" by (cases y)
  have ok: "u \<in> U" "known_op x (p_fds (w_host w))" "fits x (K (asked L x (w_calls w)))"
    "admissible_schedule K L (\<lambda>n. late (Suc n)) ys (snd (remote_by K L (late 0) u x (seen w)))"
    using Cons.prems(2,3) y by (auto simp: seen_def)
  obtain v w1 where 1: "world_call K L fresh J (late 0) u x w = returns (v, w1)" "all_connected U w1"
      "remote_by K L (late 0) u x (seen w) = (v, seen w1)"
    using world_call_step [where K = K, OF Cons.prems(1) ok(1) assms ok(2,3)] by blast
  with Cons.IH [OF 1(2), of "\<lambda>n. late (Suc n)"] Cons.prems(2) ok(4) obtain vs w' where "world_run K L fresh J (\<lambda>n. late (Suc n)) ys w1 = returns (vs, w')" "all_connected U w'"
      "remote_schedule K L (\<lambda>n. late (Suc n)) ys (seen w1) = (vs, seen w')" by auto
  with 1 y show ?case by simp
qed simp


text \<open>The first thread accepts a connection; the second reads from it and writes to it. Every byte of every reply is read late.\<close>

definition world0 :: world where
  "world0 = \<lparr>w_host = \<lparr>p_fds = createFDHashTable, p_global = None, p_addr = server_sockaddr host0, p_threads = \<lambda>_. (tls host0, False, 0)\<rparr>,
     w_server = server0, w_nic = \<lambda>_. Inr (False, client0 RDMA_REQ_SOCKET), w_calls = []\<rparr>"

definition handover :: "(c_int \<times> sock_op) list" where
  "handover = [(1, Op_socket), (1, Op_bind 7 (server_sockaddr host0) 16), (1, Op_listen 7 5), (1, Op_accept 7), (2, Op_read 9 [9, 9, 9, 9]),
     (1, Op_close 7), (2, Op_write 9 [104, 105]), (2, Op_close 9)]"


end
