(* ===== verification/Large_Read.thy ===== *)
theory Large_Read
  imports Session_Props
begin

text \<open>
  A read with much data: the SmartNIC posts its reply twice, and the host has posted one receive for it. What a second
  \<open>RDMA_WRITE_WITH_IMM\<close> without a receive does is up to the adapters; here is what the two programs do, whatever it is.
\<close>

section \<open>The receives of the host\<close>

lemma receives_simps [simp]:
  "receives (Sys c # h) = receives h" "receives (Verb (Ibv_poll_cq k n) # h) = receives h"
  "receives (Verb (Ibv_post_send q w g p) # h) = receives h" "receives (Verb (Ibv_req_notify_cq k) # h) = receives h"
  "receives (Verb (Ibv_get_cq_event k) # h) = receives h" "receives (Verb (Ibv_ack_cq_events k n) # h) = receives h"
  by simp_all

lemma drain_cq_receives: "drain_cq E n ri h = (ri', h') \<Longrightarrow> receives h' = receives h"
  by (induction n arbitrary: ri h) (auto simp: ext_def split: if_splits)

lemma post_attempts_receives: "post_attempts E k ri h = returns (v, ri', h') \<Longrightarrow> receives h' = receives h"
  by (induction k arbitrary: ri h) (auto simp: ext_def split: if_splits prod.splits dest!: drain_cq_receives)

lemma post_write_req_receives: "post_write_req E ri h = returns (v, ri', h') \<Longrightarrow> receives h' = receives h"
  by (auto simp: post_write_req_def simp del: post_attempts.simps split: option.splits dest: post_attempts_receives)

lemma get_cq_event_receives: "process_rdma_get_cq_event E ri h = (v, ri', h') \<Longrightarrow> receives h' = receives h"
  by (auto simp: process_rdma_get_cq_event_def Let_def ext_def split: if_splits)

lemma wait_step_receives:
  "wait_step E (p, wc, ri, h) = Inl (v, ri', h') \<Longrightarrow> receives h' = receives h"
  "wait_step E (p, wc, ri, h) = Inr (p', wc', ri', h') \<Longrightarrow> receives h' = receives h"
  by (auto simp: wait_step_def Let_def ext_def split: if_splits prod.splits dest: get_cq_event_receives)

lemma wait_loop_receives:
  assumes "wait_loop E st = Some res"
  shows "receives (snd (snd res)) = receives (snd (snd (snd st)))"
proof (induction rule: wait_loop.raw_induct)
  case (1 f E st res)
  obtain p wc ri h where st: "st = (p, wc, ri, h)" by (cases st)
  show ?case
  proof (cases "wait_step E st")
    case (Inl x)
    then show ?thesis using 1(2) st wait_step_receives(1) by (cases x) auto
  next
    case (Inr st')
    then have "receives (snd (snd res)) = receives (snd (snd (snd st')))" using 1(2) by (intro 1(1)) simp
    moreover obtain p' wc' ri' h' where "st' = (p', wc', ri', h')" by (cases st')
    ultimately show ?thesis using Inr st wait_step_receives(2) by simp
  qed
qed (rule assms)

text \<open>A request posts at most one receive.\<close>

lemma set_req_sock_receives:
  assumes "set_req_sock E wc r fd kind n port msg e buf h = returns (v, r', e', buf', h')"
  shows "receives h' \<le> Suc (receives h)"
  using assms
  by (auto simp: set_req_sock_def post_recv_rtn_def ext_def process_poll_cq_imm_def split: if_splits option.splits sum.splits
      elim!: and_then_returnsE dest!: post_write_req_receives wait_loop_receives)

lemma request_receives: "request E J hs fd r n port msg buf h = returns (v, b, hs', h') \<Longrightarrow> receives h' \<le> Suc (receives h)"
  by (auto simp: request_def elim!: and_then_returnsE dest: set_req_sock_receives)

section \<open>The posts of the SmartNIC\<close>

definition completes :: "resp \<Rightarrow> ibv_wc \<Rightarrow> bool" where
  "completes r w \<longleftrightarrow> positive (ret r) \<and> out_wcs r = [w]"

text \<open>Two turns of the completion loop, the second of which finds a failure.\<close>

lemma turns_failure:
  assumes "completes (ES (Verb (Ibv_poll_cq (cq c) 1) # h)) w" and "wc_status w = 0" and "wc_op w \<noteq> IBV_WC_RECV_RDMA_WITH_IMM"
    and "completes (ES (Verb (Ibv_poll_cq (cq c) 1) # Verb (Ibv_poll_cq (cq c) 1) # h)) w'" and "wc_status w' \<noteq> 0"
  shows "\<exists>c'. turns 2 t ES L fresh (True, s, c, h)
    = returns (Inl (- wc_status w', s, c', Verb (Ibv_poll_cq (cq c) 1) # Verb (Ibv_poll_cq (cq c) 1) # h))"
  using assms by (auto simp: numeral_2_eq_2 completes_def poll_step_def ext_def Let_def split: option.splits)

lemma read_posts_twice:
  assumes "ri1 = outgoing ri fd RDMA_REQ_READ (word_of_nat n) 0" and "n \<le> BUFFER_SIZE"
    and "arrives ES c hS (request_post ri1 mr)" and "req_mr c = Some qmr" and "rtn_mr c = Some smr"
    and "ES (Sys (Sys_read fd (word_of_nat n)) # polled c qmr hS) = r" and "fills r n"
    and "BUFFER_SIZE \<le> length (out_bytes r) + 12" and "posts_accepted ES"
  shows "\<exists>c'. poll_step t ES L fresh (True, s, c, hS) = returns (Inr (True, s, c',
      replicate 2 (reply_post ((received c qmr ri1)\<lparr>rtn := read_reply (rtn c) r\<rparr>) smr)
      @ Sys (Sys_read fd (word_of_nat n)) # polled c qmr hS))"
proof -
  let ?h = "polled c qmr hS" and ?c = "(received c qmr ri1)\<lparr>rtn := read_reply (rtn c) r\<rparr>"
  let ?h1 = "Sys (Sys_read fd (word_of_nat n)) # ?h"
  have q: "rdma_req (req ?c) = req_code RDMA_REQ_READ" "sockfd ?c = fd" "buf_sz (req ?c) = word_of_nat n" "rtn_mr ?c = Some smr"
    using assms(5) by (simp_all add: assms(1) outgoing_def)
  have m: "rtn_value (rtn ?c) = word_of_nat (length (out_bytes r))" "length (out_bytes r) \<le> BUFFER_SIZE" "0 < length (out_bytes r)"
    using assms(2,7,8) by (auto simp: read_reply_def fills_def BUFFER_SIZE_def)
  obtain c' where "write_msg_to_client ES ?c ?h1 = returns (0, c', replicate 2 (reply_post ?c smr) @ ?h1)"
    using read_posts [OF q(4,1) m(1,3,2), of ES ?h1] posts_accepted_reply [OF assms(9)] assms(8) by auto
  then have "rdma_req_event t ES (L ?h) (fresh ?h) s (received c qmr ri1) ?h = returns (s, c', replicate 2 (reply_post ?c smr) @ ?h1)"
    using sock_read_reply [where E = ES, OF assms(2,6,7), of "rtn c"] q by (simp add: rdma_req_event_def answer_checked_def answer_def)
  then show ?thesis by (simp add: poll_step_arrival [OF assms(3,4)])
qed

text \<open>C26: A read with much data exceeds the receives of the host. When the kernel delivers at least \<open>BUFFER_SIZE - 12\<close> bytes to a
  read and the queue pair takes the posts, the SmartNIC posts the same whole reply twice. The host, on any network, posts at most one receive in its \<open>read\<close>. If the second post is
  completed with a failure, as the verbs document for a receiver that is not ready, since neither side asks for retries (\<open>rnr_retry_count\<close> is 0),
  the completion loop of this connection ends with that status: no later request of this thread is served.\<close>

theorem large_read_exceeds_receives:
  assumes "linked hs ri mr rmr" and "searchByKey_fd (fd_ht hs) fd \<noteq> 0" and "length bs \<le> BUFFER_SIZE"
    and "ri1 = outgoing ri fd RDMA_REQ_READ (word_of_nat (length bs)) 0"
    and "arrives ES c hS (request_post ri1 mr)" and "req_mr c = Some qmr" and "rtn_mr c = Some smr"
    and "h1 = Sys (Sys_read fd (word_of_nat (length bs))) # polled c qmr hS" and "fills (ES h1) (length bs)"
    and "BUFFER_SIZE \<le> length (out_bytes (ES h1)) + 12" and "posts_accepted ES"
  shows "(\<forall>E J h v b hs' h'. req_read E J hs fd bs h = returns (v, b, hs', h') \<longrightarrow> receives h' \<le> Suc (receives h))
    \<and> (\<exists>c'. let P = reply_post ((received c qmr ri1)\<lparr>rtn := read_reply (rtn c) (ES h1)\<rparr>) smr; p = Verb (Ibv_poll_cq (cq c') 1) in
      poll_step t ES L fresh (True, s, c, hS) = returns (Inr (True, s, c', P # P # h1))
      \<and> (\<forall>w w'. completes (ES (p # P # P # h1)) w \<and> wc_status w = 0 \<and> wc_op w \<noteq> IBV_WC_RECV_RDMA_WITH_IMM
          \<and> completes (ES (p # p # P # P # h1)) w' \<and> wc_status w' \<noteq> 0 \<longrightarrow>
          (\<exists>c''. turns 3 t ES L fresh (True, s, c, hS) = returns (Inl (- wc_status w', s, c'', p # p # P # P # h1)))))"
proof (intro conjI)
  show "\<forall>E J h v b hs' h'. req_read E J hs fd bs h = returns (v, b, hs', h') \<longrightarrow> receives h' \<le> Suc (receives h)"
    using assms(2) by (auto simp: req_read_def get_r_info_linked [OF assms(1)] elim!: and_then_returnsE dest: request_receives split: prod.splits)
  let ?P = "reply_post ((received c qmr ri1)\<lparr>rtn := read_reply (rtn c) (ES h1)\<rparr>) smr"
  obtain c' where c': "poll_step t ES L fresh (True, s, c, hS) = returns (Inr (True, s, c', ?P # ?P # h1))"
    using read_posts_twice [OF assms(4,3,5-7) _ assms(9-11), of t L fresh s] by (auto simp: assms(8) numeral_2_eq_2)
  have "turns 3 t ES L fresh (True, s, c, hS) = turns 2 t ES L fresh (True, s, c', ?P # ?P # h1)"
    using c' by (simp add: numeral_3_eq_3 numeral_2_eq_2)
  then show "\<exists>c'. let P = ?P; p = Verb (Ibv_poll_cq (cq c') 1) in
      poll_step t ES L fresh (True, s, c, hS) = returns (Inr (True, s, c', P # P # h1))
      \<and> (\<forall>w w'. completes (ES (p # P # P # h1)) w \<and> wc_status w = 0 \<and> wc_op w \<noteq> IBV_WC_RECV_RDMA_WITH_IMM
          \<and> completes (ES (p # p # P # P # h1)) w' \<and> wc_status w' \<noteq> 0 \<longrightarrow>
          (\<exists>c''. turns 3 t ES L fresh (True, s, c, hS) = returns (Inl (- wc_status w', s, c'', p # p # P # P # h1))))"
    using c' turns_failure unfolding Let_def by (intro exI [of _ c']) metis
qed

text \<open>A file of \<open>BUFFER_SIZE\<close> bytes, read over the link of \<open>Session\<close>.\<close>

definition whole_file :: resp where
  "whole_file = resp0\<lparr>rv := word_of_nat BUFFER_SIZE, out_bytes := replicate BUFFER_SIZE 1\<rparr>"

theorem large_read_exceeds_receives_witness:
  "\<exists>q c h. turns 3 0 (nic_env (\<lambda>_. whole_file) [q]) (\<lambda>_. locals0) (\<lambda>_. client0 RDMA_REQ_SOCKET)
      (True, server0, client0 RDMA_REQ_SOCKET, [Verb (Ibv_req_notify_cq 0)]) = returns (Inl (- IBV_WC_RNR_RETRY_EXC_ERR, server0, c, h))
    \<and> fst q = (r_req r_info0)\<lparr>rdma_req := req_code RDMA_REQ_READ, buf_sz := word_of_nat BUFFER_SIZE, req_port := 0\<rparr>"
proof -
  let ?c = "client0 RDMA_REQ_SOCKET" and ?bs = "replicate BUFFER_SIZE (0 :: byte)" and ?hS = "[Verb (Ibv_req_notify_cq 0)]"
  define ri1 where "ri1 = outgoing r_info0 7 RDMA_REQ_READ (word_of_nat (length ?bs)) 0"
  define q where "q = (r_req ri1, htonl (r_sockfd ri1))"
  let ?ES = "nic_env (\<lambda>_. whole_file) [q]"
  define h1 where "h1 = Sys (Sys_read 7 (word_of_nat (length ?bs))) # polled ?c mr0 ?hS"
  have l: "length ?bs \<le> BUFFER_SIZE" by simp
  have a: "arrives ?ES ?c ?hS (request_post ri1 mr0)" by (rule nic_env_arrives) (simp add: q_def)
  have w: "?ES h1 = whole_file" by (simp add: h1_def nic_env_def)
  have f: "fills (?ES h1) (length ?bs)" "BUFFER_SIZE \<le> length (out_bytes (?ES h1)) + 12"
    unfolding w by (simp_all add: whole_file_def fills_def)
  note e = conjunct2 [OF large_read_exceeds_receives [where t = 0 and L = "\<lambda>_. locals0" and fresh = "\<lambda>_. ?c" and s = server0,
      OF host7_facts(2,5) l ri1_def a client0_mrs(1,2) h1_def f nic_env_accepts]]
  have "polls_made h1 = 0" "posts_made h1 = 0" by (simp_all add: h1_def)
  with e show ?thesis unfolding Let_def
  proof (elim exE conjE, goal_cases)
    case (1 c')
    define P where "P = reply_post ((received ?c mr0 ri1)\<lparr>rtn := read_reply (rtn ?c) (?ES h1)\<rparr>) mr0"
    have P: "?ES (Verb (Ibv_poll_cq k 1) # P # P # h1) = completion IBV_WC_OTHER 0"
      "?ES (Verb (Ibv_poll_cq k 1) # Verb (Ibv_poll_cq k 1) # P # P # h1) = failed IBV_WC_RNR_RETRY_EXC_ERR" for k
      using 1(1,2) by (simp_all add: P_def reply_post_def link_defs)
    note 1(4) [rule_format, folded P_def, unfolded P completes_def failed_simps completion_simps]
    from this [of "\<lparr>wc_status = 0, wc_op = IBV_WC_OTHER, wc_with_imm = False, wc_imm_data = 0\<rparr>"
      "\<lparr>wc_status = IBV_WC_RNR_RETRY_EXC_ERR, wc_op = IBV_WC_OTHER, wc_with_imm = False, wc_imm_data = 0\<rparr>"]
    show ?thesis by (intro exI [of _ q]) (auto simp: q_def ri1_def outgoing_def IBV_WC_RNR_RETRY_EXC_ERR_def)
  qed
qed

end
