(* ===== verification/Names.thy ===== *)
theory Names
  imports Waits
begin

text \<open>
  \<open>getsockname\<close>, \<open>getpeername\<close> and \<open>fcntl\<close> end to end. Each reaches the SmartNIC, but not as the call the application has
  made: the theorems state what the SmartNIC's kernel is asked and what comes back.
\<close>

section \<open>The host's half\<close>

text \<open>The address a caller passes is sent along.\<close>

definition name_data :: "buf \<Rightarrow> u32 \<Rightarrow> sockaddr \<Rightarrow> buf" where
  "name_data b len a = buf_put (put_word b 0 len) 4 (enc_sockaddr a)"

lemma serialize_name: "serialize_addr_dt (Some b) (Some len) (Some a) = Some (name_data b len a)"
  by (simp add: serialize_addr_dt_def name_data_def)

lemma deserialize_name:
  "snic_deserialize_addr_dt (Some (name_data b len a)) (Some len0) (Some a0) = (Some len, Some a)"
  by (simp add: deserialize_addr_dt_def name_data_def snic_copies buffer_simps)

definition name_message :: "r_info \<Rightarrow> RDMA_REQ_MSG \<Rightarrow> c_int \<Rightarrow> u32 \<Rightarrow> sockaddr \<Rightarrow> r_info" where
  "name_message ri r fd len a = outgoing (carrying ri (name_data (req_data (r_req ri)) len a)) fd r 0 0"

lemma name_message_simps [simp]:
  "rdma_req (r_req (name_message ri r fd len a)) = req_code r" "r_sockfd (name_message ri r fd len a) = fd"
  "req_data (r_req (name_message ri r fd len a)) = name_data (req_data (r_req ri)) len a"
  by (simp_all add: name_message_def outgoing_def carrying_def)

text \<open>A reply that reports an \<open>int\<close>, however late it is read.\<close>

lemma reported:
  assumes "rtn_value m = scast (ret a)" and "negative (ret a) \<Longrightarrow> rtn_errno m = err a"
  shows "plain_result m = (if negative (ret a) then - 1 else ret a)" "negative (ret a) \<Longrightarrow> errno_after m e = err a"
    "\<not> negative (ret a) \<Longrightarrow> errno_after m e = e"
  using assms by (simp_all add: plain_result_def errno_after_def int_reply)

section \<open>getsockname\<close>

lemma getsockname_nic:
  assumes "arrives ES c hS (request_post (name_message ri RDMA_REQ_GETSOCKNAME fd len a) mr)" and "req_mr c = Some qmr" and "rtn_mr c = Some smr"
    and "h1 = Sys (Sys_getsockname fd a len) # polled c qmr hS"
    and "m = (if negative (ret (ES h1)) then (rtn c)\<lparr>rtn_value := scast (ret (ES h1)), rtn_errno := err (ES h1)\<rparr>
         else (rtn c)\<lparr>rtn_value := scast (ret (ES h1)), rtn_data := name_data (rtn_data (rtn c)) (out_len (ES h1)) (out_addr (ES h1))\<rparr>)"
  shows "\<exists>c'. poll_step u ES L fresh (True, s, c, hS)
    = returns (Inr (True, s, c', reply_post ((received c qmr (name_message ri RDMA_REQ_GETSOCKNAME fd len a))\<lparr>rtn := m\<rparr>) smr # h1))
    \<and> spent ES m (rtn c')"
  by (rule step_answers [OF assms(1-3)])
    (simp_all add: rdma_req_event_def sock_getsockname_def deserialize_name ext_def assms(4,5) snic_serialize_addr_dt_def serialize_name Let_def)

text \<open>What the host makes of a name that comes back: its length is taken for its start.\<close>

definition garbled :: "u32 \<Rightarrow> sockaddr \<Rightarrow> sockaddr" where
  "garbled len a = (dec_sockaddr (take 16 (le_bytes 4 len @ enc_sockaddr a)))\<lparr>sin_addr := of_le DEFAULT_RDMA_CLIENT_IP\<rparr>"

lemma getsockname_app:
  assumes "linked hs ri mr rmr" and "fd_searchByKey (fd_ht hs) fd \<noteq> 0"
    and "replies E (name_message ri RDMA_REQ_GETSOCKNAME fd len a) mr rmr h k m"
    and "plain_result m = 0 \<Longrightarrow> rtn_data m = name_data b len' a'"
  shows "\<exists>x n hs' h'. req_getsockname E J hs fd (Some a) (Some len) h = returns (plain_result m, x, n, hs', h')
    \<and> (plain_result m = 0 \<longrightarrow> x = Some (garbled len' a') \<and> n = Some 16) \<and> errno hs' = errno_after m (errno hs)
    \<and> posts h' = request_post (name_message ri RDMA_REQ_GETSOCKNAME fd len a) mr # posts h"
proof -
  let ?f = "\<lambda>d. Inr (serialize_addr_dt (Some d) (Some len) (Some a))"
  let ?g = "\<lambda>v hs h. let (addrlen, addr) = deserialize_addr_dt (Some (rtn_data_of hs)) (Some len) (Some a) in
      if v \<noteq> 0 then returns (v, addr, addrlen, hs, h)
      else if addr = None \<or> addrlen = None then faults Null_deref
      else returns (v, Some ((dec_sockaddr (buf_get (rtn_data_of hs) 0 16))\<lparr>sin_addr := of_le DEFAULT_RDMA_CLIENT_IP\<rparr>), Some 16, hs, h)"
  have k: "RDMA_REQ_GETSOCKNAME \<noteq> RDMA_REQ_WRITE" "plain RDMA_REQ_GETSOCKNAME" by (simp_all add: plain_def)
  have f: "?f (req_data (r_req ri)) = Inr (Some (name_data (req_data (r_req ri)) len a))" by (simp add: serialize_name)
  obtain ri' h' where g: "with_req_data hs ?f (\<lambda>hs. and_then (request E J hs fd RDMA_REQ_GETSOCKNAME 0 0 None None h)
        (\<lambda>(v, _, hs, h). ?g v hs h)) = ?g (plain_result m) (hs\<lparr>tls := Some ri', errno := errno_after m (errno hs)\<rparr>) h'"
    "r_rtn ri' = m" "posts h' = request_post (name_message ri RDMA_REQ_GETSOCKNAME fd len a) mr # posts h"
    using data_request_by [where f = ?f and g = ?g and J = J, OF assms(1) k(1) f assms(3) [unfolded name_message_def] finish_plain [OF k(2)]]
    unfolding name_message_def by blast
  have run: "req_getsockname E J hs fd (Some a) (Some len) h = ?g (plain_result m) (hs\<lparr>tls := Some ri', errno := errno_after m (errno hs)\<rparr>) h'"
    using assms(2) g(1) by (simp add: req_getsockname_def get_r_info_linked [OF assms(1)])
  have "buf_get (name_data b len' a') 0 16 = take 16 (le_bytes 4 len' @ enc_sockaddr a')"
    by (rule nth_equalityI)
      (auto simp: name_data_def buf_get_def buf_put_def put_word_def nth_append enc_sockaddr_def)
  then show ?thesis using run g(2,3) assms(4) by (simp add: deserialize_addr_dt_def rtn_data_of_def garbled_def)
qed

text \<open>C29: \<open>getsockname\<close> on a forwarded descriptor, end to end, if the queue pair takes the reply: the SmartNIC's kernel is asked for the name of that descriptor, one
  reply is posted, and the kernel's 0 or -1 comes back; a failure also sets \<open>errno\<close> to the kernel's, of which every byte that the adapter reads only
  after the post is 0. But the name does not come back: whatever the kernel says, the application gets an
  address whose family is 16 (the length) and whose port is 0, with the configured host address.\<close>

theorem getsockname_end_to_end:
  assumes "linked hs ri mr rmr" and "fd_searchByKey (fd_ht hs) fd \<noteq> 0"
    and "arrives ES c hS (request_post (name_message ri RDMA_REQ_GETSOCKNAME fd len a0) mr)" and "req_mr c = Some qmr" and "rtn_mr c = Some smr"
    and "h1 = Sys (Sys_getsockname fd a0 len) # polled c qmr hS" and "a = ES h1" and "ret a = 0 \<and> out_len a = 16 \<or> ret a = - 1"
    and "posts_accepted ES"
  shows "\<exists>m c'. poll_step u ES L fresh (True, s, c, hS) = returns (Inr (True, s, c',
        reply_post ((received c qmr (name_message ri RDMA_REQ_GETSOCKNAME fd len a0))\<lparr>rtn := m\<rparr>) smr # h1))
    \<and> (\<forall>E J h k late. replies E (name_message ri RDMA_REQ_GETSOCKNAME fd len a0) mr rmr h k (fetch late m (rtn c')) \<longrightarrow>
        (\<exists>x n hs' h'. req_getsockname E J hs fd (Some a0) (Some len) h = returns (ret a, x, n, hs', h')
          \<and> (ret a = 0 \<longrightarrow> n = Some 16 \<and> (\<exists>z. x = Some \<lparr>sin_family = 16, sin_port = 0, sin_addr = of_le DEFAULT_RDMA_CLIENT_IP, sin_zero = z\<rparr>))
          \<and> errno hs' = (if ret a = 0 then errno hs else torn late 0 (err a))
          \<and> posts h' = request_post (name_message ri RDMA_REQ_GETSOCKNAME fd len a0) mr # posts h))"
proof -
  define m where "m = (if negative (ret a) then (rtn c)\<lparr>rtn_value := scast (ret a), rtn_errno := err a\<rparr>
         else (rtn c)\<lparr>rtn_value := scast (ret a), rtn_data := name_data (rtn_data (rtn c)) (out_len a) (out_addr a)\<rparr>)"
  have sixteen: "le_bytes 4 (16 :: u32) = [16, 0, 0, 0]" by (simp add: le_bytes_def upt_rec)
  have n: "negative (- 1 :: c_int)" "\<not> negative (0 :: c_int)" by (simp_all add: negative_def)
  obtain c' where step: "poll_step u ES L fresh (True, s, c, hS) = returns (Inr (True, s, c',
        reply_post ((received c qmr (name_message ri RDMA_REQ_GETSOCKNAME fd len a0))\<lparr>rtn := m\<rparr>) smr # h1))" "spent ES m (rtn c')"
    using getsockname_nic [where L = L and m = m, OF assms(3-6)] unfolding m_def assms(7) by blast
  have "rtn_value (fetch late m (rtn c')) = scast (ret (told_errno late a))"
    "negative (ret (told_errno late a)) \<Longrightarrow> rtn_errno (fetch late m (rtn c')) = err (told_errno late a)" for late
    using spent_fetch(1) [OF step(2)] spent_fetch(3) [OF step(2) assms(9)] by (simp_all add: m_def del: fetch_simps)
  note r = reported [OF this, unfolded told_errno_simps]
  have v: "plain_result (fetch late m (rtn c')) = ret a"
    "errno_after (fetch late m (rtn c')) e = (if ret a = 0 then e else torn late 0 (err a))" for late e
    using assms(8) r(1) [of late] r(2,3) [of late e] n by auto
  have d: "rtn_data (fetch late m (rtn c')) = name_data (rtn_data (rtn c)) 16 (out_addr a)" if "plain_result (fetch late m (rtn c')) = 0" for late
  proof -
    have "ret a = 0" "out_len a = 16" using that assms(8) v(1) [of late] by auto
    then show ?thesis using spent_fetch(2) [OF step(2)] n by (simp add: m_def)
  qed
  have "garbled 16 b = \<lparr>sin_family = 16, sin_port = 0, sin_addr = of_le DEFAULT_RDMA_CLIENT_IP, sin_zero = sin_zero (garbled 16 b)\<rparr>" for b
    by (simp add: garbled_def dec_sockaddr_def sixteen)
  then have z: "\<exists>z. garbled 16 b = \<lparr>sin_family = 16, sin_port = 0, sin_addr = of_le DEFAULT_RDMA_CLIENT_IP, sin_zero = z\<rparr>" for b by blast
  have "\<exists>x n hs' h'. req_getsockname E J hs fd (Some a0) (Some len) h = returns (ret a, x, n, hs', h')
      \<and> (ret a = 0 \<longrightarrow> n = Some 16 \<and> (\<exists>z. x = Some \<lparr>sin_family = 16, sin_port = 0, sin_addr = of_le DEFAULT_RDMA_CLIENT_IP, sin_zero = z\<rparr>))
      \<and> errno hs' = (if ret a = 0 then errno hs else torn late 0 (err a))
      \<and> posts h' = request_post (name_message ri RDMA_REQ_GETSOCKNAME fd len a0) mr # posts h"
    if "replies E (name_message ri RDMA_REQ_GETSOCKNAME fd len a0) mr rmr h k (fetch late m (rtn c'))" for E J h k late
    using getsockname_app [OF assms(1,2) that d, of J] z v by metis
  with step(1) show ?thesis by blast
qed

theorem getsockname_end_to_end_witness:
  "\<exists>m x hs' h' z. req_getsockname (replying m) hook_locals0 host7 7 (Some addr0) (Some 16) [] = returns (0, x, Some 16, hs', h')
    \<and> x = Some \<lparr>sin_family = 16, sin_port = 0, sin_addr = of_le DEFAULT_RDMA_CLIENT_IP, sin_zero = z\<rparr>"
proof -
  let ?ri = "name_message r_info0 RDMA_REQ_GETSOCKNAME 7 16 addr0" and ?r = "resp0\<lparr>out_len := 16, out_addr := addr0\<rparr>"
  have v: "serving ?ri ?r (Sys call # h) = ?r" "ret ?r = 0" "out_len ?r = 16" for call h by (simp_all add: serving_kernel ret_def)
  from getsockname_end_to_end [where u = 0 and L = "\<lambda>_. locals0" and fresh = "\<lambda>_. client0 RDMA_REQ_SOCKET" and s = server0
      and hS = "[]" and ES = "serving ?ri ?r" and c = "client0 RDMA_REQ_SOCKET", OF host7_facts(2,4) serving_arrives client0_mrs(1,2) refl refl _ posts_accepted_serving]
  show ?thesis unfolding v using replying_replies by fastforce
qed

section \<open>getpeername\<close>

text \<open>The first bytes of an address, read as the number of an option.\<close>

definition option_of_name :: "sockaddr \<Rightarrow> c_int" where
  "option_of_name a = of_le (take 4 (enc_sockaddr a))"

lemma buf_get_within:
  assumes "off \<le> off'" and "off' + n \<le> off + length bs"
  shows "buf_get (buf_put b off bs) off' n = take n (drop (off' - off) bs)"
  by (rule nth_equalityI) (use assms in \<open>auto simp: buf_get_def buf_put_def\<close>)

lemma name_as_option:
  "get_word (name_data b len a) 0 = len" "get_word (name_data b len a) 4 = option_of_name a" "get_word (name_data b len a) 8 = sin_addr a"
proof -
  have l: "length (enc_sockaddr a) = 16" by (simp add: enc_sockaddr_def)
  show "get_word (name_data b len a) 0 = len" by (simp add: name_data_def buffer_simps)
  show "get_word (name_data b len a) 4 = option_of_name a"
    using l by (simp add: get_word_def name_data_def buf_get_within option_of_name_def)
  show "get_word (name_data b len a) 8 = sin_addr a"
    using l by (simp add: get_word_def name_data_def buf_get_within) (simp add: enc_sockaddr_def)
qed

lemma getpeername_app:
  assumes "linked hs ri mr rmr" and "fd_searchByKey (fd_ht hs) fd \<noteq> 0"
    and "replies E (name_message ri RDMA_REQ_GETSOCKOPT fd len a) mr rmr h k m"
  shows "\<exists>x n hs' h'. req_getpeername E J hs fd (Some a) (Some len) h = returns (plain_result m, x, n, hs', h')
    \<and> posts h' = request_post (name_message ri RDMA_REQ_GETSOCKOPT fd len a) mr # posts h"
proof -
  let ?f = "\<lambda>d. Inr (serialize_addr_dt (Some d) (Some len) (Some a))"
  let ?g = "\<lambda>v hs h. let (addrlen, addr) = deserialize_addr_dt (Some (rtn_data_of hs)) (Some len) (Some a) in returns (v, addr, addrlen, hs, h)"
  have k: "RDMA_REQ_GETSOCKOPT \<noteq> RDMA_REQ_WRITE" "plain RDMA_REQ_GETSOCKOPT" by (simp_all add: plain_def)
  have f: "?f (req_data (r_req ri)) = Inr (Some (name_data (req_data (r_req ri)) len a))" by (simp add: serialize_name)
  obtain ri' h' where g: "with_req_data hs ?f (\<lambda>hs. and_then (request E J hs fd RDMA_REQ_GETSOCKOPT 0 0 None None h)
        (\<lambda>(v, _, hs, h). ?g v hs h)) = ?g (plain_result m) (hs\<lparr>tls := Some ri', errno := errno_after m (errno hs)\<rparr>) h'"
    "posts h' = request_post (name_message ri RDMA_REQ_GETSOCKOPT fd len a) mr # posts h"
    using data_request_by [where f = ?f and g = ?g and J = J, OF assms(1) k(1) f assms(3) [unfolded name_message_def] finish_plain [OF k(2)]]
    unfolding name_message_def by blast
  have "req_getpeername E J hs fd (Some a) (Some len) h = ?g (plain_result m) (hs\<lparr>tls := Some ri', errno := errno_after m (errno hs)\<rparr>) h'"
    using assms(2) g(1) by (simp add: req_getpeername_def get_r_info_linked [OF assms(1)])
  then show ?thesis using g(2) by (simp add: deserialize_addr_dt_def)
qed

text \<open>C27: \<open>getpeername\<close> on a forwarded descriptor, end to end: the kernel of the SmartNIC is never asked for a name. The request is one for a
  socket option, with the length of the address as its level, the family and port as its name and the host address that happens to be in
  the caller's buffer as its length. If that is larger than a message, the server reads past the end of the message. If it is 0, the kernel is
  asked for that option with a length of 0; when it refuses, the reply carries the result of the call before.\<close>

theorem getpeername_asks_for_option:
  assumes "linked hs ri mr rmr" and "fd_searchByKey (fd_ht hs) fd \<noteq> 0"
    and "arrives ES c hS (request_post (name_message ri RDMA_REQ_GETSOCKOPT fd len a) mr)" and "req_mr c = Some qmr" and "rtn_mr c = Some smr"
    and "l_malloc (L (polled c qmr hS))"
    and "h1 = Sys (Sys_getsockopt fd len (option_of_name a) (l_optval (L (polled c qmr hS))) 0) # polled c qmr hS"
  shows "(\<forall>E J h k m. replies E (name_message ri RDMA_REQ_GETSOCKOPT fd len a) mr rmr h k m \<longrightarrow>
        (\<exists>x n hs' h'. req_getpeername E J hs fd (Some a) (Some len) h = returns (plain_result m, x, n, hs', h')
          \<and> posts h' = request_post (name_message ri RDMA_REQ_GETSOCKOPT fd len a) mr # posts h))
    \<and> (BUFFER_SIZE < 12 + unat (sin_addr a) \<longrightarrow> poll_step u ES L fresh (True, s, c, hS) = faults Out_of_bounds)
    \<and> (sin_addr a = 0 \<and> negative (ret (ES h1)) \<longrightarrow> (\<exists>c'. poll_step u ES L fresh (True, s, c, hS) = returns (Inr (True, s, c',
        reply_post ((received c qmr (name_message ri RDMA_REQ_GETSOCKOPT fd len a))\<lparr>rtn := (rtn c)\<lparr>rtn_errno := err (ES h1)\<rparr>\<rparr>) smr # h1))))"
proof (intro conjI impI)
  let ?h = "polled c qmr hS" and ?c = "received c qmr (name_message ri RDMA_REQ_GETSOCKOPT fd len a)"
  let ?q = "r_req (name_message ri RDMA_REQ_GETSOCKOPT fd len a)"
  show "\<forall>E J h k m. replies E (name_message ri RDMA_REQ_GETSOCKOPT fd len a) mr rmr h k m \<longrightarrow>
        (\<exists>x n hs' h'. req_getpeername E J hs fd (Some a) (Some len) h = returns (plain_result m, x, n, hs', h')
          \<and> posts h' = request_post (name_message ri RDMA_REQ_GETSOCKOPT fd len a) mr # posts h)"
    using getpeername_app [OF assms(1,2)] by blast
  have ev: "rdma_req_event u ES (L ?h) (fresh ?h) s ?c ?h = answer_checked ES s ?c (sock_getsockopt ES (L ?h) ?q (rtn c) fd ?h)"
    by (simp add: rdma_req_event_def)
  show "poll_step u ES L fresh (True, s, c, hS) = faults Out_of_bounds" if "BUFFER_SIZE < 12 + unat (sin_addr a)"
  proof -
    have "0 < sin_addr a" using that by (cases "sin_addr a = 0") (simp_all add: BUFFER_SIZE_def word_gt_0)
    then have "sock_getsockopt ES (L ?h) ?q (rtn c) fd ?h = Inl Out_of_bounds"
      using that assms(6) by (simp add: sock_getsockopt_def snic_copies deserialize_sockopt_dt_def name_as_option)
    then show ?thesis by (simp add: poll_step_arrival [OF assms(3,4)] ev answer_checked_def)
  qed
  show "\<exists>c'. poll_step u ES L fresh (True, s, c, hS) = returns (Inr (True, s, c', reply_post (?c\<lparr>rtn := (rtn c)\<lparr>rtn_errno := err (ES h1)\<rparr>\<rparr>) smr # h1))"
    if "sin_addr a = 0 \<and> negative (ret (ES h1))"
  proof -
    have "sock_getsockopt ES (L ?h) ?q (rtn c) fd ?h = Inr (- 1, (rtn c)\<lparr>rtn_errno := err (ES h1)\<rparr>, h1)"
      using that by (simp add: sock_getsockopt_def snic_copies deserialize_sockopt_dt_def name_as_option ext_def assms(7))
    then have "rdma_req_event u ES (L ?h) (fresh ?h) s ?c ?h = answer ES s ?c ((rtn c)\<lparr>rtn_errno := err (ES h1)\<rparr>, h1)"
      by (simp add: ev answer_checked_def)
    then show ?thesis using step_answers [OF assms(3-5)] by fastforce
  qed
qed

text \<open>The caller's buffer still holds 10.0.10.2 from another call.\<close>

theorem getpeername_asks_for_option_witness:
  "poll_step 0 (serving (name_message r_info0 RDMA_REQ_GETSOCKOPT 7 16 (addr0\<lparr>sin_addr := 34209802\<rparr>)) resp0) (\<lambda>_. locals0)
      (\<lambda>_. client0 RDMA_REQ_SOCKET) (True, server0, client0 RDMA_REQ_SOCKET, []) = faults Out_of_bounds
    \<and> (\<exists>x n hs' h'. req_getpeername (replying rtn0) hook_locals0 host7 7 (Some (addr0\<lparr>sin_addr := 34209802\<rparr>)) (Some 16) []
        = returns (7, x, n, hs', h'))"
proof -
  let ?a = "addr0\<lparr>sin_addr := 34209802\<rparr>"
  let ?ri = "name_message r_info0 RDMA_REQ_GETSOCKOPT 7 16 ?a"
  have l: "l_malloc ((\<lambda>_. locals0) (polled (client0 RDMA_REQ_SOCKET) mr0 []))" by (simp add: locals0_def)
  have v: "plain_result rtn0 = 7" by (simp add: plain_result_def rtn0_def negative_def)
  have b: "BUFFER_SIZE < 12 + unat (sin_addr ?a)" by (simp add: BUFFER_SIZE_def)
  from getpeername_asks_for_option [where u = 0 and fresh = "\<lambda>_. client0 RDMA_REQ_SOCKET" and s = server0
      and ES = "serving ?ri resp0", OF host7_facts(2,4) serving_arrives client0_mrs(1,2) l refl] b v
  show ?thesis using replying_replies by metis
qed

section \<open>fcntl\<close>

text \<open>The argument the hook takes from its caller, and the request it makes of it.\<close>

definition fcntl_value :: "hook_locals \<Rightarrow> c_int \<Rightarrow> byte list option" where
  "fcntl_value J cmd = (if cmd = F_GETLK \<or> cmd = F_SETLK \<or> cmd = F_SETLKW then j_va_ptr J else Some (j_va_int J))"

definition fcntl_data :: "buf \<Rightarrow> c_int \<Rightarrow> byte list \<Rightarrow> buf" where
  "fcntl_data b cmd v = put_word (put_word (if fcntl_arg_len cmd = 0 then b else buf_put b 8 (take (fcntl_arg_len cmd) v)) 0 cmd) 4 (fcntl_flag cmd)"

definition fcntl_message :: "r_info \<Rightarrow> c_int \<Rightarrow> byte list \<Rightarrow> r_info" where
  "fcntl_message ri cmd v = outgoing (carrying ri (fcntl_data (req_data (r_req ri)) cmd v)) (fcntl_flag cmd) RDMA_REQ_FCNTL 0 0"

text \<open>The call that the SmartNIC makes of it: an argument is passed as a pointer to it.\<close>

definition fcntl_call :: "c_int \<Rightarrow> byte list \<Rightarrow> sys_call" where
  "fcntl_call cmd v = Sys_fcntl (fcntl_flag cmd) cmd (if fcntl_flag cmd = 0 then None else Some (Some (take (fcntl_arg_len cmd) v)))"

lemma fcntl_kinds: "fcntl_arg_len cmd = 0 \<and> fcntl_flag cmd = 0 \<or> fcntl_arg_len cmd = 4 \<and> fcntl_flag cmd = 1
    \<or> fcntl_arg_len cmd = sizeof_flock \<and> fcntl_flag cmd = 2"
  by (auto simp: fcntl_arg_len_def fcntl_flag_def sizeof_flock_def)

lemma fcntl_transfer:
  assumes "fcntl_arg_len cmd \<le> length v"
  shows "\<exists>x. snic_deserialize_fcntl_dt True (Some (fcntl_data b cmd v)) (Some f0) (Some c0) None = (Some (fcntl_flag cmd), Some cmd, x)
    \<and> (fcntl_flag cmd \<noteq> 0 \<longrightarrow> x = Some (take (fcntl_arg_len cmd) v))"
  using assms fcntl_kinds [of cmd] by (auto simp: snic_deserialize_fcntl_dt_def fcntl_data_def buffer_simps)

lemma fcntl_nic:
  assumes "arrives ES c hS (request_post (fcntl_message ri cmd v) mr)" and "req_mr c = Some qmr" and "rtn_mr c = Some smr"
    and "l_malloc (L (polled c qmr hS))" and "fcntl_arg_len cmd \<le> length v" and "h1 = Sys (fcntl_call cmd v) # polled c qmr hS"
    and "m = (if negative (ret (ES h1)) then (rtn c)\<lparr>rtn_value := scast (ret (ES h1)), rtn_errno := err (ES h1)\<rparr>
         else (rtn c)\<lparr>rtn_value := scast (ret (ES h1))\<rparr>)"
  shows "\<exists>c'. poll_step u ES L fresh (True, s, c, hS)
    = returns (Inr (True, s, c', reply_post ((received c qmr (fcntl_message ri cmd v))\<lparr>rtn := m\<rparr>) smr # h1)) \<and> spent ES m (rtn c')"
proof -
  let ?ri = "fcntl_message ri cmd v" and ?L = "L (polled c qmr hS)"
  have q: "rdma_req (r_req ?ri) = req_code RDMA_REQ_FCNTL" "req_data (r_req ?ri) = fcntl_data (req_data (r_req ri)) cmd v"
    "r_sockfd ?ri = fcntl_flag cmd" by (simp_all add: fcntl_message_def outgoing_def carrying_def)
  obtain x where x: "snic_deserialize_fcntl_dt True (Some (fcntl_data (req_data (r_req ri)) cmd v)) (Some (l_int ?L)) (Some (l_int ?L)) None
      = (Some (fcntl_flag cmd), Some cmd, x)" "fcntl_flag cmd \<noteq> 0 \<Longrightarrow> x = Some (take (fcntl_arg_len cmd) v)"
    using fcntl_transfer [OF assms(5)] by blast
  have "snd (sock_fcntl ES ?L (r_req ?ri) (rtn c) (fcntl_flag cmd) (polled c qmr hS)) = (m, h1)"
    using assms(4) x by (auto simp: sock_fcntl_def q(2) ext_def assms(6,7) fcntl_call_def Let_def)
  then show ?thesis using q by (intro step_answers [OF assms(1-3)]) (simp_all add: rdma_req_event_def)
qed

lemma fcntl_app:
  assumes "linked hs ri mr rmr" and "fd_searchByKey (fd_ht hs) fd \<noteq> 0" and "fcntl_value J cmd = Some v" and "fcntl_arg_len cmd \<le> length v"
    and "replies E (fcntl_message ri cmd v) mr rmr h k m"
  shows "\<exists>hs' h'. req_fcntl E J hs fd cmd h = returns (plain_result m, hs', h') \<and> errno hs' = errno_after m (errno hs)
    \<and> posts h' = request_post (fcntl_message ri cmd v) mr # posts h"
proof -
  let ?b = "fcntl_data (req_data (r_req ri)) cmd v"
  let ?hs = "hs\<lparr>tls := Some (carrying ri ?b)\<rparr>"
  have l: "linked ?hs (carrying ri ?b) mr rmr" using assms(1) by (simp add: linked_def carrying_def)
  obtain ri' h' where "request E J ?hs (fcntl_flag cmd) RDMA_REQ_FCNTL 0 0 None None h
        = returns (plain_result m, None, ?hs\<lparr>tls := Some ri', errno := errno_after m (errno ?hs)\<rparr>, h')"
      "posts h' = request_post (fcntl_message ri cmd v) mr # posts h"
    by (rule plain_request [OF l _ assms(5) [unfolded fcntl_message_def], of J]) (simp_all add: plain_def fcntl_message_def)
  moreover have "tls hs = Some ri" using assms(1) by (simp add: linked_def)
  ultimately show ?thesis
    using assms(2,3) by (simp add: req_fcntl_def get_r_info_linked [OF assms(1)] fcntl_value_def [symmetric]
        serialize_fcntl_dt_cases [OF assms(4)] fcntl_data_def [symmetric] carrying_def)
qed

text \<open>C28: \<open>fcntl\<close> on a forwarded descriptor, end to end, if the queue pair takes the reply: the SmartNIC's kernel is asked once, with the application's command, one
  reply is posted, and the kernel's result or -1 comes back; a failure also sets \<open>errno\<close> to the kernel's, of which every byte that the adapter reads only
  after the post is 0. But it is asked about the descriptor 0, 1 or 2 of the server, depending only on the kind of the
  argument, whatever descriptor the application has named, and an integer argument is handed over as a pointer.\<close>

theorem fcntl_end_to_end:
  assumes "linked hs ri mr rmr" and "fd_searchByKey (fd_ht hs) fd \<noteq> 0"
    and "arrives ES c hS (request_post (fcntl_message ri cmd v) mr)" and "req_mr c = Some qmr" and "rtn_mr c = Some smr"
    and "l_malloc (L (polled c qmr hS))" and "fcntl_arg_len cmd \<le> length v" and "h1 = Sys (fcntl_call cmd v) # polled c qmr hS" and "a = ES h1"
    and "posts_accepted ES"
  shows "fcntl_flag cmd \<in> {0, 1, 2} \<and> (\<exists>m c'. poll_step u ES L fresh (True, s, c, hS)
        = returns (Inr (True, s, c', reply_post ((received c qmr (fcntl_message ri cmd v))\<lparr>rtn := m\<rparr>) smr # h1))
    \<and> (\<forall>E J h k late. fcntl_value J cmd = Some v \<and> replies E (fcntl_message ri cmd v) mr rmr h k (fetch late m (rtn c')) \<longrightarrow>
        (\<exists>hs' h'. req_fcntl E J hs fd cmd h = returns (if negative (ret a) then - 1 else ret a, hs', h')
          \<and> errno hs' = (if negative (ret a) then torn late 0 (err a) else errno hs)
          \<and> posts h' = request_post (fcntl_message ri cmd v) mr # posts h)))"
proof -
  define m where "m = (if negative (ret a) then (rtn c)\<lparr>rtn_value := scast (ret a), rtn_errno := err a\<rparr> else (rtn c)\<lparr>rtn_value := scast (ret a)\<rparr>)"
  obtain c' where step: "poll_step u ES L fresh (True, s, c, hS)
      = returns (Inr (True, s, c', reply_post ((received c qmr (fcntl_message ri cmd v))\<lparr>rtn := m\<rparr>) smr # h1))" "spent ES m (rtn c')"
    using fcntl_nic [where ES = ES and L = L, OF assms(3-8) m_def [unfolded assms(9)]] unfolding assms(9) by blast
  have "rtn_value (fetch late m (rtn c')) = scast (ret (told_errno late a))"
    "negative (ret (told_errno late a)) \<Longrightarrow> rtn_errno (fetch late m (rtn c')) = err (told_errno late a)" for late
    using spent_fetch(1) [OF step(2)] spent_fetch(3) [OF step(2) assms(10)] by (simp_all add: m_def del: fetch_simps)
  note r = reported [OF this, unfolded told_errno_simps]
  have e: "errno_after (fetch late m (rtn c')) x = (if negative (ret a) then torn late 0 (err a) else x)" for x late
    using r(2,3) [of late x] by auto
  have "\<exists>hs' h'. req_fcntl E J hs fd cmd h = returns (if negative (ret a) then - 1 else ret a, hs', h')
      \<and> errno hs' = (if negative (ret a) then torn late 0 (err a) else errno hs) \<and> posts h' = request_post (fcntl_message ri cmd v) mr # posts h"
    if "fcntl_value J cmd = Some v" "replies E (fcntl_message ri cmd v) mr rmr h k (fetch late m (rtn c'))" for E J h k late
    using fcntl_app [OF assms(1,2) that(1) assms(7) that(2)] by (simp only: r(1) e)
  moreover have "fcntl_flag cmd \<in> {0, 1, 2}" using fcntl_kinds [of cmd] by auto
  ultimately show ?thesis using step(1) by blast
qed

text \<open>Switching a forwarded descriptor to non-blocking mode switches the standard output of the server.\<close>

theorem fcntl_end_to_end_witness:
  "fcntl_call F_SETFL [0, 8, 0, 0] = Sys_fcntl 1 F_SETFL (Some (Some [0, 8, 0, 0]))
    \<and> (\<exists>m hs' h'. req_fcntl (replying m) hook_locals0 host7 7 F_SETFL [] = returns (0, hs', h'))"
proof -
  let ?ri = "fcntl_message r_info0 F_SETFL [0, 8, 0, 0]"
  have c: "fcntl_call F_SETFL [0, 8, 0, 0] = Sys_fcntl 1 F_SETFL (Some (Some [0, 8, 0, 0]))"
    by (simp add: fcntl_call_def fcntl_flag_def fcntl_arg_len_def fcntl_cmds)
  have l: "l_malloc ((\<lambda>_. locals0) (polled (client0 RDMA_REQ_SOCKET) mr0 []))" by (simp add: locals0_def)
  have n: "fcntl_arg_len F_SETFL \<le> length [0 :: byte, 8, 0, 0]" by (simp add: fcntl_arg_len_def fcntl_cmds)
  have v: "fcntl_value hook_locals0 F_SETFL = Some [0, 8, 0, 0]" by (simp add: fcntl_value_def fcntl_cmds hook_locals0_def)
  have z: "ret (serving ?ri resp0 (Sys x # h)) = 0" "\<not> negative (0 :: c_int)" for x h
    by (simp_all add: serving_kernel negative_def)
  note e = fcntl_end_to_end [where u = 0 and fresh = "\<lambda>_. client0 RDMA_REQ_SOCKET" and s = server0 and ES = "serving ?ri resp0"
      and hS = "[]" and c = "client0 RDMA_REQ_SOCKET" and L = "\<lambda>_. locals0", OF host7_facts(2,4) serving_arrives client0_mrs(1,2) l n refl refl
        posts_accepted_serving, unfolded z if_not_P [OF z(2)]]
  from conjunct2 [OF e] have "\<exists>m hs' h'. req_fcntl (replying m) hook_locals0 host7 7 F_SETFL [] = returns (0, hs', h')"
  proof (elim exE conjE, goal_cases)
    case (1 m c')
    from 1(2) [rule_format, OF conjI [OF v replying_replies], where late = "\<lambda>_. False" and h = "[]"] show ?thesis
      by (elim exE conjE) (intro exI, assumption)
  qed
  with c show ?thesis by blast
qed

end
