(* ===== verification/Options.thy ===== *)
theory Options
  imports Waits
begin

text \<open>
  \<open>select\<close> and \<open>setsockopt\<close> end to end. Both reach the SmartNIC's kernel; what comes back is not all what the
  kernel has said, and the theorems state what the application gets instead.
\<close>

section \<open>select\<close>

definition select_data :: "buf \<Rightarrow> c_int \<Rightarrow> fd_set option \<Rightarrow> fd_set option \<Rightarrow> fd_set option \<Rightarrow> timeval option \<Rightarrow> buf" where
  "select_data b n r w e t = (case serialize_select_fd_set (Some b) (Some n) r w e t of Inr (Some b') \<Rightarrow> b' | _ \<Rightarrow> b)"

definition select_message ::
    "r_info \<Rightarrow> c_int \<Rightarrow> fd_set option \<Rightarrow> fd_set option \<Rightarrow> fd_set option \<Rightarrow> timeval option \<Rightarrow> r_info" where
  "select_message ri n r w e t = outgoing (carrying ri (select_data (req_data (r_req ri)) n r w e t)) 0 RDMA_REQ_SELECT 0 0"

text \<open>The call the SmartNIC makes: a part that was not given is an uninitialised local variable, no timeout is one of 0.\<close>

definition select_call ::
    "locals \<Rightarrow> c_int \<Rightarrow> fd_set option \<Rightarrow> fd_set option \<Rightarrow> fd_set option \<Rightarrow> timeval option \<Rightarrow> sys_call" where
  "select_call L n r w e t = Sys_select n
     (case r of Some s \<Rightarrow> clobbered (select_flag r w e t) s | None \<Rightarrow> l_readfds L)
     (case (r, w) of (Some _, Some s) \<Rightarrow> s | _ \<Rightarrow> l_writefds L)
     (case (r, w, e) of (Some _, Some _, Some s) \<Rightarrow> s | _ \<Rightarrow> l_exceptfds L)
     (case (r, w, e, t) of (Some _, Some _, Some _, Some s) \<Rightarrow> s | _ \<Rightarrow> \<lparr>tv_sec = 0, tv_usec = 0\<rparr>)"

text \<open>What the caller finds in the sets it has passed. The server clears the whole data of the reply after it has posted it, so every byte that
  the adapter reads only then (\<open>late\<close>) is 0. The flag is in the bytes 16 and 17 of the message (and two that are 0 anyway), the sets start at 17, 145 and 273: without
  byte 17 no set is taken from the message, without byte 16 only the read set.\<close>

definition select_sets ::
    "(nat \<Rightarrow> bool) \<Rightarrow> resp \<Rightarrow> fd_set option \<Rightarrow> fd_set option \<Rightarrow> fd_set option \<Rightarrow> fd_set option \<times> fd_set option \<times> fd_set option" where
  "select_sets late a r w e =
     (if \<not> positive (ret a) \<or> late 17 then (r, w, e)
      else (map_option (\<lambda>_. torn late 17 (clobbered 1111 (out_readfds a))) r,
        if late 16 then w else map_option (\<lambda>_. torn late 145 (out_writefds a)) w,
        if late 16 then e else map_option (\<lambda>_. torn late 273 (out_exceptfds a)) e))"

definition reports_select :: "resp \<Rightarrow> rtn_msg \<Rightarrow> bool" where
  "reports_select a m \<longleftrightarrow> rtn_value m = scast (ret a) \<and> (ret a = - 1 \<longrightarrow> rtn_errno m = err a)
     \<and> (positive (ret a) \<longrightarrow> (let d = rtn_data m in get_word d 4 = (1111 :: c_int) \<and> dec_fd_set (buf_get d 5 128) = clobbered 1111 (out_readfds a)
         \<and> dec_fd_set (buf_get d 133 128) = out_writefds a \<and> dec_fd_set (buf_get d 261 128) = out_exceptfds a))"

text \<open>The reply buffer after it has been posted and cleared.\<close>

definition wiped :: "rtn_msg \<Rightarrow> rtn_msg" where
  "wiped m = m\<lparr>rtn_errno := 0, rtn_data := buf_zero (rtn_data m) 0 BUFFER_SIZE\<rparr>"

lemma torn_flag: "torn late 16 (1111 :: c_int) = (if late 16 then 0 else 87) + (if late 17 then 0 else 1024)"
  by (simp add: torn_def fetch_word_def le_bytes_def upt_rec)

lemma select_received:
  assumes "reports_select a m" and "positive (ret a)"
  shows "\<exists>x. deserialize_select_fd_set (Some (rtn_data (fetch late m (wiped m)))) (Some n0) r w e None
    = Inr (x, case select_sets late a r w e of (r, w, e) \<Rightarrow> (r, w, e, None))"
proof -
  define d where "d = rtn_data m"
  have d: "get_word d 4 = (1111 :: c_int)" "dec_fd_set (buf_get d 5 128) = clobbered 1111 (out_readfds a)"
    "dec_fd_set (buf_get d 133 128) = out_writefds a" "dec_fd_set (buf_get d 261 128) = out_exceptfds a"
    using assms unfolding reports_select_def d_def Let_def by blast+
  define d' where "d' = (\<lambda>i. if late (12 + i) then buf_zero d 0 BUFFER_SIZE i else d i)"
  have "rtn_data (fetch late m (wiped m)) = d'" by (rule ext) (simp add: d'_def d_def wiped_def rtn_hdr_def)
  moreover have "get_word d' 4 = torn late 16 (1111 :: c_int)"
    using d(1) of_le_fetched [of 4 4 BUFFER_SIZE late d, where 'a = 32] by (simp add: get_word_def d'_def BUFFER_SIZE_def)
  moreover have "dec_fd_set (buf_get d' off 128) = torn late (12 + off) (dec_fd_set (buf_get d off 128))" if "off < 300" for off
    using of_le_fetched [of 128 off BUFFER_SIZE late d, where 'a = 1024] that by (simp add: dec_fd_set_def d'_def BUFFER_SIZE_def)
  ultimately show ?thesis using assms(2)
    by (auto simp: deserialize_select_fd_set_def torn_flag select_sets_def d signed_divide_int_def)
qed

lemma serialize_select_data:
  "serialize_select_fd_set (Some b) (Some n) r w e t = Inr (Some (select_data b n r w e t))"
  using select_fields [of b n r w e t] by (auto simp: select_data_def)

lemma sock_select_reply:
  assumes "req_data q = select_data b n r w e t" and "h1 = Sys (select_call L n r w e t) # h"
  shows "\<exists>m'. sock_select E L q m h = Inr (ret (E h1), m', h1) \<and> reports_select (E h1) m'"
proof -
  obtain rd wr ex tm where d: "snic_deserialize_select_fd_set (Some (req_data q)) (Some (l_int L)) (Some (l_readfds L)) (Some (l_writefds L))
      (Some (l_exceptfds L)) (Some \<lparr>tv_sec = 0, tv_usec = 0\<rparr>) = Inr (Some n, Some rd, Some wr, Some ex, Some tm)"
      and call: "select_call L n r w e t = Sys_select n rd wr ex tm"
    using select_transfer [of b n r w e t "l_int L" "l_readfds L" "l_writefds L" "l_exceptfds L" "\<lparr>tv_sec = 0, tv_usec = 0\<rparr>"]
    by (auto simp: assms(1) serialize_select_data snic_copies select_call_def)
  let ?a = "E h1"
  have neg: "\<not> positive (- 1 :: c_int)" by (simp add: positive_def)
  show ?thesis
  proof (cases "positive (ret ?a)")
    case True
    have f: "select_flag (Some (out_readfds ?a)) (Some (out_writefds ?a)) (Some (out_exceptfds ?a)) (Some (out_timeout ?a)) = 1111"
      by (simp add: select_flag_def)
    obtain b' where b': "serialize_select_fd_set (Some (rtn_data m)) (Some n) (Some (out_readfds ?a)) (Some (out_writefds ?a))
          (Some (out_exceptfds ?a)) (Some (out_timeout ?a)) = Inr (Some b')"
        "get_word b' 4 = (1111 :: c_int)" "dec_fd_set (buf_get b' 5 128) = clobbered 1111 (out_readfds ?a)"
        "dec_fd_set (buf_get b' 133 128) = out_writefds ?a" "dec_fd_set (buf_get b' 261 128) = out_exceptfds ?a"
      using select_fields [of "rtn_data m" n "Some (out_readfds ?a)" "Some (out_writefds ?a)" "Some (out_exceptfds ?a)" "Some (out_timeout ?a)"]
      unfolding f by blast
    have "ret ?a \<noteq> - 1" using True neg by metis
    then have "sock_select E L q m h = Inr (ret ?a, m\<lparr>rtn_value := scast (ret ?a), rtn_data := b'\<rparr>, h1)"
      using True b'(1) by (simp add: sock_select_def d ext_def assms(2) call snic_serialize_select_fd_set_def Let_def)
    then show ?thesis using True b'(2-) \<open>ret ?a \<noteq> - 1\<close> by (simp add: reports_select_def Let_def)
  next
    case False
    then show ?thesis
      by (cases "ret ?a = - 1") (simp_all add: sock_select_def d ext_def assms(2) call reports_select_def Let_def)
  qed
qed

lemma select_nic:
  assumes "arrives ES c hS (request_post (select_message ri n r w e t) mr)" and "req_mr c = Some qmr" and "rtn_mr c = Some smr"
    and "h1 = Sys (select_call (L (polled c qmr hS)) n r w e t) # polled c qmr hS" and "posts_accepted ES"
  shows "\<exists>m c'. poll_step u ES L fresh (True, s, c, hS)
      = returns (Inr (True, s, c', reply_post ((received c qmr (select_message ri n r w e t))\<lparr>rtn := m\<rparr>) smr # h1))
    \<and> reports_select (ES h1) m \<and> rtn c' = wiped m"
proof -
  let ?ri = "select_message ri n r w e t" and ?h = "polled c qmr hS"
  let ?c = "received c qmr ?ri"
  have q: "rdma_req (r_req ?ri) = req_code RDMA_REQ_SELECT" "req_data (r_req ?ri) = select_data (req_data (r_req ri)) n r w e t"
    by (simp_all add: select_message_def outgoing_def carrying_def)
  obtain m where m: "sock_select ES (L ?h) (r_req ?ri) (rtn c) ?h = Inr (ret (ES h1), m, h1)" "reports_select (ES h1) m"
    using sock_select_reply [OF q(2) assms(4)] by blast
  obtain v c' where w: "write_msg_to_client ES (?c\<lparr>rtn := m\<rparr>) h1 = returns (v, c', reply_post (?c\<lparr>rtn := m\<rparr>) smr # h1)"
      "rtn c' = m\<lparr>rtn_errno := 0\<rparr>"
    using write_msg_plain [of "?c\<lparr>rtn := m\<rparr>" smr ES h1] assms(3,5) q(1) by (auto simp: spent_def)
  then have "rdma_req_event u ES (L ?h) (fresh ?h) s ?c ?h = returns (s, clear_rtn_data c', reply_post (?c\<lparr>rtn := m\<rparr>) smr # h1)"
    using q(1) m(1) by (simp add: rdma_req_event_def answer_checked_def answer_def)
  then show ?thesis using m(2) w(2) by (auto simp: poll_step_arrival [OF assms(1,2)] clear_rtn_data_def wiped_def)
qed

lemma select_app:
  assumes "linked hs ri mr rmr" and "fd_searchByKey (fd_ht hs) (n - 1) \<noteq> 0" and "reports_select a m0" and "m = fetch late m0 (wiped m0)"
    and "replies E (select_message ri n r w e t) mr rmr h k m"
  shows "\<exists>ri' h'. req_select E J hs n r w e t h = returns (if negative (ret a) then - 1 else ret a, select_sets late a r w e,
        hs\<lparr>tls := Some ri', errno := errno_after m (errno hs)\<rparr>, h')
    \<and> posts h' = request_post (select_message ri n r w e t) mr # posts h"
proof -
  let ?f = "\<lambda>d. serialize_select_fd_set (Some d) (Some n) r w e t" and ?v = "if negative (ret a) then - 1 else ret a"
  let ?g = "\<lambda>v hs h. if positive v then
        (case deserialize_select_fd_set (Some (rtn_data_of hs)) (Some n) r w e None of
           Inl e \<Rightarrow> faults e | Inr (_, rd, wr, ex, _) \<Rightarrow> returns (v, (rd, wr, ex), hs, h))
      else returns (v, (r, w, e), hs, h)"
  have k: "RDMA_REQ_SELECT \<noteq> RDMA_REQ_WRITE" "plain RDMA_REQ_SELECT" by (simp_all add: plain_def)
  have v: "plain_result m = ?v" "positive ?v = positive (ret a)"
    using assms(3,4) by (auto simp: reports_select_def wiped_def plain_result_def int_reply positive_def negative_def)
  obtain ri' h' where g: "with_req_data hs ?f (\<lambda>hs. and_then (request E J hs 0 RDMA_REQ_SELECT 0 0 None None h)
        (\<lambda>(v, _, hs, h). ?g v hs h)) = ?g ?v (hs\<lparr>tls := Some ri', errno := errno_after m (errno hs)\<rparr>) h'"
    "r_rtn ri' = m" "posts h' = request_post (select_message ri n r w e t) mr # posts h"
    using data_request_by [where f = ?f and g = ?g and J = J, OF assms(1) k(1) serialize_select_data assms(5) [unfolded select_message_def]
        finish_plain [OF k(2)]] unfolding v(1) select_message_def by blast
  have run: "req_select E J hs n r w e t h = ?g ?v (hs\<lparr>tls := Some ri', errno := errno_after m (errno hs)\<rparr>) h'"
    using assms(2) g(1) by (simp add: req_select_def get_r_info_linked [OF assms(1)])
  show ?thesis
  proof (cases "positive (ret a)")
    case True
    obtain rd wr ex where s: "select_sets late a r w e = (rd, wr, ex)" by (metis prod_cases3)
    then obtain x where "deserialize_select_fd_set (Some (rtn_data m)) (Some n) r w e None = Inr (x, rd, wr, ex, None)"
      using select_received [OF assms(3) True, of late n r w e] unfolding assms(4) by auto
    then show ?thesis using run True v(2) g(2,3) s by (intro exI [of _ ri'] exI [of _ h']) (simp add: rtn_data_of_def)
  next
    case False
    then show ?thesis using run v(2) g(3) by (intro exI [of _ ri'] exI [of _ h']) (simp add: select_sets_def)
  qed
qed

text \<open>C9: \<open>select\<close> on descriptors the highest of which is forwarded, end to end, if the queue pair takes the reply: the SmartNIC's kernel is asked once with the caller's
  number of descriptors, one reply is posted, and the kernel's result or -1 comes back. The sets do not survive: in the read set descriptors 0 to 23 are
  replaced by bits of a flag in each direction, a set that follows one that was not given is an uninitialised variable on the SmartNIC, and
  without all three sets the timeout is 0. On the way back every byte that the adapter reads only after the post is lost: from the error number, from the
  sets, and from the flag that says which sets there are. A reply that is read at once brings the write and exception sets as the kernel has left
  them; of one that is read late (in the witness) only the result is left, and the application finds the sets it had passed.\<close>

theorem select_end_to_end:
  assumes "linked hs ri mr rmr" and "fd_searchByKey (fd_ht hs) (n - 1) \<noteq> 0"
    and "arrives ES c hS (request_post (select_message ri n r w e t) mr)" and "req_mr c = Some qmr" and "rtn_mr c = Some smr"
    and "h1 = Sys (select_call (L (polled c qmr hS)) n r w e t) # polled c qmr hS" and "a = ES h1" and "posts_accepted ES"
  shows "\<exists>m c'. poll_step u ES L fresh (True, s, c, hS)
        = returns (Inr (True, s, c', reply_post ((received c qmr (select_message ri n r w e t))\<lparr>rtn := m\<rparr>) smr # h1))
    \<and> (\<forall>E J h k late. replies E (select_message ri n r w e t) mr rmr h k (fetch late m (rtn c')) \<longrightarrow>
        (\<exists>hs' h'. req_select E J hs n r w e t h = returns (if negative (ret a) then - 1 else ret a, select_sets late a r w e, hs', h')
          \<and> (ret a = - 1 \<longrightarrow> errno hs' = torn late 0 (err a)) \<and> (\<not> negative (ret a) \<longrightarrow> errno hs' = errno hs)
          \<and> posts h' = request_post (select_message ri n r w e t) mr # posts h))"
proof -
  obtain m c' where m: "poll_step u ES L fresh (True, s, c, hS)
      = returns (Inr (True, s, c', reply_post ((received c qmr (select_message ri n r w e t))\<lparr>rtn := m\<rparr>) smr # h1))"
    "reports_select a m" "rtn c' = wiped m" using select_nic [where L = L, OF assms(3-6,8)] assms(7) by blast
  have e: "(ret a = - 1 \<longrightarrow> errno_after (fetch late m (wiped m)) x = torn late 0 (err a))
      \<and> (\<not> negative (ret a) \<longrightarrow> errno_after (fetch late m (wiped m)) x = x)" for x late
    using m(2) by (auto simp: reports_select_def errno_after_def int_reply negative_def wiped_def torn_def)
  have "\<exists>hs' h'. req_select E J hs n r w e t h = returns (if negative (ret a) then - 1 else ret a, select_sets late a r w e, hs', h')
      \<and> (ret a = - 1 \<longrightarrow> errno hs' = torn late 0 (err a)) \<and> (\<not> negative (ret a) \<longrightarrow> errno hs' = errno hs)
      \<and> posts h' = request_post (select_message ri n r w e t) mr # posts h"
    if "replies E (select_message ri n r w e t) mr rmr h k (fetch late m (rtn c'))" for E J h k late
    using select_app [OF assms(1,2) m(2) refl that [unfolded m(3)], of J] e [of late "errno hs"] by fastforce
  with m(1) show ?thesis by blast
qed

text \<open>The kernel reports descriptor 30 as readable. The application, which had asked for 30 and 31, also sees descriptor 2, which it had not asked for; with a
  late transfer it sees both of its own.\<close>

theorem select_end_to_end_witness:
  "\<exists>m m' hs' h' hs'' h''. req_select (replying m) hook_locals0 host7 8 (Some (2 ^ 30 + 2 ^ 31)) (Some 0) (Some 0) (Some \<lparr>tv_sec = 5, tv_usec = 0\<rparr>) []
      = returns (1, (Some (2 ^ 30 + 2 ^ 2), Some 0, Some 0), hs', h')
    \<and> req_select (replying m') hook_locals0 host7 8 (Some (2 ^ 30 + 2 ^ 31)) (Some 0) (Some 0) (Some \<lparr>tv_sec = 5, tv_usec = 0\<rparr>) []
      = returns (1, (Some (2 ^ 30 + 2 ^ 31), Some 0, Some 0), hs'', h'')"
proof -
  let ?t = "\<lparr>tv_sec = 5, tv_usec = 0\<rparr>" and ?r = "resp0\<lparr>rv := 1, out_readfds := 2 ^ 30, out_writefds := 0, out_exceptfds := 0\<rparr>"
  let ?s = "2 ^ 30 + 2 ^ 31 :: fd_set"
  let ?ri = "select_message r_info0 8 (Some ?s) (Some 0) (Some 0) (Some ?t)"
  have v: "serving ?ri ?r (Sys call # h) = ?r" "ret ?r = 1" "(8 :: c_int) - 1 = 7" for call h
    by (simp_all add: serving_kernel ret_def)
  have p: "positive (1 :: c_int)" "\<not> negative (1 :: c_int)" by (simp_all add: positive_def negative_def)
  have "clobbered 1111 (2 ^ 30) = 2 ^ 30 + 2 ^ 2" by (simp add: clobbered_def mask_eq_exp_minus_1)
  then have sets: "select_sets (\<lambda>_. False) ?r (Some ?s) (Some 0) (Some 0) = (Some (2 ^ 30 + 2 ^ 2), Some 0, Some 0)"
    "select_sets (\<lambda>_. True) ?r (Some ?s) (Some 0) (Some 0) = (Some ?s, Some 0, Some 0)"
    using p(1) v(2) by (simp_all add: select_sets_def torn_def fetch_word_early)
  have known: "fd_searchByKey (fd_ht host7) (8 - 1) \<noteq> 0" using host7_facts(4) by (simp add: v(3))
  from select_end_to_end [where u = 0 and L = "\<lambda>_. locals0" and fresh = "\<lambda>_. client0 RDMA_REQ_SOCKET" and s = server0
      and hS = "[]" and ES = "serving ?ri ?r" and c = "client0 RDMA_REQ_SOCKET", OF host7_facts(2) known serving_arrives client0_mrs(1,2) refl refl posts_accepted_serving]
  show ?thesis
  proof (elim exE conjE, goal_cases)
    case (1 m c')
    note host = 1(2) [rule_format, OF replying_replies, unfolded v if_not_P [OF p(2)]]
    from host [where late = "\<lambda>_. False" and J = hook_locals0 and h = "[]"] host [where late = "\<lambda>_. True" and J = hook_locals0 and h = "[]"]
    show ?thesis unfolding sets by (elim exE conjE) (intro exI conjI, assumption+)
  qed
qed

section \<open>setsockopt\<close>

definition option_data :: "buf \<Rightarrow> c_int \<Rightarrow> c_int \<Rightarrow> byte list \<Rightarrow> u32 \<Rightarrow> buf" where
  "option_data b level name v len
     = (case serialize_sockopt_dt (Some b) (Some level) (Some name) (Some v) (Some len) of Inr (Some b') \<Rightarrow> b' | _ \<Rightarrow> b)"

definition option_message :: "r_info \<Rightarrow> c_int \<Rightarrow> c_int \<Rightarrow> c_int \<Rightarrow> byte list \<Rightarrow> u32 \<Rightarrow> r_info" where
  "option_message ri fd level name v len
     = outgoing (carrying ri (option_data (req_data (r_req ri)) level name v len)) fd RDMA_REQ_SETSOCKOPT 0 0"

text \<open>An option value of the length that is announced, which fits into a message.\<close>

definition option_value :: "byte list \<Rightarrow> u32 \<Rightarrow> bool" where
  "option_value v len \<longleftrightarrow> length v = unat len \<and> 0 < len \<and> 12 + unat len \<le> BUFFER_SIZE"

lemma option_transfer:
  assumes "option_value v len"
  shows "serialize_sockopt_dt (Some b) (Some level) (Some name) (Some v) (Some len) = Inr (Some (option_data b level name v len))"
    "snic_deserialize_sockopt_dt True (Some (option_data b level name v len)) (Some l0) (Some n0) v0 (Some len0)
      = Inr (Some level, Some name, Some v, Some len)"
  using assms
  by (simp_all add: option_data_def option_value_def serialize_sockopt_dt_def deserialize_sockopt_dt_def snic_copies buffer_simps)

text \<open>C30: \<open>setsockopt\<close> on a forwarded descriptor, end to end: the SmartNIC's kernel is asked once to set that option of that descriptor to
  the application's value, and one reply is posted. The result is lost: whatever the kernel answers, the application gets what the server's reply buffer happens to hold as its
  value, since the handler does not store one. That is whatever is left of the last reply (after a write the 0 to which the buffer was cleared), and what the buffer was
  initialised with if there was none. Only \<open>errno\<close> can be the kernel's: it is when that left-over value is
  negative, the kernel has failed and the adapter reads the reply at once.\<close>

theorem setsockopt_end_to_end:
  assumes "linked hs ri mr rmr" and "fd_searchByKey (fd_ht hs) fd \<noteq> 0" and "option_value v len"
    and "arrives ES c hS (request_post (option_message ri fd level name v len) mr)" and "req_mr c = Some qmr" and "rtn_mr c = Some smr"
    and "l_malloc (L (polled c qmr hS))" and "h1 = Sys (Sys_setsockopt fd level name (Some v) len) # polled c qmr hS" and "posts_accepted ES"
  shows "\<exists>m c'. poll_step u ES L fresh (True, s, c, hS)
        = returns (Inr (True, s, c', reply_post ((received c qmr (option_message ri fd level name v len))\<lparr>rtn := m\<rparr>) smr # h1))
    \<and> (\<forall>E J h k late. replies E (option_message ri fd level name v len) mr rmr h k (fetch late m (rtn c')) \<longrightarrow>
        (\<exists>hs' h'. req_setsockopt E J hs fd level name (Some v) len h = returns (plain_result (rtn c), hs', h')
          \<and> errno hs' = (if negative (rtn_value (rtn c)) then torn late 0 (if negative (ret (ES h1)) then err (ES h1) else rtn_errno (rtn c)) else errno hs)
          \<and> posts h' = request_post (option_message ri fd level name v len) mr # posts h))"
proof -
  let ?ri = "option_message ri fd level name v len" and ?h = "polled c qmr hS"
  let ?c = "received c qmr ?ri" and ?a = "ES h1"
  define m where "m = (if negative (ret ?a) then (rtn c)\<lparr>rtn_errno := err ?a\<rparr> else rtn c)"
  have q: "rdma_req (r_req ?ri) = req_code RDMA_REQ_SETSOCKOPT" "req_data (r_req ?ri) = option_data (req_data (r_req ri)) level name v len"
    "r_sockfd ?ri = fd" by (simp_all add: option_message_def outgoing_def carrying_def)
  have "sock_setsockopt ES (L ?h) (r_req ?ri) (rtn c) fd ?h = Inr (if negative (ret ?a) then - 1 else ret ?a, m, h1)"
    using assms(7) by (simp add: sock_setsockopt_def q(2) option_transfer(2) [OF assms(3)] ext_def assms(8) m_def)
  then have "rdma_req_event u ES (L ?h) (fresh ?h) s ?c ?h = answer ES s ?c (m, h1)"
    using q(1,3) by (simp add: rdma_req_event_def answer_checked_def)
  then obtain c' where step: "poll_step u ES L fresh (True, s, c, hS) = returns (Inr (True, s, c', reply_post (?c\<lparr>rtn := m\<rparr>) smr # h1))"
      "spent ES m (rtn c')"
    using step_answers [OF assms(4-6)] q(1) by fastforce
  let ?f = "\<lambda>d. serialize_sockopt_dt (Some d) (Some level) (Some name) (Some v) (Some len)"
  have k: "RDMA_REQ_SETSOCKOPT \<noteq> RDMA_REQ_WRITE" "plain RDMA_REQ_SETSOCKOPT" by (simp_all add: plain_def)
  have v: "plain_result (fetch late m (rtn c')) = plain_result (rtn c)"
    "errno_after (fetch late m (rtn c')) e
      = (if negative (rtn_value (rtn c)) then torn late 0 (if negative (ret ?a) then err ?a else rtn_errno (rtn c)) else e)" for late e
    using spent_fetch [OF step(2)] assms(9) by (simp_all add: m_def plain_result_def errno_after_def del: fetch_simps)
  have "\<exists>hs' h'. req_setsockopt E J hs fd level name (Some v) len h = returns (plain_result (rtn c), hs', h')
      \<and> errno hs' = (if negative (rtn_value (rtn c)) then torn late 0 (if negative (ret ?a) then err ?a else rtn_errno (rtn c)) else errno hs)
      \<and> posts h' = request_post ?ri mr # posts h" if "replies E ?ri mr rmr h k (fetch late m (rtn c'))" for E J h k late
    using data_request_by [where f = ?f and g = "\<lambda>v hs h. returns (v, hs, h)" and J = J, OF assms(1) k(1) option_transfer(1) [OF assms(3)]
        that [unfolded option_message_def] finish_plain [OF k(2)]] assms(2) unfolding v
    by (auto simp: req_setsockopt_def get_r_info_linked [OF assms(1)] option_message_def)
  with step(1) show ?thesis by blast
qed

text \<open>The kernel refuses, and the application gets the 7 of an earlier reply.\<close>

theorem setsockopt_end_to_end_witness:
  "\<exists>m hs' h'. req_setsockopt (replying m) hook_locals0 host7 7 1 2 (Some [1, 0, 0, 0]) 4 [] = returns (7, hs', h') \<and> errno hs' = errno host7"
proof -
  let ?ri = "option_message r_info0 7 1 2 [1, 0, 0, 0] 4"
  have o: "option_value [1, 0, 0, 0] 4" by (simp add: option_value_def BUFFER_SIZE_def)
  have v: "plain_result (rtn (client0 RDMA_REQ_SOCKET)) = 7" by (simp add: client0_mrs plain_result_def rtn0_def negative_def)
  have n: "\<not> negative (rtn_value (rtn (client0 RDMA_REQ_SOCKET)))" by (simp add: client0_mrs rtn0_def negative_def)
  have l: "l_malloc ((\<lambda>_. locals0) (polled (client0 RDMA_REQ_SOCKET) mr0 []))" by (simp add: locals0_def)
  from setsockopt_end_to_end [where u = 0 and L = "\<lambda>_. locals0" and fresh = "\<lambda>_. client0 RDMA_REQ_SOCKET" and s = server0
      and hS = "[]" and ES = "serving ?ri (resp0\<lparr>rv := - 1\<rparr>)" and c = "client0 RDMA_REQ_SOCKET",
      OF host7_facts(2,4) o serving_arrives client0_mrs(1,2) l refl posts_accepted_serving]
  show ?thesis
  proof (elim exE conjE, goal_cases)
    case (1 m c')
    note host = 1(2) [rule_format, OF replying_replies, unfolded v if_not_P [OF n]]
    from host [where late = "\<lambda>_. False" and J = hook_locals0 and h = "[]"]
    show ?thesis by (elim exE conjE) (intro exI conjI, assumption+)
  qed
qed

end
