(* ===== verification/Server_Threads.thy ===== *)
theory Server_Threads
  imports Server_Props
begin

text \<open>
  The server process. \<open>start_thread\<close> serves the first connection itself; every request for a new connection adds a thread
  that runs \<open>process_poll_cq_imm\<close> on it. The threads share the globals of \<open>rdma_server.c\<close>: the two tables, and the channel and
  the last event of the connection manager. They interleave by turns of their completion loops, in any order. What
  is shown: the locks of the tables are free between turns, so that no thread ever waits for one, and every thread's connection
  is one that has been set up.
\<close>

section \<open>The process\<close>

record nic =
  n_server :: server
  n_threads :: "thread \<Rightarrow> (bool \<times> s_client) option"
  n_trace :: trace

text \<open>The start is that of \<open>start_thread\<close>; a turn of a thread may add a new one; a thread whose loop returns is gone.\<close>

inductive nic_run :: "env \<Rightarrow> (trace \<Rightarrow> locals) \<Rightarrow> (trace \<Rightarrow> s_client) \<Rightarrow> nic \<Rightarrow> bool" for E L fresh where
    nic_start: "spawned garbage = [] \<Longrightarrow> set_server_r_info E addr (- 1) h = (0, addr', h1) \<Longrightarrow>
      start_rdma_server E ((snd (null_server_r_info garbage))\<lparr>rdma_ht := snic_createHashTable, sock_ht := snic_createSocketHashTable\<rparr>)
        addr' h1 = (0, s, h2) \<Longrightarrow>
      connect_client_r_info E s (snd (snic_null_client_r_info (fresh h2))) h2 = returns (0, s', c, h3) \<Longrightarrow>
      nic_run E L fresh \<lparr>n_server = s', n_threads = [t \<mapsto> (False, c)], n_trace = h3\<rparr>"
  | nic_turn: "nic_run E L fresh n \<Longrightarrow> n_threads n t = Some (p, c) \<Longrightarrow>
      poll_step t E L fresh (p, n_server n, c, n_trace n) = returns (Inr (p', s', c', h')) \<Longrightarrow> spawned s' = spawned (n_server n) \<Longrightarrow>
      nic_run E L fresh \<lparr>n_server = s', n_threads = (n_threads n)(t \<mapsto> (p', c')), n_trace = h'\<rparr>"
  | nic_spawn: "nic_run E L fresh n \<Longrightarrow> n_threads n t = Some (p, c) \<Longrightarrow>
      poll_step t E L fresh (p, n_server n, c, n_trace n) = returns (Inr (p', s', c', h')) \<Longrightarrow> spawned s' = c1 # spawned (n_server n) \<Longrightarrow>
      n_threads n u = None \<Longrightarrow>
      nic_run E L fresh \<lparr>n_server = s', n_threads = (n_threads n)(t \<mapsto> (p', c'), u \<mapsto> (False, c1)), n_trace = h'\<rparr>"
  | nic_end: "nic_run E L fresh n \<Longrightarrow> n_threads n t = Some (p, c) \<Longrightarrow>
      poll_step t E L fresh (p, n_server n, c, n_trace n) = returns (Inl (v, s', c', h')) \<Longrightarrow>
      nic_run E L fresh \<lparr>n_server = s', n_threads = (n_threads n)(t := None), n_trace = h'\<rparr>"

text \<open>The first thread continues as \<open>start_thread\<close> does.\<close>

lemma start_thread_serves:
  assumes "set_server_r_info E addr (- 1) h = (0, addr', h1)"
    and "start_rdma_server E ((snd (null_server_r_info garbage))\<lparr>rdma_ht := snic_createHashTable, sock_ht := snic_createSocketHashTable\<rparr>)
        addr' h1 = (0, s, h2)"
    and "connect_client_r_info E s (snd (snic_null_client_r_info (fresh h2))) h2 = returns (0, s', c, h3)"
  shows "start_thread t E L fresh garbage addr h
    = and_then (poll_loop t E L fresh (False, s', c, h3)) (\<lambda>(_, s, _, h). returns (s, h))"
  using assms by (simp add: start_thread_def snic_process_poll_cq_imm_def)

section \<open>What a turn leaves\<close>

text \<open>The connection table is never used. The socket table is unlocked and well-formed, and its keys are descriptors.\<close>

definition tables_ok :: "server \<Rightarrow> bool" where
  "tables_ok s \<longleftrightarrow> rdma_ht s = snic_createHashTable \<and> lock (sock_ht s) = Unlocked \<and> ht_inv (tab (sock_ht s))
     \<and> (\<forall>k. assoc (tab (sock_ht s)) k \<noteq> [] \<longrightarrow> \<not> negative k)"

definition set_up :: "s_client \<Rightarrow> bool" where
  "set_up c \<longleftrightarrow> cm_client_id c \<noteq> 0 \<and> client_qp c \<noteq> 0 \<and> req_mr c \<noteq> None \<and> status c \<noteq> RDMA_CM_EVENT_DISCONNECTED"

lemma set_up_conn: "conn c' = conn c \<Longrightarrow> set_up c' = set_up c"
  by (simp add: set_up_def conn_def)

lemma tables_ok_event [simp]: "tables_ok (s\<lparr>cm_event := e\<rparr>) = tables_ok s" "tables_ok (s\<lparr>spawned := l\<rparr>) = tables_ok s"
  by (simp_all add: tables_ok_def)

lemma insert_tables_ok:
  assumes "tables_ok s" and "\<not> negative fd"
  shows "\<exists>ok ht. snic_socket_insertByValue t m (sock_ht s) fd v = Some (ok, ht) \<and> tables_ok (s\<lparr>sock_ht := ht\<rparr>)"
proof -
  have l: "lock (sock_ht s) = Unlocked" using assms(1) by (simp add: tables_ok_def)
  then have "map_option snd (snic_socket_insertByValue t m (sock_ht s) fd v)
      = Some ((sock_ht s)\<lparr>tab := snd (socket_insertByValue m (tab (sock_ht s)) fd v)\<rparr>)"
    by (rule socket_insert_op.unlocked)
  moreover have "tables_ok (s\<lparr>sock_ht := (sock_ht s)\<lparr>tab := snd (socket_insertByValue m (tab (sock_ht s)) fd v)\<rparr>\<rparr>)"
    using assms by (cases m) (auto simp: tables_ok_def insert_ops contract_simps)
  ultimately show ?thesis by auto
qed

text \<open>Without a region for the reply nothing can be answered.\<close>

lemma write_msg_unregistered:
  assumes "rtn_mr c = None"
  shows "write_msg_to_client E c h = faults Null_deref"
proof (cases "rdma_req (req c) = req_code RDMA_REQ_READ \<and> positive (rtn_value (rtn c))")
  case True
  then have "rtn_value (rtn c) \<noteq> - 12" by (auto simp: positive_def)
  then have "0 < 12 + rtn_value (rtn c)" by (simp add: word_gt_0 add_eq_0_iff)
  then have "write_chunks E (12 + rtn_value (rtn c)) 0 c h = faults Null_deref"
    using assms by (subst write_chunks.simps) (simp add: post_write_rtn_def Let_def faults_def)
  then show ?thesis using True by (simp add: write_msg_to_client_def Let_def)
next
  case False
  then show ?thesis using assms by (auto simp: write_msg_to_client_def post_write_rtn_def)
qed

lemma answer_yields: "yields (\<lambda>(s', c', h'). s' = s \<and> conn c' = conn c) (answer E s c r)"
proof (cases "rtn_mr c")
  case None
  then show ?thesis by (cases r) (simp add: answer_def write_msg_unregistered)
next
  case (Some mr)
  then show ?thesis using answer_returns [OF Some, of "snd r" r E s] by auto
qed

definition finishes :: "'a run \<Rightarrow> bool" where
  "finishes m \<longleftrightarrow> m \<noteq> None"

lemma finishes_simps [simp]: "finishes (returns x)" "finishes (faults e)" "\<not> finishes None"
  by (simp_all add: finishes_def returns_def faults_def)

lemma finishes_bind: "finishes m \<Longrightarrow> (\<And>x. m = returns x \<Longrightarrow> finishes (f x)) \<Longrightarrow> finishes (and_then m f)"
  by (auto simp: finishes_def and_then_def returns_def split: option.splits sum.splits)

lemma answer_finishes: "finishes (answer E s c r)"
proof (cases "rtn_mr c")
  case None
  then show ?thesis by (cases r) (simp add: answer_def write_msg_unregistered)
next
  case (Some mr)
  then show ?thesis using answer_returns [OF Some, of "snd r" r E s] by auto
qed

lemma setup_status: "setup_client_resources E c h = (v, c', h') \<Longrightarrow> status c' = status c"
  by (auto simp: setup_client_resources_def ext_def Let_def split: if_splits)

lemma waiting_keeps:
  assumes "waiting_client_conn E s c h = returns (v, s', c', h')"
  shows "\<exists>e. s' = s\<lparr>cm_event := e\<rparr>" "status c' = RDMA_CM_EVENT_CONNECT_REQUEST"
  using assms by (auto simp: waiting_client_conn_def ext_def Let_def split: if_splits option.splits prod.splits)

lemma accept_event:
  assumes "accept_client_connection E s c h = Some (v, s', c', h')"
  shows "\<exists>e. s' = s\<lparr>cm_event := e\<rparr>"
  using assms
  by (auto simp: accept_client_connection_def ext_def Let_def intro: exI [of _ "cm_event s"]
      split: if_splits option.splits prod.splits)

lemma accept_status:
  assumes "accept_client_connection E s c h = Some (v, s', c', h')" and "status c \<noteq> RDMA_CM_EVENT_DISCONNECTED"
  shows "status c' \<noteq> RDMA_CM_EVENT_DISCONNECTED"
  using assms by (auto simp: accept_client_connection_def ext_def Let_def split: if_splits option.splits prod.splits)

text \<open>Setting up a connection changes only the event in the shared state, whether it succeeds or not.\<close>

lemma connect_event:
  assumes "connect_client_r_info E s c h = returns (v, s', c', h')"
  shows "\<exists>e. s' = s\<lparr>cm_event := e\<rparr>"
proof -
  obtain v1 s1 c1 h1 where 1: "waiting_client_conn E s c h = returns (v1, s1, c1, h1)"
    and 2: "s' = s1 \<or> (\<exists>c2 h2 v2 c3 h3. accept_client_connection E s1 c2 h2 = Some (v2, s', c3, h3))"
    using assms by (fastforce simp: connect_client_r_info_def split: if_splits option.splits prod.splits elim!: and_then_returnsE)
  from waiting_keeps(1) [OF 1] 2 show ?thesis using accept_event by fastforce
qed

lemma connect_parts:
  assumes "connect_client_r_info E s c h = returns (0, s', c', h')"
  obtains s1 c1 h1 c2 h2 v2 c3 h3 c4 h4 v5 where "waiting_client_conn E s c h = returns (0, s1, c1, h1)"
    "setup_client_resources E c1 h1 = (0, c2, h2)" "accept_client_connection E s1 c2 h2 = Some (v2, s', c3, h3)"
    "send_server_metadata_to_client E c3 h3 = returns (0, c4, h4)" "post_recv_req E c4 h4 = returns (v5, c', h')"
  using assms by (auto simp: connect_client_r_info_def split: if_splits option.splits prod.splits elim!: and_then_returnsE)

lemma connect_set_up:
  assumes "connect_client_r_info E s c h = returns (0, s', c', h')"
  shows "set_up c'"
proof -
  obtain s1 c1 h1 c2 h2 v2 c3 h3 c4 h4 v5 where 1: "waiting_client_conn E s c h = returns (0, s1, c1, h1)"
    and 2: "setup_client_resources E c1 h1 = (0, c2, h2)" and 3: "accept_client_connection E s1 c2 h2 = Some (v2, s', c3, h3)"
    and 4: "send_server_metadata_to_client E c3 h3 = returns (0, c4, h4)" and 5: "post_recv_req E c4 h4 = returns (v5, c', h')"
    using connect_parts [OF assms] .
  have "status c3 \<noteq> RDMA_CM_EVENT_DISCONNECTED"
    using accept_status [OF 3] setup_status [OF 2] waiting_keeps(2) [OF 1] by simp
  moreover have "status c4 = status c3"
    using 4 by (auto simp: send_server_metadata_to_client_def ext_def Let_def split: if_splits option.splits prod.splits)
  moreover have "status c' = status c4" using post_recv_req_conn [OF 5] by (simp add: conn_def)
  ultimately show ?thesis using connected_client [OF assms] by (auto simp: set_up_def)
qed

lemma connect_req:
  assumes "connect_client_r_info E s c h = returns (0, s', c', h')"
  shows "req c' = req c"
proof -
  obtain s1 c1 h1 c2 h2 v2 c3 h3 c4 h4 v5 where 1: "waiting_client_conn E s c h = returns (0, s1, c1, h1)"
    and 2: "setup_client_resources E c1 h1 = (0, c2, h2)" and 3: "accept_client_connection E s1 c2 h2 = Some (v2, s', c3, h3)"
    and 4: "send_server_metadata_to_client E c3 h3 = returns (0, c4, h4)" and 5: "post_recv_req E c4 h4 = returns (v5, c', h')"
    using connect_parts [OF assms] .
  have "req c1 = req c"
    using 1 by (auto simp: waiting_client_conn_def ext_def Let_def split: if_splits option.splits prod.splits)
  moreover have "req c2 = req c1" using 2 by (auto simp: setup_client_resources_def ext_def Let_def split: if_splits)
  moreover have "req c3 = req c2"
    using 3 by (auto simp: accept_client_connection_def ext_def Let_def split: if_splits option.splits prod.splits)
  moreover have "req c4 = req c3"
    using 4 by (auto simp: send_server_metadata_to_client_def ext_def Let_def split: if_splits option.splits prod.splits)
  moreover have "req c' = req c4"
    using 5 by (auto simp: post_recv_req_def ext_def Let_def split: if_splits option.splits)
  ultimately show ?thesis by simp
qed

text \<open>What a request may do to the shared state.\<close>

definition kept :: "server \<Rightarrow> s_client \<Rightarrow> server \<times> s_client \<times> trace \<Rightarrow> bool" where
  "kept s c = (\<lambda>(s', c', h'). conn c' = conn c \<and> tables_ok s'
     \<and> (spawned s' = spawned s \<or> (\<exists>n. spawned s' = n # spawned s \<and> set_up n)))"

lemma answer_kept:
  assumes "tables_ok s"
  shows "yields (kept s c) (answer E s c r)" "yields (kept s c) (answer_checked E s c r')"
proof -
  show *: "yields (kept s c) (answer E s c r)" for r
    using answer_yields [of s c E r] assms by (auto simp: yields_def kept_def)
  show "yields (kept s c) (answer_checked E s c r')"
    using * by (auto simp: answer_checked_def split: sum.splits)
qed

lemma epoll_create_kept:
  assumes "tables_ok s" and "req_of_code (rdma_req (req c)) = Some RDMA_REQ_EPOLL_CREATE1"
  shows "yields (kept s c) (rdma_req_event t E L fresh s c h)"
proof -
  obtain fd m h1 where o: "sock_epoll_create1 E (req c) (rtn c) h = (fd, m, h1)" by (metis prod_cases3)
  have "yields (kept s c) (and_then (answer E s (c\<lparr>sockfd := fd\<rparr>) (m, h1)) (\<lambda>(s, c, h).
        case snic_socket_insertByValue t (l_malloc L) (sock_ht s) fd i of None \<Rightarrow> None
        | Some (_, ht) \<Rightarrow> returns (s\<lparr>sock_ht := ht\<rparr>, c, h)))" if "\<not> negative fd" for i
  proof (rule yields_bind [OF answer_yields], clarsimp)
    fix c' :: s_client and h' :: trace assume "conn c' = conn c"
    with insert_tables_ok [OF assms(1) that, of t "l_malloc L" i]
    show "yields (kept s c) (case snic_socket_insertByValue t (l_malloc L) (sock_ht s) fd i of None \<Rightarrow> None
        | Some (_, ht) \<Rightarrow> returns (s\<lparr>sock_ht := ht\<rparr>, c', h'))"
      by (auto simp: kept_def)
  qed
  then show ?thesis
    using assms o answer_kept(1) [OF assms(1)] by (auto simp: rdma_req_event_def socket_info_init_def)
qed

lemma new_connection_kept:
  assumes "tables_ok s" and "req_of_code (rdma_req (req c)) = Some RDMA_REQ_NEW_RDMA_CONN"
  shows "yields (kept s c) (rdma_req_event t E L fresh s c h)"
proof (unfold yields_def, clarify)
  fix s' c' h' assume "rdma_req_event t E L fresh s c h = returns (s', c', h')"
  then obtain s1 h1 v s2 n h2 where a: "answer E s c ((rtn c)\<lparr>rtn_value := 1\<rparr>, h) = returns (s1, c', h1)"
    and n: "connect_client_r_info E s1 (snd (snic_null_client_r_info fresh)) h1 = returns (v, s2, n, h2)"
    and s': "v \<noteq> 0 \<and> s' = s2 \<or> v = 0 \<and> (s' = s2 \<or> s' = s2\<lparr>spawned := n # spawned s2\<rparr>)"
    using assms(2) by (auto simp: rdma_req_event_def Let_def ext_def split: if_splits elim!: and_then_returnsE)
  have s1: "s1 = s" "conn c' = conn c" using yieldsD [OF answer_yields a] by auto
  have "\<exists>e. s2 = s1\<lparr>cm_event := e\<rparr>" using connect_event [OF n] .
  then show "kept s c (s', c', h')"
    using s' s1 assms(1) connect_set_up [of E s1 _ h1 s2 n h2] n by (auto simp: kept_def)
qed

lemma delete_connection_kept:
  assumes "status c \<noteq> RDMA_CM_EVENT_DISCONNECTED" and "req_of_code (rdma_req (req c)) = Some RDMA_REQ_DEL_RDMA_CONN"
  shows "yields Q (rdma_req_event t E L fresh s c h)"
proof -
  have "yields Q (and_then (answer E s c r) (\<lambda>(s, c, h). and_then (global_disconnect_and_cleanup E c h) (f s)))" for r f
    using assms(1) by (intro yields_bind [OF answer_yields]) (auto simp: global_disconnect_and_cleanup_def conn_def)
  then show ?thesis using assms(2) by (simp add: rdma_req_event_def)
qed

lemma cleared_kept:
  "yields (kept s c) m \<Longrightarrow> yields (kept s c) (and_then m (\<lambda>(s, c, h). returns (s, clear_req_data c, h)))"
  "yields (kept s c) m \<Longrightarrow> yields (kept s c) (and_then m (\<lambda>(s, c, h). returns (s, clear_rtn_data c, h)))"
  by (auto simp: yields_def kept_def elim!: and_then_returnsE)

lemma rdma_req_event_kept:
  assumes "tables_ok s" and "status c \<noteq> RDMA_CM_EVENT_DISCONNECTED"
  shows "yields (kept s c) (rdma_req_event t E L fresh s c h)"
proof (cases "req_of_code (rdma_req (req c))")
  case None
  then show ?thesis using answer_kept(1) [OF assms(1)] by (simp add: rdma_req_event_def)
next
  case (Some r)
  note run = rdma_req_event_def [of t E L fresh s c h, unfolded Some option.case]
  show ?thesis
    by (cases r) (use assms Some in \<open>simp_all add: epoll_create_kept new_connection_kept delete_connection_kept\<close>,
      simp_all add: run answer_kept [OF assms(1)] cleared_kept split: sum.splits)
qed

text \<open>A request that neither opens nor closes a connection always comes to an end: nothing in it waits for another thread.\<close>

lemma answer_checked_finishes: "finishes (answer_checked E s c r)"
  using answer_finishes by (auto simp: answer_checked_def split: sum.splits)

lemma epoll_create_finishes:
  assumes "tables_ok s" and "req_of_code (rdma_req (req c)) = Some RDMA_REQ_EPOLL_CREATE1"
  shows "finishes (rdma_req_event t E L fresh s c h)"
proof -
  obtain fd m h1 where o: "sock_epoll_create1 E (req c) (rtn c) h = (fd, m, h1)" by (metis prod_cases3)
  have "finishes (and_then (answer E s (c\<lparr>sockfd := fd\<rparr>) (m, h1)) (\<lambda>(s, c, h).
        case snic_socket_insertByValue t (l_malloc L) (sock_ht s) fd i of None \<Rightarrow> None
        | Some (_, ht) \<Rightarrow> returns (s\<lparr>sock_ht := ht\<rparr>, c, h)))" if "\<not> negative fd" for i
    using insert_tables_ok [OF assms(1) that, of t "l_malloc L" i]
    by (intro finishes_bind [OF answer_finishes]) (auto dest: yieldsD [OF answer_yields])
  then show ?thesis using assms(2) o answer_finishes by (auto simp: rdma_req_event_def socket_info_init_def)
qed

lemma rdma_req_event_finishes:
  assumes "tables_ok s" and "rdma_req (req c) \<notin> {req_code RDMA_REQ_NEW_RDMA_CONN, req_code RDMA_REQ_DEL_RDMA_CONN}"
  shows "finishes (rdma_req_event t E L fresh s c h)"
proof (cases "req_of_code (rdma_req (req c))")
  case None
  then show ?thesis using answer_finishes by (simp add: rdma_req_event_def)
next
  case (Some r)
  then have r: "r \<noteq> RDMA_REQ_NEW_RDMA_CONN" "r \<noteq> RDMA_REQ_DEL_RDMA_CONN"
    using assms(2) req_of_code_Some by fastforce+
  note run = rdma_req_event_def [of t E L fresh s c h, unfolded Some option.case]
  show ?thesis
    by (cases r) (use assms(1) Some r in \<open>simp_all add: epoll_create_finishes\<close>,
      auto simp: run answer_finishes answer_checked_finishes intro!: finishes_bind split: sum.splits)
qed

section \<open>Turns\<close>

text \<open>A turn handles one request on the connection with its receive posted again, or none.\<close>

lemma poll_step_cases:
  obtains (idle) p' c' h' where "poll_step t E L fresh (p, s, c, h) = returns (Inr (p', s, c', h'))" "conn c' = conn c"
  | (error) v c' h' where "poll_step t E L fresh (p, s, c, h) = returns (Inl (v, s, c', h'))"
  | (fault) "poll_step t E L fresh (p, s, c, h) = faults Null_deref"
  | (request) c1 h1 where "conn c1 = conn c"
      "req c1 = (case out_req (E (Verb (Ibv_poll_cq (cq c) 1) # h)) of None \<Rightarrow> req c | Some q \<Rightarrow> q)"
      "poll_step t E L fresh (p, s, c, h)
        = and_then (rdma_req_event t E (L h1) (fresh h1) s c1 h1) (\<lambda>(s, c, h). returns (Inr (True, s, c, h)))"
proof -
  let ?m = "poll_step t E L fresh (p, s, c, h)"
  let ?quiet = "(\<exists>p' c' h'. ?m = returns (Inr (p', s, c', h')) \<and> conn c' = conn c) \<or> (\<exists>v c' h'. ?m = returns (Inl (v, s, c', h')))"
  show thesis
  proof (cases p)
    case False
    then have ?quiet by (auto simp: poll_step_def Let_def ext_def)
    then show thesis using that(1,2) by blast
  next
    case True
    let ?r = "E (Verb (Ibv_poll_cq (cq c) 1) # h)"
    define c1 where "c1 = (case out_req ?r of None \<Rightarrow> c | Some q \<Rightarrow> c\<lparr>req := q\<rparr>)"
    have c1: "conn c1 = conn c" "req c1 = (case out_req ?r of None \<Rightarrow> req c | Some q \<Rightarrow> q)"
      by (simp_all add: c1_def split: option.splits)
    show thesis
    proof (cases "wc_op (hd (out_wcs ?r)) = IBV_WC_RECV_RDMA_WITH_IMM \<and> positive (ret ?r) \<and> wc_status (hd (out_wcs ?r)) = 0")
      case False
      then have ?quiet using True c1(1)
        by (auto simp: poll_step_def Let_def ext_def c1_def [symmetric] simp del: One_nat_def)
      then show thesis using that(1,2) by blast
    next
      case imm: True
      let ?h = "Verb (Ibv_poll_cq (cq c) 1) # h" and ?fd = "htonl (wc_imm_data (hd (out_wcs ?r)))"
      have m: "poll_step t E L fresh (p, s, c, h) = and_then (post_recv_req E c1 ?h) (\<lambda>(_, c, h). and_then (rdma_req_event t E (L h) (fresh h) s (c\<lparr>sockfd := ?fd\<rparr>) h)
          (\<lambda>(s, c, h). returns (Inr (True, s, c, h))))"
        using True imm by (simp add: poll_step_def Let_def ext_def c1_def [symmetric] del: One_nat_def)
      show thesis
      proof (cases "req_mr c1")
        case None
        then show thesis using m that(3) by (simp add: post_recv_req_def)
      next
        case (Some mr)
        then have "\<exists>v h1. post_recv_req E c1 ?h = returns (v, c1\<lparr>client_recv_sge := sge_of mr\<rparr>, h1)"
          by (simp add: post_recv_req_def Let_def ext_def)
        then obtain v h1 where "post_recv_req E c1 ?h = returns (v, c1\<lparr>client_recv_sge := sge_of mr\<rparr>, h1)" by blast
        then show thesis using m c1 that(4) [of "c1\<lparr>client_recv_sge := sge_of mr, sockfd := ?fd\<rparr>" h1] by simp
      qed
    qed
  qed
qed

lemma poll_step_finishes:
  assumes "tables_ok s"
    and "rdma_req (case out_req (E (Verb (Ibv_poll_cq (cq c) 1) # h)) of None \<Rightarrow> req c | Some q \<Rightarrow> q)
      \<notin> {req_code RDMA_REQ_NEW_RDMA_CONN, req_code RDMA_REQ_DEL_RDMA_CONN}"
  shows "finishes (poll_step t E L fresh (p, s, c, h))"
proof (cases rule: poll_step_cases [of t E L fresh p s c h])
  case (request c1 h1)
  then show ?thesis using assms(2) by (auto intro!: finishes_bind rdma_req_event_finishes [OF assms(1)])
qed simp_all

lemma poll_step_kept:
  assumes "tables_ok s" and "set_up c"
  shows "yields (\<lambda>x. case x of Inl (v, s', c', h') \<Rightarrow> tables_ok s' \<and> spawned s' = spawned s
      | Inr (p', s', c', h') \<Rightarrow> kept s c (s', c', h')) (poll_step t E L fresh (p, s, c, h))"
proof (cases rule: poll_step_cases [of t E L fresh p s c h])
  case (request c1 h1)
  have "status c1 \<noteq> RDMA_CM_EVENT_DISCONNECTED" using set_up_conn [OF request(1)] assms(2) by (simp add: set_up_def)
  from rdma_req_event_kept [OF assms(1) this] show ?thesis
    unfolding request(3) by (rule yields_bind) (use request(1) in \<open>auto simp: kept_def\<close>)
qed (use assms in \<open>simp_all add: kept_def\<close>)

section \<open>The invariant\<close>

definition nic_ok :: "nic \<Rightarrow> bool" where
  "nic_ok n \<longleftrightarrow> tables_ok (n_server n) \<and> (\<forall>t p c. n_threads n t = Some (p, c) \<longrightarrow> set_up c)
     \<and> finite (dom (n_threads n)) \<and> card (dom (n_threads n)) \<le> Suc (length (spawned (n_server n)))"

lemma start_tables:
  assumes "start_rdma_server E s a h = (v, s', h')"
  shows "rdma_ht s' = rdma_ht s" "sock_ht s' = sock_ht s" "spawned s' = spawned s"
  using assms by (auto simp: start_rdma_server_def ext_def Let_def split: if_splits)

lemma nic_run_ok: "nic_run E L fresh n \<Longrightarrow> nic_ok n"
proof (induction rule: nic_run.induct)
  case (nic_start garbage addr h addr' h1 s h2 s' c h3 t)
  have "tables_ok s" "spawned s = []" using start_tables [OF nic_start(3)] nic_start(1)
    by (simp_all add: tables_ok_def snic_createSocketHashTable_def empty_table_def [symmetric] null_server_r_info_def)
  then show ?case using connect_event [OF nic_start(4)] connect_set_up [OF nic_start(4)] by (auto simp: nic_ok_def)
next
  case (nic_turn n t p c p' s' c' h')
  then have ok: "tables_ok (n_server n)" "set_up c" by (auto simp: nic_ok_def)
  from yieldsD [OF poll_step_kept [OF ok] nic_turn(3)] have k: "kept (n_server n) c (s', c', h')" by simp
  have "dom ((n_threads n)(t \<mapsto> (p', c'))) = dom (n_threads n)" using nic_turn(2) by auto
  then show ?case using nic_turn k ok(2) set_up_conn [of c' c] by (auto simp: nic_ok_def kept_def simp del: dom_fun_upd)
next
  case (nic_spawn n t p c p' s' c' h' c1 u)
  then have ok: "tables_ok (n_server n)" "set_up c" by (auto simp: nic_ok_def)
  from yieldsD [OF poll_step_kept [OF ok] nic_spawn(3)] have k: "kept (n_server n) c (s', c', h')" by simp
  have "dom ((n_threads n)(t \<mapsto> (p', c'), u \<mapsto> (False, c1))) = insert u (dom (n_threads n))" using nic_spawn(2) by auto
  then show ?case using nic_spawn k ok(2) set_up_conn [of c' c] by (auto simp: nic_ok_def kept_def card_insert_if simp del: dom_fun_upd)
next
  case (nic_end n t p c v s' c' h')
  then have ok: "tables_ok (n_server n)" "set_up c" by (auto simp: nic_ok_def)
  from yieldsD [OF poll_step_kept [OF ok] nic_end(3)] have k: "tables_ok s'" "spawned s' = spawned (n_server n)" by simp_all
  have "card (dom (n_threads n) - {t}) \<le> card (dom (n_threads n))" by (rule card_Diff1_le)
  then show ?case using nic_end k by (auto simp: nic_ok_def)
qed

section \<open>Properties\<close>

text \<open>C11: In every state that any interleaving of the server's threads reaches: the connection table is empty; the socket table is
  unlocked and well-formed, and holds only descriptors; every thread has a connection with an id, a queue pair and a registered request
  buffer that is not disconnected; and there is at most one thread more than new connections have been handed to threads.\<close>

theorem server_threads_invariant:
  assumes "nic_run E L fresh n"
  shows "rdma_ht (n_server n) = snic_createHashTable \<and> lock (sock_ht (n_server n)) = Unlocked \<and> ht_inv (tab (sock_ht (n_server n)))
    \<and> (\<forall>k. assoc (tab (sock_ht (n_server n))) k \<noteq> [] \<longrightarrow> \<not> negative k)
    \<and> (\<forall>t p c. n_threads n t = Some (p, c) \<longrightarrow> cm_client_id c \<noteq> 0 \<and> client_qp c \<noteq> 0 \<and> req_mr c \<noteq> None
        \<and> status c \<noteq> RDMA_CM_EVENT_DISCONNECTED)
    \<and> card (dom (n_threads n)) \<le> Suc (length (spawned (n_server n)))"
  using nic_run_ok [OF assms] unfolding nic_ok_def tables_ok_def set_up_def by blast

text \<open>C12: No thread of the server ever waits for another: in every state that the threads reach, the next turn of any thread comes to an end,
  unless the request it handles opens or closes a connection.\<close>

theorem server_turns_finish:
  assumes "nic_run E L fresh n" and "n_threads n t = Some (p, c)"
    and "rdma_req (case out_req (E (Verb (Ibv_poll_cq (cq c) 1) # n_trace n)) of None \<Rightarrow> req c | Some q \<Rightarrow> q)
      \<notin> {req_code RDMA_REQ_NEW_RDMA_CONN, req_code RDMA_REQ_DEL_RDMA_CONN}"
  shows "poll_step t E L fresh (p, n_server n, c, n_trace n) \<noteq> None"
  using poll_step_finishes [where E = E and c = c and h = "n_trace n", OF _ assms(3)] nic_run_ok [OF assms(1)]
  by (simp add: nic_ok_def finishes_def)

text \<open>A network on which every completion reports a request of kind \<open>r\<close>, and everything else succeeds.\<close>

definition busy_net :: "RDMA_REQ_MSG \<Rightarrow> env" where
  "busy_net r h = (case h of
       Verb (Ibv_poll_cq _ _) # _ \<Rightarrow> (good_net h)\<lparr>out_req := Some (req0\<lparr>rdma_req := req_code r\<rparr>),
         out_wcs := [\<lparr>wc_status = 0, wc_op = IBV_WC_RECV_RDMA_WITH_IMM, wc_with_imm = True, wc_imm_data = htonl 3\<rparr>]\<rparr>
     | _ \<Rightarrow> good_net h)"

lemma busy_net_quiet: "(\<And>k n. c \<noteq> Verb (Ibv_poll_cq k n)) \<Longrightarrow> busy_net r (c # h) = good_net (c # h)"
  by (auto simp: busy_net_def split: call.splits verb_call.splits)

lemma busy_net_poll: "busy_net r (Verb (Ibv_poll_cq k n) # h)
    = resp0\<lparr>rv := 1, out_attr := Some attr0, out_req := Some (req0\<lparr>rdma_req := req_code r\<rparr>),
        out_wcs := [\<lparr>wc_status = 0, wc_op = IBV_WC_RECV_RDMA_WITH_IMM, wc_with_imm = True, wc_imm_data = htonl 3\<rparr>]\<rparr>"
  by (simp add: busy_net_def good_net_verb)

lemma busy_net_completion: "\<exists>h'. process_work_completion_events (busy_net r) ch 1 h = Some (1, Some attr0, h')"
proof -
  have "\<not> negative (1 :: c_int)" by (simp add: negative_def)
  then have "poll_wcs (busy_net r) k 1 0 [] None h0 = Some (Inr ((1, [\<lparr>wc_status = 0, wc_op = IBV_WC_RECV_RDMA_WITH_IMM,
      wc_with_imm = True, wc_imm_data = htonl 3\<rparr>], Some attr0), Verb (Ibv_poll_cq k 1) # h0))" for k h0
    using poll_wcs_once [of "busy_net r" k 1 0 h0] by (simp add: busy_net_poll ret_def)
  then show ?thesis
    by (simp add: process_work_completion_events_def busy_net_quiet good_net_verb ext_def Let_def ret_def)
qed

lemmas busy_net_connect = net_connect [OF busy_net_quiet busy_net_completion, simplified]

text \<open>The first connection is served.\<close>

lemma busy_net_polls:
  "\<exists>n c. nic_run (busy_net r) L (\<lambda>_. client0 RDMA_REQ_SOCKET) n \<and> n_threads n = [0 \<mapsto> (True, c)]
    \<and> req_mr c = Some mr0 \<and> rtn_mr c = Some mr0"
proof -
  let ?s = "(snd (null_server_r_info server0))\<lparr>rdma_ht := snic_createHashTable, sock_ht := snic_createSocketHashTable\<rparr>"
  let ?f = "\<lambda>_ :: trace. client0 RDMA_REQ_SOCKET"
  obtain a h1 where 1: "set_server_r_info (busy_net r) addr (- 1) [] = (0, a, h1)" for addr
    by (simp add: set_server_r_info_def snic_get_addr_def busy_net_quiet good_net_cm ext_def positive_def)
  obtain s h2 where 2: "start_rdma_server (busy_net r) ?s a h1 = (0, s, h2)"
    by (simp add: start_rdma_server_def busy_net_quiet good_net_cm ext_def Let_def)
  obtain s' c h3 where 3: "connect_client_r_info (busy_net r) s (snd (snic_null_client_r_info (client0 RDMA_REQ_SOCKET))) h2
      = returns (0, s', c, h3)" "req_mr c = Some mr0" "rtn_mr c = Some mr0" using busy_net_connect by blast
  have run: "nic_run (busy_net r) L ?f \<lparr>n_server = s', n_threads = [0 \<mapsto> (False, c)], n_trace = h3\<rparr>"
    using nic_start [where t = 0 and L = L and fresh = ?f, OF _ 1 2 3(1)] by (simp add: server0_def)
  obtain h4 where "poll_step 0 (busy_net r) L ?f (False, s', c, h3) = returns (Inr (True, s', c\<lparr>cq := 0\<rparr>, h4))"
    by (simp add: poll_step_def busy_net_quiet good_net_verb ext_def Let_def)
  from nic_turn [OF run _ _ refl, of 0 False c True "c\<lparr>cq := 0\<rparr>" h4] this 3(2,3) show ?thesis
    by (intro exI [of _ "\<lparr>n_server = s', n_threads = [0 \<mapsto> (True, c\<lparr>cq := 0\<rparr>)], n_trace = h4\<rparr>"] exI [of _ "c\<lparr>cq := 0\<rparr>"]) simp
qed

lemma busy_net_delivers: "delivers (busy_net r (Verb (Ibv_poll_cq k 1) # h)) (req0\<lparr>rdma_req := req_code r\<rparr>) 3"
  by (simp add: delivers_def busy_net_poll positive_def ret_def del: One_nat_def)

text \<open>A request for a new connection adds a thread.\<close>

lemma busy_net_spawns:
  assumes "req_mr c = Some mr0" and "rtn_mr c = Some mr0"
  shows "\<exists>s' c' n h'. poll_step 0 (busy_net RDMA_REQ_NEW_RDMA_CONN) (\<lambda>_. locals0) (\<lambda>_. client0 RDMA_REQ_SOCKET) (True, s, c, h)
      = returns (Inr (True, s', c', h')) \<and> spawned s' = n # spawned s"
proof -
  let ?E = "busy_net RDMA_REQ_NEW_RDMA_CONN" and ?q = "req0\<lparr>rdma_req := req_code RDMA_REQ_NEW_RDMA_CONN\<rparr>"
  let ?h = "Verb (Ibv_post_recv (client_qp c) (sge_of mr0)) # Verb (Ibv_poll_cq (cq c) 1) # h"
  let ?c = "c\<lparr>req := ?q, client_recv_sge := sge_of mr0, sockfd := 3\<rparr>"
  obtain c1 h1 where 1: "answer ?E s ?c ((rtn ?c)\<lparr>rtn_value := 1\<rparr>, ?h) = returns (s, c1, h1)"
    using answer_returns [of ?c mr0 ?h "((rtn ?c)\<lparr>rtn_value := 1\<rparr>, ?h)" ?E s] assms(2) by auto
  obtain s2 n h2 where 2: "connect_client_r_info ?E s (snd (snic_null_client_r_info (client0 RDMA_REQ_SOCKET))) h1
      = returns (0, s2, n, h2)" using busy_net_connect by blast
  have p: "ret (?E (Pthread_create k # h2)) = 0" for k by (simp add: busy_net_quiet good_net_def)
  have "rdma_req_event 0 ?E locals0 (client0 RDMA_REQ_SOCKET) s ?c ?h
      = returns (s2\<lparr>spawned := n # spawned s2\<rparr>, c1, Pthread_create (cm_client_id n) # h2)"
    using 1 2 p by (simp add: rdma_req_event_def locals0_def ext_def Let_def del: req_code.simps One_nat_def)
  moreover have "spawned s2 = spawned s" using connect_event [OF 2] by auto
  ultimately show ?thesis
    using poll_step_delivers [where E = ?E and t = 0 and L = "\<lambda>_. locals0" and fresh = "\<lambda>_. client0 RDMA_REQ_SOCKET" and s = s and h = h,
        OF busy_net_delivers assms(1)]
    by (simp del: req_code.simps One_nat_def)
qed

theorem server_threads_invariant_witness:
  "\<exists>n c c'. nic_run (busy_net RDMA_REQ_NEW_RDMA_CONN) (\<lambda>_. locals0) (\<lambda>_. client0 RDMA_REQ_SOCKET) n
    \<and> n_threads n = [0 \<mapsto> (True, c), 1 \<mapsto> (False, c')] \<and> lock (sock_ht (n_server n)) = Unlocked \<and> client_qp c' \<noteq> 0"
proof -
  let ?run = "nic_run (busy_net RDMA_REQ_NEW_RDMA_CONN) (\<lambda>_. locals0) (\<lambda>_. client0 RDMA_REQ_SOCKET)"
  obtain n c where n: "?run n" "n_threads n = [0 \<mapsto> (True, c)]" "req_mr c = Some mr0" "rtn_mr c = Some mr0"
    using busy_net_polls by blast
  obtain s' c1 c2 h' where t: "poll_step 0 (busy_net RDMA_REQ_NEW_RDMA_CONN) (\<lambda>_. locals0) (\<lambda>_. client0 RDMA_REQ_SOCKET)
      (True, n_server n, c, n_trace n) = returns (Inr (True, s', c1, h'))" "spawned s' = c2 # spawned (n_server n)"
    using busy_net_spawns [OF n(3,4)] by blast
  define n' where "n' = \<lparr>n_server = s', n_threads = [0 \<mapsto> (True, c1), 1 \<mapsto> (False, c2)], n_trace = h'\<rparr>"
  have run: "?run n'" using nic_spawn [OF n(1) _ t(1) t(2), of 1] n(2) by (simp add: n'_def)
  have th: "n_threads n' = [0 \<mapsto> (True, c1), 1 \<mapsto> (False, c2)]" "n_threads n' 1 = Some (False, c2)" by (simp_all add: n'_def)
  from server_threads_invariant [OF run] run th show ?thesis by blast
qed

theorem server_turns_finish_witness:
  "\<exists>n c. nic_run (busy_net RDMA_REQ_CLOSE) (\<lambda>_. locals0) (\<lambda>_. client0 RDMA_REQ_SOCKET) n \<and> n_threads n 0 = Some (True, c)
    \<and> poll_step 0 (busy_net RDMA_REQ_CLOSE) (\<lambda>_. locals0) (\<lambda>_. client0 RDMA_REQ_SOCKET) (True, n_server n, c, n_trace n) \<noteq> None"
proof -
  obtain n c where n: "nic_run (busy_net RDMA_REQ_CLOSE) (\<lambda>_. locals0) (\<lambda>_. client0 RDMA_REQ_SOCKET) n"
      "n_threads n = [0 \<mapsto> (True, c)]" using busy_net_polls by blast
  have "rdma_req (case out_req (busy_net RDMA_REQ_CLOSE (Verb (Ibv_poll_cq (cq c) 1) # n_trace n)) of None \<Rightarrow> req c | Some q \<Rightarrow> q)
      \<notin> {req_code RDMA_REQ_NEW_RDMA_CONN, req_code RDMA_REQ_DEL_RDMA_CONN}"
    by (simp add: busy_net_poll)
  moreover have "n_threads n 0 = Some (True, c)" using n(2) by simp
  ultimately show ?thesis using server_turns_finish [where E = "busy_net RDMA_REQ_CLOSE", OF n(1)] n(1) by blast
qed

end
