(* ===== verification/Text.thy ===== *)
theory Text
  imports Env "HOL-Library.Sublist"
begin

text \<open>
  Character strings of the C library as the test programs use them: a string is the list of
  its bytes without the terminating 0. The searches return the rest of the string
  from the place that was found, as the pointers of C do.
\<close>

section \<open>Strings\<close>

definition ascii :: "string \<Rightarrow> byte list" where
  "ascii s = map (\<lambda>c. of_char c) s"

lemma ascii_simps [simp]:
  "ascii [] = []" "ascii (c # s) = of_char c # ascii s" "ascii (s @ t) = ascii s @ ascii t"
  by (simp_all add: ascii_def)

text \<open>The string at the start of a byte array, and what \<open>snprintf\<close> leaves of a text.\<close>

definition c_str :: "byte list \<Rightarrow> byte list" where
  "c_str bs = takeWhile (\<lambda>b. b \<noteq> 0) bs"

definition snprintf :: "nat \<Rightarrow> byte list \<Rightarrow> byte list" where
  "snprintf cap s = take (cap - 1) s"

fun strstr :: "byte list \<Rightarrow> byte list \<Rightarrow> byte list option" where
  "strstr [] p = (if p = [] then Some [] else None)"
| "strstr (b # s) p = (if prefix p (b # s) then Some (b # s) else strstr s p)"

definition lower :: "byte \<Rightarrow> byte" where
  "lower b = (if 65 \<le> b \<and> b \<le> 90 then b + 32 else b)"

fun strcasestr :: "byte list \<Rightarrow> byte list \<Rightarrow> byte list option" where
  "strcasestr [] p = (if p = [] then Some [] else None)"
| "strcasestr (b # s) p = (if prefix (map lower p) (map lower (b # s)) then Some (b # s) else strcasestr s p)"

fun strchr :: "byte list \<Rightarrow> byte \<Rightarrow> byte list option" where
  "strchr [] c = None"
| "strchr (b # s) c = (if b = c then Some (b # s) else strchr s c)"

lemma strstr_None: "strstr s p = None \<longleftrightarrow> \<not> sublist p s"
  by (induction s p rule: strstr.induct) (auto simp: sublist_Cons_right)

lemma strstr_Some: "strstr s p = Some t \<Longrightarrow> suffix t s \<and> prefix p t"
  by (induction s p rule: strstr.induct) (auto split: if_splits intro: suffix_ConsI)

lemma strcasestr_Some: "strcasestr s p = Some t \<Longrightarrow> suffix t s \<and> prefix (map lower p) (map lower t)"
  by (induction s p rule: strcasestr.induct) (auto split: if_splits intro: suffix_ConsI)

lemma strchr_None: "strchr s c = None \<longleftrightarrow> c \<notin> set s"
  by (induction s) auto

lemma strchr_append: "c \<notin> set s \<Longrightarrow> strchr (s @ c # t) c = Some (c # t)"
  by (induction s) auto

lemma strchr_Some: "strchr s c = Some t \<Longrightarrow> \<exists>u v. s = u @ c # v \<and> t = c # v \<and> c \<notin> set u"
proof (induction s)
  case (Cons b s)
  show ?case
  proof (cases "b = c")
    case True
    then have "b # s = [] @ c # s \<and> t = c # s \<and> c \<notin> set []" using Cons.prems by simp
    then show ?thesis by blast
  next
    case False
    then obtain u v where "s = u @ c # v \<and> t = c # v \<and> c \<notin> set u" using Cons by auto
    then have "b # s = (b # u) @ c # v \<and> t = c # v \<and> c \<notin> set (b # u)" using False by simp
    then show ?thesis by blast
  qed
qed simp

text \<open>The comparison at one place, byte by byte.\<close>

fun ci_prefix :: "byte list \<Rightarrow> byte list \<Rightarrow> bool" where
  "ci_prefix [] s = True"
| "ci_prefix (c # p) [] = False"
| "ci_prefix (c # p) (b # s) = (if lower c = lower b then ci_prefix p s else False)"

lemma prefix_lower: "prefix (map lower p) (map lower s) = ci_prefix p s"
  by (induction p s rule: ci_prefix.induct) auto

lemma strcasestr_Cons: "strcasestr (b # s) p = (if ci_prefix p (b # s) then Some (b # s) else strcasestr s p)"
  using prefix_lower [of p "b # s"] by simp

declare strcasestr.simps(2) [simp del]

section \<open>Numbers\<close>

text \<open>\<open>%zu\<close> and \<open>%jd\<close>.\<close>

fun dec_nat :: "nat \<Rightarrow> byte list" where
  "dec_nat n = (if n < 10 then [48 + word_of_nat n] else dec_nat (n div 10) @ [48 + word_of_nat (n mod 10)])"

declare dec_nat.simps [simp del]

definition dec_int :: "int \<Rightarrow> byte list" where
  "dec_int k = (if k < 0 then 45 # dec_nat (nat (- k)) else dec_nat (nat k))"

definition isdigit :: "byte \<Rightarrow> bool" where
  "isdigit b \<longleftrightarrow> 48 \<le> b \<and> b \<le> 57"

definition isspace :: "byte \<Rightarrow> bool" where
  "isspace b \<longleftrightarrow> b = 32 \<or> 9 \<le> b \<and> b \<le> 13"

definition digits_value :: "byte list \<Rightarrow> nat" where
  "digits_value ds = foldl (\<lambda>v d. 10 * v + unat (d - 48)) 0 ds"

text \<open>\<open>strtoll\<close> with base 10: \<open>None\<close> when there are no digits, and the nearest value of the type
  when the number does not fit. \<open>atoi\<close> converts the result to \<open>int\<close>.\<close>

definition strtoll :: "byte list \<Rightarrow> int option" where
  "strtoll s =
     (let s = dropWhile isspace s;
          minus = s \<noteq> [] \<and> hd s = 45;
          s = (if s \<noteq> [] \<and> (hd s = 45 \<or> hd s = 43) then tl s else s);
          ds = takeWhile isdigit s
      in if ds = [] then None
         else let v = (if minus then - int (digits_value ds) else int (digits_value ds))
              in Some (max (- (2 ^ 63)) (min (2 ^ 63 - 1) v)))"

definition atoi :: "byte list \<Rightarrow> c_int" where
  "atoi s = (case strtoll s of None \<Rightarrow> 0 | Some v \<Rightarrow> word_of_int v)"

lemma digit_byte: "n < 10 \<Longrightarrow> isdigit (48 + word_of_nat n) \<and> unat (word_of_nat n :: byte) = n"
proof -
  assume "n < 10"
  then have "n \<in> {0, 1, 2, 3, 4, 5, 6, 7, 8, 9}" by auto
  then show ?thesis by (auto simp: isdigit_def)
qed

lemma dec_nat_digits: "(\<forall>b \<in> set (dec_nat n). isdigit b) \<and> dec_nat n \<noteq> []"
proof (induction n rule: dec_nat.induct)
  case (1 n)
  then show ?case by (subst (1 2) dec_nat.simps) (auto simp: digit_byte)
qed

lemma digits_value_dec_nat: "digits_value (dec_nat n) = n"
proof (induction n rule: dec_nat.induct)
  case (1 n)
  then show ?case
    by (subst dec_nat.simps) (auto simp: digits_value_def digit_byte)
qed

lemma takeWhile_digits:
  "(\<forall>b \<in> set ds. isdigit b) \<Longrightarrow> rest = [] \<or> \<not> isdigit (hd rest) \<Longrightarrow> takeWhile isdigit (ds @ rest) = ds"
  by (cases rest) (simp_all add: takeWhile_append)

lemma length_dec_nat: "n < 10 ^ Suc k \<Longrightarrow> length (dec_nat n) \<le> Suc k"
proof (induction k arbitrary: n)
  case 0
  then show ?case by (subst dec_nat.simps) simp
next
  case (Suc k)
  then have "n div 10 < 10 ^ Suc k" by (simp add: less_mult_imp_div_less)
  from Suc.IH [OF this] show ?case by (subst dec_nat.simps) simp
qed

text \<open>Reading a printed number gives it back.\<close>

lemma strtoll_dec_nat:
  assumes "n < 2 ^ 63" and "rest = [] \<or> \<not> isdigit (hd rest)"
  shows "strtoll (dec_nat n @ rest) = Some (int n)"
proof -
  obtain d ds where d: "dec_nat n = d # ds" "isdigit d" using dec_nat_digits [of n]
    by (metis list.exhaust list.set_intros(1))
  have s: "\<not> isspace d" "d \<noteq> 45" "d \<noteq> 43"
    using d(2) unat_arith_simps(1) [of 48 d] by (auto simp: isdigit_def isspace_def word_le_nat_alt)
  have "takeWhile isdigit (dec_nat n @ rest) = dec_nat n"
    using takeWhile_digits assms(2) dec_nat_digits by blast
  then show ?thesis using s d(1) assms(1) digits_value_dec_nat [of n]
    by (simp add: strtoll_def Let_def)
qed

lemma strtoll_dec_int:
  assumes "0 \<le> k" and "k < 2 ^ 63" and "rest = [] \<or> \<not> isdigit (hd rest)"
  shows "strtoll (dec_int k @ rest) = Some k"
  using strtoll_dec_nat [of "nat k" rest] assms by (simp add: dec_int_def)

end
