(* ===== verification/Printing.thy ===== *)
theory Printing
  imports Bridge Text
begin

text \<open>
  The printing functions of \<open>rdma_common.c\<close>, as far as they look at the program's data, with debugging switched on as in
  \<open>config.h\<close>. A function returns what it writes, stream by stream, or the fault of reading beyond an array: \<open>%s\<close> reads up
  to a byte 0 wherever that is. The other theories leave printing out; what is shown here is when that is harmless.
\<close>

section \<open>Output\<close>

datatype stream = Stdout | Stderr

type_synonym written = "(stream \<times> byte list) list"

fun hex_digit :: "nat \<Rightarrow> byte" where
  "hex_digit n = (if n < 10 then 48 + word_of_nat n else 87 + word_of_nat n)"

fun hex_nat :: "nat \<Rightarrow> byte list" where
  "hex_nat n = (if n < 16 then [hex_digit n] else hex_nat (n div 16) @ [hex_digit (n mod 16)])"

declare hex_nat.simps [simp del]

text \<open>\<open>%p\<close>.\<close>

definition hex_ptr :: "u64 \<Rightarrow> byte list" where
  "hex_ptr p = (if p = 0 then ascii ''(nil)'' else ascii ''0x'' @ hex_nat (unat p))"

definition position :: "string \<Rightarrow> nat \<Rightarrow> byte list" where
  "position f line = ascii ''[rdma_common.c '' @ ascii f @ ascii '' '' @ dec_nat line @ ascii ''] ''"

definition debugMes :: "byte list \<Rightarrow> stream \<times> byte list" where
  "debugMes s = (Stdout, s)"

definition debugInfoMes :: "string \<Rightarrow> nat \<Rightarrow> byte list \<Rightarrow> stream \<times> byte list" where
  "debugInfoMes f line s = (Stdout, position f line @ s)"

definition COLOR_RED :: "byte list" where "COLOR_RED = 27 # ascii ''[1;31m''"
definition COLOR_BLUE :: "byte list" where "COLOR_BLUE = 27 # ascii ''[1;34m''"
definition COLOR_RESET :: "byte list" where "COLOR_RESET = 27 # ascii ''[0m''"

definition errorInfoMes :: "string \<Rightarrow> nat \<Rightarrow> byte list \<Rightarrow> stream \<times> byte list" where
  "errorInfoMes f line s = (Stderr, COLOR_RED @ position f line @ ascii ''ERROR : '' @ s @ COLOR_RESET @ [10])"

definition warningInfoMes :: "string \<Rightarrow> nat \<Rightarrow> byte list \<Rightarrow> stream \<times> byte list" where
  "warningInfoMes f line s = (Stderr, COLOR_BLUE @ position f line @ ascii ''WARNING : '' @ s @ COLOR_RESET @ [10])"

definition dashes :: "byte list" where
  "dashes = replicate 57 45 @ [10]"

section \<open>Messages\<close>

text \<open>The string in the data of a message.\<close>

definition data_str :: "buf \<Rightarrow> fault + byte list" where
  "data_str b = (let bs = buf_get b 0 BUFFER_SIZE in if 0 \<in> set bs then Inr (c_str bs) else Inl Out_of_bounds)"

definition show_req :: "nat \<Rightarrow> req_msg option \<Rightarrow> fault + written" where
  "show_req line msg =
     (case msg of None \<Rightarrow> Inr [errorInfoMes ''show_req_msg'' line (ascii ''Passed msg is NULL'' @ [10])]
      | Some q \<Rightarrow>
          (case data_str (req_data q) of Inl e \<Rightarrow> Inl e
           | Inr s \<Rightarrow> Inr [debugMes dashes,
               debugMes (ascii ''req_msg, rdma_req: '' @ dec_int (sint (rdma_req q)) @ ascii '' , buf_sz: '' @ dec_int (sint (buf_sz q))
                 @ ascii '' , '' @ [10] @ ascii '' data : '' @ s @ [10]),
               debugMes dashes]))"

definition show_rtn :: "nat \<Rightarrow> rtn_msg option \<Rightarrow> fault + written" where
  "show_rtn line msg =
     (case msg of None \<Rightarrow> Inr [errorInfoMes ''show_rtn_msg'' line (ascii ''Passed msg is NULL'' @ [10])]
      | Some m \<Rightarrow>
          (case data_str (rtn_data m) of Inl e \<Rightarrow> Inl e
           | Inr s \<Rightarrow> Inr [debugMes dashes,
               debugMes (ascii ''rtn_msg, rtn_value: '' @ dec_int (sint (rtn_value m)) @ ascii '' , errno: '' @ dec_int (sint (rtn_errno m))
                 @ ascii '' , '' @ [10] @ ascii '' data : '' @ s @ [10]),
               debugMes dashes]))"

text \<open>The two copies of the file differ in their line numbers.\<close>

definition show_req_msg where "show_req_msg = show_req 218"
definition show_rtn_msg where "show_rtn_msg = show_rtn 230"
definition snic_show_req_msg where "snic_show_req_msg = show_req 216"
definition snic_show_rtn_msg where "snic_show_rtn_msg = show_rtn 228"

definition show_rdma_buffer_attr :: "rdma_buffer_attr option \<Rightarrow> written" where
  "show_rdma_buffer_attr attr =
     (case attr of None \<Rightarrow> [errorInfoMes ''show_rdma_buffer_attr'' 29 (ascii ''Passed attr is NULL'' @ [10])]
      | Some a \<Rightarrow> [debugMes dashes,
          debugMes (ascii ''buffer attr, addr: '' @ hex_ptr (attr_address a) @ ascii '' , len: '' @ dec_nat (unat (attr_length a))
            @ ascii '' , local_stag : 0x'' @ hex_nat (unat (attr_stag a)) @ ascii '', remote_stag : 0x'' @ hex_nat (unat (attr_stag a)) @ [10]),
          debugMes dashes])"

definition snic_show_rdma_buffer_attr where "snic_show_rdma_buffer_attr = show_rdma_buffer_attr"

text \<open>What is read of a connection identifier: its address, the device context with the name of its device, the event channel, the queue
  pair, the port space and the port. The messages that take several lines of the source have the number of their first line.\<close>

record rdma_cm_id =
  id_addr :: u64
  id_verbs :: "(u64 \<times> byte list option) option"
  id_channel :: u64
  id_qp :: u64
  id_ps :: u32
  id_port_num :: byte

definition show_rdma_cmid :: "rdma_cm_id option \<Rightarrow> written" where
  "show_rdma_cmid cmid =
     (case cmid of None \<Rightarrow> [errorInfoMes ''show_rdma_cmid'' 13 (ascii ''Passed ptr is NULL'' @ [10])]
      | Some d \<Rightarrow>
          [debugInfoMes ''show_rdma_cmid'' 16 (ascii ''RDMA cm id at '' @ hex_ptr (id_addr d) @ ascii '' '' @ [10])]
          @ (case id_verbs d of
               Some (v, Some name) \<Rightarrow> [debugInfoMes ''show_rdma_cmid'' 18 (ascii ''dev_ctx: '' @ hex_ptr v @ ascii '' (device name: ''
                 @ name @ ascii '') '' @ [10])]
             | _ \<Rightarrow> [])
          @ (if id_channel d \<noteq> 0 then [debugInfoMes ''show_rdma_cmid'' 21 (ascii ''cm event channel '' @ hex_ptr (id_channel d) @ [10])] else [])
          @ [debugInfoMes ''show_rdma_cmid'' 22 (ascii ''QP: '' @ hex_ptr (id_qp d) @ ascii '', port_space '' @ hex_nat (unat (id_ps d))
               @ ascii '', port_num '' @ dec_nat (unat (id_port_num d)) @ ascii '' '' @ [10])])"

definition snic_show_rdma_cmid where "snic_show_rdma_cmid = show_rdma_cmid"

section \<open>Requests and sets\<close>

text \<open>The line and the name that are printed for a request.\<close>

fun req_name :: "RDMA_REQ_MSG \<Rightarrow> nat \<times> string" where
  "req_name RDMA_REQ_SOCKET = (1113, ''SOCKET'')"
| "req_name RDMA_REQ_CLOSE = (1116, ''CLOSE'')"
| "req_name RDMA_REQ_READ = (1119, ''READ'')"
| "req_name RDMA_REQ_WRITE = (1122, ''WRITE'')"
| "req_name RDMA_REQ_BIND = (1125, ''BIND'')"
| "req_name RDMA_REQ_LISTEN = (1128, ''LISTEN'')"
| "req_name RDMA_REQ_ACCEPT = (1131, ''ACCEPT'')"
| "req_name RDMA_REQ_CONNECT = (1134, ''CONNECT'')"
| "req_name RDMA_REQ_SELECT = (1137, ''SELECT'')"
| "req_name RDMA_REQ_EPOLL_CREATE1 = (1140, ''EPOLL_CREATE1'')"
| "req_name RDMA_REQ_EPOLL_CTL = (1143, ''EPOLL_CTL'')"
| "req_name RDMA_REQ_EPOLL_WAIT = (1146, ''EPOLL_WAIT'')"
| "req_name RDMA_REQ_POLL = (1149, ''POLL'')"
| "req_name RDMA_REQ_FCNTL = (1152, ''FCNTL'')"
| "req_name RDMA_REQ_SETSOCKOPT = (1155, ''SETSOCKOPT'')"
| "req_name RDMA_REQ_GETSOCKOPT = (1158, ''GETSOCKOPT'')"
| "req_name RDMA_REQ_GETPEERNAME = (1161, ''GETPEERNAME'')"
| "req_name RDMA_REQ_GETSOCKNAME = (1164, ''GETSOCKNAME'')"
| "req_name RDMA_REQ_NEW_RDMA_CONN = (1167, ''NEW_RDMA_CONN'')"
| "req_name RDMA_REQ_DEL_RDMA_CONN = (1170, ''CLOSE_RDMA_CONN'')"

definition print_req_rdma :: "c_int \<Rightarrow> written" where
  "print_req_rdma r =
     (case req_of_code r of
        Some q \<Rightarrow> [debugInfoMes ''print_req_rdma'' (fst (req_name q)) (ascii ''Request RDMA: '' @ ascii (snd (req_name q)) @ [10])]
      | None \<Rightarrow> [debugInfoMes ''print_req_rdma'' 1173 (ascii ''Request RDMA: UNKNOWN ('' @ dec_int (sint r) @ ascii '')'' @ [10])])"

text \<open>\<open>FD_ISSET\<close> beyond the 1024 descriptors of a set reads outside it.\<close>

definition print_set :: "nat \<Rightarrow> fd_set option \<Rightarrow> c_int \<Rightarrow> fault + written" where
  "print_set line fds max_fd =
     (case fds of None \<Rightarrow> if sint max_fd < 0 then Inr [debugInfoMes ''print_fd_set'' line (ascii ''FD_SET: ''), debugMes [10]] else Inl Null_deref
      | Some s \<Rightarrow>
          if 1024 \<le> sint max_fd then Inl Out_of_bounds
          else Inr (debugInfoMes ''print_fd_set'' line (ascii ''FD_SET: '')
                 # map (\<lambda>i. debugMes (dec_nat i @ [32])) (filter (bit s) [0..<nat (sint max_fd + 1)]) @ [debugMes [10]]))"

definition print_fd_set where "print_fd_set = print_set 731"
definition snic_print_fd_set where "snic_print_fd_set = print_set 703"

text \<open>The events of \<open>poll\<close> in the order they are tested. \<open>POLLRDHUP\<close> is not defined here: the file is compiled without
  \<open>_GNU_SOURCE\<close>. The 16-bit field is extended with its sign for \<open>%x\<close>.\<close>

definition poll_flags :: "(u16 \<times> string) list" where
  "poll_flags = [(1, ''POLLIN ''), (4, ''POLLOUT ''), (8, ''POLLERR ''), (16, ''POLLHUP ''), (32, ''POLLNVAL ''), (2, ''POLLPRI '')]"

definition flag_names :: "u16 \<Rightarrow> written" where
  "flag_names ev = map (\<lambda>(m, s). debugMes (ascii s)) (filter (\<lambda>(m, s). ev AND m \<noteq> 0) poll_flags)"

definition print_pollfd :: "nat \<Rightarrow> pollfd \<Rightarrow> written" where
  "print_pollfd i p =
     debugMes (ascii ''fd['' @ dec_nat i @ ascii ''] = '' @ dec_int (sint (pfd_fd p)) @ ascii '', revents = 0x''
       @ hex_nat (unat (scast (pfd_revents p) :: c_int)) @ ascii '': '')
     # (if pfd_revents p = 0 then [debugMes (ascii ''No event'' @ [10])] else flag_names (pfd_revents p) @ [debugMes [10]])"

definition print_revents :: "nat \<Rightarrow> pollfd list option \<Rightarrow> u64 \<Rightarrow> fault + written" where
  "print_revents line fds nfds =
     (if fds = None \<or> nfds = 0 then Inr [debugInfoMes ''print_poll_revents'' line (ascii ''No pollfd data provided.'' @ [10])]
      else if length (the fds) < unat nfds then Inl Out_of_bounds
      else Inr (concat (map (\<lambda>i. print_pollfd i (the fds ! i)) [0..<unat nfds])))"

definition print_poll_revents where "print_poll_revents = print_revents 863"
definition snic_print_poll_revents where "snic_print_poll_revents = print_revents 835"

text \<open>The state of a queue pair; the queried state is the field \<open>out_mode\<close> of the response.\<close>

definition qp_states :: "string list" where
  "qp_states = [''RESET'', ''INIT'', ''RTR'', ''RTS'', ''SQD'', ''SQE'', ''ERR'', ''UNKNOWN'']"

definition print_qp_state :: "env \<Rightarrow> ptr \<Rightarrow> trace \<Rightarrow> written \<times> trace" where
  "print_qp_state E qp h =
     (let out = [warningInfoMes ''print_qp_state'' 1180 (ascii ''print_qp_state called'' @ [10])] in
      if qp = 0 then (out @ [errorInfoMes ''print_qp_state'' 1182 (ascii ''qp is NULL!'')], h)
      else
        let out = out @ [warningInfoMes ''print_qp_state'' 1185 (ascii ''qp is not NULL, proceeding to query QP state'' @ [10])];
            (r, h) = ext E (Verb (Ibv_query_qp qp)) h in
        if ret r \<noteq> 0 then
          (out @ [errorInfoMes ''print_qp_state'' 1189 (ascii ''ibv_query_qp failed ('' @ dec_int (sint (ret r)) @ ascii '')'')], h)
        else
          let state = out_mode r;
              idx = (if state \<le> 6 then unat state else 7)
          in (out @ [debugInfoMes ''print_qp_state'' 1197 (ascii ''QP state = '' @ ascii (qp_states ! idx) @ ascii '' ('' @ dec_int (sint state)
                @ ascii '')'' @ [10])], h))"

section \<open>When printing is harmless\<close>

lemma data_str_fault: "data_str b = Inl e \<longleftrightarrow> e = Out_of_bounds \<and> (\<forall>i < BUFFER_SIZE. b i \<noteq> 0)"
  by (auto simp: data_str_def buf_get_def Let_def)

lemma show_fault:
  "show_req line (Some q) = Inl e \<longleftrightarrow> data_str (req_data q) = Inl e"
  "show_rtn line (Some m) = Inl e \<longleftrightarrow> data_str (rtn_data m) = Inl e"
  by (auto simp: show_req_def show_rtn_def split: sum.splits)

lemmas show_defs = show_req_msg_def show_rtn_msg_def snic_show_req_msg_def snic_show_rtn_msg_def

lemma shown: "(\<exists>out. show_req line (Some q) = Inr out) \<longleftrightarrow> (\<exists>i < BUFFER_SIZE. req_data q i = 0)"
  using show_fault(1) [of line q] data_str_fault [of "req_data q"] by (cases "show_req line (Some q)") auto

text \<open>C33: Printing a message reads its data as a string. A write request that the client fills in a buffer with a byte 0 at its
  end is printed safely before it is sent; but the reply to a read that fills the whole message with other bytes has no byte 0, and
  printing it, as the server does before it sends it, reads past the end of the structure.\<close>

theorem printing_overruns_full_reply:
  assumes "length (out_bytes r) = BUFFER_SIZE" and "0 \<notin> set (out_bytes r)"
    and "length bs + 12 < BUFFER_SIZE" and "req_data (r_req ri) (BUFFER_SIZE - 1) = 0"
  shows "snic_show_rtn_msg (Some (read_reply m r)) = Inl Out_of_bounds
    \<and> (\<exists>out. show_req_msg (Some (r_req (outgoing_write ri fd bs))) = Inr out)"
proof -
  have "rtn_data (read_reply m r) i \<noteq> 0" if "i < BUFFER_SIZE" for i
  proof -
    have "out_bytes r ! i \<noteq> 0" using that assms(1,2) by (metis nth_mem)
    then show ?thesis using that assms(1) by (simp add: read_reply_def buf_put_def)
  qed
  then have "data_str (rtn_data (read_reply m r)) = Inl Out_of_bounds" by (simp add: data_str_fault)
  moreover have "req_data (r_req (outgoing_write ri fd bs)) (BUFFER_SIZE - 1) = 0"
    using assms(3,4) by (auto simp: outgoing_write_def buf_put_def)
  moreover have "BUFFER_SIZE - 1 < BUFFER_SIZE" using assms(3) by simp
  ultimately show ?thesis unfolding show_defs shown by (auto simp: show_fault)
qed

theorem printing_overruns_full_reply_witness:
  "snic_show_rtn_msg (Some (read_reply rtn0 (resp0\<lparr>out_bytes := replicate BUFFER_SIZE 1\<rparr>))) = Inl Out_of_bounds
    \<and> (\<exists>out. show_req_msg (Some (r_req (outgoing_write (r_info0\<lparr>r_req := req0\<rparr>) 7 [104, 105]))) = Inr out)"
proof (rule printing_overruns_full_reply)
  show "0 \<notin> set (out_bytes (resp0\<lparr>out_bytes := replicate BUFFER_SIZE 1\<rparr>))" by simp
qed (simp_all add: BUFFER_SIZE_def req0_def)

text \<open>The names under which requests are printed identify them.\<close>

lemma req_name_inj: "snd (req_name r) = snd (req_name r') \<longleftrightarrow> r = r'"
  by (cases r; cases r') simp_all

end
