(* ===== verification/Wrappers.thy ===== *)
theory Wrappers
  imports Process Text
begin

text \<open>
  The functions of \<open>hook.c\<close> that the application calls by the names of the C library, in the variant
  with \<open>LD_PRELOAD\<close>, the test for calls that come from the RDMA libraries, and the start of the process.
  What \<open>backtrace_symbols\<close> reports is a parameter.
\<close>

section \<open>The call stack\<close>

definition rdma_names :: "byte list list" where
  "rdma_names = [ascii ''librdma_client'', ascii ''rda_rdma'', ascii ''libibverbs'', ascii ''client_prepare_connection'']"

fun scan_frames :: "byte list list \<Rightarrow> c_int" where
  "scan_frames [] = 0"
| "scan_frames (s # functions) =
     (if strstr s (rdma_names ! 0) \<noteq> None then 1
      else if strstr s (rdma_names ! 1) \<noteq> None then 1
      else if strstr s (rdma_names ! 2) \<noteq> None then 1
      else if strstr s (rdma_names ! 3) \<noteq> None then 1
      else scan_frames functions)"

text \<open>At most ten frames are asked for.\<close>

definition is_called_from_rdma_client :: "byte list list \<Rightarrow> c_int" where
  "is_called_from_rdma_client stack = scan_frames (take 10 stack)"

section \<open>The replacing functions\<close>

definition hooked_socket ::
    "env \<Rightarrow> hook_locals \<Rightarrow> byte list list \<Rightarrow> host \<Rightarrow> c_int \<Rightarrow> c_int \<Rightarrow> c_int \<Rightarrow> trace \<Rightarrow> (c_int \<times> host \<times> trace) run" where
  "hooked_socket E J stack hs domain type protocol h =
     (if is_called_from_rdma_client stack \<noteq> 0 then
        let (r, hs, h) = original E hs (Orig_socket domain type protocol) h in returns (ret r, hs, h)
      else req_sock E J hs h)"

definition hooked_read ::
    "env \<Rightarrow> hook_locals \<Rightarrow> byte list list \<Rightarrow> host \<Rightarrow> c_int \<Rightarrow> byte list \<Rightarrow> trace \<Rightarrow> (i64 \<times> byte list \<times> host \<times> trace) run" where
  "hooked_read E J stack hs fd bs h =
     (if is_called_from_rdma_client stack \<noteq> 0 then
        let (r, hs, h) = original E hs (Orig_read fd (word_of_nat (length bs))) h
        in returns (rv r, out_bytes r @ drop (length (out_bytes r)) bs, hs, h)
      else req_read E J hs fd bs h)"

text \<open>\<open>epoll_create\<close> drops its size.\<close>

definition hooked_epoll_create :: "env \<Rightarrow> hook_locals \<Rightarrow> host \<Rightarrow> c_int \<Rightarrow> trace \<Rightarrow> (c_int \<times> host \<times> trace) run" where
  "hooked_epoll_create E J hs n h = req_epoll_create1 E J hs 0 h"

text \<open>A function that nothing calls; \<open>loaded\<close> says that the pointer to the original one has been set.\<close>

definition req_epoll_create :: "env \<Rightarrow> bool \<Rightarrow> host \<Rightarrow> c_int \<Rightarrow> trace \<Rightarrow> (c_int \<times> host \<times> trace) run" where
  "req_epoll_create E loaded hs n h =
     (if \<not> loaded then faults Null_deref
      else let (r, hs, h) = original E hs (Orig_epoll_create1 0) h in returns (ret r, hs, h))"

definition hooked_connect where "hooked_connect E J hs fd addr addrlen h = req_connect E J hs fd addr addrlen h"
definition hooked_send where "hooked_send E J hs fd bs flags h = req_send E J hs fd bs flags h"
definition hooked_write where "hooked_write E J hs fd bs h = req_write E J hs fd bs h"
definition hooked_recv where "hooked_recv E J hs fd bs flags h = req_recv E J hs fd bs flags h"
definition hooked_close where "hooked_close E J hs fd h = req_close E J hs fd h"
definition hooked_bind where "hooked_bind E J hs fd addr addrlen h = req_bind E J hs fd addr addrlen h"
definition hooked_listen where "hooked_listen E J hs fd backlog h = req_listen E J hs fd backlog h"
definition hooked_accept where "hooked_accept E J hs fd h = req_accept E J hs fd h"
definition hooked_select where
  "hooked_select E J hs nfds readfds writefds exceptfds timeout h = req_select E J hs nfds readfds writefds exceptfds timeout h"
definition hooked_epoll_create1 where "hooked_epoll_create1 E J hs flags h = req_epoll_create1 E J hs flags h"
definition hooked_epoll_ctl where "hooked_epoll_ctl E J hs epfd op fd event h = req_epoll_ctl E J hs epfd op fd event h"
definition hooked_epoll_wait where
  "hooked_epoll_wait E J hs epfd events maxevents timeout h = req_epoll_wait E J hs epfd events maxevents timeout h"
definition hooked_poll where "hooked_poll E J hs fds nfds timeout h = req_poll E J hs fds nfds timeout h"

text \<open>The variable arguments are not passed on.\<close>

definition hooked_fcntl ::
    "env \<Rightarrow> hook_locals \<Rightarrow> host \<Rightarrow> c_int \<Rightarrow> c_int \<Rightarrow> u64 option \<Rightarrow> trace \<Rightarrow> (c_int \<times> host \<times> trace) run" where
  "hooked_fcntl E J hs fd cmd va h = req_fcntl E J hs fd cmd h"

definition hooked_setsockopt where
  "hooked_setsockopt E J hs fd level optname optval optlen h = req_setsockopt E J hs fd level optname optval optlen h"
definition hooked_getsockopt where
  "hooked_getsockopt E J hs fd level optname optval optlen h = req_getsockopt E J hs fd level optname optval optlen h"
definition hooked_getpeername where "hooked_getpeername E J hs fd addr addrlen h = req_getpeername E J hs fd addr addrlen h"
definition hooked_getsockname where "hooked_getsockname E J hs fd addr addrlen h = req_getsockname E J hs fd addr addrlen h"
definition hooked_pthread_exit where "hooked_pthread_exit E J hs h = req_pthread_exit E J hs h"

section \<open>The start of the process\<close>

text \<open>\<open>found\<close> is the result of \<open>dlsym\<close>, \<open>start\<close> the original function, which calls the \<open>main\<close> it is given.\<close>

definition libc_start_main ::
    "env \<Rightarrow> hook_locals \<Rightarrow> bool \<Rightarrow> ((trace \<Rightarrow> (c_int \<times> host \<times> trace) run) \<Rightarrow> trace \<Rightarrow> (c_int \<times> host \<times> trace) run)
      \<Rightarrow> (host \<Rightarrow> trace \<Rightarrow> (c_int \<times> host \<times> trace) run) \<Rightarrow> c_int \<Rightarrow> trace \<Rightarrow> (c_int \<times> host \<times> trace) run" where
  "libc_start_main E J found start main t h =
     (if \<not> found then faults Exit_failure else start (my_main E J main t) h)"

section \<open>Properties\<close>

lemma scan_frames_spec:
  "scan_frames fs = (if \<exists>s \<in> set fs. \<exists>n \<in> set rdma_names. sublist n s then 1 else 0)"
  by (induction fs) (auto simp: rdma_names_def strstr_None)

text \<open>\<open>socket\<close> and \<open>read\<close> go to the C library untouched exactly when one of the ten innermost frames of
  the call stack names an RDMA library or \<open>client_prepare_connection\<close>, so that the set-up of a connection
  does not call itself; otherwise they are forwarded. \<open>write\<close>, \<open>close\<close> and the others make no such test, and
  \<open>fcntl\<close> does the same whatever its third argument is.\<close>

theorem rdma_libraries_bypass:
  "let own = (\<exists>s \<in> set (take 10 stack). \<exists>n \<in> set rdma_names. sublist n s) in
   hooked_socket E J stack hs domain type protocol h
     = (if own then returns (ret (E (Libc (Orig_socket domain type protocol) # h)),
          hs\<lparr>errno := err (E (Libc (Orig_socket domain type protocol) # h))\<rparr>, Libc (Orig_socket domain type protocol) # h)
        else req_sock E J hs h)
   \<and> hooked_read E J stack hs fd bs h
     = (if own then let r = E (Libc (Orig_read fd (word_of_nat (length bs))) # h)
          in returns (rv r, out_bytes r @ drop (length (out_bytes r)) bs, hs\<lparr>errno := err r\<rparr>,
            Libc (Orig_read fd (word_of_nat (length bs))) # h)
        else req_read E J hs fd bs h)
   \<and> hooked_fcntl E J hs fd cmd va h = hooked_fcntl E J hs fd cmd va' h"
  by (simp add: hooked_socket_def hooked_read_def hooked_fcntl_def is_called_from_rdma_client_def scan_frames_spec
      original_def ext_def Let_def)

end
