(* ===== verification/Server_Unused.thy ===== *)
theory Server_Unused
  imports Server_Props
begin

text \<open>
  The functions of \<open>snic/rdma_server.c\<close> that \<open>start_thread\<close> does not reach: the separate set-up of queues, the
  release of a connection and of the server, and the second way of accepting connections, in
  which one loop over the connection manager's events serves all of them
  (\<open>process_rdma_cm_event_with_global\<close>).
\<close>

section \<open>Queues\<close>

text \<open>A global that nothing assigns.\<close>

definition global_context :: ptr where "global_context = 0"

definition make_io_completion_channel :: "env \<Rightarrow> trace \<Rightarrow> c_int \<times> ptr \<times> trace" where
  "make_io_completion_channel E h =
     (let (r, h) = ext E (Verb (Ibv_create_comp_channel global_context)) h
      in if rv r = 0 then (neg_errno r, rv r, h) else (0, rv r, h))"

text \<open>On success the function ends without a \<open>return\<close>: its value is indeterminate (\<open>None\<close>).\<close>

definition alloc_pd :: "env \<Rightarrow> s_client \<Rightarrow> trace \<Rightarrow> (c_int option \<times> s_client \<times> trace) run" where
  "alloc_pd E c h =
     (if cm_client_id c = 0 then faults Null_deref
      else
        let (r, h) = ext E (Verb (Ibv_alloc_pd (cm_client_id c))) h;
            c = c\<lparr>pd := rv r\<rparr>
        in if rv r = 0 then returns (Some (neg_errno r), c, h) else returns (None, c, h))"

text \<open>\<open>errno\<close> is that of the call before where no call is made.\<close>

definition make_cq :: "env \<Rightarrow> s_client \<Rightarrow> trace \<Rightarrow> c_int \<times> s_client \<times> trace" where
  "make_cq E c h =
     (if cm_client_id c = 0 then (- EINVAL, c, h)
      else if pd c = 0 then (neg_errno (E h), c, h)
      else if cq c = 0 then (neg_errno (E h), c, h)
      else
        let (r, h) = ext E (Verb (Ibv_req_notify_cq (cq c))) h in
        if ret r \<noteq> 0 then (neg_errno r, c, h)
        else
          let (r, h) = ext E (Cm (Rdma_create_qp (cm_client_id c) (pd c) (cq c))) h in
          if ret r \<noteq> 0 then (neg_errno r, c, h)
          else (0, c\<lparr>client_qp := out_ptr r\<rparr>, h))"

text \<open>The domain and the queue are stored through pointers even when they are \<open>NULL\<close>.\<close>

definition make_cq_for_handler :: "env \<Rightarrow> ptr \<Rightarrow> ptr \<Rightarrow> trace \<Rightarrow> c_int \<times> ptr \<times> ptr \<times> trace" where
  "make_cq_for_handler E channel cq0 h =
     (let (r, h) = ext E (Verb (Ibv_alloc_pd global_context)) h; pd = rv r in
      if pd = 0 then (neg_errno r, pd, cq0, h)
      else
        let (r, h) = ext E (Verb (Ibv_create_cq global_context CQ_CAPACITY channel)) h; cq = rv r in
        if cq = 0 then (neg_errno r, pd, cq, h)
        else
          let (r, h) = ext E (Verb (Ibv_req_notify_cq cq)) h in
          if ret r \<noteq> 0 then (neg_errno r, pd, cq, h) else (0, pd, cq, h))"

definition make_qp :: "env \<Rightarrow> s_client \<Rightarrow> trace \<Rightarrow> c_int \<times> s_client \<times> trace" where
  "make_qp E c h =
     (if cm_client_id c = 0 then (- EINVAL, c, h)
      else
        let (r, h) = ext E (Cm (Rdma_create_qp (cm_client_id c) (pd c) (cq c))) h in
        if ret r \<noteq> 0 then (neg_errno r, c, h)
        else (0, c\<lparr>client_qp := out_ptr r\<rparr>, h))"

definition snic_process_rdma_get_cq_event :: "env \<Rightarrow> s_client \<Rightarrow> trace \<Rightarrow> c_int \<times> trace" where
  "snic_process_rdma_get_cq_event E c h =
     (let (r, h) = ext E (Verb (Ibv_get_cq_event (io_completion_channel c))) h in
      if ret r \<noteq> 0 then (neg_errno r, h)
      else
        let cq_ptr = out_ptr r;
            (r, h) = ext E (Verb (Ibv_req_notify_cq cq_ptr)) h in
        if ret r \<noteq> 0 then (neg_errno r, h)
        else
          let (r, h) = ext E (Verb (Ibv_ack_cq_events cq_ptr 1)) h in (1, h))"

section \<open>Release\<close>

text \<open>The empty loop before the release tests the status that has just been stored. The errors of
  the release are only reported.\<close>

definition disconnect_and_cleanup :: "env \<Rightarrow> server \<Rightarrow> s_client \<Rightarrow> trace \<Rightarrow> c_int \<times> server \<times> s_client \<times> trace" where
  "disconnect_and_cleanup E s c h =
     (let (v, ev, h) = snic_process_rdma_cm_event E (cm_event_channel s) RDMA_CM_EVENT_DISCONNECTED (cm_event s) h;
          s = s\<lparr>cm_event := ev\<rparr> in
      if v \<noteq> 0 then (v, s, c, h)
      else
        let c = c\<lparr>status := RDMA_CM_EVENT_DISCONNECTED\<rparr>;
            (r, h) = ext E (Cm (Rdma_ack_cm_event (cm_event s))) h in
        if ret r \<noteq> 0 then (neg_errno r, s, c, h)
        else
          let (_, h) = ext E (Cm (Rdma_destroy_qp (cm_client_id c))) h;
              (_, h) = ext E (Cm (Rdma_destroy_id (cm_client_id c))) h;
              (_, h) = ext E (Verb (Ibv_destroy_cq (cq c))) h;
              (_, h) = ext E (Verb (Ibv_destroy_comp_channel (io_completion_channel c))) h;
              h = snic_rdma_buffer_deregister E (req_mr c) h;
              h = snic_rdma_buffer_deregister E (rtn_mr c) h;
              (_, h) = ext E (Verb (Ibv_dealloc_pd (pd c))) h
          in (0, s, c, h))"

definition destroy_server_id :: "env \<Rightarrow> server \<Rightarrow> trace \<Rightarrow> c_int \<times> trace" where
  "destroy_server_id E s h =
     (let (r, h) = ext E (Cm (Rdma_destroy_id (cm_server_id s))) h;
          (_, h) = ext E (Cm (Rdma_destroy_event_channel (cm_event_channel s))) h
      in (ret r, h))"

definition server_disconnect_and_cleanup :: "env \<Rightarrow> s_client \<Rightarrow> trace \<Rightarrow> (c_int \<times> s_client \<times> trace) run" where
  "server_disconnect_and_cleanup E c h =
     (let (r, h) = ext E (Cm (Rdma_disconnect (cm_client_id c))) h in
      if ret r \<noteq> 0 then returns (ret r, c, h)
      else and_then (global_disconnect_and_cleanup E c h) (\<lambda>(_, c, h). returns (0, c, h)))"

section \<open>One loop for all connections\<close>

text \<open>Connections are found through the \<open>context\<close> of their id, so they are kept in a store: \<open>g_heap\<close> are the
  structures allocated so far, by number, and \<open>g_context\<close> is the number in the context of an id.\<close>

record global_state =
  g_server :: server
  g_heap :: "nat \<Rightarrow> s_client option"
  g_next :: nat
  g_context :: "ptr \<Rightarrow> nat option"

type_synonym g_loop = "global_state \<times> trace \<Rightarrow> (c_int \<times> global_state \<times> trace) run"

definition global_accept_client_connection ::
    "env \<Rightarrow> server \<Rightarrow> s_client \<Rightarrow> trace \<Rightarrow> c_int \<times> s_client \<times> trace" where
  "global_accept_client_connection E s c h =
     (if cm_client_id c = 0 \<or> client_qp c = 0 then (- EINVAL, c, h)
      else
        let (mr, h) = snic_rdma_buffer_register E (pd c) (Payload_attr (client_metadata_attr c)) h;
            c = c\<lparr>client_metadata_mr := mr\<rparr> in
        case mr of None \<Rightarrow> (- ENOMEM, c, h)
        | Some mr \<Rightarrow>
            let c = c\<lparr>client_recv_sge := sge_of mr\<rparr>;
                (r, h) = ext E (Verb (Ibv_post_recv (client_qp c) (client_recv_sge c))) h in
            if ret r \<noteq> 0 then (- ret r, c, h)
            else
              let conn_param = \<lparr>cp_initiator_depth = 3, cp_responder_resources = 3, cp_retry_count = 0, cp_rnr_retry_count = 0\<rparr>;
                  (r, h) = ext E (Cm (Rdma_accept (cm_client_id c) conn_param)) h in
              if ret r \<noteq> 0 then (neg_errno r, c, h)
              else
                let (r, h) = ext E (Cm (Rdma_ack_cm_event (cm_event s))) h in
                if ret r \<noteq> 0 then (neg_errno r, c, h)
                else
                  let (_, h) = ext E (Verb (Ibv_query_qp (client_qp c))) h;
                      (mr, h) = snic_rdma_buffer_register E (pd c) (Payload_rtn (rtn c)) h
                  in (1, c\<lparr>rtn_mr := mr\<rparr>, h))"

text \<open>\<open>loop\<close> is \<open>process_rdma_cm_event_with_global\<close>, which calls these functions and which they call. The
  result of the first wait is overwritten.\<close>

definition global_waiting_client_conn ::
    "env \<Rightarrow> g_loop \<Rightarrow> nat \<Rightarrow> global_state \<times> trace \<Rightarrow> (c_int \<times> global_state \<times> trace) run" where
  "global_waiting_client_conn E loop a = (\<lambda>(g, h).
     let s = g_server g;
         (v, ev, h) = snic_process_rdma_cm_event E (cm_event_channel s) RDMA_CM_EVENT_CONNECT_REQUEST (cm_event s) h
     in and_then (loop (g\<lparr>g_server := s\<lparr>cm_event := ev\<rparr>\<rparr>, h)) (\<lambda>(v, g, h).
       if v \<noteq> 0 then returns (v, g, h)
       else
         case (cm_event (g_server g), g_heap g a) of
           (Some e, Some c) \<Rightarrow>
             if cme_id e = 0 then faults Null_deref
             else
               let g = g\<lparr>g_heap := (g_heap g)(a \<mapsto> c\<lparr>status := RDMA_CM_EVENT_CONNECT_REQUEST, cm_client_id := cme_id e\<rparr>),
                         g_context := (g_context g)(cme_id e \<mapsto> a)\<rparr>;
                   (r, h) = ext E (Cm (Rdma_ack_cm_event (Some e))) h
               in if ret r \<noteq> 0 then returns (neg_errno r, g, h) else returns (0, g, h)
         | _ \<Rightarrow> faults Null_deref))"

definition global_connect_client_r_info ::
    "env \<Rightarrow> g_loop \<Rightarrow> nat \<Rightarrow> global_state \<times> trace \<Rightarrow> (c_int \<times> global_state \<times> trace) run" where
  "global_connect_client_r_info E loop a st =
     and_then (global_waiting_client_conn E loop a st) (\<lambda>(v, g, h).
       if v \<noteq> 0 then returns (v, g, h)
       else
         case g_heap g a of None \<Rightarrow> faults Null_deref
         | Some c \<Rightarrow>
             let (v, c, h) = global_accept_client_connection E (g_server g) c h;
                 g = g\<lparr>g_heap := (g_heap g)(a \<mapsto> c)\<rparr> in
             if negative v then returns (- v, g, h)
             else
               and_then (send_server_metadata_to_client E c h) (\<lambda>(v, c, h).
                 let g = g\<lparr>g_heap := (g_heap g)(a \<mapsto> c)\<rparr> in
                 if v \<noteq> 0 then returns (v, g, h)
                 else and_then (post_recv_req E c h) (\<lambda>(_, c, h).
                   returns (0, g\<lparr>g_heap := (g_heap g)(a \<mapsto> c)\<rparr>, h))))"

text \<open>A new structure for the connection of an event.\<close>

definition g_alloc :: "s_client \<Rightarrow> cm_event \<Rightarrow> global_state \<Rightarrow> global_state" where
  "g_alloc fresh e g = g\<lparr>g_heap := (g_heap g)(g_next g \<mapsto>
       (snd (snic_null_client_r_info fresh))\<lparr>status := RDMA_CM_EVENT_CONNECT_REQUEST, cm_client_id := cme_id e\<rparr>),
     g_context := (g_context g)(cme_id e \<mapsto> g_next g), g_next := g_next g + 1\<rparr>"

definition g_set_status :: "cm_event \<Rightarrow> cm_event_type \<Rightarrow> global_state \<Rightarrow> global_state option" where
  "g_set_status e v g = (case g_context g (cme_id e) of None \<Rightarrow> None
     | Some a \<Rightarrow> (case g_heap g a of None \<Rightarrow> None
        | Some c \<Rightarrow> Some (g\<lparr>g_heap := (g_heap g)(a \<mapsto> c\<lparr>status := v\<rparr>)\<rparr>)))"

text \<open>The events other than a request for a connection: \<open>Inl\<close> goes on with the loop, \<open>Inr\<close> returns.\<close>

definition g_event :: "env \<Rightarrow> cm_event \<Rightarrow> global_state \<Rightarrow> trace
    \<Rightarrow> (global_state \<times> trace + c_int \<times> global_state \<times> trace) run" where
  "g_event E e g h =
     (let (_, h') = ext E (Cm (Rdma_ack_cm_event (Some e))) h in
      if cme_event e = RDMA_CM_EVENT_ESTABLISHED then
        (case g_set_status e RDMA_CM_EVENT_ESTABLISHED g of None \<Rightarrow> faults Null_deref
         | Some g \<Rightarrow> returns (Inr (0, g, h')))
      else if cme_event e = RDMA_CM_EVENT_DISCONNECTED then
        (case g_set_status e RDMA_CM_EVENT_DISCONNECTED g of None \<Rightarrow> faults Null_deref
         | Some g \<Rightarrow> returns (Inl (g, h')))
      else returns (Inl (g, h')))"

text \<open>The thread that is started for a connection.\<close>

definition g_spawn :: "env \<Rightarrow> nat \<Rightarrow> global_state \<Rightarrow> trace \<Rightarrow> (global_state \<times> trace) run" where
  "g_spawn E a g h = (case g_heap g a of None \<Rightarrow> faults Null_deref
     | Some c \<Rightarrow>
         let (r, h) = ext E (Pthread_create (cm_client_id c)) h
         in if ret r \<noteq> 0 then returns (g, h)
            else returns (g\<lparr>g_server := (g_server g)\<lparr>spawned := c # spawned (g_server g)\<rparr>\<rparr>, h))"

text \<open>One turn of \<open>process_rdma_cm_event_with_global\<close>.\<close>

definition g_turn :: "env \<Rightarrow> (trace \<Rightarrow> locals) \<Rightarrow> (trace \<Rightarrow> s_client) \<Rightarrow> g_loop \<Rightarrow> global_state \<times> trace
    \<Rightarrow> (global_state \<times> trace + c_int \<times> global_state \<times> trace) run" where
  "g_turn E L fresh loop = (\<lambda>(g, h).
     let (r, h) = ext E (Cm (Rdma_get_cm_event (cm_event_channel (g_server g)))) h in
     if ret r \<noteq> 0 then returns (Inl (g, h))
     else
       let e = out_cme r; g = g\<lparr>g_server := (g_server g)\<lparr>cm_event := Some e\<rparr>\<rparr> in
       if cme_status e \<noteq> 0 then
         let (_, h) = ext E (Cm (Rdma_ack_cm_event (Some e))) h in returns (Inl (g, h))
       else if cme_event e = RDMA_CM_EVENT_CONNECT_REQUEST then
         (if \<not> l_malloc (L h) \<or> cme_id e = 0 then faults Null_deref
          else
            and_then (global_connect_client_r_info E loop (g_next g) (g_alloc (fresh h) e g, h)) (\<lambda>(v, g', h).
              if v \<noteq> 0 then returns (Inl (g', h))
              else and_then (g_spawn E (g_next g) g' h) (\<lambda>st. returns (Inl st))))
       else g_event E e g h)"

text \<open>The functions are monotone in the loop they call.\<close>

lemma global_waiting_mono [partial_function_mono]:
  assumes "\<And>st. mono_option (\<lambda>f. loop f st)"
  shows "mono_option (\<lambda>f. global_waiting_client_conn E (loop f) a st)"
proof -
  obtain g h where st: "st = (g, h)" by (cases st)
  obtain v ev h' where "snic_process_rdma_cm_event E (cm_event_channel (g_server g)) RDMA_CM_EVENT_CONNECT_REQUEST
      (cm_event (g_server g)) h = (v, ev, h')" by (metis prod_cases3)
  then show ?thesis
    by (simp only: global_waiting_client_conn_def st prod.case Let_def) (rule and_then_mono [OF assms option.const_mono])
qed

lemma global_connect_mono [partial_function_mono]:
  assumes "\<And>st. mono_option (\<lambda>f. loop f st)"
  shows "mono_option (\<lambda>f. global_connect_client_r_info E (loop f) a st)"
  unfolding global_connect_client_r_info_def
  by (rule and_then_mono [OF global_waiting_mono [OF assms] option.const_mono])

lemma g_turn_mono [partial_function_mono]:
  assumes "\<And>st. mono_option (\<lambda>f. loop f st)"
  shows "mono_option (\<lambda>f. g_turn E L fresh (loop f) st)"
proof -
  obtain g h where st: "st = (g, h)" by (cases st)
  show ?thesis
    unfolding g_turn_def st prod.case Let_def ext_def
    by (intro if_mono option.const_mono and_then_mono [OF global_connect_mono [OF assms] option.const_mono])
qed

partial_function (option) process_rdma_cm_event_with_global ::
    "env \<Rightarrow> (trace \<Rightarrow> locals) \<Rightarrow> (trace \<Rightarrow> s_client) \<Rightarrow> global_state \<times> trace \<Rightarrow> (c_int \<times> global_state \<times> trace) run" where
  "process_rdma_cm_event_with_global E L fresh st =
     and_then (g_turn E L fresh (process_rdma_cm_event_with_global E L fresh) st) (\<lambda>x. case x of
         Inl st' \<Rightarrow> process_rdma_cm_event_with_global E L fresh st'
       | Inr res \<Rightarrow> returns res)"

section \<open>Properties\<close>

text \<open>The release of a connection gives back everything \<open>setup_client_resources\<close> has made and the two
  message regions, each once and in the order the verbs require, but not the two metadata
  regions, which are still registered when the protection domain is released.\<close>

theorem disconnect_and_cleanup_releases:
  assumes "disconnect_and_cleanup E s c h = (0, s', c', h')" and "req_mr c = Some qmr" and "rtn_mr c = Some rmr"
    and "\<And>h. err (E h) \<noteq> 0"
  shows "status c' = RDMA_CM_EVENT_DISCONNECTED \<and> (\<exists>e. h' =
    [Verb (Ibv_dealloc_pd (pd c)), Verb (Ibv_dereg_mr rmr), Verb (Ibv_dereg_mr qmr),
     Verb (Ibv_destroy_comp_channel (io_completion_channel c)), Verb (Ibv_destroy_cq (cq c)),
     Cm (Rdma_destroy_id (cm_client_id c)), Cm (Rdma_destroy_qp (cm_client_id c)),
     Cm (Rdma_ack_cm_event (Some e)), Cm (Rdma_get_cm_event (cm_event_channel s))] @ h)"
  using assms
  by (auto simp: disconnect_and_cleanup_def snic_verbs process_rdma_cm_event_def rdma_buffer_deregister_def
      neg_errno_def ext_def Let_def split: if_splits)

text \<open>Connections without a queue pair, and the calls that only wait.\<close>

definition nulled :: "global_state \<Rightarrow> bool" where
  "nulled g \<longleftrightarrow> (\<forall>a c. g_heap g a = Some c \<longrightarrow> client_qp c = 0)"

fun only_waits :: "call \<Rightarrow> bool" where
  "only_waits (Cm (Rdma_get_cm_event p)) = True"
| "only_waits (Cm (Rdma_ack_cm_event e)) = True"
| "only_waits _ = False"

definition idle :: "global_state \<times> trace \<Rightarrow> global_state \<times> trace \<Rightarrow> bool" where
  "idle st st' \<longleftrightarrow> (nulled (fst st) \<longrightarrow> nulled (fst st')
     \<and> spawned (g_server (fst st')) = spawned (g_server (fst st))
     \<and> (\<exists>new. snd st' = new @ snd st \<and> list_all only_waits new))"

lemma idle_refl [simp]: "idle st st"
  by (simp add: idle_def)

lemma idle_trans [trans]: "idle a b \<Longrightarrow> idle b c \<Longrightarrow> idle a c"
  unfolding idle_def by (metis append.assoc list_all_append)

lemma idle_step:
  assumes "nulled g \<Longrightarrow> nulled g'" and "spawned (g_server g') = spawned (g_server g)" and "list_all only_waits new"
  shows "idle (g, h) (g', new @ h)"
  using assms by (auto simp: idle_def)

lemma nulled_simps [simp]:
  "nulled (g\<lparr>g_server := s\<rparr>) = nulled g" "nulled (g\<lparr>g_context := x\<rparr>) = nulled g" "nulled (g\<lparr>g_next := n\<rparr>) = nulled g"
  by (simp_all add: nulled_def)

lemma nulled_upd: "nulled g \<Longrightarrow> client_qp c = 0 \<Longrightarrow> nulled (g\<lparr>g_heap := (g_heap g)(a \<mapsto> c)\<rparr>)"
  by (simp add: nulled_def)

lemma nulledD: "nulled g \<Longrightarrow> g_heap g a = Some c \<Longrightarrow> client_qp c = 0"
  by (simp add: nulled_def)

lemma g_alloc_idle: "idle (g, h) (g_alloc fresh e g, h)"
  using idle_step [where new = "[]"] by (simp add: g_alloc_def nulled_def snic_null_client_r_info_def)

lemma cm_wait_trace:
  "snic_process_rdma_cm_event E ch t ev h = (v, ev', h') \<Longrightarrow> \<exists>new. h' = new @ h \<and> list_all only_waits new"
  by (auto simp: snic_verbs process_rdma_cm_event_def ext_def Let_def split: if_splits)

lemma g_set_status_idle: "g_set_status e v g = Some g' \<Longrightarrow> idle (g, h) (g', h)"
  using idle_step [where new = "[]"]
  by (auto simp: g_set_status_def nulled_def split: option.splits if_splits)

lemma idle_wait: "only_waits c \<Longrightarrow> idle (g, h) (g, c # h)"
  using idle_step [where new = "[c]"] by simp

lemma g_event_idle:
  "yields (case_sum (idle (g, h)) (\<lambda>(v, st). v = 0 \<and> idle (g, h) st)) (g_event E e g h)"
  using g_set_status_idle [of e _ g] idle_trans [OF _ idle_wait]
  by (auto simp: g_event_def ext_def Let_def split: option.splits)

lemma global_waiting_idle:
  assumes "\<And>st. yields (\<lambda>(v, st'). idle st st') (loop st)"
  shows "yields (\<lambda>(v, st'). idle st st') (global_waiting_client_conn E loop a st)"
proof -
  obtain g h where st: "st = (g, h)" by (cases st)
  obtain v ev h' where p: "snic_process_rdma_cm_event E (cm_event_channel (g_server g)) RDMA_CM_EVENT_CONNECT_REQUEST
      (cm_event (g_server g)) h = (v, ev, h')" by (metis prod_cases3)
  let ?g = "g\<lparr>g_server := (g_server g)\<lparr>cm_event := ev\<rparr>\<rparr>"
  have first: "idle (g, h) (?g, h')" using cm_wait_trace [OF p] by (auto simp: idle_def)
  have step: "idle (g1, h1) (g1\<lparr>g_heap := (g_heap g1)(a \<mapsto> c\<lparr>status := t, cm_client_id := i\<rparr>), g_context := x\<rparr>, y # h1)"
    if "g_heap g1 a = Some c" "only_waits y" for g1 h1 c t i x y
    using that nulled_upd [of g1 "c\<lparr>status := t, cm_client_id := i\<rparr>" a] nulledD [of g1 a c]
      idle_step [where new = "[y]" and g = g1 and h = h1] by simp
  show ?thesis
    unfolding global_waiting_client_conn_def st prod.case Let_def p
    using idle_trans [OF idle_trans [OF first] step]
    by (intro yields_bind [OF assms]) (auto simp: ext_def intro: idle_trans [OF first] split: option.splits)
qed

text \<open>The set-up never gets further than the first test of \<open>global_accept_client_connection\<close>: a structure that
  was allocated for an event has no queue pair.\<close>

lemma global_connect_idle:
  assumes "\<And>st. yields (\<lambda>(v, st'). idle st st') (loop st)" and "nulled (fst st)"
  shows "yields (\<lambda>(v, st'). v \<noteq> 0 \<and> idle st st') (global_connect_client_r_info E loop a st)"
proof -
  have "yields (\<lambda>(v, st'). v \<noteq> 0 \<and> idle st st')
      (case g_heap g a of None \<Rightarrow> faults Null_deref
       | Some c \<Rightarrow>
           let (v, c, h) = global_accept_client_connection E (g_server g) c h;
               g = g\<lparr>g_heap := (g_heap g)(a \<mapsto> c)\<rparr> in
           if negative v then returns (- v, g, h)
           else and_then (send_server_metadata_to_client E c h) (f g))"
    if i: "idle st (g, h)" for g h and f :: "global_state \<Rightarrow> c_int \<times> s_client \<times> trace \<Rightarrow> (c_int \<times> global_state \<times> trace) run"
  proof (cases "g_heap g a")
    case (Some c)
    have "nulled g" using i assms(2) by (simp add: idle_def)
    then have "global_accept_client_connection E (g_server g) c h = (- EINVAL, c, h)"
      using nulledD [OF _ Some] by (simp add: global_accept_client_connection_def)
    moreover have "g\<lparr>g_heap := (g_heap g)(a \<mapsto> c)\<rparr> = g" using Some by (simp add: fun_upd_idem)
    moreover have "negative (- EINVAL)" by (simp add: EINVAL_def negative_def)
    ultimately show ?thesis using Some i by (simp add: EINVAL_def)
  qed simp
  then show ?thesis
    unfolding global_connect_client_r_info_def
    by (intro yields_bind [OF global_waiting_idle [OF assms(1)]]) auto
qed

lemma g_turn_idle:
  assumes "\<And>st. yields (\<lambda>(v, st'). idle st st') (loop st)" and "nulled (fst st)"
  shows "yields (case_sum (idle st) (\<lambda>(v, st'). v = 0 \<and> idle st st')) (g_turn E L fresh loop st)"
proof -
  obtain g h where st: "st = (g, h)" by (cases st)
  let ?h = "Cm (Rdma_get_cm_event (cm_event_channel (g_server g))) # h"
  let ?e = "out_cme (E ?h)"
  let ?g = "g\<lparr>g_server := (g_server g)\<lparr>cm_event := Some ?e\<rparr>\<rparr>"
  have first: "idle st (?g, ?h)" unfolding st using idle_step [where new = "[hd ?h]" and h = h] by simp
  have get: "idle st (g, ?h)" unfolding st by (rule idle_wait) simp
  have conn: "yields (\<lambda>(v, st'). v \<noteq> 0 \<and> idle st st')
      (global_connect_client_r_info E loop (g_next ?g) (g_alloc (fresh ?h) ?e ?g, ?h))"
  proof -
    have i: "idle st (g_alloc (fresh ?h) ?e ?g, ?h)" by (rule idle_trans [OF first g_alloc_idle])
    then have "nulled (fst (g_alloc (fresh ?h) ?e ?g, ?h))" using assms(2) by (simp add: idle_def)
    from global_connect_idle [OF assms(1) this] show ?thesis
      using idle_trans [OF i] unfolding yields_def by blast
  qed
  have other: "yields (case_sum (idle st) (\<lambda>(v, st'). v = 0 \<and> idle st st')) (g_event E ?e ?g ?h)"
    using g_event_idle [of ?g ?h E ?e] idle_trans [OF first] by (fastforce simp: yields_def split: sum.splits)
  show ?thesis
    unfolding g_turn_def st prod.case Let_def ext_def
    using get first idle_trans [OF first idle_wait] other
    by (intro yields_if; (intro yields_bind [OF conn])?) (auto simp: st)
qed

lemma global_loop_idle:
  "yields (\<lambda>(v, st'). idle st st' \<and> (nulled (fst st) \<longrightarrow> v = 0)) (process_rdma_cm_event_with_global E L fresh st)"
proof -
  have "\<forall>v st'. y = Inr (v, st') \<longrightarrow> idle st st' \<and> (nulled (fst st) \<longrightarrow> v = 0)"
    if p: "process_rdma_cm_event_with_global E L fresh st = Some y" for y
  proof (induction rule: process_rdma_cm_event_with_global.raw_induct)
    case (1 f E L fresh st y)
    have f: "f E L fresh s = returns r \<Longrightarrow> idle s (snd r) \<and> (nulled (fst s) \<longrightarrow> fst r = 0)" for s r
      using 1(1) [of E L fresh s] by (cases r) (auto simp: returns_def)
    then have loop: "yields (\<lambda>(v, st'). idle s st') (f E L fresh s)" for s
      by (fastforce simp: yields_def)
    show ?case
    proof (cases "nulled (fst st)")
      case True
      have "yields (\<lambda>(v, st'). idle st st' \<and> v = 0) (and_then (g_turn E L fresh (f E L fresh) st)
          (\<lambda>x. case x of Inl st' \<Rightarrow> f E L fresh st' | Inr res \<Rightarrow> returns res))"
      proof (intro yields_bind [OF g_turn_idle [OF loop True]])
        fix x :: "global_state \<times> trace + c_int \<times> global_state \<times> trace"
        assume "case_sum (idle st) (\<lambda>(v, st'). v = 0 \<and> idle st st') x"
        then show "yields (\<lambda>(v, st'). idle st st' \<and> v = 0) (case x of Inl st' \<Rightarrow> f E L fresh st' | Inr res \<Rightarrow> returns res)"
          using True f idle_trans [of st] by (cases x) (fastforce simp: yields_def idle_def)+
      qed
      then show ?thesis using 1(2) True by (auto simp: yields_def returns_def)
    qed (simp add: idle_def)
  qed (rule p)
  then show ?thesis by (auto simp: yields_def returns_def)
qed

text \<open>The second way of accepting connections cannot work. Whatever events the connection manager
  reports, when the loop that is meant to serve all connections returns, it returns 0, has accepted no
  connection, posted no receive, started no thread and made no call at all but those that take and
  acknowledge events: the queue pair of a new connection is never made, and the set-up gives up at the test
  for it.\<close>

theorem global_loop_serves_nothing:
  assumes "process_rdma_cm_event_with_global E L fresh (g, h) = returns (v, g', h')" and "nulled g"
  shows "v = 0 \<and> spawned (g_server g') = spawned (g_server g) \<and> nulled g'
    \<and> (\<exists>new. h' = new @ h \<and> list_all only_waits new)"
  using yieldsD [OF global_loop_idle assms(1)] assms(2) by (simp add: idle_def)

text \<open>Events on which the loop does return: a request for a connection, then its establishment over and
  over.\<close>

definition knocking :: env where
  "knocking h = resp0\<lparr>out_cme := \<lparr>cme_status = 0, cme_event = (if length h = 1 then RDMA_CM_EVENT_CONNECT_REQUEST
     else RDMA_CM_EVENT_ESTABLISHED), cme_id = 5\<rparr>\<rparr>"

lemma knocking_simps [simp]:
  "ret (knocking h) = 0" "cme_status (out_cme (knocking h)) = 0" "cme_id (out_cme (knocking h)) = 5"
  "cme_event (out_cme (knocking h)) = (if length h = 1 then RDMA_CM_EVENT_CONNECT_REQUEST else RDMA_CM_EVENT_ESTABLISHED)"
  by (simp_all add: knocking_def ret_def resp0_def)

lemma knocking_established:
  assumes "h \<noteq> []" and "g_context g 5 = Some a" and "g_heap g a = Some c"
  shows "\<exists>g' h'. process_rdma_cm_event_with_global knocking L fresh (g, h) = returns (0, g', h')
    \<and> (\<exists>e. cm_event (g_server g') = Some e \<and> cme_id e = 5) \<and> (\<exists>c. g_heap g' a = Some c)
    \<and> g_context g' = g_context g \<and> h' \<noteq> []"
  using assms
  by (subst process_rdma_cm_event_with_global.simps) (simp add: g_turn_def g_event_def g_set_status_def ext_def Let_def)

definition global0 :: global_state where
  "global0 = \<lparr>g_server = server0, g_heap = (\<lambda>_. None), g_next = 0, g_context = (\<lambda>_. None)\<rparr>"

lemma knocking_connect:
  assumes "h \<noteq> []" and "g_context g 5 = Some a" and "g_heap g a = Some c" and "nulled g"
  shows "\<exists>v g' h'. global_connect_client_r_info knocking (process_rdma_cm_event_with_global knocking L fresh) a (g, h)
      = returns (v, g', h') \<and> v \<noteq> 0 \<and> h' \<noteq> [] \<and> (\<exists>c. g_heap g' a = Some c) \<and> g_context g' 5 = Some a"
proof -
  let ?loop = "process_rdma_cm_event_with_global knocking L fresh"
  have idle: "yields (\<lambda>(v, st'). idle st st') (?loop st)" for st
    using global_loop_idle [of st knocking L fresh] by (auto simp: yields_def)
  obtain v ev h1 where p: "snic_process_rdma_cm_event knocking (cm_event_channel (g_server g)) RDMA_CM_EVENT_CONNECT_REQUEST
      (cm_event (g_server g)) h = (v, ev, h1)" by (metis prod_cases3)
  have h1: "h1 \<noteq> []" using cm_wait_trace [OF p] assms(1) by auto
  let ?g = "g\<lparr>g_server := (g_server g)\<lparr>cm_event := ev\<rparr>\<rparr>"
  obtain g2 h2 e c2 where l: "?loop (?g, h1) = returns (0, g2, h2)" "cm_event (g_server g2) = Some e" "cme_id e = 5"
    "g_heap g2 a = Some c2" "g_context g2 = g_context g" "h2 \<noteq> []"
    using knocking_established [OF h1, of ?g a c L fresh] assms(2,3) by auto
  let ?g3 = "g2\<lparr>g_heap := (g_heap g2)(a \<mapsto> c2\<lparr>status := RDMA_CM_EVENT_CONNECT_REQUEST, cm_client_id := 5\<rparr>),
    g_context := (g_context g2)(5 \<mapsto> a)\<rparr>" and ?h3 = "Cm (Rdma_ack_cm_event (Some e)) # h2"
  have w: "global_waiting_client_conn knocking ?loop a (g, h) = returns (0, ?g3, ?h3)"
    using p l by (simp add: global_waiting_client_conn_def ext_def)
  have "nulled g2" using yieldsD [OF idle l(1)] assms(4) by (simp add: idle_def)
  then have "client_qp c2 = 0" using l(4) by (rule nulledD)
  then have "global_connect_client_r_info knocking ?loop a (g, h) = returns (EINVAL, ?g3, ?h3)"
    by (simp add: global_connect_client_r_info_def w global_accept_client_connection_def EINVAL_def negative_def)
  then show ?thesis by (simp add: EINVAL_def)
qed

theorem global_loop_serves_nothing_witness:
  "\<exists>g' h'. process_rdma_cm_event_with_global knocking (\<lambda>_. locals0) (\<lambda>_. client0 RDMA_REQ_SOCKET) (global0, []) = returns (0, g', h')
    \<and> spawned (g_server g') = [] \<and> list_all only_waits h'"
proof -
  let ?loop = "process_rdma_cm_event_with_global knocking (\<lambda>_. locals0) (\<lambda>_. client0 RDMA_REQ_SOCKET)"
  let ?h = "[Cm (Rdma_get_cm_event 1)]"
  let ?e = "out_cme (knocking ?h)"
  let ?g = "g_alloc (client0 RDMA_REQ_SOCKET) ?e (global0\<lparr>g_server := server0\<lparr>cm_event := Some ?e\<rparr>\<rparr>)"
  have g: "g_context ?g 5 = Some 0" "nulled ?g"
    by (simp_all add: g_alloc_def global0_def nulled_def snic_null_client_r_info_def)
  obtain c where c: "g_heap ?g 0 = Some c" by (simp add: g_alloc_def global0_def)
  obtain v g1 h1 c1 where 1: "global_connect_client_r_info knocking ?loop 0 (?g, ?h) = returns (v, g1, h1)" "v \<noteq> 0" "h1 \<noteq> []"
    "g_heap g1 0 = Some c1" "g_context g1 5 = Some 0"
    using knocking_connect [OF _ g(1) c g(2), of ?h "\<lambda>_. locals0" "\<lambda>_. client0 RDMA_REQ_SOCKET"] by auto
  obtain g2 h2 where 2: "?loop (g1, h1) = returns (0, g2, h2)"
    using knocking_established [OF 1(3,5,4)] by blast
  have "g_turn knocking (\<lambda>_. locals0) (\<lambda>_. client0 RDMA_REQ_SOCKET) ?loop (global0, []) = returns (Inl (g1, h1))"
    using 1(1,2) by (simp add: g_turn_def ext_def Let_def global0_def server0_def locals0_def)
  then have "?loop (global0, []) = returns (0, g2, h2)"
    using 2 by (subst process_rdma_cm_event_with_global.simps) simp
  moreover from global_loop_serves_nothing [OF this] have "spawned (g_server g2) = []" "list_all only_waits h2"
    by (simp_all add: global0_def nulled_def server0_def)
  ultimately show ?thesis by blast
qed

end
