(* ===== verification/Hash_Cpp.thy ===== *)
theory Hash_Cpp
  imports Snic_Hash
begin

text \<open>
  The tables of \<open>snic/hash_delee.cpp\<close>, an earlier version of \<open>snic/hash_delee.c\<close> in C++. The classes are
  declared nowhere in the repository. Their members are taken from their uses, and the constructor of a node is the
  parameter \<open>new_node\<close>: the chain that starts at the node it makes, of which \<open>constructs\<close> says what the code relies on. A
  failing \<open>new\<close> throws, so the test after it is dead and the lock is not released; the exception is the result \<open>None\<close> of
  an insertion. As in \<open>Snic_Hash\<close>, \<open>None\<close> for a whole call means that it does not come back.
\<close>

definition cpp_MurmurHash3 where "cpp_MurmurHash3 = MurmurHash3"
definition cpp_hashFunction where "cpp_hashFunction = hashFunction"
definition cpp_socket_hashFunction where "cpp_socket_hashFunction = hashFunction"

section \<open>Loops\<close>

text \<open>The search along a chain, and over the chains in order.\<close>

fun find_node :: "('v node \<Rightarrow> bool) \<Rightarrow> 'v node list \<Rightarrow> 'v node option" where
  "find_node P [] = None"
| "find_node P (n # ns) = (if P n then Some n else find_node P ns)"

fun scan_nodes :: "('v node \<Rightarrow> bool) \<Rightarrow> (nat \<Rightarrow> 'v node list) \<Rightarrow> nat list \<Rightarrow> 'v node option" where
  "scan_nodes P t [] = None"
| "scan_nodes P t (i # is) =
     (case find_node P (t i) of Some n \<Rightarrow> Some n | None \<Rightarrow> scan_nodes P t is)"

text \<open>The loops of \<open>freeHashTable\<close>: the deleted nodes in order, and the array left behind.\<close>

fun free_chains :: "(nat \<Rightarrow> 'v node list) \<Rightarrow> nat list \<Rightarrow> 'v node list \<times> (nat \<Rightarrow> 'v node list)" where
  "free_chains t [] = ([], t)"
| "free_chains t (i # is) = (let (ns, t') = free_chains (t(i := [])) is in (t i @ ns, t'))"

text \<open>The node, and whatever its \<open>next_node\<close> leads to, behind the last node of a chain.\<close>

fun append_chain :: "'v node list \<Rightarrow> 'v node list \<Rightarrow> 'v node list" where
  "append_chain [] new = new"
| "append_chain (n # ns) new = n # append_chain ns new"

type_synonym node_constructor = "c_int \<Rightarrow> ptr \<Rightarrow> u32 \<Rightarrow> ptr node list"

text \<open>What the code relies on: the three arguments are stored, and no node follows.\<close>

definition constructs :: "node_constructor \<Rightarrow> bool" where
  "constructs new_node \<longleftrightarrow> (\<forall>k v i. new_node k v i = [\<lparr>nkey = k, nvalue = v, nindex = i\<rparr>])"

section \<open>HashTable\<close>

definition cpp_createHashTable :: snic_HashTable where
  "cpp_createHashTable = \<lparr>tab = \<lparr>table = (\<lambda>i. []), ht_size = HT_SZ\<rparr>, lock = Unlocked\<rparr>"

definition cpp_insertByValue ::
    "node_constructor \<Rightarrow> thread \<Rightarrow> bool \<Rightarrow> snic_HashTable \<Rightarrow> c_int \<Rightarrow> ptr \<Rightarrow> (bool option \<times> snic_HashTable) option" where
  "cpp_insertByValue new_node t new_ok st key val =
     (case wrlock t (lock st) of None \<Rightarrow> None
      | Some l \<Rightarrow>
          let index = cpp_hashFunction key; i = unat index; ht = tab st
          in if \<not> new_ok then Some (None, st\<lparr>lock := l\<rparr>)
             else
               let newNode = new_node key val index;
                   ht = (if table ht i = [] then ht\<lparr>table := (table ht)(i := newNode)\<rparr>
                         else ht\<lparr>table := (table ht)(i := append_chain (table ht i) newNode)\<rparr>)
               in Some (Some True, st\<lparr>tab := ht, lock := rwunlock t l\<rparr>))"

definition cpp_searchByKey ::
    "thread \<Rightarrow> snic_HashTable \<Rightarrow> c_int \<Rightarrow> (ptr \<times> snic_HashTable) option" where
  "cpp_searchByKey t st key =
     (case rdlock t (lock st) of None \<Rightarrow> None
      | Some l \<Rightarrow>
          Some (case find_node (\<lambda>n. nkey n = key) (table (tab st) (unat (cpp_hashFunction key))) of
                  Some n \<Rightarrow> nvalue n | None \<Rightarrow> 0, st\<lparr>lock := rwunlock t l\<rparr>))"

definition cpp_searchByValue ::
    "thread \<Rightarrow> snic_HashTable \<Rightarrow> ptr \<Rightarrow> (c_int \<times> snic_HashTable) option" where
  "cpp_searchByValue t st val =
     (case rdlock t (lock st) of None \<Rightarrow> None
      | Some l \<Rightarrow>
          Some (case scan_nodes (\<lambda>n. nvalue n = val) (table (tab st)) [0..<ht_size (tab st)] of
                  Some n \<Rightarrow> nkey n | None \<Rightarrow> - 1, st\<lparr>lock := rwunlock t l\<rparr>))"

definition cpp_deleteByKey :: "thread \<Rightarrow> snic_HashTable \<Rightarrow> c_int \<Rightarrow> snic_HashTable option" where
  "cpp_deleteByKey t st key =
     (case wrlock t (lock st) of None \<Rightarrow> None
      | Some l \<Rightarrow>
          let i = unat (cpp_hashFunction key); ht = tab st
          in case unlink (\<lambda>n. nkey n = key) (table ht i) of
               Some ns \<Rightarrow> Some (st\<lparr>tab := ht\<lparr>table := (table ht)(i := ns)\<rparr>, lock := rwunlock t l\<rparr>)
             | None \<Rightarrow> Some (st\<lparr>lock := rwunlock t l\<rparr>))"

definition cpp_deleteByValue :: "thread \<Rightarrow> snic_HashTable \<Rightarrow> ptr \<Rightarrow> snic_HashTable option" where
  "cpp_deleteByValue t st val =
     (case wrlock t (lock st) of None \<Rightarrow> None
      | Some l \<Rightarrow>
          (case unlink_scan (\<lambda>n. nvalue n = val) (table (tab st)) [0..<ht_size (tab st)] of
             Some ta \<Rightarrow> Some (st\<lparr>tab := (tab st)\<lparr>table := ta\<rparr>, lock := rwunlock t l\<rparr>)
           | None \<Rightarrow> Some (st\<lparr>lock := rwunlock t l\<rparr>)))"

definition cpp_freeHashTable ::
    "thread \<Rightarrow> snic_HashTable \<Rightarrow> (ptr node list \<times> snic_HashTable) option" where
  "cpp_freeHashTable t st =
     (case wrlock t (lock st) of None \<Rightarrow> None
      | Some l \<Rightarrow>
          let (ns, ta) = free_chains (table (tab st)) [0..<ht_size (tab st)]
          in Some (ns, st\<lparr>tab := (tab st)\<lparr>table := ta\<rparr>, lock := rwlock_destroy (rwunlock t l)\<rparr>))"

section \<open>SocketNodeHashTable\<close>

definition cpp_createSocketHashTable :: snic_SocketHashTable where
  "cpp_createSocketHashTable = \<lparr>tab = \<lparr>table = (\<lambda>i. []), ht_size = HT_SZ\<rparr>, lock = Unlocked\<rparr>"

definition cpp_socket_insertByValue ::
    "node_constructor \<Rightarrow> thread \<Rightarrow> bool \<Rightarrow> snic_SocketHashTable \<Rightarrow> c_int \<Rightarrow> ptr \<Rightarrow> (bool option \<times> snic_SocketHashTable) option" where
  "cpp_socket_insertByValue new_node t new_ok st key val =
     (case wrlock t (lock st) of None \<Rightarrow> None
      | Some l \<Rightarrow>
          let index = cpp_socket_hashFunction key; i = unat index; ht = tab st
          in if \<not> new_ok then Some (None, st\<lparr>lock := l\<rparr>)
             else
               let newNode = new_node key val index;
                   ht = (if table ht i = [] then ht\<lparr>table := (table ht)(i := newNode)\<rparr>
                         else ht\<lparr>table := (table ht)(i := append_chain (table ht i) newNode)\<rparr>)
               in Some (Some True, st\<lparr>tab := ht, lock := rwunlock t l\<rparr>))"

definition cpp_socket_searchByKey ::
    "thread \<Rightarrow> snic_SocketHashTable \<Rightarrow> c_int \<Rightarrow> (ptr \<times> snic_SocketHashTable) option" where
  "cpp_socket_searchByKey t st key =
     (case rdlock t (lock st) of None \<Rightarrow> None
      | Some l \<Rightarrow>
          Some (case find_node (\<lambda>n. nkey n = key) (table (tab st) (unat (cpp_socket_hashFunction key))) of
                  Some n \<Rightarrow> nvalue n | None \<Rightarrow> 0, st\<lparr>lock := rwunlock t l\<rparr>))"

definition cpp_socket_searchByValue ::
    "thread \<Rightarrow> snic_SocketHashTable \<Rightarrow> ptr \<Rightarrow> (c_int \<times> snic_SocketHashTable) option" where
  "cpp_socket_searchByValue t st val =
     (case rdlock t (lock st) of None \<Rightarrow> None
      | Some l \<Rightarrow>
          Some (case scan_nodes (\<lambda>n. nvalue n = val) (table (tab st)) [0..<ht_size (tab st)] of
                  Some n \<Rightarrow> nkey n | None \<Rightarrow> - 1, st\<lparr>lock := rwunlock t l\<rparr>))"

definition cpp_socket_deleteByKey :: "thread \<Rightarrow> snic_SocketHashTable \<Rightarrow> c_int \<Rightarrow> snic_SocketHashTable option" where
  "cpp_socket_deleteByKey t st key =
     (case wrlock t (lock st) of None \<Rightarrow> None
      | Some l \<Rightarrow>
          let i = unat (cpp_socket_hashFunction key); ht = tab st
          in case unlink (\<lambda>n. nkey n = key) (table ht i) of
               Some ns \<Rightarrow> Some (st\<lparr>tab := ht\<lparr>table := (table ht)(i := ns)\<rparr>, lock := rwunlock t l\<rparr>)
             | None \<Rightarrow> Some (st\<lparr>lock := rwunlock t l\<rparr>))"

definition cpp_socket_deleteByValue :: "thread \<Rightarrow> snic_SocketHashTable \<Rightarrow> ptr \<Rightarrow> snic_SocketHashTable option" where
  "cpp_socket_deleteByValue t st val =
     (case wrlock t (lock st) of None \<Rightarrow> None
      | Some l \<Rightarrow>
          (case unlink_scan (\<lambda>n. nvalue n = val) (table (tab st)) [0..<ht_size (tab st)] of
             Some ta \<Rightarrow> Some (st\<lparr>tab := (tab st)\<lparr>table := ta\<rparr>, lock := rwunlock t l\<rparr>)
           | None \<Rightarrow> Some (st\<lparr>lock := rwunlock t l\<rparr>)))"

definition cpp_socket_freeHashTable ::
    "thread \<Rightarrow> snic_SocketHashTable \<Rightarrow> (ptr node list \<times> snic_SocketHashTable) option" where
  "cpp_socket_freeHashTable t st =
     (case wrlock t (lock st) of None \<Rightarrow> None
      | Some l \<Rightarrow>
          let (ns, ta) = free_chains (table (tab st)) [0..<ht_size (tab st)]
          in Some (ns, st\<lparr>tab := (tab st)\<lparr>table := ta\<rparr>, lock := rwlock_destroy (rwunlock t l)\<rparr>))"

section \<open>The operations on an unlocked table\<close>

lemma find_node_find: "find_node P ns = find P ns"
  by (induction ns) auto

lemma find_append: "find P (xs @ ys) = (case find P xs of Some x \<Rightarrow> Some x | None \<Rightarrow> find P ys)"
  by (induction xs) auto

lemma scan_nodes_find: "scan_nodes P t is = find P (concat (map t is))"
  by (induction "is") (auto simp: find_node_find find_append split: option.splits)

lemma free_chains_eq:
  "distinct is \<Longrightarrow> free_chains t is = (concat (map t is), \<lambda>i. if i \<in> set is then [] else t i)"
proof (induction "is" arbitrary: t)
  case (Cons i "is")
  have "concat (map (t(i := [])) is) = concat (map t is)"
    by (rule arg_cong [where f = concat]) (use Cons.prems in auto)
  with Cons show ?case by (auto simp: fun_eq_iff)
qed (simp add: fun_eq_iff)

lemma first_value:
  "(case find (\<lambda>n. nkey n = k) (table ht (bucket k)) of Some n \<Rightarrow> nvalue n | None \<Rightarrow> d)
     = (case assoc ht k of [] \<Rightarrow> d | v # _ \<Rightarrow> v)"
proof -
  have "(case find (\<lambda>n. nkey n = k) ns of Some n \<Rightarrow> nvalue n | None \<Rightarrow> d)
      = (case map nvalue (filter (\<lambda>n. nkey n = k) ns) of [] \<Rightarrow> d | v # _ \<Rightarrow> v)" for ns
    by (induction ns) auto
  then show ?thesis by (simp add: assoc_def)
qed

lemmas cpp_hash = cpp_hashFunction_def cpp_socket_hashFunction_def bucket_def [symmetric]

lemma append_chain_eq [simp]: "append_chain ns new = ns @ new"
  by (induction ns) auto

lemma cpp_unlocked [simp]:
  assumes "lock st = Unlocked"
  shows "constructs new_node \<Longrightarrow> cpp_insertByValue new_node t True st k v = Some (Some True, st\<lparr>tab := link_node (tab st) k v\<rparr>)"
    and "cpp_insertByValue new_node t False st k v = Some (None, st\<lparr>lock := WrLocked t\<rparr>)"
    and "cpp_searchByKey t st k = Some (case assoc (tab st) k of [] \<Rightarrow> 0 | v # _ \<Rightarrow> v, st)"
    and "cpp_searchByValue t st v = Some (case find (\<lambda>n. nvalue n = v) (nodes (tab st)) of Some n \<Rightarrow> nkey n | None \<Rightarrow> - 1, st)"
    and "cpp_deleteByKey t st k = Some (st\<lparr>tab := unlink_node (tab st) k\<rparr>)"
    and "cpp_deleteByValue t st v = Some (st\<lparr>tab := deleteByValue (tab st) v\<rparr>)"
    and "cpp_freeHashTable t st = Some (nodes (tab st),
      st\<lparr>tab := (tab st)\<lparr>table := \<lambda>i. if i < ht_size (tab st) then [] else table (tab st) i\<rparr>, lock := Destroyed\<rparr>)"
  using assms
  by (simp_all add: cpp_insertByValue_def cpp_searchByKey_def cpp_searchByValue_def cpp_deleteByKey_def
      cpp_deleteByValue_def cpp_freeHashTable_def deleteByValue_def link_node_def unlink_node_def cpp_hash constructs_def
      rwlock_destroy_def find_node_find first_value scan_nodes_find nodes_def free_chains_eq Let_def split: option.splits)

lemma cpp_socket_same:
  "cpp_socket_insertByValue = cpp_insertByValue" "cpp_socket_searchByKey = cpp_searchByKey"
  "cpp_socket_searchByValue = cpp_searchByValue" "cpp_socket_deleteByKey = cpp_deleteByKey"
  "cpp_socket_deleteByValue = cpp_deleteByValue" "cpp_socket_freeHashTable = cpp_freeHashTable"
  "cpp_createSocketHashTable = cpp_createHashTable"
  by (simp_all only: fun_eq_iff cpp_socket_insertByValue_def cpp_insertByValue_def cpp_socket_searchByKey_def
      cpp_searchByKey_def cpp_socket_searchByValue_def cpp_searchByValue_def cpp_socket_deleteByKey_def
      cpp_deleteByKey_def cpp_socket_deleteByValue_def cpp_deleteByValue_def cpp_socket_freeHashTable_def
      cpp_freeHashTable_def cpp_createSocketHashTable_def cpp_createHashTable_def cpp_socket_hashFunction_def
      cpp_hashFunction_def simp_thms)

section \<open>The contract\<close>

text \<open>A multimap whose lookup finds every key, wherever it is in its chain.\<close>

locale full_lookup = multimap +
  fixes search :: "'a \<Rightarrow> c_int \<Rightarrow> 'b" and null :: 'b
  assumes search_oldest: "invar t \<Longrightarrow> search t k = (case assoc t k of [] \<Rightarrow> null | v # _ \<Rightarrow> v)"
begin

lemma search_insert_fresh:
  "invar t \<Longrightarrow> assoc t k = [] \<Longrightarrow> search (insert t k v) k' = (if k' = k then v else search t k')"
  by (simp add: search_oldest specs)

lemma search_delete_fresh:
  "invar t \<Longrightarrow> assoc t k = [] \<Longrightarrow> search (delete (insert t k v) k) k' = search t k'"
  by (simp add: search_oldest specs)

end

definition free_table :: "'v snic_table \<Rightarrow> bool" where
  "free_table st \<longleftrightarrow> lock st = Unlocked \<and> ht_inv (tab st)"

text \<open>A constructor that does what the code expects.\<close>

definition plain_node :: node_constructor where
  "plain_node k v i = [\<lparr>nkey = k, nvalue = v, nindex = i\<rparr>]"

lemma constructs_plain [simp]: "constructs plain_node"
  by (simp add: constructs_def plain_node_def)

lemma constructs_iff: "constructs new_node \<longleftrightarrow> new_node = plain_node"
  by (auto simp: constructs_def plain_node_def fun_eq_iff)

definition insert_thread :: "thread \<Rightarrow> snic_HashTable \<Rightarrow> c_int \<Rightarrow> ptr \<Rightarrow> snic_HashTable" where
  "insert_thread th st k v = snd (the (cpp_insertByValue plain_node th True st k v))"

definition delete_thread :: "thread \<Rightarrow> snic_HashTable \<Rightarrow> c_int \<Rightarrow> snic_HashTable" where
  "delete_thread th st k = the (cpp_deleteByKey th st k)"

lemma cpp_create: "cpp_createHashTable = \<lparr>tab = empty_table, lock = Unlocked\<rparr>"
  by (simp add: cpp_createHashTable_def empty_table_def)

interpretation cpp: full_lookup cpp_createHashTable "insert_thread th" "delete_thread th"
    "\<lambda>st. assoc (tab st)" free_table "\<lambda>st k. fst (the (cpp_searchByKey th' st k))" 0
  for th th'
  by unfold_locales (auto simp: free_table_def insert_thread_def delete_thread_def cpp_create contract_simps)

text \<open>C38: The C++ tables do what the C tables fail to do. Let the constructor of a node store its arguments and start with no
  successor, and let the table be unlocked. Then, for every thread, an insertion adds its value behind those of its key
  and changes no other key; a lookup finds the oldest value of its key wherever that stands in its chain, so that a
  descriptor inserted under a fresh key is found, and all others are as before, collisions or not; a search by value looks at every
  node, not only at the first of each chain; deletion by key removes the oldest value of the key, or nothing, and deletion by
  value the first node with the value, or nothing; and each of these operations, whether it hits or not, leaves the lock free.
  The release of the table frees every node once, empties the slots and destroys the lock. The one
  exception is an insertion for which there is no memory: it leaves the table locked.\<close>

theorem cpp_tables_complete:
  assumes "constructs new_node" and "lock st = Unlocked" and "ht_inv (tab st)"
  shows "(\<exists>st'. cpp_insertByValue new_node t True st k v = Some (Some True, st') \<and> lock st' = Unlocked \<and> ht_inv (tab st')
      \<and> assoc (tab st') = (assoc (tab st))(k := assoc (tab st) k @ [v])
      \<and> (assoc (tab st) k = [] \<longrightarrow>
          (\<forall>k' t'. \<exists>r. cpp_searchByKey t' st k' = Some (r, st) \<and> cpp_searchByKey t' st' k' = Some (if k' = k then v else r, st'))))
    \<and> cpp_searchByKey t st k = Some (case assoc (tab st) k of [] \<Rightarrow> 0 | v # _ \<Rightarrow> v, st)
    \<and> cpp_searchByValue t st v = Some (case find (\<lambda>n. nvalue n = v) (nodes (tab st)) of Some n \<Rightarrow> nkey n | None \<Rightarrow> - 1, st)
    \<and> (\<exists>st'. cpp_deleteByKey t st k = Some st' \<and> lock st' = Unlocked \<and> ht_inv (tab st')
        \<and> assoc (tab st') = (assoc (tab st))(k := tl (assoc (tab st) k)))
    \<and> (\<exists>st'. cpp_deleteByValue t st v = Some st' \<and> lock st' = Unlocked
        \<and> nodes (tab st') = drop_first (\<lambda>n. nvalue n = v) (nodes (tab st)))
    \<and> (\<exists>st'. cpp_freeHashTable t st = Some (nodes (tab st), st') \<and> nodes (tab st') = [] \<and> lock st' = Destroyed)
    \<and> cpp_insertByValue new_node t False st k v = Some (None, st\<lparr>lock := WrLocked t\<rparr>)"
proof (intro conjI)
  let ?st = "st\<lparr>tab := link_node (tab st) k v\<rparr>"
  have inv: "free_table st" using assms by (simp add: free_table_def)
  have st': "insert_thread t st k v = ?st" "lock ?st = Unlocked" using assms(2) by (simp_all add: insert_thread_def)
  have "\<exists>r. cpp_searchByKey t' st k' = Some (r, st) \<and> cpp_searchByKey t' ?st k' = Some (if k' = k then v else r, ?st)"
    if "assoc (tab st) k = []" for k' t'
    using cpp.search_insert_fresh [OF inv that, where th = t and th' = t' and v = v and k' = k']
    by (simp only: cpp_unlocked(3) [OF assms(2)] cpp_unlocked(3) [OF st'(2)] st'(1)) simp
  then show "\<exists>st'. cpp_insertByValue new_node t True st k v = Some (Some True, st') \<and> lock st' = Unlocked \<and> ht_inv (tab st')
      \<and> assoc (tab st') = (assoc (tab st))(k := assoc (tab st) k @ [v])
      \<and> (assoc (tab st) k = [] \<longrightarrow>
          (\<forall>k' t'. \<exists>r. cpp_searchByKey t' st k' = Some (r, st) \<and> cpp_searchByKey t' st' k' = Some (if k' = k then v else r, st')))"
    using assms by (intro exI [of _ ?st]) (auto simp: contract_simps fun_eq_iff)
  show "\<exists>st'. cpp_deleteByKey t st k = Some st' \<and> lock st' = Unlocked \<and> ht_inv (tab st')
      \<and> assoc (tab st') = (assoc (tab st))(k := tl (assoc (tab st) k))"
    using assms(2,3) by (auto simp: contract_simps fun_eq_iff)
  show "\<exists>st'. cpp_deleteByValue t st v = Some st' \<and> lock st' = Unlocked
      \<and> nodes (tab st') = drop_first (\<lambda>n. nvalue n = v) (nodes (tab st))"
    using assms(2) by (simp add: deleteByValue_removes_first)
  show "\<exists>st'. cpp_freeHashTable t st = Some (nodes (tab st), st') \<and> nodes (tab st') = [] \<and> lock st' = Destroyed"
    using assms(2) by (simp add: nodes_def)
qed (simp_all add: assms)

theorem cpp_tables_complete_witness:
  "let st = insert_thread 0 cpp_createHashTable 19 7 in
   \<exists>st'. cpp_insertByValue plain_node 1 True st 45 9 = Some (Some True, st') \<and> bucket 45 = bucket 19
     \<and> map_option fst (cpp_searchByKey 2 st' 45) = Some 9 \<and> map_option fst (cpp_searchByKey 2 st' 19) = Some 7"
proof -
  let ?st = "insert_thread 0 cpp_createHashTable 19 7"
  have st: "?st = \<lparr>tab = link_node empty_table 19 7, lock = Unlocked\<rparr>"
    by (simp add: insert_thread_def cpp_create)
  from cpp_tables_complete [OF constructs_plain, where st = ?st and k = 45 and v = 9 and t = 1] obtain st' where
    s: "cpp_insertByValue plain_node 1 True ?st 45 9 = Some (Some True, st')"
    "\<And>k' t'. \<exists>r. cpp_searchByKey t' ?st k' = Some (r, ?st) \<and> cpp_searchByKey t' st' k' = Some (if k' = 45 then 9 else r, st')"
    by (auto simp: st contract_simps)
  have "cpp_searchByKey 2 ?st 19 = Some (7, ?st)" by (simp add: st contract_simps)
  then show ?thesis using s(1) s(2) [of 2 19] s(2) [of 2 45] bucket_19_45 by (auto simp: Let_def)
qed

end
