(* ===== verification/Http_Client.thy ===== *)
theory Http_Client
  imports Text Complex_Main
begin

text \<open>
  The load generator \<open>host/test_client/client_multi.c\<close>: a thread that sends requests over one
  connection, waits for the responses and adds up their sizes and times. Sums of \<open>double\<close>
  are rational numbers here, without rounding; what is written to the log is left out.
\<close>

section \<open>State\<close>

definition MAX_EVENTS :: c_int where "MAX_EVENTS = 1024"
definition RECV_SIZE :: u64 where "RECV_SIZE = 524000"
definition SERVER_IP :: "byte list" where "SERVER_IP = ascii ''10.0.10.2''"
definition SERVER_PORT :: u16 where "SERVER_PORT = 3300"
definition req_path :: "byte list" where "req_path = ascii ''index.html''"

definition C_EAGAIN :: u32 where "C_EAGAIN = 11"
definition C_EINTR :: u32 where "C_EINTR = 4"

record conn_t =
  k_fd :: c_int
  k_total_received :: nat
  k_body_received :: nat
  k_start_time :: timeval
  k_end_time :: timeval

record thread_arg_t =
  t_requests_per_conn :: c_int
  t_use_keep_alive :: c_int
  t_total_bytes :: rat
  t_total_latency :: rat
  t_total_reqs :: c_int

text \<open>The worker: its connection, its argument, and the variables of the request in progress.
  \<open>w_header\<close> is what \<open>response_header\<close> holds before its terminating 0.\<close>

record worker =
  w_conn :: conn_t
  w_arg :: thread_arg_t
  w_header_parsed :: bool
  w_expected_len :: int
  w_header :: "byte list"
  w_done :: bool

definition timeval_to_ms :: "timeval \<Rightarrow> rat" where
  "timeval_to_ms tv = of_int (sint (tv_sec tv)) * 1000 + of_int (sint (tv_usec tv)) / 1000"

text \<open>The macro \<open>timersub\<close>.\<close>

definition get_time_diff :: "timeval \<Rightarrow> timeval \<Rightarrow> timeval" where
  "get_time_diff start end' =
     (let sec = tv_sec end' - tv_sec start; usec = tv_usec end' - tv_usec start
      in if negative usec then \<lparr>tv_sec = sec - 1, tv_usec = usec + 1000000\<rparr>
         else \<lparr>tv_sec = sec, tv_usec = usec\<rparr>)"

section \<open>Connections\<close>

definition connect_to_server :: "env \<Rightarrow> trace \<Rightarrow> (c_int \<times> trace) run" where
  "connect_to_server E h =
     (let (r, h) = ext E (Libc (Orig_socket (ucast AF_INET) SOCK_STREAM 0)) h; fd = ret r
      in if fd = - 1 then faults Exit_failure
         else
           let (r, h) = ext E (App (App_inet_pton SERVER_IP)) h
           in if ret r \<noteq> 1 then faults Exit_failure
              else
                let a = \<lparr>sin_family = AF_INET, sin_port = htons SERVER_PORT, sin_addr = sin_addr (out_addr r), sin_zero = 0\<rparr>;
                    (r, h) = ext E (Libc (Orig_connect fd a 16)) h
                in if negative (ret r) then faults Exit_failure
                   else
                     let (r, h) = ext E (App (App_fcntl fd 3 0)) h; flags = ret r
                     in if flags = - 1 then faults Exit_failure
                        else
                          let (r, h) = ext E (App (App_fcntl fd 4 (flags OR 2048))) h
                          in if ret r = - 1 then faults Exit_failure else returns (fd, h))"

definition request_text :: "bool \<Rightarrow> byte list" where
  "request_text keep = ascii ''GET '' @ req_path @ ascii '' HTTP/1.1'' @ [13, 10]
     @ ascii ''Host: '' @ SERVER_IP @ [13, 10]
     @ ascii ''Connection: '' @ ascii (if keep then ''keep-alive'' else ''close'') @ [13, 10, 13, 10]"

definition send_request :: "env \<Rightarrow> c_int \<Rightarrow> c_int \<Rightarrow> trace \<Rightarrow> trace" where
  "send_request E fd use_keep_alive h =
     (let request = request_text (use_keep_alive \<noteq> 0)
      in if 512 \<le> length request then h
         else snd (ext E (Libc (Orig_send fd request 0)) h))"

text \<open>The result is a \<open>ssize_t\<close>; -1 stands for no length.\<close>

definition parse_content_length :: "byte list \<Rightarrow> int" where
  "parse_content_length response =
     (case strcasestr response (ascii ''Content-Length:'') of None \<Rightarrow> - 1
      | Some p \<Rightarrow>
         (case strchr p 58 of None \<Rightarrow> - 1
          | Some p \<Rightarrow>
             (case strtoll (dropWhile (\<lambda>b. b = 32 \<or> b = 9) (tl p)) of None \<Rightarrow> - 1
              | Some v \<Rightarrow> if v < 0 then - 1 else v)))"

definition epoll_add :: "env \<Rightarrow> c_int \<Rightarrow> c_int \<Rightarrow> trace \<Rightarrow> trace run" where
  "epoll_add E epfd fd h =
     (let (r, h) = ext E (Libc (Orig_epoll_ctl epfd 1 fd (Some \<lparr>ev_events = 1, ev_data = ucast fd\<rparr>))) h
      in if ret r = - 1 then faults Exit_failure else returns h)"

definition epoll_del :: "env \<Rightarrow> c_int \<Rightarrow> c_int \<Rightarrow> trace \<Rightarrow> trace" where
  "epoll_del E epfd fd h = snd (ext E (Libc (Orig_epoll_ctl epfd 2 fd None)) h)"

definition reconnect_and_register :: "env \<Rightarrow> c_int \<Rightarrow> c_int \<Rightarrow> trace \<Rightarrow> (c_int \<times> trace) run" where
  "reconnect_and_register E epfd oldfd h =
     (let h = epoll_del E epfd oldfd h;
          (_, h) = ext E (Libc (Orig_close oldfd)) h
      in and_then (connect_to_server E h) (\<lambda>(nfd, h).
         and_then (epoll_add E epfd nfd h) (\<lambda>h. returns (nfd, h))))"

definition reconnect :: "env \<Rightarrow> c_int \<Rightarrow> worker \<Rightarrow> trace \<Rightarrow> (worker \<times> trace) run" where
  "reconnect E epfd w h =
     and_then (reconnect_and_register E epfd (k_fd (w_conn w)) h) (\<lambda>(nfd, h).
       returns (w\<lparr>w_conn := (w_conn w)\<lparr>k_fd := nfd\<rparr>\<rparr>, h))"

section \<open>Receiving\<close>

text \<open>What is done with the bytes of one \<open>recv\<close>.\<close>

definition take_data :: "byte list \<Rightarrow> worker \<Rightarrow> worker" where
  "take_data buf w =
     (let r = length buf;
          c = (w_conn w)\<lparr>k_total_received := k_total_received (w_conn w) + r\<rparr>
      in if \<not> w_header_parsed w then
           let header_len = length (w_header w);
               copy_len = (if 8192 \<le> header_len + r then 8192 - header_len - 1 else r);
               header = w_header w @ take copy_len buf;
               response_header = c_str header
           in (case strstr response_header [13, 10, 13, 10] of
                 None \<Rightarrow> w\<lparr>w_conn := c, w_header := header\<rparr>
               | Some header_end \<Rightarrow>
                   let header_size = length response_header - length header_end + 4;
                       c = (if length header - header_size < r
                            then c\<lparr>k_body_received := (if header_size \<le> k_total_received c then k_total_received c - header_size else 0)\<rparr>
                            else c)
                   in w\<lparr>w_conn := c, w_header := header, w_header_parsed := True,
                        w_expected_len := parse_content_length response_header\<rparr>)
         else w\<lparr>w_conn := c\<lparr>k_body_received := k_body_received c + r\<rparr>\<rparr>)"

definition response_complete :: "worker \<Rightarrow> bool" where
  "response_complete w \<longleftrightarrow> w_header_parsed w \<and> w_expected_len w \<noteq> - 1 \<and> w_expected_len w \<le> int (k_body_received (w_conn w))"

text \<open>The end of a request: the time is taken and the sums are updated.\<close>

definition account :: "env \<Rightarrow> worker \<Rightarrow> trace \<Rightarrow> worker \<times> trace" where
  "account E w h =
     (let (r, h) = ext E (App App_gettimeofday) h;
          c = (w_conn w)\<lparr>k_end_time := out_timeout r\<rparr>;
          diff2 = get_time_diff (k_start_time c) (k_end_time c);
          a = w_arg w
      in (w\<lparr>w_conn := c, w_arg := a\<lparr>t_total_bytes := t_total_bytes a + of_nat (k_body_received c),
                                    t_total_latency := t_total_latency a + timeval_to_ms diff2,
                                    t_total_reqs := t_total_reqs a + 1\<rparr>\<rparr>, h))"

definition recv_turn ::
  "env \<Rightarrow> c_int \<Rightarrow> nat \<Rightarrow> c_int \<Rightarrow> worker \<times> trace \<Rightarrow> ((worker \<times> trace) + (worker \<times> trace)) run" where
  "recv_turn E epfd i fd = (\<lambda>(w, h).
     let (r, h) = ext E (Libc (Orig_recv fd RECV_SIZE 0)) h
     in if positive (rv r) then
          let w = take_data (out_bytes r) w
          in if response_complete w then
               let (w, h) = account E w h; w = w\<lparr>w_done := True\<rparr>
               in if t_use_keep_alive (w_arg w) = 0 \<and> int i + 1 < sint (t_requests_per_conn (w_arg w))
                  then and_then (reconnect E epfd w h) (\<lambda>st. returns (Inr st))
                  else returns (Inr (w, h))
             else returns (Inl (w, h))
        else if rv r = 0 then
          let (w, h) = account E w h
          in and_then (reconnect E epfd w h) (\<lambda>(w, h). returns (Inr (w\<lparr>w_done := True\<rparr>, h)))
        else if err r = C_EAGAIN then returns (Inr (w, h))
        else if err r = C_EINTR then returns (Inl (w, h))
        else and_then (reconnect E epfd w h) (\<lambda>(w, h). returns (Inr (w\<lparr>w_done := True\<rparr>, h))))"

text \<open>The loop over the events of one \<open>epoll_wait\<close>; \<open>conn.fd\<close> is compared anew for each.\<close>

fun recv_events :: "env \<Rightarrow> c_int \<Rightarrow> nat \<Rightarrow> epoll_event list \<Rightarrow> worker \<Rightarrow> trace \<Rightarrow> (worker \<times> trace) run" where
  "recv_events E epfd i [] w h = returns (w, h)"
| "recv_events E epfd i (e # es) w h =
     (let fd = (ucast (ev_data e) :: c_int)
      in if fd \<noteq> k_fd (w_conn w) then recv_events E epfd i es w h
         else and_then (run_loop (recv_turn E epfd i fd) (w, h)) (\<lambda>(w, h). recv_events E epfd i es w h))"

text \<open>One turn of \<open>while (!done)\<close>.\<close>

definition wait_turn :: "env \<Rightarrow> c_int \<Rightarrow> nat \<Rightarrow> worker \<times> trace \<Rightarrow> ((worker \<times> trace) + (worker \<times> trace)) run" where
  "wait_turn E epfd i = (\<lambda>(w, h).
     if w_done w then returns (Inr (w, h))
     else
       let (r, h) = ext E (Libc (Orig_epoll_wait epfd MAX_EVENTS 15000)) h; n = ret r
       in if n = 0 then and_then (reconnect E epfd w h) (\<lambda>st. returns (Inr st))
          else if negative n then (if err r = C_EINTR then returns (Inl (w, h)) else faults Exit_failure)
          else and_then (recv_events E epfd i (take (unat n) (out_events r)) w h) (\<lambda>st. returns (Inl st)))"

definition one_request :: "env \<Rightarrow> c_int \<Rightarrow> nat \<Rightarrow> worker \<Rightarrow> trace \<Rightarrow> (worker \<times> trace) run" where
  "one_request E epfd i w h =
     (let (r, h) = ext E (App App_gettimeofday) h;
          c = (w_conn w)\<lparr>k_total_received := 0, k_body_received := 0, k_start_time := out_timeout r\<rparr>;
          h = send_request E (k_fd c) (t_use_keep_alive (w_arg w)) h
      in run_loop (wait_turn E epfd i)
           (w\<lparr>w_conn := c, w_header_parsed := False, w_expected_len := - 1, w_header := [], w_done := False\<rparr>, h))"

fun all_requests :: "env \<Rightarrow> c_int \<Rightarrow> nat list \<Rightarrow> worker \<Rightarrow> trace \<Rightarrow> (worker \<times> trace) run" where
  "all_requests E epfd [] w h = returns (w, h)"
| "all_requests E epfd (i # is) w h =
     and_then (one_request E epfd i w h) (\<lambda>(w, h). all_requests E epfd is w h)"

text \<open>\<open>conn_t conn = {0}\<close>; the variables of a request are set at its start.\<close>

definition worker_thread :: "env \<Rightarrow> thread_arg_t \<Rightarrow> trace \<Rightarrow> (thread_arg_t \<times> trace) run" where
  "worker_thread E targ h =
     (let (r, h) = ext E (Libc (Orig_epoll_create1 0)) h; epfd = ret r
      in if epfd = - 1 then faults Exit_failure
         else
           and_then (connect_to_server E h) (\<lambda>(fd, h).
           and_then (epoll_add E epfd fd h) (\<lambda>h.
             let conn = \<lparr>k_fd = fd, k_total_received = 0, k_body_received = 0,
                         k_start_time = \<lparr>tv_sec = 0, tv_usec = 0\<rparr>, k_end_time = \<lparr>tv_sec = 0, tv_usec = 0\<rparr>\<rparr>;
                 w = \<lparr>w_conn = conn, w_arg = targ, w_header_parsed = False, w_expected_len = - 1, w_header = [], w_done = False\<rparr>
             in and_then (all_requests E epfd [0..<nat (sint (t_requests_per_conn targ))] w h) (\<lambda>(w, h).
               let h = epoll_del E epfd (k_fd (w_conn w)) h;
                   (_, h) = ext E (Libc (Orig_close (k_fd (w_conn w)))) h;
                   (_, h) = ext E (Libc (Orig_close epfd)) h
               in returns (w_arg w, h)))))"

section \<open>The program\<close>

text \<open>The averages that are printed at the end: latency in milliseconds, throughput in KB/s.\<close>

definition averages :: "thread_arg_t \<Rightarrow> rat \<times> rat" where
  "averages a =
     (let grand_reqs = of_int (sint (t_total_reqs a));
          avg_latency = (if 0 < grand_reqs then t_total_latency a / grand_reqs else 0);
          avg_throughput = (if 0 < grand_reqs \<and> 0 < avg_latency
            then ((t_total_bytes a / grand_reqs) / 1024) / (avg_latency / 1000) else 0)
      in (avg_latency, avg_throughput))"

text \<open>\<open>main\<close>: its result is the exit status and, when it gets that far, the averages. The only thread is
  joined at once, so it runs between its creation and the end.\<close>

definition client_main :: "env \<Rightarrow> byte list list \<Rightarrow> trace \<Rightarrow> (c_int \<times> (rat \<times> rat) option \<times> trace) run" where
  "client_main E argv h =
     (if length argv < 3 then faults Exit_failure
      else
        let requests_per_conn = atoi (argv ! 1);
            use_keep_alive = atoi (argv ! 1);
            (r, h) = ext E (App App_fopen) h
        in if rv r = 0 then faults Exit_failure
           else
             let (threads, h) = ext E (App (App_alloc 8)) h;
                 (args, h) = ext E (App (App_alloc 56)) h
             in if rv threads = 0 \<or> rv args = 0 then faults Exit_failure
                else
                  let a = \<lparr>t_requests_per_conn = requests_per_conn, t_use_keep_alive = use_keep_alive,
                           t_total_bytes = 0, t_total_latency = 0, t_total_reqs = 0\<rparr>;
                      (r, h) = ext E (Pthread_create (rv args)) h
                  in if ret r \<noteq> 0 then returns (1, None, h)
                     else and_then (worker_thread E a h) (\<lambda>(a, h). returns (0, Some (averages a), h)))"

end
