(* ===== verification/Http_Server.thy ===== *)
theory Http_Server
  imports Text
begin

text \<open>
  The sample server \<open>host/test_server/http_epoll.c\<close>: an edge-triggered epoll loop that answers
  \<open>GET\<close> requests with files below a directory. Buffers are the bytes they hold, together
  with their capacity; an allocation is a call that may answer \<open>NULL\<close>.
\<close>

section \<open>State\<close>

definition MAXEVENTS :: c_int where "MAXEVENTS = 1024"
definition READ_BUF_INIT :: nat where "READ_BUF_INIT = 16 * 1024"
definition WRITE_BUF_INIT :: nat where "WRITE_BUF_INIT = 16 * 1024"

text \<open>\<open>rlen\<close> and \<open>wlen\<close> are the lengths of \<open>c_rbuf\<close> and \<open>c_wbuf\<close>; \<open>c_rnull\<close> and \<open>c_wnull\<close> say that the
  pointer is \<open>NULL\<close>, after an allocation that failed.\<close>

record client_t =
  c_fd :: c_int
  c_rbuf :: "byte list"
  c_rnull :: bool
  c_rcap :: nat
  c_wbuf :: "byte list"
  c_wnull :: bool
  c_wcap :: nat
  c_keep :: bool
  c_ffd :: c_int
  c_foff :: i64
  c_flen :: i64

text \<open>The array \<open>clients[65536]\<close>.\<close>

type_synonym clients = "nat \<Rightarrow> client_t option"

definition EAGAIN :: u32 where "EAGAIN = 11"
definition EPOLLIN :: u32 where "EPOLLIN = 1"
definition EPOLLOUT :: u32 where "EPOLLOUT = 4"
definition EPOLLERR :: u32 where "EPOLLERR = 8"
definition EPOLLHUP :: u32 where "EPOLLHUP = 16"
definition EPOLLET :: u32 where "EPOLLET = 0x80000000"

section \<open>Descriptors\<close>

definition setnonblocking :: "env \<Rightarrow> c_int \<Rightarrow> trace \<Rightarrow> c_int \<times> trace" where
  "setnonblocking E fd h =
     (let (r, h) = ext E (App (App_fcntl fd 3 0)) h;
          (r, h) = ext E (App (App_fcntl fd 4 (ret r OR 2048))) h
      in (ret r, h))"

definition ep_add :: "env \<Rightarrow> c_int \<Rightarrow> c_int \<Rightarrow> u32 \<Rightarrow> trace \<Rightarrow> trace" where
  "ep_add E ep fd ev h = snd (ext E (Libc (Orig_epoll_ctl ep 1 fd (Some \<lparr>ev_events = ev, ev_data = ucast fd\<rparr>))) h)"

definition ep_mod :: "env \<Rightarrow> c_int \<Rightarrow> c_int \<Rightarrow> u32 \<Rightarrow> trace \<Rightarrow> trace" where
  "ep_mod E ep fd ev h = snd (ext E (Libc (Orig_epoll_ctl ep 3 fd (Some \<lparr>ev_events = ev, ev_data = ucast fd\<rparr>))) h)"

definition ep_del :: "env \<Rightarrow> c_int \<Rightarrow> c_int \<Rightarrow> trace \<Rightarrow> trace" where
  "ep_del E ep fd h = snd (ext E (Libc (Orig_epoll_ctl ep 2 fd None)) h)"

definition close_fd :: "env \<Rightarrow> c_int \<Rightarrow> trace \<Rightarrow> trace" where
  "close_fd E fd h = snd (ext E (Libc (Orig_close fd)) h)"

definition free_client :: "env \<Rightarrow> c_int \<Rightarrow> clients \<Rightarrow> client_t option \<Rightarrow> trace \<Rightarrow> clients \<times> trace" where
  "free_client E ep tbl oc h = (case oc of None \<Rightarrow> (tbl, h)
     | Some c \<Rightarrow>
        let h = ep_del E ep (c_fd c) h;
            h = close_fd E (c_fd c) h;
            h = (if positive (c_ffd c) then close_fd E (c_ffd c) h else h)
        in (tbl(unat (c_fd c) := None), h))"

section \<open>Output\<close>

text \<open>\<open>while (nc < need) nc *= 2\<close>.\<close>

partial_function (option) grow :: "nat \<Rightarrow> nat \<Rightarrow> nat option" where
  [code]: "grow nc need = (if nc < need then grow (nc * 2) need else Some nc)"

definition wqueue :: "env \<Rightarrow> client_t \<Rightarrow> byte list \<Rightarrow> trace \<Rightarrow> (client_t \<times> trace) run" where
  "wqueue E c data h =
     and_then (if c_wcap c < length (c_wbuf c) + length data
               then (case grow (c_wcap c * 2) (length (c_wbuf c) + length data) of None \<Rightarrow> None
                 | Some nc \<Rightarrow>
                    let (r, h) = ext E (App (App_alloc (word_of_nat nc))) h
                    in returns (c\<lparr>c_wnull := (rv r = 0), c_wcap := nc\<rparr>, h))
               else returns (c, h))
       (\<lambda>(c, h). if c_wnull c then faults Null_deref
                 else returns (c\<lparr>c_wbuf := c_wbuf c @ data\<rparr>, h))"

definition crlf :: "byte list" where "crlf = [13, 10]"

definition body_404 :: "byte list" where
  "body_404 = ascii ''<h1>404</h1>''"

definition header_404 :: "byte list" where
  "header_404 = ascii ''HTTP/1.1 404 Not Found'' @ crlf
     @ ascii ''Content-Length: '' @ dec_nat (length body_404) @ crlf
     @ ascii ''Connection: close'' @ crlf @ crlf"

definition send_404 :: "env \<Rightarrow> client_t \<Rightarrow> trace \<Rightarrow> (client_t \<times> trace) run" where
  "send_404 E c h =
     and_then (wqueue E c (snprintf 256 header_404) h) (\<lambda>(c, h).
     and_then (wqueue E c body_404 h) (\<lambda>(c, h).
     returns (c\<lparr>c_keep := False\<rparr>, h)))"

definition content_type :: "byte list \<Rightarrow> byte list" where
  "content_type path =
     (if strstr path (ascii ''.html'') \<noteq> None then ascii ''text/html''
      else if strstr path (ascii ''.jpg'') \<noteq> None \<or> strstr path (ascii ''.jpeg'') \<noteq> None then ascii ''image/jpeg''
      else if strstr path (ascii ''.png'') \<noteq> None then ascii ''image/png''
      else if strstr path (ascii ''.css'') \<noteq> None then ascii ''text/css''
      else if strstr path (ascii ''.js'') \<noteq> None then ascii ''application/javascript''
      else ascii ''text/plain'')"

definition header_200 :: "byte list \<Rightarrow> i64 \<Rightarrow> bool \<Rightarrow> byte list" where
  "header_200 ct len keep = ascii ''HTTP/1.1 200 OK'' @ crlf
     @ ascii ''Content-Type: '' @ ct @ crlf
     @ ascii ''Content-Length: '' @ dec_int (sint len) @ crlf
     @ ascii ''Connection: '' @ ascii (if keep then ''keep-alive'' else ''close'') @ crlf @ crlf"

definition send_file :: "env \<Rightarrow> client_t \<Rightarrow> byte list \<Rightarrow> i64 \<Rightarrow> bool \<Rightarrow> trace \<Rightarrow> (client_t \<times> trace) run" where
  "send_file E c path len keep h =
     and_then (wqueue E c (snprintf 256 (header_200 (content_type path) len keep)) h) (\<lambda>(c, h).
       let (r, h) = ext E (App (App_open path)) h; fd = ret r
       in if negative fd then send_404 E c h
          else returns (c\<lparr>c_ffd := fd, c_foff := 0, c_flen := len, c_keep := keep\<rparr>, h))"

section \<open>Requests\<close>

text \<open>The first place from \<open>p\<close> on at which the four bytes that end a header start.\<close>

fun find_end :: "byte list \<Rightarrow> nat option" where
  "find_end bs = (if length bs < 4 then None
     else if take 4 bs = crlf @ crlf then Some 0
     else map_option Suc (find_end (tl bs)))"

declare find_end.simps [simp del]

text \<open>The file a request names: \<open>char path[4096]\<close> gets the directory and, by \<open>strcat\<close>, the rest.\<close>

definition request_tail :: "byte list \<Rightarrow> byte list" where
  "request_tail s = (case strstr s (ascii ''GET '') of None \<Rightarrow> ascii ''/index.html''
     | Some g \<Rightarrow> let g = drop 4 g in
        (case strchr g 32 of None \<Rightarrow> ascii ''/index.html''
         | Some sp \<Rightarrow>
            let plen = length g - length sp;
                plen = (if 4096 \<le> plen then 4095 else plen);
                tmp = take plen g
            in if strstr tmp (ascii ''..'') \<noteq> None then ascii ''/index.html'' else ascii ''/'' @ tmp))"

definition request_path :: "byte list \<Rightarrow> byte list \<Rightarrow> fault + byte list" where
  "request_path docroot s =
     (let path = snprintf 4096 docroot @ request_tail s
      in if 4096 \<le> length path then Inl Out_of_bounds else Inr path)"

definition request_keep :: "byte list \<Rightarrow> bool" where
  "request_keep s =
     (let keep = True;
          keep = (if strcasestr s (ascii ''Connection: close'') \<noteq> None then False else keep);
          keep = (if strcasestr s (ascii ''Connection: keep-alive'') \<noteq> None then True else keep)
      in keep)"

definition S_ISREG :: "u32 \<Rightarrow> bool" where
  "S_ISREG m \<longleftrightarrow> m AND 0xF000 = 0x8000"

text \<open>The work for one header block, between its copy and its release.\<close>

definition answer_request :: "env \<Rightarrow> byte list \<Rightarrow> client_t \<Rightarrow> byte list \<Rightarrow> trace \<Rightarrow> (client_t \<times> trace) run" where
  "answer_request E docroot c block h =
     (case request_path docroot (c_str block) of Inl e \<Rightarrow> faults e
      | Inr path \<Rightarrow>
         let keep = request_keep (c_str block);
             (r, h) = ext E (App (App_stat path)) h
         in if ret r = 0 \<and> S_ISREG (out_mode r) then send_file E c path (out_off r) keep h
            else send_404 E c h)"

text \<open>\<open>found\<close> is an \<open>int\<close>: the place is converted, and one that becomes smaller than \<open>p\<close> makes
  the length of the copy wrap around.\<close>

definition request_turn ::
  "env \<Rightarrow> byte list \<Rightarrow> nat \<times> client_t \<times> trace \<Rightarrow> ((nat \<times> client_t \<times> trace) + (nat \<times> client_t \<times> trace)) run" where
  "request_turn E docroot = (\<lambda>(p, c, h).
     if length (c_rbuf c) - p < 4 then returns (Inr (p, c, h))
     else case find_end (drop p (c_rbuf c)) of None \<Rightarrow> returns (Inr (p, c, h))
      | Some i \<Rightarrow>
         let found = (word_of_nat (p + i + 4) :: c_int) in
         if negative found then returns (Inr (p, c, h))
         else if unat found < p then faults Out_of_bounds
         else let hlen = unat found - p;
                  (r, h) = ext E (App (App_alloc (word_of_nat (hlen + 1)))) h
              in if rv r = 0 then faults Null_deref
                 else and_then (answer_request E docroot c (take hlen (drop p (c_rbuf c))) h) (\<lambda>(c, h).
                   returns (Inl (unat found, c, h))))"

definition process_requests :: "env \<Rightarrow> byte list \<Rightarrow> client_t \<Rightarrow> trace \<Rightarrow> (client_t \<times> trace) run" where
  "process_requests E docroot c h =
     and_then (run_loop (request_turn E docroot) (0, c, h)) (\<lambda>(p, c, h).
       returns (if 0 < p then c\<lparr>c_rbuf := drop p (c_rbuf c)\<rparr> else c, h))"

section \<open>Events of a connection\<close>

text \<open>\<open>c->rcap *= 2; c->rbuf = realloc(c->rbuf, c->rcap)\<close>.\<close>

definition grow_rbuf :: "env \<Rightarrow> client_t \<Rightarrow> trace \<Rightarrow> client_t \<times> trace" where
  "grow_rbuf E c h =
     (let (r, h) = ext E (App (App_alloc (word_of_nat (c_rcap c * 2)))) h
      in (c\<lparr>c_rcap := c_rcap c * 2, c_rnull := (rv r = 0)\<rparr>, h))"

text \<open>The bytes a \<open>read\<close> that returns more than 0 has stored are in its response.\<close>

definition read_turn ::
  "env \<Rightarrow> byte list \<Rightarrow> client_t \<times> trace \<Rightarrow> ((client_t \<times> trace) + (bool \<times> client_t \<times> trace)) run" where
  "read_turn E docroot = (\<lambda>(c, h).
     let (c, h) = (if c_rcap c - length (c_rbuf c) < 4096 then grow_rbuf E c h else (c, h));
         (r, h) = ext E (Libc (Orig_read (c_fd c) (word_of_nat (c_rcap c - length (c_rbuf c))))) h
     in if positive (rv r) then
          (if c_rnull c then faults Null_deref
           else and_then (process_requests E docroot (c\<lparr>c_rbuf := c_rbuf c @ out_bytes r\<rparr>) h) (\<lambda>st. returns (Inl st)))
        else if rv r = 0 then returns (Inr (False, c\<lparr>c_keep := False\<rparr>, h))
        else if err r = EAGAIN then returns (Inr (True, c, h))
        else returns (Inr (False, c\<lparr>c_keep := False\<rparr>, h)))"

definition on_read :: "env \<Rightarrow> byte list \<Rightarrow> c_int \<Rightarrow> client_t \<Rightarrow> trace \<Rightarrow> (client_t \<times> trace) run" where
  "on_read E docroot ep c h =
     and_then (run_loop (read_turn E docroot) (c, h)) (\<lambda>(drained, c, h).
       returns (c, if drained \<and> (c_wbuf c \<noteq> [] \<or> positive (c_ffd c))
                   then ep_mod E ep (c_fd c) (EPOLLIN OR EPOLLOUT OR EPOLLET) h else h))"

definition write_turn :: "env \<Rightarrow> client_t \<times> trace \<Rightarrow> ((client_t \<times> trace) + (client_t \<times> trace)) run" where
  "write_turn E = (\<lambda>(c, h).
     if c_wbuf c \<noteq> [] then
       (let (r, h) = ext E (Libc (Orig_write (c_fd c) (c_wbuf c))) h
        in if positive (rv r) then returns (Inl (c\<lparr>c_wbuf := drop (unat (rv r)) (c_wbuf c)\<rparr>, h))
           else if err r = EAGAIN then returns (Inr (c, h))
           else returns (Inr (c\<lparr>c_keep := False\<rparr>, h)))
     else returns (Inr (c, h)))"

definition sendfile_turn :: "env \<Rightarrow> client_t \<times> trace \<Rightarrow> ((client_t \<times> trace) + (client_t \<times> trace)) run" where
  "sendfile_turn E = (\<lambda>(c, h).
     if c_wbuf c = [] \<and> positive (c_ffd c) \<and> sint (c_foff c) < sint (c_flen c) then
       (let (r, h) = ext E (App (App_sendfile (c_fd c) (c_ffd c) (c_foff c) (c_flen c - c_foff c))) h
        in if \<not> negative (rv r) then returns (Inl (c\<lparr>c_foff := out_off r\<rparr>, h))
           else if err r = EAGAIN then returns (Inr (c, h))
           else let h = close_fd E (c_ffd c) h in returns (Inl (c\<lparr>c_ffd := 0, c_keep := False\<rparr>, h)))
     else returns (Inr (c, h)))"

definition drain_turn ::
  "env \<Rightarrow> byte list \<Rightarrow> client_t \<times> trace \<Rightarrow> ((client_t \<times> trace) + (client_t \<times> trace)) run" where
  "drain_turn E docroot = (\<lambda>(c, h).
     let (r, h) = ext E (Libc (Orig_read (c_fd c) 4096)) h
     in if positive (rv r) then
          (let (c, h) = (if c_rcap c - length (c_rbuf c) < unat (rv r) then grow_rbuf E c h else (c, h))
           in if c_rnull c then faults Null_deref
              else and_then (process_requests E docroot (c\<lparr>c_rbuf := c_rbuf c @ out_bytes r\<rparr>) h) (\<lambda>st. returns (Inl st)))
        else returns (Inr (c, h)))"

text \<open>Everything \<open>on_write\<close> does before it decides about the connection.\<close>

definition end_of_file :: "env \<Rightarrow> client_t \<times> trace \<Rightarrow> client_t \<times> trace" where
  "end_of_file E = (\<lambda>(c, h). if positive (c_ffd c) \<and> sint (c_flen c) \<le> sint (c_foff c)
     then (c\<lparr>c_ffd := 0\<rparr>, close_fd E (c_ffd c) h) else (c, h))"

definition flush_client :: "env \<Rightarrow> byte list \<Rightarrow> client_t \<Rightarrow> trace \<Rightarrow> (client_t \<times> trace) run" where
  "flush_client E docroot c h =
     and_then (run_loop (write_turn E) (c, h)) (\<lambda>st.
     and_then (run_loop (sendfile_turn E) st) (\<lambda>st.
       let (c, h) = end_of_file E st
       in if c_wbuf c = [] \<and> c_ffd c = 0 then run_loop (drain_turn E docroot) (c, h) else returns (c, h)))"

definition on_write ::
  "env \<Rightarrow> byte list \<Rightarrow> c_int \<Rightarrow> clients \<Rightarrow> client_t \<Rightarrow> trace \<Rightarrow> (clients \<times> trace) run" where
  "on_write E docroot ep tbl c h =
     and_then (flush_client E docroot c h) (\<lambda>(c, h).
       if \<not> c_keep c then returns (free_client E ep tbl (Some c) h)
       else if c_wbuf c \<noteq> [] \<or> positive (c_ffd c)
       then returns (tbl(unat (c_fd c) \<mapsto> c), ep_mod E ep (c_fd c) (EPOLLIN OR EPOLLOUT OR EPOLLET) h)
       else returns (tbl(unat (c_fd c) \<mapsto> c), ep_mod E ep (c_fd c) (EPOLLIN OR EPOLLET) h))"

section \<open>The server\<close>

definition new_client :: "c_int \<Rightarrow> bool \<Rightarrow> bool \<Rightarrow> client_t" where
  "new_client cfd rnull wnull =
     \<lparr>c_fd = cfd, c_rbuf = [], c_rnull = rnull, c_rcap = READ_BUF_INIT,
      c_wbuf = [], c_wnull = wnull, c_wcap = WRITE_BUF_INIT, c_keep = True,
      c_ffd = 0, c_foff = 0, c_flen = 0\<rparr>"

definition accept_turn ::
  "env \<Rightarrow> c_int \<Rightarrow> c_int \<Rightarrow> clients \<times> trace \<Rightarrow> ((clients \<times> trace) + (clients \<times> trace)) run" where
  "accept_turn E ep ls = (\<lambda>(tbl, h).
     let (r, h) = ext E (Libc (Orig_accept ls)) h; cfd = ret r
     in if negative cfd then returns (Inr (tbl, h))
        else
          let (_, h) = setnonblocking E cfd h;
              (p, h) = ext E (App (App_alloc 80)) h
          in if rv p = 0 then faults Null_deref
             else
               let (rb, h) = ext E (App (App_alloc (word_of_nat READ_BUF_INIT))) h;
                   (wb, h) = ext E (App (App_alloc (word_of_nat WRITE_BUF_INIT))) h
               in if 65536 \<le> unat cfd then faults Out_of_bounds
                  else returns (Inl (tbl(unat cfd \<mapsto> new_client cfd (rv rb = 0) (rv wb = 0)),
                                     ep_add E ep cfd (EPOLLIN OR EPOLLET) h)))"

definition handle_event ::
  "env \<Rightarrow> byte list \<Rightarrow> c_int \<Rightarrow> c_int \<Rightarrow> epoll_event \<Rightarrow> clients \<Rightarrow> trace \<Rightarrow> (clients \<times> trace) run" where
  "handle_event E docroot ep ls e tbl h =
     (let fd = (ucast (ev_data e) :: c_int); ev = ev_events e
      in if fd = ls then run_loop (accept_turn E ep ls) (tbl, h)
         else if 65536 \<le> unat fd then faults Out_of_bounds
         else case tbl (unat fd) of None \<Rightarrow> returns (tbl, h)
           | Some c \<Rightarrow>
              if ev AND (EPOLLHUP OR EPOLLERR) \<noteq> 0 then returns (free_client E ep tbl (Some c) h)
              else and_then (if ev AND EPOLLIN \<noteq> 0 then on_read E docroot ep c h else returns (c, h)) (\<lambda>(c, h).
                if ev AND EPOLLOUT \<noteq> 0 then on_write E docroot ep (tbl(unat fd \<mapsto> c)) c h
                else returns (tbl(unat fd \<mapsto> c), h)))"

fun handle_events ::
  "env \<Rightarrow> byte list \<Rightarrow> c_int \<Rightarrow> c_int \<Rightarrow> epoll_event list \<Rightarrow> clients \<Rightarrow> trace \<Rightarrow> (clients \<times> trace) run" where
  "handle_events E docroot ep ls [] tbl h = returns (tbl, h)"
| "handle_events E docroot ep ls (e # es) tbl h =
     and_then (handle_event E docroot ep ls e tbl h) (\<lambda>(tbl, h). handle_events E docroot ep ls es tbl h)"

text \<open>One turn of the main loop; the events are those \<open>epoll_wait\<close> has stored.\<close>

definition server_turn ::
  "env \<Rightarrow> byte list \<Rightarrow> c_int \<Rightarrow> c_int \<Rightarrow> clients \<Rightarrow> trace \<Rightarrow> (clients \<times> trace) run" where
  "server_turn E docroot ep ls tbl h =
     (let (r, h) = ext E (Libc (Orig_epoll_wait ep MAXEVENTS (- 1))) h
      in handle_events E docroot ep ls (take (nat (sint (ret r))) (out_events r)) tbl h)"

text \<open>\<open>main\<close> up to its loop: \<open>None\<close> when it only prints how it is used.\<close>

definition server_start :: "env \<Rightarrow> byte list list \<Rightarrow> trace \<Rightarrow> (byte list \<times> c_int \<times> c_int \<times> trace) option" where
  "server_start E argv h =
     (if length argv < 3 then None
      else let port = atoi (argv ! 1); docroot = argv ! 2;
               (r, h) = ext E (Libc (Orig_socket (ucast AF_INET) SOCK_STREAM 0)) h; ls = ret r;
               (_, h) = ext E (Libc (Orig_setsockopt ls 1 2 (Some (le_bytes 4 (1 :: c_int))) 4)) h;
               (_, h) = setnonblocking E ls h;
               a = \<lparr>sin_family = AF_INET, sin_port = htons (ucast port), sin_addr = INADDR_ANY, sin_zero = 0\<rparr>;
               (_, h) = ext E (Libc (Orig_bind ls a 16)) h;
               (_, h) = ext E (Libc (Orig_listen ls 512)) h;
               (r, h) = ext E (Libc (Orig_epoll_create1 0)) h; ep = ret r;
               h = ep_add E ep ls (EPOLLIN OR EPOLLET) h
           in Some (docroot, ep, ls, h))"

text \<open>The states of the main loop.\<close>

inductive http_run :: "env \<Rightarrow> byte list \<Rightarrow> c_int \<Rightarrow> c_int \<Rightarrow> clients \<Rightarrow> trace \<Rightarrow> bool" for E where
    http_start: "server_start E argv [] = Some (docroot, ep, ls, h') \<Longrightarrow> http_run E docroot ep ls (\<lambda>_. None) h'"
  | http_turn: "http_run E docroot ep ls tbl h \<Longrightarrow> server_turn E docroot ep ls tbl h = returns (tbl', h') \<Longrightarrow>
      http_run E docroot ep ls tbl' h'"

end
