(* ===== verification/Http_Server_Props.thy ===== *)
theory Http_Server_Props
  imports Http_Server
begin

text \<open>
  Properties of the sample server: the splitting of the input into requests, what is queued
  for the client, the files that are named, and the invariant of the main loop.
\<close>

section \<open>Queueing\<close>

lemma grow_enough: "0 < nc \<Longrightarrow> \<exists>n. grow nc need = Some n \<and> need \<le> n \<and> nc \<le> n"
proof (induction "need - nc" arbitrary: nc rule: less_induct)
  case less
  show ?case
  proof (cases "nc < need")
    case True
    then obtain n where "grow (nc * 2) need = Some n" "need \<le> n" "nc * 2 \<le> n"
      using less.hyps [of "nc * 2"] less.prems by (auto simp: diff_less_mono2)
    then show ?thesis using True by (subst grow.simps) auto
  qed (subst grow.simps, simp)
qed

text \<open>What a well-formed connection is: the bytes of each buffer fit into it.\<close>

definition client_ok :: "client_t \<Rightarrow> bool" where
  "client_ok c \<longleftrightarrow> length (c_rbuf c) \<le> c_rcap c \<and> READ_BUF_INIT \<le> c_rcap c
     \<and> length (c_wbuf c) \<le> c_wcap c \<and> WRITE_BUF_INIT \<le> c_wcap c"

lemma client_ok_updates [simp]:
  "client_ok (c\<lparr>c_keep := k\<rparr>) = client_ok c" "client_ok (c\<lparr>c_ffd := f\<rparr>) = client_ok c"
  "client_ok (c\<lparr>c_foff := off\<rparr>) = client_ok c" "client_ok (c\<lparr>c_flen := len\<rparr>) = client_ok c"
  "client_ok (c\<lparr>c_rnull := b\<rparr>) = client_ok c" "client_ok (c\<lparr>c_wnull := b\<rparr>) = client_ok c"
  by (simp_all add: client_ok_def)

text \<open>The allocator never answers \<open>NULL\<close>.\<close>

definition allocates :: "env \<Rightarrow> bool" where
  "allocates E \<longleftrightarrow> (\<forall>n h. rv (E (App (App_alloc n) # h)) \<noteq> 0)"

lemma wqueue_returns:
  assumes "wqueue E c data h = returns (c', h')"
  shows "\<exists>n hs. c' = c\<lparr>c_wbuf := c_wbuf c @ data, c_wcap := n, c_wnull := False\<rparr>
    \<and> h' = hs @ h \<and> (\<forall>x \<in> set hs. \<exists>k. x = App (App_alloc k))
    \<and> (client_ok c \<longrightarrow> client_ok c')"
proof (cases "c_wcap c < length (c_wbuf c) + length data")
  case True
  then obtain n where n: "grow (c_wcap c * 2) (length (c_wbuf c) + length data) = Some n"
    and c': "c' = c\<lparr>c_wbuf := c_wbuf c @ data, c_wcap := n, c_wnull := False\<rparr>"
    and h': "h' = App (App_alloc (word_of_nat n)) # h"
    using assms by (auto simp: wqueue_def ext_def split: option.splits if_splits)
  have "client_ok c'" if "client_ok c"
  proof -
    have "0 < c_wcap c * 2" using that by (auto simp: client_ok_def WRITE_BUF_INIT_def)
    then show ?thesis using grow_enough [of "c_wcap c * 2" "length (c_wbuf c) + length data"] n that
      by (auto simp: client_ok_def c')
  qed
  moreover have "h' = [App (App_alloc (word_of_nat n))] @ h" using h' by simp
  ultimately show ?thesis using c' by (metis list.set_cases list.distinct(1) set_ConsD)
next
  case False
  then have "c' = c\<lparr>c_wbuf := c_wbuf c @ data\<rparr>" "\<not> c_wnull c" "h' = [] @ h"
    using assms by (auto simp: wqueue_def split: if_splits)
  moreover have "c = c\<lparr>c_wcap := c_wcap c, c_wnull := False\<rparr>" using calculation(2) by simp
  ultimately show ?thesis using False
    by (intro exI [of _ "c_wcap c"] exI [of _ "[]"]) (auto simp: client_ok_def)
qed

lemma wqueue_total:
  assumes "client_ok c" and "allocates E" and "\<not> c_wnull c"
  shows "\<exists>c' h'. wqueue E c data h = returns (c', h')"
proof -
  have "0 < c_wcap c * 2" using assms(1) by (auto simp: client_ok_def WRITE_BUF_INIT_def)
  from grow_enough [OF this, of "length (c_wbuf c) + length data"] show ?thesis using assms
    by (auto simp: wqueue_def ext_def allocates_def)
qed

text \<open>The input buffer plays no part in answering.\<close>

lemma wqueue_rbuf:
  "wqueue E (c\<lparr>c_rbuf := x\<rparr>) data h = and_then (wqueue E c data h) (\<lambda>(c, h). returns (c\<lparr>c_rbuf := x\<rparr>, h))"
  by (auto simp: wqueue_def ext_def split: option.splits)

lemma send_404_rbuf:
  "send_404 E (c\<lparr>c_rbuf := x\<rparr>) h = and_then (send_404 E c h) (\<lambda>(c, h). returns (c\<lparr>c_rbuf := x\<rparr>, h))"
  unfolding send_404_def wqueue_rbuf and_then_assoc
  by (rule and_then_cong) (auto simp: wqueue_rbuf and_then_assoc intro!: and_then_cong)

lemma send_file_rbuf:
  "send_file E (c\<lparr>c_rbuf := x\<rparr>) path len keep h
     = and_then (send_file E c path len keep h) (\<lambda>(c, h). returns (c\<lparr>c_rbuf := x\<rparr>, h))"
  unfolding send_file_def wqueue_rbuf and_then_assoc
  by (rule and_then_cong) (auto simp: ext_def send_404_rbuf Let_def)

lemma answer_request_rbuf:
  "answer_request E d (c\<lparr>c_rbuf := x\<rparr>) b h
     = and_then (answer_request E d c b h) (\<lambda>(c, h). returns (c\<lparr>c_rbuf := x\<rparr>, h))"
  by (auto simp: answer_request_def send_404_rbuf send_file_rbuf ext_def Let_def split: sum.splits)

section \<open>Requests\<close>

lemma find_end_Some:
  "find_end bs = Some i \<Longrightarrow> i + 4 \<le> length bs \<and> take 4 (drop i bs) = crlf @ crlf"
proof (induction bs arbitrary: i rule: find_end.induct)
  case (1 bs)
  show ?case
  proof (cases "length bs < 4 \<or> take 4 bs = crlf @ crlf")
    case True
    then show ?thesis using "1.prems" by (subst (asm) find_end.simps) (auto split: if_splits)
  next
    case False
    then obtain j where j: "find_end (tl bs) = Some j" "i = Suc j"
      using "1.prems" by (subst (asm) find_end.simps) auto
    then show ?thesis using "1.IH" [of j] False by (cases bs) auto
  qed
qed

lemma find_end_append: "find_end bs = Some i \<Longrightarrow> find_end (bs @ cs) = Some i"
proof (induction bs arbitrary: i rule: find_end.induct)
  case (1 bs)
  show ?case
  proof (cases "length bs < 4 \<or> take 4 bs = crlf @ crlf")
    case True
    then show ?thesis using "1.prems"
      by (subst (asm) find_end.simps, subst find_end.simps) (auto split: if_splits)
  next
    case False
    then obtain j where j: "find_end (tl bs) = Some j" "i = Suc j"
      using "1.prems" by (subst (asm) find_end.simps) auto
    then have "find_end (tl bs @ cs) = Some j" using "1.IH" False by blast
    moreover have "tl (bs @ cs) = tl bs @ cs" using False by (cases bs) auto
    ultimately show ?thesis using False j(2) by (subst find_end.simps) auto
  qed
qed

text \<open>The header blocks of a stream and what is left of it.\<close>

function split_blocks :: "byte list \<Rightarrow> byte list list \<times> byte list" where
  "split_blocks bs = (case find_end bs of None \<Rightarrow> ([], bs)
     | Some i \<Rightarrow> map_prod ((#) (take (i + 4) bs)) id (split_blocks (drop (i + 4) bs)))"
  by auto
termination
  by (relation "measure length") (auto dest: find_end_Some)

declare split_blocks.simps [simp del]

lemma split_blocks_None [simp]: "find_end bs = None \<Longrightarrow> split_blocks bs = ([], bs)"
  by (simp add: split_blocks.simps)

lemma split_blocks_Some [simp]:
  "find_end bs = Some i \<Longrightarrow>
     split_blocks bs = (take (i + 4) bs # fst (split_blocks (drop (i + 4) bs)), snd (split_blocks (drop (i + 4) bs)))"
  by (subst split_blocks.simps) (simp add: map_prod_def case_prod_unfold)

text \<open>Splitting can be resumed: what was left is put before the next part of the stream.\<close>

lemma split_blocks_append:
  "split_blocks (bs @ cs) = (fst (split_blocks bs) @ fst (split_blocks (snd (split_blocks bs) @ cs)),
     snd (split_blocks (snd (split_blocks bs) @ cs)))"
proof (induction bs rule: split_blocks.induct)
  case (1 bs)
  show ?case
  proof (cases "find_end bs")
    case (Some i)
    then have "i + 4 \<le> length bs" using find_end_Some by blast
    then show ?thesis using 1 [OF Some] find_end_append [OF Some, of cs] Some by simp
  qed simp
qed

text \<open>Answering blocks one after another, each with its copy.\<close>

fun answer_all :: "env \<Rightarrow> byte list \<Rightarrow> client_t \<Rightarrow> byte list list \<Rightarrow> trace \<Rightarrow> (client_t \<times> trace) run" where
  "answer_all E d c [] h = returns (c, h)"
| "answer_all E d c (b # bs) h =
     (let (r, h) = ext E (App (App_alloc (word_of_nat (length b + 1)))) h
      in if rv r = 0 then faults Null_deref
         else and_then (answer_request E d c b h) (\<lambda>(c, h). answer_all E d c bs h))"

lemma answer_all_append:
  "answer_all E d c (bs @ bs') h = and_then (answer_all E d c bs h) (\<lambda>(c, h). answer_all E d c bs' h)"
  by (induction bs arbitrary: c h) (auto simp: ext_def and_then_assoc intro!: and_then_cong)

lemma answer_all_rbuf:
  "answer_all E d (c\<lparr>c_rbuf := x\<rparr>) bs h
     = and_then (answer_all E d c bs h) (\<lambda>(c, h). returns (c\<lparr>c_rbuf := x\<rparr>, h))"
  by (induction bs arbitrary: c h)
    (auto simp: ext_def answer_request_rbuf and_then_assoc intro!: and_then_cong)

lemma rbuf_of_update:
  assumes "f (c\<lparr>c_rbuf := c_rbuf c\<rparr>) = and_then (f c) (\<lambda>(c', h). returns (c'\<lparr>c_rbuf := c_rbuf c\<rparr>, h))"
    and "f c = returns (c', h')"
  shows "c_rbuf c' = c_rbuf (c :: client_t)"
  using assms by (auto, metis client_t.select_convs(2) client_t.surjective client_t.update_convs(2))

lemma answer_request_keeps_rbuf: "answer_request E d c b h = returns (c', h') \<Longrightarrow> c_rbuf c' = c_rbuf c"
  using rbuf_of_update [of "\<lambda>c. answer_request E d c b h"] answer_request_rbuf by blast

text \<open>The loop of \<open>process_requests\<close> is the reference, for buffers below 2 GB.\<close>

lemma request_loop_blocks:
  assumes "length (c_rbuf c) < 2 ^ 31" and "p \<le> length (c_rbuf c)"
  shows "run_loop (request_turn E d) (p, c, h) = (case split_blocks (drop p (c_rbuf c)) of (bs, rest) \<Rightarrow>
    and_then (answer_all E d c bs h) (\<lambda>(c, h). returns (length (c_rbuf c) - length rest, c, h)))"
  using assms
proof (induction "length (c_rbuf c) - p" arbitrary: c p h rule: less_induct)
  case less
  let ?bs = "drop p (c_rbuf c)"
  show ?case
  proof (cases "find_end ?bs")
    case None
    then show ?thesis using less.prems by (subst run_loop.simps) (simp add: request_turn_def)
  next
    case (Some i)
    have i: "i + 4 \<le> length ?bs" using find_end_Some [OF Some] by simp
    then have n: "p + i + 4 < 2 ^ 31" using less.prems by simp
    define w :: c_int where "w = word_of_nat (p + i + 4)"
    have u: "unat w = p + i + 4" "\<not> negative w"
      using n unfolding w_def
      by (simp_all add: unat_of_nat take_bit_nat_eq_self negative_def sint_small del: of_nat_add)
    have n': "p + i + 4 - p = i + 4" by simp
    define b where "b = take (i + 4) ?bs"
    have lb: "length b = i + 4" using i by (simp add: b_def)
    obtain bs rest where rest: "split_blocks (drop (p + i + 4) (c_rbuf c)) = (bs, rest)" by fastforce
    then have blocks: "split_blocks ?bs = (b # bs, rest)"
      using Some by (simp add: b_def ac_simps)
    have loop: "run_loop (request_turn E d) (p + i + 4, c', h') =
        and_then (answer_all E d c' bs h') (\<lambda>(c, h). returns (length (c_rbuf c) - length rest, c, h))"
      if "c_rbuf c' = c_rbuf c" for c' h'
      using less.hyps [of c' "p + i + 4" h'] less.prems i that rest by simp
    have "request_turn E d (p, c, h) =
        (let (r, h) = ext E (App (App_alloc (word_of_nat (length b + 1)))) h
         in if rv r = 0 then faults Null_deref
            else and_then (answer_request E d c b h) (\<lambda>(c, h). returns (Inl (p + i + 4, c, h))))"
      unfolding request_turn_def prod.case Some option.case Let_def w_def [symmetric] u(1) n' b_def [symmetric] lb
      using i u(2) by simp
    then show ?thesis
      by (subst run_loop.simps) (auto simp: blocks ext_def and_then_assoc loop intro!: and_then_cong dest: answer_request_keeps_rbuf)
  qed
qed

lemma answer_all_keeps_rbuf: "answer_all E d c bs h = returns (c', h') \<Longrightarrow> c_rbuf c' = c_rbuf c"
  using rbuf_of_update [of "\<lambda>c. answer_all E d c bs h"] answer_all_rbuf by blast

lemma split_blocks_concat: "concat (fst (split_blocks bs)) @ snd (split_blocks bs) = bs"
proof (induction bs rule: split_blocks.induct)
  case (1 bs)
  then show ?case by (cases "find_end bs") auto
qed

lemma process_requests_blocks:
  assumes "length (c_rbuf c) < 2 ^ 31"
  shows "process_requests E d c h = (case split_blocks (c_rbuf c) of (bs, rest) \<Rightarrow>
    and_then (answer_all E d c bs h) (\<lambda>(c, h). returns (c\<lparr>c_rbuf := rest\<rparr>, h)))"
proof -
  obtain bs rest where s: "split_blocks (c_rbuf c) = (bs, rest)" by fastforce
  then have "concat bs @ rest = c_rbuf c" using split_blocks_concat [of "c_rbuf c"] by simp
  moreover have "c\<lparr>c_rbuf := c_rbuf c\<rparr> = c" for c :: client_t by simp
  ultimately have "(if 0 < length (c_rbuf c) - length rest then c'\<lparr>c_rbuf := drop (length (c_rbuf c) - length rest) (c_rbuf c)\<rparr>
      else c') = c'\<lparr>c_rbuf := rest\<rparr>" if "c_rbuf c' = c_rbuf c" for c'
    using that by (auto dest: sym [of _ "c_rbuf c"])
  then have "(if 0 < length (c_rbuf a) - length rest then a\<lparr>c_rbuf := drop (length (c_rbuf a) - length rest) (c_rbuf a)\<rparr> else a)
      = a\<lparr>c_rbuf := rest\<rparr>" if "answer_all E d c bs h = returns (a, b)" for a b
    unfolding answer_all_keeps_rbuf [OF that] using answer_all_keeps_rbuf [OF that] by blast
  then show ?thesis
    by (auto simp: process_requests_def request_loop_blocks [OF assms] s and_then_assoc
        simp del: zero_less_diff intro!: and_then_cong split del: if_split)
qed

text \<open>C36: The splitting of the input into reads does not matter: for any environment, receiving
  and processing \<open>bs\<close> and then \<open>cs\<close> does the same to the connection and makes the same calls in the
  same order as receiving them at once, faults and missing memory included, as long as the
  input that is buffered stays below 2 GB. (Beyond that, the \<open>int\<close> that holds the place of
  the end of a header overflows.)\<close>

theorem process_requests_chunks:
  assumes "length (c_rbuf c) + length bs + length cs < 2 ^ 31"
  shows "process_requests E d (c\<lparr>c_rbuf := c_rbuf c @ bs @ cs\<rparr>) h
    = and_then (process_requests E d (c\<lparr>c_rbuf := c_rbuf c @ bs\<rparr>) h) (\<lambda>(c, h).
        process_requests E d (c\<lparr>c_rbuf := c_rbuf c @ cs\<rparr>) h)"
proof -
  obtain xs rest where s: "split_blocks (c_rbuf c @ bs) = (xs, rest)" by fastforce
  then have len: "length rest \<le> length (c_rbuf c @ bs)"
    using split_blocks_concat [of "c_rbuf c @ bs"] by (metis fst_conv snd_conv length_append le_add2)
  obtain ys rest' where s': "split_blocks (rest @ cs) = (ys, rest')" by fastforce
  have "split_blocks (c_rbuf c @ bs @ cs) = (xs @ ys, rest')"
    using split_blocks_append [of "c_rbuf c @ bs" cs] s s' by simp
  then show ?thesis using assms len s s'
    by (auto simp: process_requests_blocks answer_all_append answer_all_rbuf and_then_assoc intro!: and_then_cong)
qed

definition conn0 :: client_t where
  "conn0 = \<lparr>c_fd = 5, c_rbuf = [], c_rnull = False, c_rcap = READ_BUF_INIT, c_wbuf = [], c_wnull = False,
     c_wcap = WRITE_BUF_INIT, c_keep = True, c_ffd = 0, c_foff = 0, c_flen = 0\<rparr>"

theorem process_requests_chunks_witness:
  "process_requests (\<lambda>_. resp0\<lparr>rv := 1\<rparr>) (ascii ''/srv'') (conn0\<lparr>c_rbuf := ascii ''GET /a'' @ crlf @ crlf @ ascii ''GET''\<rparr>) []
    = and_then (process_requests (\<lambda>_. resp0\<lparr>rv := 1\<rparr>) (ascii ''/srv'') (conn0\<lparr>c_rbuf := ascii ''GET /a'' @ [13]\<rparr>) [])
        (\<lambda>(c, h). process_requests (\<lambda>_. resp0\<lparr>rv := 1\<rparr>) (ascii ''/srv'')
           (c\<lparr>c_rbuf := c_rbuf c @ [10, 13, 10] @ ascii ''GET''\<rparr>) h)"
  using process_requests_chunks [of conn0 "ascii ''GET /a'' @ [13]" "[10, 13, 10] @ ascii ''GET''"
      "\<lambda>_. resp0\<lparr>rv := 1\<rparr>" "ascii ''/srv''" "[]"]
  by (simp add: conn0_def crlf_def)

section \<open>What a connection's handler does to the world\<close>

text \<open>The bytes the kernel has taken on a descriptor since \<open>accept\<close> returned it.\<close>

primrec sent :: "env \<Rightarrow> c_int \<Rightarrow> trace \<Rightarrow> byte list" where
  "sent E fd [] = []"
| "sent E fd (x # h) = (case x of
       Libc (Orig_accept _) \<Rightarrow> if ret (E (x # h)) = fd then [] else sent E fd h
     | Libc (Orig_write fd' bs) \<Rightarrow> if fd' = fd \<and> positive (rv (E (x # h)))
         then sent E fd h @ take (unat (rv (E (x # h)))) bs else sent E fd h
     | _ \<Rightarrow> sent E fd h)"

text \<open>A path in the directory: nothing in it leads upwards. All files that are examined or
  opened have such paths.\<close>

definition inside :: "byte list \<Rightarrow> byte list \<Rightarrow> bool" where
  "inside docroot path \<longleftrightarrow> (\<exists>t. path = snprintf 4096 docroot @ 47 # t \<and> \<not> sublist [46, 46] (47 # t))"

definition confined :: "byte list \<Rightarrow> trace \<Rightarrow> bool" where
  "confined docroot h \<longleftrightarrow>
     (\<forall>path. App (App_stat path) \<in> set h \<or> App (App_open path) \<in> set h \<longrightarrow> inside docroot path)"

text \<open>A sequence of complete response heads.\<close>

definition is_reply :: "byte list \<Rightarrow> bool" where
  "is_reply bs \<longleftrightarrow> bs = header_404 @ body_404 \<or> (\<exists>path len keep. bs = header_200 (content_type path) len keep)"

inductive replies_seq :: "byte list \<Rightarrow> bool" where
    replies_none: "replies_seq []"
  | replies_more: "replies_seq a \<Longrightarrow> is_reply b \<Longrightarrow> replies_seq (a @ b)"

lemma replies_seq_append: "replies_seq b \<Longrightarrow> replies_seq a \<Longrightarrow> replies_seq (a @ b)"
proof (induction b rule: replies_seq.induct)
  case (replies_more b c)
  then show ?case using replies_seq.replies_more [of "a @ b" c] by simp
qed simp

lemma replies_seq_one: "is_reply b \<Longrightarrow> replies_seq b"
  using replies_more [OF replies_none] by simp

definition quiet :: "call \<Rightarrow> bool" where
  "quiet x = (case x of Libc (Orig_accept _) \<Rightarrow> False | Libc (Orig_write _ _) \<Rightarrow> False
     | App (App_stat _) \<Rightarrow> False | App (App_open _) \<Rightarrow> False | _ \<Rightarrow> True)"

lemma quiet_calls [simp]:
  "quiet (Libc (Orig_read fd n))" "quiet (Libc (Orig_close fd))" "quiet (Libc (Orig_epoll_ctl ep op fd ev))"
  "quiet (Libc (Orig_epoll_wait ep k t))" "quiet (App (App_alloc n))" "quiet (App (App_sendfile fd ffd off m))"
  "quiet (App (App_fcntl fd cmd v))"
  by (simp_all add: quiet_def)

lemma sent_quiet [simp]: "quiet x \<Longrightarrow> sent E fd (x # h) = sent E fd h"
  by (auto simp: quiet_def split: call.splits orig_call.splits)

lemma sent_file [simp]: "sent E fd (App x # h) = sent E fd h"
  by simp

lemma confined_quiet [simp]: "quiet x \<Longrightarrow> confined d (x # h) = confined d h"
  by (auto simp: confined_def quiet_def)

declare sent.simps(2) [simp del]

lemma sent_write: "sent E fd (Libc (Orig_write fd' bs) # h) =
    (if fd' = fd \<and> positive (rv (E (Libc (Orig_write fd' bs) # h)))
     then sent E fd h @ take (unat (rv (E (Libc (Orig_write fd' bs) # h)))) bs else sent E fd h)"
  by (simp add: sent.simps(2))

text \<open>One handler's progress: the connection stays well-formed, whole replies are added to what
  has been sent and is still queued, nothing is sent on another descriptor, and only files of
  the directory are touched.\<close>

definition advances :: "env \<Rightarrow> byte list \<Rightarrow> client_t \<Rightarrow> trace \<Rightarrow> client_t \<Rightarrow> trace \<Rightarrow> bool" where
  "advances E d c h c' h' \<longleftrightarrow> (client_ok c \<longrightarrow> client_ok c' \<and> c_fd c' = c_fd c
     \<and> (confined d h \<longrightarrow> confined d h')
     \<and> (\<exists>rs. replies_seq rs \<and> sent E (c_fd c) h' @ c_wbuf c' = sent E (c_fd c) h @ c_wbuf c @ rs)
     \<and> (\<forall>fd. fd \<noteq> c_fd c \<longrightarrow> sent E fd h' = sent E fd h))"

lemma advances_refl [simp]: "advances E d c h c h"
  by (auto simp: advances_def intro: replies_none)

lemma advances_trans: "advances E d c h c1 h1 \<Longrightarrow> advances E d c1 h1 c2 h2 \<Longrightarrow> advances E d c h c2 h2"
  unfolding advances_def by (auto intro: replies_seq_append)

lemma advances_quiet [simp]: "quiet x \<Longrightarrow> advances E d c h c' (x # h') = advances E d c h c' h'"
  by (simp add: advances_def)

text \<open>Changes of the connection that touch neither the buffers nor the descriptor.\<close>

lemma advances_fields [simp]:
  "advances E d c h (c'\<lparr>c_keep := k\<rparr>) h' = advances E d c h c' h'"
  "advances E d c h (c'\<lparr>c_ffd := f\<rparr>) h' = advances E d c h c' h'"
  "advances E d c h (c'\<lparr>c_foff := off\<rparr>) h' = advances E d c h c' h'"
  "advances E d c h (c'\<lparr>c_flen := len\<rparr>) h' = advances E d c h c' h'"
  by (simp_all add: advances_def)

text \<open>All outcomes of a computation advance; \<open>sel\<close> finds the connection and the trace in them.\<close>

definition steps :: "env \<Rightarrow> byte list \<Rightarrow> client_t \<Rightarrow> trace \<Rightarrow> ('a \<Rightarrow> client_t \<times> trace) \<Rightarrow> 'a run \<Rightarrow> bool" where
  "steps E d c h sel m \<longleftrightarrow> yields (\<lambda>x. case sel x of (c', h') \<Rightarrow> advances E d c h c' h') m"

lemma steps_simps [simp]:
  "steps E d c h sel (returns x) = (case sel x of (c', h') \<Rightarrow> advances E d c h c' h')"
  "steps E d c h sel (faults e)" "steps E d c h sel None"
  by (simp_all add: steps_def)

lemma steps_after: "advances E d c h c1 h1 \<Longrightarrow> steps E d c1 h1 sel m \<Longrightarrow> steps E d c h sel m"
  using advances_trans by (fastforce simp: steps_def yields_def split: prod.splits)

lemma steps_quiet: "quiet x \<Longrightarrow> steps E d c (x # h) sel m \<Longrightarrow> steps E d c h sel m"
  by (rule steps_after) simp_all

lemma steps_if:
  "(b \<Longrightarrow> steps E d c h sel m) \<Longrightarrow> (\<not> b \<Longrightarrow> steps E d c h sel n) \<Longrightarrow> steps E d c h sel (if b then m else n)"
  by simp

lemma steps_ok: "(client_ok c \<Longrightarrow> steps E d c h sel m) \<Longrightarrow> steps E d c h sel m"
  by (cases "client_ok c") (simp_all add: steps_def yields_def advances_def split: prod.splits)

lemma steps_bind:
  assumes "steps E d c h sel m" and "\<And>x c1 h1. sel x = (c1, h1) \<Longrightarrow> steps E d c1 h1 sel' (f x)"
  shows "steps E d c h sel' (and_then m f)"
proof -
  consider "m = None" | e where "m = faults e" | x where "m = returns x"
    by (cases m) (auto simp: faults_def returns_def split: sum.splits, metis sum.exhaust)
  then show ?thesis
  proof cases
    case (3 x)
    obtain c1 h1 where x: "sel x = (c1, h1)" by fastforce
    then have "advances E d c h c1 h1" using assms(1) 3 by simp
    then show ?thesis using steps_after assms(2) [OF x] 3 by simp
  qed simp_all
qed

lemma wqueue_advances:
  assumes "wqueue E c data h = returns (c', h')"
  shows "c_fd c' = c_fd c \<and> c_wbuf c' = c_wbuf c @ data \<and> (client_ok c \<longrightarrow> client_ok c')
    \<and> confined d h' = confined d h \<and> sent E fd h' = sent E fd h"
proof -
  obtain n hs where r: "c' = c\<lparr>c_wbuf := c_wbuf c @ data, c_wcap := n, c_wnull := False\<rparr>" "h' = hs @ h"
    "\<forall>x \<in> set hs. \<exists>k. x = App (App_alloc k)" "client_ok c \<longrightarrow> client_ok c'"
    using wqueue_returns [OF assms] by blast
  have "confined d (hs @ h) = confined d h \<and> sent E fd (hs @ h) = sent E fd h"
    using r(3) by (induction hs) auto
  then show ?thesis using r by simp
qed

lemma header_404_short: "snprintf 256 header_404 = header_404"
  by (simp add: snprintf_def header_404_def body_404_def crlf_def dec_nat.simps)

lemma content_type_short: "length (content_type path) \<le> 22"
  by (simp add: content_type_def)

lemma header_200_short: "snprintf 256 (header_200 (content_type path) len keep) = header_200 (content_type path) len keep"
proof -
  have "length (dec_nat (nat \<bar>sint len\<bar>)) \<le> Suc 18"
  proof (rule length_dec_nat)
    have "\<bar>sint len\<bar> \<le> 2 ^ 63" using sint_ge [of len] sint_lt [of len] by simp
    also have "\<dots> < 10 ^ Suc 18" by simp
    finally show "nat \<bar>sint len\<bar> < 10 ^ Suc 18" by simp
  qed
  then have "length (dec_int (sint len)) \<le> 20"
    by (auto simp: dec_int_def split: if_splits)
  then have "length (header_200 (content_type path) len keep) \<le> 255" using content_type_short [of path]
    by (cases keep) (simp_all add: header_200_def crlf_def)
  then show ?thesis by (simp add: snprintf_def)
qed

lemma send_404_advances: "steps E d c h id (send_404 E c h)"
proof -
  have "advances E d c h (c2\<lparr>c_keep := False\<rparr>) h2"
    if "wqueue E c header_404 h = returns (c1, h1)" "wqueue E c1 body_404 h1 = returns (c2, h2)" for c1 h1 c2 h2
  proof -
    note w1 = wqueue_advances [OF that(1)] and w2 = wqueue_advances [OF that(2)]
    have "replies_seq (header_404 @ body_404)" by (rule replies_seq_one) (simp add: is_reply_def)
    then show ?thesis using w1 w2 by (auto simp: advances_def intro!: exI [of _ "header_404 @ body_404"])
  qed
  then show ?thesis by (auto simp: steps_def yields_def send_404_def header_404_short elim!: and_then_returnsE)
qed

lemma confined_file:
  "confined d (App (App_stat path) # h) = (inside d path \<and> confined d h)"
  "confined d (App (App_open path) # h) = (inside d path \<and> confined d h)"
  by (auto simp: confined_def)

lemma send_file_advances:
  assumes "inside d path"
  shows "steps E d c h id (send_file E c path len keep h)"
proof -
  let ?head = "header_200 (content_type path) len keep"
  have "replies_seq ?head" by (rule replies_seq_one) (auto simp: is_reply_def)
  then have queued: "advances E d c h c1 (App (App_open path) # h1)" if "wqueue E c ?head h = returns (c1, h1)" for c1 h1
    using wqueue_advances [OF that] assms
    by (auto simp: advances_def confined_file intro!: exI [of _ ?head])
  then have "steps E d c h id (send_404 E c1 (App (App_open path) # h1))" if "wqueue E c ?head h = returns (c1, h1)" for c1 h1
    using that steps_after send_404_advances by blast
  then show ?thesis using queued
    by (auto simp: steps_def yields_def send_file_def header_200_short ext_def Let_def elim!: and_then_returnsE
        split: if_splits)
qed

lemma request_tail_inside: "\<exists>t. request_tail s = 47 # t \<and> \<not> sublist [46, 46] (47 # t)"
proof -
  have "\<not> sublist [46, 46] (47 # t)" if "strstr t [46, 46] = None" for t :: "byte list"
    using that by (auto simp: strstr_None sublist_Cons_right)
  moreover have "strstr (ascii ''index.html'') [46, 46] = None" by simp
  ultimately show ?thesis
    by (auto simp: request_tail_def Let_def split: option.splits)
qed

lemma request_path_inside: "request_path d s = Inr path \<Longrightarrow> inside d path"
  using request_tail_inside [of s] by (auto simp: request_path_def inside_def Let_def split: if_splits)

lemma answer_request_advances: "steps E d c h id (answer_request E d c b h)"
proof (cases "request_path d (c_str b)")
  case (Inr path)
  then have p: "inside d path" by (rule request_path_inside)
  then have "advances E d c h c (App (App_stat path) # h)"
    by (auto simp: advances_def confined_file intro: replies_none)
  note after_stat = steps_after [OF this]
  show ?thesis
    using Inr after_stat [OF send_file_advances [OF p]] after_stat [OF send_404_advances]
    by (simp add: answer_request_def ext_def Let_def)
qed (simp add: answer_request_def)

lemma run_loop_steps:
  assumes "\<And>s c h. proj s = (c, h) \<Longrightarrow> steps E d c h (case_sum proj sel) (f s)" and "proj s = (c, h)"
  shows "steps E d c h sel (run_loop f s)"
  unfolding steps_def
proof (rule run_loop_yields [where I = "\<lambda>s. case proj s of (c', h') \<Rightarrow> advances E d c h c' h'"])
  fix s assume s: "case proj s of (c', h') \<Rightarrow> advances E d c h c' h'"
  obtain c' h' where p: "proj s = (c', h')" by fastforce
  with s have "steps E d c h (case_sum proj sel) (f s)" by (intro steps_after [OF _ assms(1)]) simp_all
  then show "yields (case_sum (\<lambda>s. case proj s of (c', h') \<Rightarrow> advances E d c h c' h')
      (\<lambda>x. case sel x of (c', h') \<Rightarrow> advances E d c h c' h')) (f s)"
    by (auto simp: steps_def yields_def split: sum.splits)
qed (simp add: assms(2))

lemma request_turn_advances: "steps E d c h (case_sum snd snd) (request_turn E d (p, c, h))"
proof -
  have go: "steps E d c h (case_sum snd snd)
      (and_then (answer_request E d c b (App (App_alloc n) # h)) (\<lambda>(c, h). returns (Inl (q, c, h))))" for b n q
    by (rule steps_quiet [OF quiet_calls(5) steps_bind [OF answer_request_advances]]) auto
  show ?thesis
    unfolding request_turn_def Let_def ext_def prod.case
    by (cases "find_end (drop p (c_rbuf c))"; simp only: option.case; intro steps_if; (rule go | simp))
qed

lemma process_requests_advances: "steps E d c h id (process_requests E d c h)"
  unfolding process_requests_def
  by (rule steps_bind [OF run_loop_steps [of snd _ _ snd]])
    (auto simp: advances_def client_ok_def request_turn_advances intro: replies_none)

text \<open>The kernel's part of \<open>read\<close>: at most as many bytes as asked for, and as many as it says.\<close>

definition reads_ok :: "env \<Rightarrow> bool" where
  "reads_ok E \<longleftrightarrow> (\<forall>fd n h. let r = E (Libc (Orig_read fd n) # h) in
     length (out_bytes r) \<le> unat n \<and> (positive (rv r) \<longrightarrow> unat (rv r) = length (out_bytes r)))"

lemma reads_okD:
  assumes "reads_ok E"
  shows "length (out_bytes (E (Libc (Orig_read fd n) # h))) \<le> unat n"
    "positive (rv (E (Libc (Orig_read fd n) # h))) \<Longrightarrow>
       unat (rv (E (Libc (Orig_read fd n) # h))) = length (out_bytes (E (Libc (Orig_read fd n) # h)))"
  using assms by (simp_all add: reads_ok_def Let_def)

text \<open>New input that fits, and room for it.\<close>

lemma advances_input:
  assumes "client_ok c \<longrightarrow> length (c_rbuf c) + length bs \<le> c_rcap c"
  shows "advances E d c h (c\<lparr>c_rbuf := c_rbuf c @ bs\<rparr>) h"
  using assms by (auto simp: advances_def client_ok_def intro: replies_none)

lemma grow_rbuf_advances:
  assumes "grow_rbuf E c h = (c', h')"
  shows "advances E d c h c' h' \<and> c_rbuf c' = c_rbuf c \<and> c_rcap c' = 2 * c_rcap c"
  using assms by (auto simp: grow_rbuf_def ext_def advances_def client_ok_def intro: replies_none)

lemma input_advances:
  assumes "client_ok c \<longrightarrow> length (c_rbuf c) + length bs \<le> c_rcap c"
  shows "steps E d c h (case_sum id sel)
    (if b then faults Null_deref
     else and_then (process_requests E d (c\<lparr>c_rbuf := c_rbuf c @ bs\<rparr>) h) (\<lambda>st. returns (Inl st)))"
proof -
  have "steps E d c h (case_sum id sel)
      (and_then (process_requests E d (c\<lparr>c_rbuf := c_rbuf c @ bs\<rparr>) h) (\<lambda>st. returns (Inl st)))"
    by (rule steps_after [OF advances_input [OF assms] steps_bind [OF process_requests_advances]]) simp
  then show ?thesis by simp
qed

lemma read_turn_advances:
  assumes "reads_ok E"
  shows "steps E d c h (case_sum id snd) (read_turn E d (c, h))"
proof -
  obtain c1 h1 where c1: "(if c_rcap c - length (c_rbuf c) < 4096 then grow_rbuf E c h else (c, h)) = (c1, h1)"
    by fastforce
  then have "advances E d c h c1 h1"
    by (auto split: if_splits simp: grow_rbuf_advances)
  moreover have "steps E d c1 h1 (case_sum id snd) (read_turn E d (c, h))"
  proof -
    let ?read = "Libc (Orig_read (c_fd c1) (word_of_nat (c_rcap c1 - length (c_rbuf c1))))"
    have "length (out_bytes (E (?read # h1))) \<le> c_rcap c1 - length (c_rbuf c1)"
      using reads_okD(1) [OF assms] by (rule order_trans) (simp add: unat_of_nat)
    then have "client_ok c1 \<longrightarrow> length (c_rbuf c1) + length (out_bytes (E (?read # h1))) \<le> c_rcap c1"
      by (auto simp: client_ok_def)
    note input = steps_quiet [OF quiet_calls(1) input_advances [OF this]]
    show ?thesis
      unfolding read_turn_def prod.case c1 Let_def ext_def
      by (rule steps_if, rule input, intro steps_if; simp)
  qed
  ultimately show ?thesis by (rule steps_after)
qed

lemma drain_turn_advances:
  assumes "reads_ok E"
  shows "steps E d c h (case_sum id id) (drain_turn E d (c, h))"
proof (rule steps_ok)
  assume ok: "client_ok c"
  let ?read = "Libc (Orig_read (c_fd c) 4096)"
  let ?r = "E (?read # h)"
  obtain c1 h1 where c1: "(if c_rcap c - length (c_rbuf c) < unat (rv ?r) then grow_rbuf E c (?read # h) else (c, ?read # h)) = (c1, h1)"
    by fastforce
  have adv: "advances E d c (?read # h) c1 h1"
    using c1 by (auto split: if_splits simp: grow_rbuf_advances)
  have input: "steps E d c h (case_sum id id) (if c_rnull c1 then faults Null_deref
      else and_then (process_requests E d (c1\<lparr>c_rbuf := c_rbuf c1 @ out_bytes ?r\<rparr>) h1) (\<lambda>st. returns (Inl st)))"
    if "positive (rv ?r)"
  proof (rule steps_quiet [OF quiet_calls(1) steps_after [OF adv input_advances]])
    show "client_ok c1 \<longrightarrow> length (c_rbuf c1) + length (out_bytes ?r) \<le> c_rcap c1"
      using ok c1 reads_okD [OF assms, of "c_fd c" 4096 h] that grow_rbuf_advances [of E c "?read # h"]
      by (auto simp: client_ok_def READ_BUF_INIT_def split: if_splits)
  qed
  show "steps E d c h (case_sum id id) (drain_turn E d (c, h))"
    unfolding drain_turn_def prod.case c1 Let_def ext_def
    by (rule steps_if, erule input) simp
qed

lemma write_turn_advances: "steps E d c h (case_sum id id) (write_turn E (c, h))"
proof -
  let ?w = "Libc (Orig_write (c_fd c) (c_wbuf c))"
  have "confined d (?w # h) = confined d h" by (auto simp: confined_def)
  then have "advances E d c h (c\<lparr>c_wbuf := drop (unat (rv (E (?w # h)))) (c_wbuf c)\<rparr>) (?w # h)" if "positive (rv (E (?w # h)))"
    using that by (auto simp: advances_def client_ok_def sent_write intro!: exI [of _ "[]"] replies_none)
  moreover have "advances E d c h c (?w # h)" if "\<not> positive (rv (E (?w # h)))"
    using that \<open>confined d (?w # h) = confined d h\<close> by (auto simp: advances_def sent_write intro: replies_none)
  ultimately show ?thesis by (auto simp: write_turn_def ext_def Let_def)
qed

lemma sendfile_turn_advances: "steps E d c h (case_sum id id) (sendfile_turn E (c, h))"
  by (auto simp: sendfile_turn_def close_fd_def ext_def Let_def)

lemma loops_advance:
  assumes "reads_ok E"
  shows "steps E d c h snd (run_loop (read_turn E d) (c, h))"
    and "steps E d c h id (run_loop (drain_turn E d) (c, h))"
    and "steps E d c h id (run_loop (write_turn E) (c, h))"
    and "steps E d c h id (run_loop (sendfile_turn E) (c, h))"
proof -
  show "steps E d c h snd (run_loop (read_turn E d) (c, h))"
    by (rule run_loop_steps [of id]) (simp_all add: read_turn_advances [OF assms])
  show "steps E d c h id (run_loop (drain_turn E d) (c, h))"
    by (rule run_loop_steps [of id]) (simp_all add: drain_turn_advances [OF assms])
  show "steps E d c h id (run_loop (write_turn E) (c, h))"
    by (rule run_loop_steps [of id]) (simp_all add: write_turn_advances)
  show "steps E d c h id (run_loop (sendfile_turn E) (c, h))"
    by (rule run_loop_steps [of id]) (simp_all add: sendfile_turn_advances)
qed

lemma on_read_advances:
  assumes "reads_ok E"
  shows "steps E d c h id (on_read E d ep c h)"
  unfolding on_read_def
  by (rule steps_bind [OF loops_advance(1) [OF assms]]) (auto simp: ep_mod_def ext_def)

lemma end_of_file_advances: "advances E d c h (fst (end_of_file E (c, h))) (snd (end_of_file E (c, h)))"
  by (simp add: end_of_file_def close_fd_def)

lemma flush_client_advances:
  assumes "reads_ok E"
  shows "steps E d c h id (flush_client E d c h)"
  unfolding flush_client_def
proof (rule steps_bind [OF loops_advance(3) [OF assms]], rule steps_bind, simp, rule loops_advance(4) [OF assms])
  fix c2 h2 and st :: "client_t \<times> trace" assume "id st = (c2, h2)"
  moreover obtain c3 h3 where e: "end_of_file E (c2, h2) = (c3, h3)" by fastforce
  then have "advances E d c2 h2 c3 h3" using end_of_file_advances [of E d c2 h2] by simp
  ultimately show "steps E d c2 h2 id (let (c, h) = end_of_file E st
      in if c_wbuf c = [] \<and> c_ffd c = 0 then run_loop (drain_turn E d) (c, h) else returns (c, h))"
    using steps_after [OF _ loops_advance(2) [OF assms]] e by simp
qed

section \<open>The table of connections\<close>

definition server_ok :: "env \<Rightarrow> byte list \<Rightarrow> clients \<Rightarrow> trace \<Rightarrow> bool" where
  "server_ok E d tbl h \<longleftrightarrow> confined d h \<and> (\<forall>i c. tbl i = Some c \<longrightarrow> unat (c_fd c) = i \<and> i < 65536
     \<and> client_ok c \<and> replies_seq (sent E (c_fd c) h @ c_wbuf c))"

lemma server_ok_client:
  assumes "server_ok E d tbl h" and "tbl i = Some c"
  shows "unat (c_fd c) = i" "client_ok c"
  using assms by (auto simp: server_ok_def)

lemma server_ok_quiet: "quiet x \<Longrightarrow> server_ok E d tbl (x # h) = server_ok E d tbl h"
  by (simp add: server_ok_def)

lemma server_ok_remove: "server_ok E d tbl h \<Longrightarrow> server_ok E d (tbl(i := None)) h"
  by (simp add: server_ok_def)

lemma server_ok_advances:
  assumes ok: "server_ok E d tbl h" and c: "tbl i = Some c" and adv: "advances E d c h c' h'"
  shows "server_ok E d (tbl(i \<mapsto> c')) h'"
proof -
  have facts: "client_ok c'" "c_fd c' = c_fd c" "confined d h'"
      "\<And>fd. fd \<noteq> c_fd c \<Longrightarrow> sent E fd h' = sent E fd h"
    using adv ok c by (auto simp: advances_def server_ok_def)
  obtain rs where rs: "replies_seq rs" "sent E (c_fd c) h' @ c_wbuf c' = (sent E (c_fd c) h @ c_wbuf c) @ rs"
    using adv ok c by (auto simp: advances_def server_ok_def)
  then have "replies_seq (sent E (c_fd c) h' @ c_wbuf c')"
    using ok c replies_seq_append [OF rs(1)] unfolding rs(2) server_ok_def by blast
  moreover have "sent E (c_fd c2) h' = sent E (c_fd c2) h" if "tbl j = Some c2" "j \<noteq> i" for j c2
    using server_ok_client(1) [OF ok c] server_ok_client(1) [OF ok that(1)] that(2) by (intro facts(4)) auto
  ultimately show ?thesis using ok c facts(1,2,3) by (auto simp: server_ok_def)
qed

lemma free_client_ok:
  assumes "server_ok E d tbl h"
  shows "case free_client E ep tbl c h of (tbl', h') \<Rightarrow> server_ok E d tbl' h'"
  using assms by (auto simp: free_client_def ep_del_def close_fd_def ext_def Let_def server_ok_quiet
      server_ok_remove split: option.split)

lemma on_write_ok:
  assumes "reads_ok E" and ok: "server_ok E d tbl h" and c: "tbl (unat (c_fd c)) = Some c"
  shows "yields (\<lambda>(tbl', h'). server_ok E d tbl' h') (on_write E d ep tbl c h)"
  unfolding on_write_def
proof (rule yields_bind [OF flush_client_advances [OF assms(1), unfolded steps_def, of d c h]])
  fix x assume "case id x of (c', h') \<Rightarrow> advances E d c h c' h'"
  then obtain c' h' where x: "x = (c', h')" and adv: "advances E d c h c' h'" by auto
  have fd: "c_fd c' = c_fd c" using adv ok c by (auto simp: advances_def server_ok_def)
  have ok': "server_ok E d (tbl(unat (c_fd c) \<mapsto> c')) h'" by (rule server_ok_advances [OF ok c adv])
  from server_ok_remove [OF this, of "unat (c_fd c)"] have "server_ok E d (tbl(unat (c_fd c) := None)) h'"
    by simp
  with ok' show "yields (\<lambda>(tbl', h'). server_ok E d tbl' h') (case x of (c, h) \<Rightarrow>
       if \<not> c_keep c then returns (free_client E ep tbl (Some c) h)
       else if c_wbuf c \<noteq> [] \<or> positive (c_ffd c)
       then returns (tbl(unat (c_fd c) \<mapsto> c), ep_mod E ep (c_fd c) (EPOLLIN OR EPOLLOUT OR EPOLLET) h)
       else returns (tbl(unat (c_fd c) \<mapsto> c), ep_mod E ep (c_fd c) (EPOLLIN OR EPOLLET) h))"
    by (simp add: x fd free_client_def ep_del_def close_fd_def ep_mod_def ext_def Let_def server_ok_quiet)
qed

text \<open>A new connection: nothing has been sent on its descriptor yet.\<close>

lemma sent_accept: "sent E fd (Libc (Orig_accept ls) # h) =
    (if ret (E (Libc (Orig_accept ls) # h)) = fd then [] else sent E fd h)"
  by (simp add: sent.simps(2))

lemma server_ok_accept:
  assumes "server_ok E d tbl h" and "ret (E (Libc (Orig_accept ls) # h)) = cfd" and "\<forall>c. tbl (unat cfd) \<noteq> Some c"
  shows "server_ok E d tbl (Libc (Orig_accept ls) # h)"
proof -
  have "c_fd c \<noteq> cfd" if "tbl i = Some c" for i c
    using server_ok_client(1) [OF assms(1) that] that assms(3) by auto
  then have "sent E (c_fd c) (Libc (Orig_accept ls) # h) = sent E (c_fd c) h" if "tbl i = Some c" for i c
    using that assms(2) unfolding sent_accept by metis
  then show ?thesis using assms(1) by (auto simp: server_ok_def confined_def)
qed

lemma server_ok_insert:
  assumes "server_ok E d tbl h" and "unat (c_fd c) = i" and "i < 65536" and "client_ok c"
    and "replies_seq (sent E (c_fd c) h @ c_wbuf c)"
  shows "server_ok E d (tbl(i \<mapsto> c)) h"
  using assms by (simp add: server_ok_def)

lemma accept_turn_ok:
  assumes "server_ok E d tbl h"
  shows "yields (case_sum (\<lambda>(tbl', h'). server_ok E d tbl' h') (\<lambda>(tbl', h'). server_ok E d tbl' h'))
    (accept_turn E ep ls (tbl, h))"
proof -
  define cfd where "cfd = ret (E (Libc (Orig_accept ls) # h))"
  let ?h = "Libc (Orig_accept ls) # h"
  have none: "server_ok E d tbl ?h" if "negative cfd"
  proof (rule server_ok_accept [OF assms cfd_def [symmetric]])
    have "65536 \<le> unat cfd" using negative_unat [OF that] by simp
    then show "\<forall>c. tbl (unat cfd) \<noteq> Some c" using assms unfolding server_ok_def by (meson leD)
  qed
  have "server_ok E d (tbl(unat cfd := None)) ?h"
    by (rule server_ok_accept [OF server_ok_remove [OF assms] cfd_def [symmetric]]) simp
  then have "server_ok E d (tbl(unat cfd := None, unat cfd \<mapsto> new_client cfd a b)) ?h" if "unat cfd < 65536" for a b
    by (rule server_ok_insert)
      (use that in \<open>simp_all add: new_client_def client_ok_def sent_accept cfd_def replies_none\<close>)
  then have some: "server_ok E d (tbl(unat cfd \<mapsto> new_client cfd a b)) ?h" if "unat cfd < 65536" for a b
    using that by simp
  show ?thesis
    unfolding accept_turn_def prod.case Let_def ext_def cfd_def [symmetric] setnonblocking_def ep_add_def snd_conv
    by (intro yields_if) (simp_all add: server_ok_quiet none some not_le)
qed

lemma handle_event_ok:
  assumes "reads_ok E" and "server_ok E d tbl h"
  shows "yields (\<lambda>(tbl', h'). server_ok E d tbl' h') (handle_event E d ep ls e tbl h)"
proof -
  have accepting: "yields (\<lambda>(tbl', h'). server_ok E d tbl' h') (run_loop (accept_turn E ep ls) (tbl, h))"
    by (rule run_loop_yields [where I = "\<lambda>(tbl', h'). server_ok E d tbl' h'"]) (auto simp: accept_turn_ok assms(2))
  define i where "i = unat (ucast (ev_data e) :: c_int)"
  have client: "yields (\<lambda>(tbl', h'). server_ok E d tbl' h')
      (and_then (if ev_events e AND EPOLLIN \<noteq> 0 then on_read E d ep c h else returns (c, h)) (\<lambda>(c, h).
         if ev_events e AND EPOLLOUT \<noteq> 0 then on_write E d ep (tbl(i \<mapsto> c)) c h else returns (tbl(i \<mapsto> c), h)))"
    if c: "tbl i = Some c" for c
  proof (rule yields_bind [where R = "\<lambda>(c', h'). advances E d c h c' h'"])
    show "yields (\<lambda>(c', h'). advances E d c h c' h')
        (if ev_events e AND EPOLLIN \<noteq> 0 then on_read E d ep c h else returns (c, h))"
      using on_read_advances [OF assms(1), of d c h ep] by (simp add: steps_def)
    fix x assume "case x of (c', h') \<Rightarrow> advances E d c h c' h'"
    then obtain c' h' where x: "x = (c', h')" and adv: "advances E d c h c' h'" by auto
    have ok: "server_ok E d (tbl(i \<mapsto> c')) h'" by (rule server_ok_advances [OF assms(2) c adv])
    have "c_fd c' = c_fd c" using adv server_ok_client(2) [OF assms(2) c] by (simp add: advances_def)
    then have "(tbl(i \<mapsto> c')) (unat (c_fd c')) = Some c'" using server_ok_client(1) [OF assms(2) c] by simp
    note writing = on_write_ok [OF assms(1) ok this]
    show "yields (\<lambda>(tbl', h'). server_ok E d tbl' h') (case x of (c, h) \<Rightarrow>
        if ev_events e AND EPOLLOUT \<noteq> 0 then on_write E d ep (tbl(i \<mapsto> c)) c h else returns (tbl(i \<mapsto> c), h))"
      unfolding x prod.case by (rule yields_if [OF writing]) (simp add: ok)
  qed
  show ?thesis
    unfolding handle_event_def Let_def i_def [symmetric]
    using accepting client assms(2) free_client_ok [OF assms(2)]
    by (auto split: option.split)
qed

lemma handle_events_ok:
  "reads_ok E \<Longrightarrow> server_ok E d tbl h \<Longrightarrow> yields (\<lambda>(tbl', h'). server_ok E d tbl' h') (handle_events E d ep ls es tbl h)"
proof (induction es arbitrary: tbl h)
  case (Cons e es)
  then show ?case
    using yields_bind [OF handle_event_ok [OF Cons.prems], of _ "\<lambda>(tbl, h). handle_events E d ep ls es tbl h"]
    by (auto split: prod.splits)
qed simp

lemma server_start_confined:
  "server_start E argv [] = Some (d, ep, ls, h) \<Longrightarrow> server_ok E d (\<lambda>_. None) h"
  by (auto simp: server_start_def setnonblocking_def ep_add_def ext_def Let_def server_ok_def confined_def split: if_splits)

lemma http_run_ok:
  assumes "http_run E d ep ls tbl h" and "reads_ok E"
  shows "server_ok E d tbl h"
  using assms(1)
proof (induction rule: http_run.induct)
  case (http_start argv d ep ls h)
  then show ?case by (rule server_start_confined)
next
  case (http_turn d ep ls tbl h tbl' h')
  have "server_ok E d tbl (Libc (Orig_epoll_wait ep MAXEVENTS (- 1)) # h)"
    using http_turn.IH by (simp add: server_ok_quiet)
  from handle_events_ok [OF assms(2) this] http_turn.hyps(2) show ?case
    by (auto simp: server_turn_def ext_def dest: yieldsD)
qed

text \<open>C16: The invariant of the sample server's main loop, whatever its clients send, in whatever pieces,
  and whatever events the kernel reports: every connection is in the table under its own descriptor
  and its buffers hold no more than their capacity; and what the kernel has taken on its descriptor
  since it was accepted, followed by what is still queued, is a sequence of complete response
  heads: nothing queued is lost, repeated or reordered by partial writes.\<close>

theorem http_server_invariant:
  assumes "http_run E docroot ep ls tbl h" and "reads_ok E" and "tbl i = Some c"
  shows "unat (c_fd c) = i \<and> i < 65536 \<and> length (c_rbuf c) \<le> c_rcap c \<and> length (c_wbuf c) \<le> c_wcap c
    \<and> replies_seq (sent E (c_fd c) h @ c_wbuf c)"
  using http_run_ok [OF assms(1,2)] assms(3) by (auto simp: server_ok_def client_ok_def)

text \<open>C17: The sample server looks at no file outside its directory: every path it has given to \<open>stat\<close>
  or \<open>open\<close> is the directory (the first 4095 bytes of its name) followed by a slash and a rest in
  which two dots never follow each other.\<close>

theorem http_server_confined:
  assumes "http_run E docroot ep ls tbl h" and "reads_ok E"
    and "App (App_stat path) \<in> set h \<or> App (App_open path) \<in> set h"
  shows "\<exists>rest. path = take 4095 docroot @ 47 # rest \<and> \<not> sublist [46, 46] (47 # rest)"
  using http_run_ok [OF assms(1,2)] assms(3) by (auto simp: server_ok_def confined_def inside_def snprintf_def)

text \<open>A kernel on which one client connects and asks for a file that does not exist.\<close>

definition web_request :: "byte list" where
  "web_request = ascii ''GET a '' @ crlf @ crlf"

definition web :: env where
  "web h = (case h of
       Libc (Orig_socket _ _ _) # _ \<Rightarrow> resp0\<lparr>rv := 3\<rparr>
     | Libc (Orig_epoll_create1 _) # _ \<Rightarrow> resp0\<lparr>rv := 4\<rparr>
     | Libc (Orig_epoll_wait _ _ _) # _ \<Rightarrow> resp0\<lparr>rv := 2, out_events :=
         [\<lparr>ev_events = EPOLLIN, ev_data = 3\<rparr>, \<lparr>ev_events = EPOLLIN, ev_data = 5\<rparr>]\<rparr>
     | Libc (Orig_accept _) # t \<Rightarrow> resp0\<lparr>rv := (if Libc (Orig_accept 3) \<in> set t then - 1 else 5)\<rparr>
     | Libc (Orig_read fd n) # t \<Rightarrow>
         (if list_ex (\<lambda>x. case x of App (App_stat _) \<Rightarrow> True | _ \<Rightarrow> False) t then resp0\<lparr>rv := - 1, err := EAGAIN\<rparr>
          else resp0\<lparr>rv := word_of_nat (length (take (unat n) web_request)), out_bytes := take (unat n) web_request\<rparr>)
     | App (App_stat _) # _ \<Rightarrow> resp0\<lparr>rv := - 1\<rparr>
     | App (App_alloc _) # _ \<Rightarrow> resp0\<lparr>rv := 1\<rparr>
     | _ \<Rightarrow> resp0)"

lemma web_reads_ok: "reads_ok web"
proof -
  have "length (take (unat n) web_request) < 2 ^ 64" for n :: u64
    by (simp add: web_request_def crlf_def)
  then have "unat (word_of_nat (length (take (unat n) web_request)) :: i64) = length (take (unat n) web_request)" for n :: u64
    by (simp add: unat_of_nat take_bit_nat_eq_self)
  then show ?thesis
    by (auto simp: reads_ok_def web_def Let_def resp0_def positive_def)
qed

definition web_root :: "byte list" where "web_root = ascii ''/srv''"
definition web_file :: "byte list" where "web_file = ascii ''/srv/a''"

definition web_start :: trace where
  "web_start = snd (snd (snd (the (server_start web [[], ascii ''80'', web_root] []))))"

lemma web_starts: "http_run web web_root 4 3 (\<lambda>_. None) web_start"
proof (rule http_start)
  show "server_start web [[], ascii ''80'', web_root] [] = Some (web_root, 4, 3, web_start)"
    unfolding web_start_def
    by (simp add: server_start_def setnonblocking_def ext_def Let_def ret_def web_def)
qed

lemma web_start_calls: "Libc (Orig_accept 3) \<notin> set web_start" "App (App_stat p) \<notin> set web_start"
  by (simp_all add: web_start_def server_start_def setnonblocking_def ext_def Let_def ret_def web_def ep_add_def)

lemma web_accepts:
  assumes "Libc (Orig_accept 3) \<notin> set h"
  shows "\<exists>hs. run_loop (accept_turn web 4 3) (\<lambda>_. None, h)
    = returns ([5 \<mapsto> new_client 5 False False], hs @ h) \<and> (\<forall>p. App (App_stat p) \<notin> set hs)"
proof -
  note calls = accept_turn_def setnonblocking_def ep_add_def ext_def Let_def ret_def web_def resp0_def negative_def
  have "\<exists>hs. accept_turn web 4 3 (\<lambda>_. None, h) = returns (Inl ([5 \<mapsto> new_client 5 False False], hs @ h))
      \<and> Libc (Orig_accept 3) \<in> set hs \<and> (\<forall>p. App (App_stat p) \<notin> set hs)"
    using assms by (simp add: calls)
  then obtain hs where 1: "accept_turn web 4 3 (\<lambda>_. None, h) = returns (Inl ([5 \<mapsto> new_client 5 False False], hs @ h))"
    "Libc (Orig_accept 3) \<in> set hs" "\<forall>p. App (App_stat p) \<notin> set hs" by blast
  have "accept_turn web 4 3 ([5 \<mapsto> new_client 5 False False], hs @ h)
      = returns (Inr ([5 \<mapsto> new_client 5 False False], (Libc (Orig_accept 3) # hs) @ h))"
    using 1(2) by (simp add: calls)
  from run_loop_stop [of "accept_turn web 4 3", OF this] run_loop_go [of "accept_turn web 4 3", OF 1(1)] 1(3)
  show ?thesis by (intro exI [of _ "Libc (Orig_accept 3) # hs"]) simp
qed

lemma web_splits: "split_blocks web_request = ([web_request], [])"
proof -
  have "find_end web_request = Some 6"
    by (simp add: web_request_def crlf_def find_end.simps)
  then show ?thesis by (simp add: web_request_def crlf_def find_end.simps)
qed

lemma web_path: "request_path web_root (c_str web_request) = Inr web_file"
  by (simp add: web_root_def web_file_def request_path_def request_tail_def c_str_def web_request_def crlf_def snprintf_def Let_def)

lemma web_answers:
  "\<exists>c' hs. process_requests web web_root ((new_client 5 False False)\<lparr>c_rbuf := web_request\<rparr>) h = returns (c', hs @ h)
    \<and> App (App_stat web_file) \<in> set hs"
proof -
  have "length (header_404 @ body_404) < WRITE_BUF_INIT"
    by (simp add: header_404_def body_404_def crlf_def WRITE_BUF_INIT_def dec_nat.simps)
  then have "\<exists>c' hs. answer_all web web_root ((new_client 5 False False)\<lparr>c_rbuf := web_request\<rparr>) [web_request] h = returns (c', hs @ h)
      \<and> App (App_stat web_file) \<in> set hs"
    by (simp add: answer_request_def web_path ext_def web_def ret_def send_404_def header_404_short wqueue_def
        new_client_def Let_def resp0_def)
  moreover have "length web_request < 2 ^ 31" by (simp add: web_request_def crlf_def)
  ultimately show ?thesis by (auto simp: process_requests_blocks web_splits)
qed

lemma web_reads:
  assumes "\<And>p. App (App_stat p) \<notin> set h"
  shows "\<exists>c' hs. on_read web web_root 4 (new_client 5 False False) h = returns (c', hs @ h)
    \<and> App (App_stat web_file) \<in> set hs"
proof -
  let ?h = "Libc (Orig_read 5 (word_of_nat READ_BUF_INIT)) # h"
  obtain c1 hs where 1: "process_requests web web_root ((new_client 5 False False)\<lparr>c_rbuf := web_request\<rparr>) ?h
      = returns (c1, hs @ ?h)" "App (App_stat web_file) \<in> set hs"
    using web_answers by blast
  have none: "\<not> list_ex (\<lambda>x. case x of App (App_stat _) \<Rightarrow> True | _ \<Rightarrow> False) h"
    using assms by (auto simp: list_ex_iff split: call.splits app_call.splits)
  have "read_turn web web_root (new_client 5 False False, h) = returns (Inl (c1, hs @ ?h))"
    using none 1(1)
    by (simp add: read_turn_def new_client_def READ_BUF_INIT_def ext_def web_def resp0_def web_request_def crlf_def positive_def Let_def)
  moreover have "\<exists>c2 hs2. read_turn web web_root (c1, hs @ ?h) = returns (Inr (True, c2, hs2 @ hs @ ?h))"
  proof -
    have some: "list_ex (\<lambda>x. case x of App (App_stat _) \<Rightarrow> True | _ \<Rightarrow> False) hs"
      using 1(2) by (force simp: list_ex_iff)
    then show ?thesis
      by (simp add: read_turn_def grow_rbuf_def ext_def web_def resp0_def Let_def)
  qed
  ultimately show ?thesis using 1(2)
    by (auto simp: on_read_def run_loop_go run_loop_stop ep_mod_def ext_def)
qed

lemma web_turn: "\<exists>c h. http_run web web_root 4 3 [5 \<mapsto> c] h \<and> App (App_stat web_file) \<in> set h"
proof -
  let ?h = "Libc (Orig_epoll_wait 4 MAXEVENTS (- 1)) # web_start"
  have "Libc (Orig_accept 3) \<notin> set ?h" using web_start_calls(1) by simp
  from web_accepts [OF this] obtain hs1 where 1: "run_loop (accept_turn web 4 3) (\<lambda>_. None, ?h)
      = returns ([5 \<mapsto> new_client 5 False False], hs1 @ ?h)" "\<forall>p. App (App_stat p) \<notin> set hs1" by blast
  then have "App (App_stat p) \<notin> set (hs1 @ ?h)" for p using web_start_calls(2) by simp
  from web_reads [OF this] obtain c hs2 where 2: "on_read web web_root 4 (new_client 5 False False) (hs1 @ ?h)
      = returns (c, hs2 @ hs1 @ ?h)" "App (App_stat web_file) \<in> set hs2" by blast
  have "server_turn web web_root 4 3 (\<lambda>_. None) web_start = returns ([5 \<mapsto> c], hs2 @ hs1 @ ?h)"
    using 1(1) 2(1)
    by (simp add: server_turn_def ext_def handle_event_def EPOLLIN_def EPOLLOUT_def EPOLLHUP_def EPOLLERR_def Let_def
        web_def ret_def resp0_def)
  from http_turn [OF web_starts this] 2(2) show ?thesis by (metis UnCI set_append)
qed

theorem http_server_invariant_witness:
  "\<exists>c h. http_run web web_root 4 3 [5 \<mapsto> c] h \<and> replies_seq (sent web (c_fd c) h @ c_wbuf c)"
proof -
  obtain c h where run: "http_run web web_root 4 3 [5 \<mapsto> c] h" using web_turn by blast
  from http_server_invariant [OF run web_reads_ok, of 5 c] run show ?thesis by auto
qed

theorem http_server_confined_witness:
  "\<exists>rest. web_file = take 4095 web_root @ 47 # rest \<and> \<not> sublist [46, 46] (47 # rest)"
proof -
  obtain c h where run: "http_run web web_root 4 3 [5 \<mapsto> c] h" "App (App_stat web_file) \<in> set h" using web_turn by blast
  from http_server_confined [OF run(1) web_reads_ok] run(2) show ?thesis by blast
qed

section \<open>Where the server does not do what it should\<close>

lemma long_tail:
  assumes "4095 \<le> length name" and "32 \<notin> set name" and "0 \<notin> set name" and "\<not> sublist [46, 46] name"
  shows "request_tail (c_str (ascii ''GET '' @ name @ 32 # rest)) = 47 # take 4095 name"
proof -
  have s: "c_str (ascii ''GET '' @ name @ 32 # rest) = ascii ''GET '' @ name @ 32 # c_str rest"
    using assms(3) by (induction name) (auto simp: c_str_def)
  have "\<not> sublist [46, 46] (take 4095 name)"
    using assms(4) by (meson sublist_order.order.trans prefix_imp_sublist take_is_prefix)
  then have "strstr (take 4095 name) [46, 46] = None" by (simp add: strstr_None)
  moreover have "strchr (name @ 32 # c_str rest) 32 = Some (32 # c_str rest)"
    using assms(2) by (rule strchr_append)
  ultimately show ?thesis using assms(1) unfolding s
    by (auto simp: request_tail_def Let_def)
qed

text \<open>C40: A client can make the sample server write behind the end of its path buffer: a header block
  that asks for a name of at least 4095 bytes without blanks, zero bytes or two dots in a row
  overflows \<open>char path[4096]\<close> whatever the directory is called, because the name is cut to
  4095 bytes only before the directory and a slash are put in front of it.\<close>

theorem http_server_path_overflow:
  assumes "4095 \<le> length name" and "32 \<notin> set name" and "0 \<notin> set name" and "\<not> sublist [46, 46] name"
  shows "answer_request E docroot c (ascii ''GET '' @ name @ 32 # rest) h = faults Out_of_bounds"
  using long_tail [OF assms, of rest] assms(1)
  unfolding answer_request_def request_path_def Let_def by simp

theorem http_server_path_overflow_witness:
  "answer_request (\<lambda>_. resp0) [] conn0 (ascii ''GET '' @ replicate 4095 97 @ 32 # crlf @ crlf) [] = faults Out_of_bounds"
proof -
  have n: "\<not> sublist [46, 46] (replicate n (97 :: byte))" for n
    by (auto dest!: set_mono_sublist)
  show ?thesis by (rule http_server_path_overflow) (simp_all add: n)
qed

text \<open>A client that closes its end leaves its connection open: the event on which \<open>read\<close> reports the
  end only clears the flag \<open>keep\<close>; the descriptor is neither closed nor given to \<open>epoll_ctl\<close>, so that
  with nothing queued no later event removes the connection from the table.\<close>

theorem http_server_eof_leaks:
  assumes "ucast (ev_data e) = fd" and "fd \<noteq> ls" and "unat fd < 65536" and "tbl (unat fd) = Some c"
    and "ev_events e = EPOLLIN" and "length (c_rbuf c) + 4096 \<le> c_rcap c"
    and "rv (E (Libc (Orig_read (c_fd c) (word_of_nat (c_rcap c - length (c_rbuf c)))) # h)) = 0"
  shows "handle_event E docroot ep ls e tbl h = returns (tbl(unat fd \<mapsto> c\<lparr>c_keep := False\<rparr>),
    Libc (Orig_read (c_fd c) (word_of_nat (c_rcap c - length (c_rbuf c)))) # h)"
proof -
  have "\<not> c_rcap c - length (c_rbuf c) < 4096" using assms(6) by simp
  then have "read_turn E docroot (c, h) = returns (Inr (False, c\<lparr>c_keep := False\<rparr>,
      Libc (Orig_read (c_fd c) (word_of_nat (c_rcap c - length (c_rbuf c)))) # h))"
    using assms(7) by (simp add: read_turn_def ext_def Let_def)
  from run_loop_stop [of "read_turn E docroot", OF this] show ?thesis
    using assms(1-5)
    by (simp add: handle_event_def on_read_def EPOLLIN_def EPOLLOUT_def EPOLLHUP_def EPOLLERR_def Let_def)
qed

theorem http_server_eof_leaks_witness:
  "\<exists>h. handle_event (\<lambda>_. resp0) web_root 4 3 \<lparr>ev_events = EPOLLIN, ev_data = 5\<rparr> [5 \<mapsto> conn0] []
    = returns ([5 \<mapsto> conn0\<lparr>c_keep := False\<rparr>], h)"
  using http_server_eof_leaks [where e = "\<lparr>ev_events = EPOLLIN, ev_data = 5\<rparr>" and fd = 5 and ls = 3 and c = conn0
      and tbl = "[5 \<mapsto> conn0]" and E = "\<lambda>_. resp0" and h = "[]" and docroot = web_root and ep = 4]
  by (simp add: conn0_def READ_BUF_INIT_def resp0_def)

text \<open>C39: When a file has become shorter than the length in its response head, the sample server hangs: the
  kernel answers \<open>sendfile\<close> with 0 at the end of the file, the loop takes this for progress, and
  neither \<open>on_write\<close> nor the turn of the main loop ever ends.\<close>

theorem http_server_sendfile_hang:
  assumes "c_wbuf c = []" and "positive (c_ffd c)" and "sint (c_foff c) < sint (c_flen c)"
    and "\<And>h. let r = E (App (App_sendfile (c_fd c) (c_ffd c) (c_foff c) (c_flen c - c_foff c)) # h)
         in rv r = 0 \<and> out_off r = c_foff c"
  shows "on_write E docroot ep tbl c h = None"
proof -
  have step: "\<exists>h'. sendfile_turn E (c, h) = returns (Inl (c, h'))" for h
    using assms(1-3) assms(4) [of h] by (simp add: sendfile_turn_def ext_def Let_def)
  have "run_loop (sendfile_turn E) (c, h) = None"
    by (rule run_loop_diverges [where I = "\<lambda>st. fst st = c"]) (use step in force)+
  moreover have "run_loop (write_turn E) (c, h) = returns (c, h)"
    by (rule run_loop_stop) (simp add: write_turn_def assms(1))
  ultimately show ?thesis by (simp add: on_write_def flush_client_def)
qed

theorem http_server_sendfile_hang_witness:
  "on_write (\<lambda>_. resp0) (ascii ''/srv'') 4 (\<lambda>_. None) (conn0\<lparr>c_ffd := 6, c_flen := 100\<rparr>) [] = None"
  by (rule http_server_sendfile_hang) (simp_all add: conn0_def positive_def resp0_def)

text \<open>A kernel and an allocator on which every file exists and can be opened.\<close>

definition serves_files :: "env \<Rightarrow> bool" where
  "serves_files E \<longleftrightarrow> allocates E
     \<and> (\<forall>p h. ret (E (App (App_stat p) # h)) = 0 \<and> S_ISREG (out_mode (E (App (App_stat p) # h))))
     \<and> (\<forall>p h. positive (ret (E (App (App_open p) # h))))"

definition no_transfer :: "call list \<Rightarrow> bool" where
  "no_transfer hs \<longleftrightarrow> (\<forall>x \<in> set hs. (\<exists>n. x = App (App_alloc n)) \<or> (\<exists>p. x = App (App_stat p) \<or> x = App (App_open p)))"

lemma answer_request_file:
  assumes "request_path d (c_str b) = Inr path" and E: "serves_files E" and "client_ok c" and "\<not> c_wnull c"
  shows "\<exists>c' hs len. answer_request E d c b h = returns (c', hs @ h) \<and> no_transfer hs \<and> client_ok c' \<and> \<not> c_wnull c'
    \<and> c_wbuf c' = c_wbuf c @ header_200 (content_type path) len (request_keep (c_str b))
    \<and> c_foff c' = 0 \<and> c_flen c' = len \<and> (\<exists>h'. c_ffd c' = ret (E (App (App_open path) # h')))"
proof -
  let ?h = "App (App_stat path) # h"
  let ?head = "header_200 (content_type path) (out_off (E ?h)) (request_keep (c_str b))"
  have "allocates E" using E by (simp add: serves_files_def)
  from wqueue_total [OF assms(3) this assms(4)] obtain c1 h1 where w: "wqueue E c ?head ?h = returns (c1, h1)" by blast
  obtain n hs where c1: "c1 = c\<lparr>c_wbuf := c_wbuf c @ ?head, c_wcap := n, c_wnull := False\<rparr>"
    "h1 = hs @ ?h" "\<forall>x \<in> set hs. \<exists>k. x = App (App_alloc k)" "client_ok c1"
    using wqueue_returns [OF w] assms(3) by blast
  have "\<not> negative (ret (E (App (App_open path) # h1)))"
    using E positive_not_negative unfolding serves_files_def by blast
  then have "answer_request E d c b h = returns (c1\<lparr>c_ffd := ret (E (App (App_open path) # h1)), c_foff := 0,
      c_flen := out_off (E ?h), c_keep := request_keep (c_str b)\<rparr>, (App (App_open path) # hs @ [App (App_stat path)]) @ h)"
    using assms(1) E w c1(2)
    by (simp add: answer_request_def ext_def Let_def send_file_def header_200_short serves_files_def)
  moreover have "no_transfer (App (App_open path) # hs @ [App (App_stat path)])"
    using c1(3) by (auto simp: no_transfer_def)
  ultimately show ?thesis using c1(1,4) by fastforce
qed

text \<open>Requests that arrive together lose files: when two header blocks for existing files are
  answered one after the other, both response heads are queued, but only the second file is remembered:
  nothing of the first one has been sent and its descriptor is not closed.\<close>

theorem http_server_pipelining_loses_file:
  assumes "request_path docroot (c_str b1) = Inr path1" and "request_path docroot (c_str b2) = Inr path2"
    and E: "serves_files E" and "client_ok c" and "\<not> c_wnull c"
  shows "\<exists>c' hs len1 len2. answer_all E docroot c [b1, b2] h = returns (c', hs @ h) \<and> no_transfer hs
    \<and> c_wbuf c' = c_wbuf c @ header_200 (content_type path1) len1 (request_keep (c_str b1))
                          @ header_200 (content_type path2) len2 (request_keep (c_str b2))
    \<and> c_foff c' = 0 \<and> c_flen c' = len2 \<and> (\<exists>h'. c_ffd c' = ret (E (App (App_open path2) # h')))"
proof -
  have alloc: "rv (E (App (App_alloc n) # h)) \<noteq> 0" for n h using E by (simp add: serves_files_def allocates_def)
  let ?h1 = "App (App_alloc (word_of_nat (length b1 + 1))) # h"
  obtain c1 hs1 len1 where 1: "answer_request E docroot c b1 ?h1 = returns (c1, hs1 @ ?h1)" "no_transfer hs1"
      "c_wbuf c1 = c_wbuf c @ header_200 (content_type path1) len1 (request_keep (c_str b1))" "client_ok c1" "\<not> c_wnull c1"
    using answer_request_file [OF assms(1) E assms(4,5), of ?h1] by blast
  let ?h2 = "App (App_alloc (word_of_nat (length b2 + 1))) # hs1 @ ?h1"
  obtain c2 hs2 len2 where 2: "answer_request E docroot c1 b2 ?h2 = returns (c2, hs2 @ ?h2)" "no_transfer hs2"
      "c_wbuf c2 = c_wbuf c1 @ header_200 (content_type path2) len2 (request_keep (c_str b2))"
      "c_foff c2 = 0 \<and> c_flen c2 = len2 \<and> (\<exists>h'. c_ffd c2 = ret (E (App (App_open path2) # h')))"
    using answer_request_file [OF assms(2) E 1(4,5), of ?h2] by blast
  have "answer_all E docroot c [b1, b2] h = returns (c2, (hs2 @ App (App_alloc (word_of_nat (length b2 + 1))) # hs1
      @ [App (App_alloc (word_of_nat (length b1 + 1)))]) @ h)"
    using 1(1) 2(1) by (simp add: ext_def alloc del: of_nat_add)
  moreover have "no_transfer (hs2 @ App (App_alloc (word_of_nat (length b2 + 1))) # hs1 @ [App (App_alloc (word_of_nat (length b1 + 1)))])"
    using 1(2) 2(2) by (auto simp: no_transfer_def)
  ultimately show ?thesis using 1(3) 2(3,4) by (metis append.assoc)
qed

theorem http_server_pipelining_loses_file_witness:
  "\<exists>c' hs len1 len2. answer_all (\<lambda>h. resp0\<lparr>rv := (case h of App (App_stat _) # _ \<Rightarrow> 0 | _ \<Rightarrow> 1), out_mode := 0x8000\<rparr>)
      web_root conn0 [web_request, web_request] [] = returns (c', hs @ [])
    \<and> c_wbuf c' = header_200 (content_type web_file) len1 True @ header_200 (content_type web_file) len2 True"
proof -
  let ?E = "\<lambda>h. resp0\<lparr>rv := (case h of App (App_stat _) # _ \<Rightarrow> 0 | _ \<Rightarrow> 1), out_mode := 0x8000\<rparr>"
  have E: "serves_files ?E" by (simp add: serves_files_def allocates_def ret_def S_ISREG_def positive_def)
  have k: "request_keep (c_str web_request)"
    by (simp add: request_keep_def c_str_def web_request_def crlf_def strcasestr_Cons lower_def)
  have c: "client_ok conn0" "\<not> c_wnull conn0" by (simp_all add: conn0_def client_ok_def)
  have w: "c_wbuf conn0 = []" by (simp add: conn0_def)
  from http_server_pipelining_loses_file [OF web_path web_path E c, of "[]"] show ?thesis
    unfolding w eqTrueI [OF k] by auto
qed

end
