(* ===== verification/Http_Client_Props.thy ===== *)
theory Http_Client_Props
  imports Http_Client Http_Server_Props
begin

text \<open>
  Properties of the load generator, and of the two test programs together: they understand each
  other's messages, and the client counts the body of a response whatever pieces it comes in.
\<close>

section \<open>Ends of headers\<close>

lemma strstr_find_end: "strstr s [13, 10, 13, 10] = map_option (\<lambda>i. drop i s) (find_end s)"
proof (induction s rule: find_end.induct)
  case (1 s)
  show ?case
  proof (cases "length s < 4")
    case True
    then have "strstr s [13, 10, 13, 10] = None"
      by (auto simp: strstr_None dest!: sublist_length_le)
    then show ?thesis using True by (simp add: find_end.simps)
  next
    case False
    then obtain b t where s: "s = b # t" by (cases s) auto
    have p: "prefix [13, 10, 13, 10] s \<longleftrightarrow> take 4 s = crlf @ crlf"
      using False by (auto simp: crlf_def prefix_def) (metis append_take_drop_id append_Cons append_Nil)
    show ?thesis
    proof (cases "take 4 s = crlf @ crlf")
      case True
      then show ?thesis using p False s by (simp add: find_end.simps)
    next
      case no: False
      then have "strstr s [13, 10, 13, 10] = strstr t [13, 10, 13, 10]" using p s by auto
      also have "\<dots> = map_option (\<lambda>i. drop i t) (find_end t)" using 1 [OF False no] s by simp
      also have "\<dots> = map_option (\<lambda>i. drop i s) (find_end s)"
        using no False s by (subst (2) find_end.simps) (simp add: option.map_comp comp_def)
      finally show ?thesis .
    qed
  qed
qed

lemma find_end_skip: "13 \<notin> set l \<Longrightarrow> find_end (l @ s) = map_option ((+) (length l)) (find_end s)"
proof (induction l)
  case (Cons b l)
  have "take 4 ((b # l) @ s) \<noteq> crlf @ crlf" using Cons.prems by (auto simp: crlf_def)
  moreover have "find_end s = None" if "length (l @ s) < 3" using that by (simp add: find_end.simps)
  ultimately show ?case using Cons
    by (subst find_end.simps) (cases "find_end s"; auto)
next
  case Nil
  then show ?case by (cases "find_end s") simp_all
qed

lemma find_end_line: "s \<noteq> [] \<Longrightarrow> hd s \<noteq> 13 \<Longrightarrow> find_end (crlf @ s) = map_option ((+) 2) (find_end s)"
proof -
  assume "s \<noteq> []" "hd s \<noteq> 13"
  then obtain b t where s: "s = b # t" "b \<noteq> 13" by (cases s) auto
  then have "find_end (crlf @ s) = map_option Suc (find_end (10 # s))"
    by (subst find_end.simps) (auto simp: crlf_def find_end.simps [of "[10, b]"])
  also have "find_end (10 # s) = map_option ((+) 1) (find_end s)" using find_end_skip [of "[10]" s] by simp
  finally show ?thesis by (cases "find_end s") simp_all
qed

text \<open>Lines that are not empty and hold no carriage return, with their ends.\<close>

lemma find_end_lines:
  assumes "\<forall>l \<in> set ls. l \<noteq> [] \<and> 13 \<notin> set l" and "ls \<noteq> []"
  shows "find_end (concat (map (\<lambda>l. l @ crlf) ls) @ crlf) = Some (length (concat (map (\<lambda>l. l @ crlf) ls)) - 2)"
  using assms
proof (induction ls)
  case (Cons l ls)
  show ?case
  proof (cases "ls = []")
    case True
    have "find_end (crlf @ crlf) = Some 0" by (simp add: find_end.simps crlf_def)
    then show ?thesis using True Cons.prems find_end_skip [of l "crlf @ crlf"] by (simp add: crlf_def)
  next
    case False
    let ?s = "concat (map (\<lambda>l. l @ crlf) ls) @ crlf"
    obtain l' ls' where ls: "ls = l' # ls'" using False by (cases ls) auto
    then have h: "?s \<noteq> [] \<and> hd ?s \<noteq> 13" using Cons.prems by (cases l') auto
    have "2 \<le> length (concat (map (\<lambda>l. l @ crlf) ls))" using ls by (simp add: crlf_def)
    then show ?thesis
      using Cons False find_end_skip [of l "crlf @ ?s"] find_end_line [of ?s] h by (simp add: crlf_def)
  qed
qed simp

section \<open>Messages of the two programs\<close>

lemma digits_line: "13 \<notin> set (dec_int k) \<and> 0 \<notin> set (dec_int k)"
  using dec_nat_digits [of "nat k"] dec_nat_digits [of "nat (- k)"] by (auto simp: dec_int_def isdigit_def)

lemma content_type_line: "13 \<notin> set (content_type path) \<and> 0 \<notin> set (content_type path)"
  by (simp add: content_type_def)

definition header_lines :: "byte list \<Rightarrow> i64 \<Rightarrow> bool \<Rightarrow> byte list list" where
  "header_lines ct len keep = [ascii ''HTTP/1.1 200 OK'', ascii ''Content-Type: '' @ ct,
     ascii ''Content-Length: '' @ dec_int (sint len),
     ascii ''Connection: '' @ ascii (if keep then ''keep-alive'' else ''close'')]"

lemma header_200_lines: "header_200 ct len keep = concat (map (\<lambda>l. l @ crlf) (header_lines ct len keep)) @ crlf"
  by (simp add: header_200_def header_lines_def)

lemma header_200_end:
  "find_end (header_200 (content_type path) len keep) = Some (length (header_200 (content_type path) len keep) - 4)"
proof -
  have "\<forall>l \<in> set (header_lines (content_type path) len keep). l \<noteq> [] \<and> 13 \<notin> set l"
    using digits_line content_type_line by (simp add: header_lines_def)
  then show ?thesis unfolding header_200_lines
    by (subst find_end_lines) (simp_all add: header_lines_def crlf_def)
qed

lemma header_200_no_zero: "0 \<notin> set (header_200 (content_type path) len keep)"
  using digits_line content_type_line by (simp add: header_200_def crlf_def)

lemma finds_content_length:
  "strcasestr (header_200 (content_type path) len keep @ rest) (ascii ''Content-Length:'')
     = Some (ascii ''Content-Length: '' @ dec_int (sint len) @ 13 # 10
         # ascii ''Connection: '' @ ascii (if keep then ''keep-alive'' else ''close'') @ crlf @ crlf @ rest)"
  by (simp add: content_type_def header_200_def crlf_def strcasestr_Cons lower_def)

lemma parse_header_200:
  assumes "0 \<le> sint len"
  shows "parse_content_length (header_200 (content_type path) len keep @ rest) = sint len"
proof -
  have "sint len < 2 ^ 63" using sint_lt [of len] by simp
  then have n: "strtoll (dec_int (sint len) @ 13 # x) = Some (sint len)" for x
    using assms by (intro strtoll_dec_int) (auto simp: isdigit_def)
  have d: "dropWhile (\<lambda>b. b = 32 \<or> b = 9) (dec_int (sint len) @ 13 # x) = dec_int (sint len) @ 13 # x" for x
  proof -
    obtain b bs where "dec_int (sint len) = b # bs" "isdigit b"
      using dec_nat_digits [of "nat (sint len)"] assms by (cases "dec_int (sint len)") (auto simp: dec_int_def)
    then show ?thesis by (auto simp: isdigit_def)
  qed
  show ?thesis
    unfolding parse_content_length_def finds_content_length option.case using n d assms by simp
qed

lemma request_understood:
  "request_tail (c_str (request_text k)) = ascii ''/index.html'' \<and> request_keep (c_str (request_text k)) = k"
proof -
  have "c_str (request_text k) = request_text k"
    by (simp add: request_text_def req_path_def SERVER_IP_def c_str_def)
  then show ?thesis
    by (cases k) (simp_all add: request_text_def req_path_def SERVER_IP_def request_tail_def request_keep_def
        strcasestr_Cons lower_def)
qed

text \<open>C37: The two test programs understand each other. The request of the client is one header block for
  the server, with the path of the index file and the client's wish about the connection; and
  from the head of any file response, whatever follows it, the client reads the length that
  the server has put in.\<close>

theorem http_messages_roundtrip:
  assumes "0 \<le> sint len"
  shows "split_blocks (request_text k) = ([request_text k], [])
    \<and> request_tail (c_str (request_text k)) = ascii ''/index.html''
    \<and> request_keep (c_str (request_text k)) = k
    \<and> parse_content_length (header_200 (content_type path) len keep @ rest) = sint len"
proof -
  have "find_end (request_text k) = Some (length (request_text k) - 4)"
  proof -
    have "request_text k = concat (map (\<lambda>l. l @ crlf) [ascii ''GET '' @ req_path @ ascii '' HTTP/1.1'',
        ascii ''Host: '' @ SERVER_IP, ascii ''Connection: '' @ ascii (if k then ''keep-alive'' else ''close'')]) @ crlf"
      by (simp add: request_text_def crlf_def)
    then show ?thesis
      by (simp only:) (subst find_end_lines, simp_all add: req_path_def SERVER_IP_def crlf_def)
  qed
  moreover have "4 \<le> length (request_text k)" by (simp add: request_text_def)
  ultimately have "split_blocks (request_text k) = ([request_text k], [])"
    by (simp add: find_end.simps [of "[]"])
  then show ?thesis using request_understood [of k] parse_header_200 [OF assms] by simp
qed

theorem http_messages_roundtrip_witness:
  "parse_content_length (header_200 (content_type web_file) 4200000 True @ ascii ''body'') = 4200000"
  using http_messages_roundtrip [where len = 4200000 and path = web_file and keep = True and rest = "ascii ''body''"]
  by simp

section \<open>Receiving in pieces\<close>

text \<open>The worker after \<open>got\<close> bytes of a response with the head \<open>H\<close>.\<close>

definition received_of :: "byte list \<Rightarrow> int \<Rightarrow> byte list \<Rightarrow> worker \<Rightarrow> bool" where
  "received_of H len got w \<longleftrightarrow> k_total_received (w_conn w) = length got
     \<and> (if length got < length H
        then \<not> w_header_parsed w \<and> w_header w = got \<and> k_body_received (w_conn w) = 0
        else w_header_parsed w \<and> w_expected_len w = len \<and> k_body_received (w_conn w) = length got - length H)"

lemma c_str_append: "0 \<notin> set H \<Longrightarrow> c_str (H @ s) = H @ c_str s"
  by (induction H) (auto simp: c_str_def)

lemma take_data_received:
  assumes H: "find_end H = Some (length H - 4)" "0 \<notin> set H" "length H \<le> 255"
    and len: "\<And>rest. parse_content_length (H @ rest) = len"
    and w: "received_of H len got w" and pre: "prefix (got @ buf) (H @ body)"
  shows "received_of H len (got @ buf) (take_data buf w)"
proof (cases "length got < length H")
  case False
  then show ?thesis using w by (auto simp: received_of_def take_data_def Let_def)
next
  case True
  then have w': "\<not> w_header_parsed w" "w_header w = got" "k_body_received (w_conn w) = 0" "k_total_received (w_conn w) = length got"
    using w by (auto simp: received_of_def)
  define header where "header = got @ take (if 8192 \<le> length got + length buf then 8192 - length got - 1 else length buf) buf"
  show ?thesis
  proof (cases "length (got @ buf) < length H")
    case small: True
    then have "header = got @ buf" using H(3) by (simp add: header_def)
    moreover obtain t where t: "H = (got @ buf) @ t" using pre small by (auto simp: prefix_def append_eq_append_conv2)
    moreover have "find_end (got @ buf) = None"
    proof (rule ccontr)
      assume "find_end (got @ buf) \<noteq> None"
      then obtain i where i: "find_end (got @ buf) = Some i" by blast
      have "find_end H = Some i" using find_end_append [OF i, of t] by (simp only: t)
      then have "i = length H - 4" using H(1) by simp
      moreover have "i + 4 \<le> length (got @ buf)" using find_end_Some [OF i] by blast
      ultimately show False using small by linarith
    qed
    moreover have "c_str (got @ buf) = got @ buf" using c_str_append [of "got @ buf" "[]"] H(2) t by (simp add: c_str_def)
    ultimately show ?thesis using w' small
      by (simp add: received_of_def take_data_def Let_def header_def [symmetric] strstr_find_end)
  next
    case big: False
    then have "length H \<le> length header" using H(3) True by (auto simp: header_def)
    moreover have "prefix header (H @ body)"
    proof -
      obtain zs where "got @ buf = header @ zs" unfolding header_def by (metis append.assoc append_take_drop_id)
      then show ?thesis using pre by (metis append_prefixD)
    qed
    ultimately obtain x where x: "header = H @ x" by (auto simp: prefix_def append_eq_append_conv2)
    have h: "c_str header = H @ c_str x" using c_str_append [OF H(2)] x by simp
    then have e: "strstr (c_str header) [13, 10, 13, 10] = Some (drop (length H - 4) (H @ c_str x))"
      using find_end_append [OF H(1)] by (simp add: strstr_find_end)
    have "4 \<le> length H" using find_end_Some [OF H(1)] by simp
    then have "length (c_str header) - length (drop (length H - 4) (H @ c_str x)) + 4 = length H" by (simp add: h)
    moreover have "length header - length H < length buf" using True big by (auto simp: header_def)
    ultimately show ?thesis using w' big e len [of "c_str x"]
      by (simp add: received_of_def take_data_def Let_def header_def [symmetric] h)
  qed
qed

lemma header_200_length: "length (header_200 (content_type path) len keep) \<le> 255"
  using header_200_short [of path len keep] by (simp add: snprintf_def)

lemmas head_facts = header_200_end header_200_no_zero header_200_length parse_header_200

lemma fold_take_data_received:
  assumes "0 \<le> sint len" and "received_of (header_200 (content_type path) len keep) (sint len) got w"
    and "prefix (got @ concat chunks) (header_200 (content_type path) len keep @ body)"
  shows "received_of (header_200 (content_type path) len keep) (sint len) (got @ concat chunks) (fold take_data chunks w)"
  using assms(2,3)
proof (induction chunks arbitrary: got w)
  case (Cons buf chunks)
  have "prefix (got @ buf) (header_200 (content_type path) len keep @ body)"
    using Cons.prems(2) by (auto simp: prefix_def)
  from take_data_received [OF head_facts(1-3) head_facts(4) [OF assms(1)] Cons.prems(1) this]
  have "received_of (header_200 (content_type path) len keep) (sint len) (got @ buf) (take_data buf w)" .
  from Cons.IH [OF this] Cons.prems(2) show ?case by simp
qed simp

text \<open>A worker at the start of a request.\<close>

definition fresh :: "worker \<Rightarrow> bool" where
  "fresh w \<longleftrightarrow> \<not> w_header_parsed w \<and> w_header w = [] \<and> \<not> w_done w
     \<and> k_total_received (w_conn w) = 0 \<and> k_body_received (w_conn w) = 0"

lemma fresh_received: "fresh w \<Longrightarrow> received_of (header_200 (content_type path) len keep) k [] w"
  by (auto simp: fresh_def received_of_def header_200_def)

text \<open>C19: The client counts a response correctly in whatever pieces it arrives: when the bytes received
  since the start of a request are the head of a file response and then \<open>body\<close>, the number of
  body bytes is that of \<open>body\<close>, the expected length the one the server has announced, and the response
  is taken for complete exactly when at least that many have come.\<close>

theorem client_counts_body:
  assumes "fresh w" and "0 \<le> sint len" and "concat chunks = header_200 (content_type path) len keep @ body"
  shows "let w' = fold take_data chunks w in w_header_parsed w' \<and> w_expected_len w' = sint len
    \<and> k_body_received (w_conn w') = length body \<and> (response_complete w' \<longleftrightarrow> sint len \<le> int (length body))"
proof -
  have "received_of (header_200 (content_type path) len keep) (sint len) (concat chunks) (fold take_data chunks w)"
    using fold_take_data_received [OF assms(2) fresh_received [OF assms(1)], where body = body and chunks = chunks
        and path = path and keep = keep] by (simp add: assms(3))
  then show ?thesis using assms(2,3) by (auto simp: received_of_def response_complete_def Let_def)
qed

definition worker0 :: worker where
  "worker0 = \<lparr>w_conn = \<lparr>k_fd = 5, k_total_received = 0, k_body_received = 0, k_start_time = \<lparr>tv_sec = 0, tv_usec = 0\<rparr>,
       k_end_time = \<lparr>tv_sec = 0, tv_usec = 0\<rparr>\<rparr>,
     w_arg = \<lparr>t_requests_per_conn = 1, t_use_keep_alive = 1, t_total_bytes = 0, t_total_latency = 0, t_total_reqs = 0\<rparr>,
     w_header_parsed = False, w_expected_len = - 1, w_header = [], w_done = False\<rparr>"

theorem client_counts_body_witness:
  "response_complete (fold take_data [take 9 (header_200 (content_type web_file) 2 True),
     drop 9 (header_200 (content_type web_file) 2 True) @ [104], [105]] worker0)"
proof -
  have "fresh worker0" by (simp add: fresh_def worker0_def)
  moreover have "(0 :: int) \<le> sint (2 :: i64)" by simp
  moreover have "concat [take 9 (header_200 (content_type web_file) 2 True),
     drop 9 (header_200 (content_type web_file) 2 True) @ [104], [105]] = header_200 (content_type web_file) 2 True @ [104, 105]"
    by simp
  ultimately show ?thesis
    using client_counts_body [of worker0 2 _ web_file True "[104, 105]"] by (fastforce simp: Let_def)
qed

text \<open>Successive calls of \<open>recv\<close> deliver the pieces.\<close>

primrec recv_delivers :: "env \<Rightarrow> c_int \<Rightarrow> trace \<Rightarrow> byte list list \<Rightarrow> bool" where
  "recv_delivers E fd h [] = True"
| "recv_delivers E fd h (buf # bufs) =
     (let h' = Libc (Orig_recv fd RECV_SIZE 0) # h
      in positive (rv (E h')) \<and> unat (rv (E h')) = length buf \<and> out_bytes (E h') = buf \<and> recv_delivers E fd h' bufs)"

lemma recv_loop_incomplete:
  assumes "recv_delivers E fd h bufs"
    and "\<And>k. k < length bufs \<Longrightarrow> \<not> response_complete (fold take_data (take (Suc k) bufs) w)"
  shows "run_loop (recv_turn E epfd i fd) (w, h)
    = run_loop (recv_turn E epfd i fd) (fold take_data bufs w, replicate (length bufs) (Libc (Orig_recv fd RECV_SIZE 0)) @ h)"
  using assms
proof (induction bufs arbitrary: w h)
  case (Cons buf bufs)
  let ?h = "Libc (Orig_recv fd RECV_SIZE 0) # h"
  have "\<not> response_complete (take_data buf w)" using Cons.prems(2) [of 0] by simp
  then have "recv_turn E epfd i fd (w, h) = returns (Inl (take_data buf w, ?h))"
    using Cons.prems(1) by (simp add: recv_turn_def ext_def Let_def)
  from run_loop_go [of "recv_turn E epfd i fd", OF this]
  have "run_loop (recv_turn E epfd i fd) (w, h) = run_loop (recv_turn E epfd i fd) (take_data buf w, ?h)" .
  also have "\<dots> = run_loop (recv_turn E epfd i fd)
      (fold take_data bufs (take_data buf w), replicate (length bufs) (Libc (Orig_recv fd RECV_SIZE 0)) @ ?h)"
    using Cons.prems(1) Cons.prems(2) [of "Suc _"] by (intro Cons.IH) (auto simp: Let_def)
  finally show ?case by (simp add: replicate_app_Cons_same)
qed simp

lemma complete_received:
  assumes "received_of H len got w" and "0 \<le> len"
  shows "response_complete w \<longleftrightarrow> int (length H) + len \<le> int (length got)"
  using assms by (cases "length got < length H") (auto simp: received_of_def response_complete_def)

lemma take_data_arg [simp]:
  "w_arg (take_data buf w) = w_arg w" "k_start_time (w_conn (take_data buf w)) = k_start_time (w_conn w)"
  "k_fd (w_conn (take_data buf w)) = k_fd (w_conn w)"
  by (simp_all add: take_data_def Let_def split: option.split)

lemma fold_take_data_arg [simp]:
  "w_arg (fold take_data bufs w) = w_arg w" "k_start_time (w_conn (fold take_data bufs w)) = k_start_time (w_conn w)"
  by (induction bufs arbitrary: w) simp_all

lemma recv_delivers_snoc:
  "recv_delivers E fd h (bufs @ [buf]) \<Longrightarrow> recv_delivers E fd h bufs
     \<and> (let h' = Libc (Orig_recv fd RECV_SIZE 0) # replicate (length bufs) (Libc (Orig_recv fd RECV_SIZE 0)) @ h
        in positive (rv (E h')) \<and> out_bytes (E h') = buf)"
proof (induction bufs arbitrary: h)
  case (Cons b bufs)
  then show ?case using Cons.IH [of "Libc (Orig_recv fd RECV_SIZE 0) # h"]
    by (auto simp: Let_def replicate_app_Cons_same)
qed (simp add: Let_def)

lemma recv_turn_last:
  assumes "positive (rv (E (Libc (Orig_recv fd RECV_SIZE 0) # h)))" and "out_bytes (E (Libc (Orig_recv fd RECV_SIZE 0) # h)) = buf"
    and "response_complete (take_data buf w)" and "k_body_received (w_conn (take_data buf w)) = n"
    and "t_use_keep_alive (w_arg w) \<noteq> 0 \<or> sint (t_requests_per_conn (w_arg w)) \<le> int i + 1"
    and "h' = App App_gettimeofday # Libc (Orig_recv fd RECV_SIZE 0) # h"
  shows "\<exists>w'. recv_turn E epfd i fd (w, h) = returns (Inr (w', h')) \<and> w_done w'
    \<and> t_total_bytes (w_arg w') = t_total_bytes (w_arg w) + of_nat n
    \<and> t_total_reqs (w_arg w') = t_total_reqs (w_arg w) + 1
    \<and> t_total_latency (w_arg w') = t_total_latency (w_arg w)
        + timeval_to_ms (get_time_diff (k_start_time (w_conn w)) (out_timeout (E h')))"
  using assms by (auto simp: recv_turn_def ext_def Let_def account_def)

text \<open>C18: The receive loop of the client ends with the response: when successive \<open>recv\<close> calls deliver a file
  response in any pieces, the last of them not empty, the loop makes exactly one call per piece, is
  done, and has added the announced length to the bytes, 1 to the requests and the time since the start of
  the request to the latency; on a connection that is kept (or for the last request) it makes no other
  call but for the time.\<close>

theorem client_receives_response:
  assumes "fresh w" and "0 \<le> sint len" and "concat bufs @ buf = header_200 (content_type path) len keep @ body"
    and "int (length body) = sint len" and "buf \<noteq> []" and "recv_delivers E fd h (bufs @ [buf])"
    and "t_use_keep_alive (w_arg w) \<noteq> 0 \<or> sint (t_requests_per_conn (w_arg w)) \<le> int i + 1"
    and "h' = App App_gettimeofday # replicate (length bufs + 1) (Libc (Orig_recv fd RECV_SIZE 0)) @ h"
  shows "\<exists>w'. run_loop (recv_turn E epfd i fd) (w, h) = returns (w', h') \<and> w_done w'
    \<and> t_total_bytes (w_arg w') = t_total_bytes (w_arg w) + of_nat (length body)
    \<and> t_total_reqs (w_arg w') = t_total_reqs (w_arg w) + 1
    \<and> t_total_latency (w_arg w') = t_total_latency (w_arg w)
        + timeval_to_ms (get_time_diff (k_start_time (w_conn w)) (out_timeout (E h')))"
proof -
  let ?H = "header_200 (content_type path) len keep"
  have rec: "received_of ?H (sint len) (concat bs) (fold take_data bs w)" if "prefix (concat bs) (?H @ body)" for bs
    using fold_take_data_received [OF assms(2) fresh_received [OF assms(1)], where body = body and chunks = bs
        and path = path and keep = keep] that by simp
  have size: "int (length (concat bufs)) + int (length buf) = int (length ?H) + sint len"
    using arg_cong [OF assms(3), of length] assms(4) by simp
  have incomplete: "\<not> response_complete (fold take_data (take k bufs) w)" for k
  proof -
    have c: "concat bufs = concat (take k bufs) @ concat (drop k bufs)" by (metis append_take_drop_id concat_append)
    have "prefix (concat (take k bufs)) (?H @ body)"
      unfolding assms(3) [symmetric] c by simp
    moreover have "length (concat (take k bufs)) \<le> length (concat bufs)" unfolding c by simp
    ultimately show ?thesis using complete_received [OF rec assms(2)] size assms(5) by (cases buf) auto
  qed
  let ?w = "fold take_data bufs w" and ?h = "replicate (length bufs) (Libc (Orig_recv fd RECV_SIZE 0)) @ h"
  have last: "received_of ?H (sint len) (concat (bufs @ [buf])) (take_data buf ?w)"
    using rec [of "bufs @ [buf]"] assms(3) by simp
  then have "response_complete (take_data buf ?w)" "k_body_received (w_conn (take_data buf ?w)) = length body"
    using complete_received [OF last assms(2)] size assms(3,4) by (simp_all add: received_of_def)
  from recv_turn_last [where E = E and fd = fd and h = ?h, OF _ _ this, of i h' epfd] recv_delivers_snoc [OF assms(6)] assms(7,8)
  obtain w' where w': "recv_turn E epfd i fd (?w, ?h) = returns (Inr (w', h'))" "w_done w'"
    "t_total_bytes (w_arg w') = t_total_bytes (w_arg w) + of_nat (length body)"
    "t_total_reqs (w_arg w') = t_total_reqs (w_arg w) + 1"
    "t_total_latency (w_arg w') = t_total_latency (w_arg w)
        + timeval_to_ms (get_time_diff (k_start_time (w_conn w)) (out_timeout (E h')))"
    by (auto simp: Let_def)
  have "run_loop (recv_turn E epfd i fd) (w, h) = returns (w', h')"
    using recv_loop_incomplete [of E fd h bufs w epfd i] recv_delivers_snoc [OF assms(6)] incomplete
      run_loop_stop [of "recv_turn E epfd i fd", OF w'(1)] by simp
  then show ?thesis using w'(2-) by blast
qed

theorem client_receives_response_witness:
  "\<exists>E w' h'. run_loop (recv_turn E 4 0 5) (worker0, []) = returns (w', h') \<and> w_done w' \<and> t_total_bytes (w_arg w') = 2"
proof -
  let ?m = "header_200 (content_type web_file) 2 True @ [104, 105]"
  define E :: env where "E = (\<lambda>_. resp0\<lparr>rv := word_of_nat (length ?m), out_bytes := ?m\<rparr>)"
  have len: "0 < length ?m" "length ?m < 2 ^ 31" using header_200_length [of web_file 2 True] by auto
  have "positive (word_of_nat n :: i64) \<and> unat (word_of_nat n :: i64) = n" if "0 < n" "n < 2 ^ 31" for n
    using that by (simp add: Prelude.positive_def signed_of_nat signed_take_bit_int_eq_self unat_of_nat take_bit_nat_eq_self)
  then have n: "positive (word_of_nat (length ?m) :: i64)" "unat (word_of_nat (length ?m) :: i64) = length ?m"
    using len by blast+
  have d: "recv_delivers E 5 [] ([] @ [?m])" using n by (simp add: E_def Let_def del: length_append of_nat_add)
  have f: "fresh worker0" "t_use_keep_alive (w_arg worker0) \<noteq> 0 \<or> sint (t_requests_per_conn (w_arg worker0)) \<le> int 0 + 1"
    "t_total_bytes (w_arg worker0) = 0"
    by (simp_all add: fresh_def worker0_def)
  have "\<exists>w'. run_loop (recv_turn E 4 0 5) (worker0, []) = returns (w', App App_gettimeofday #
      replicate (length ([] :: byte list list) + 1) (Libc (Orig_recv 5 RECV_SIZE 0)) @ []) \<and> w_done w'
    \<and> t_total_bytes (w_arg w') = t_total_bytes (w_arg worker0) + of_nat (length [104, 105 :: byte])"
    using client_receives_response [OF f(1) _ _ _ _ d f(2) refl, of 2 web_file True "[104, 105]" 4] by auto
  then show ?thesis using f(3) by auto
qed

end
