(* ===== verification/Spec2Isabelle.thy ===== *)
theory Spec2Isabelle
  imports Threads Large_Read Names Options Server_Threads Printing Wrappers Server_Unused Hash_Cpp Http_Client_Props
begin

text \<open>
  Verification of socket_to_rdma, a bridge that runs the socket calls of an application on
  another machine. On the host a preloaded library replaces the socket functions; each call on a
  forwarded descriptor becomes a request message that is written by RDMA into the memory of a
  server on a SmartNIC. The server makes the call there and writes a return message back.

  \<^bold>\<open>The program and its model.\<close>

  \<^item> \<open>Prelude\<close>: C integers as words of their width (\<open>c_int\<close>, \<open>u64\<close>, ...), little-endian bytes, byte buffers,
    and the result type \<open>'a run\<close>: \<open>None\<close> for a computation that does not return, a \<open>fault\<close>
    (null dereference, access out of bounds, use after free, exit) or a value.
  \<^item> \<open>Murmur\<close>, \<open>Hash_Table\<close>: \<open>host/hash_delee.c\<close>. The three chained tables; a chain is a list of nodes.
    The interface the hooks use is the locale \<open>multimap\<close>, the lookup that only sees the head of
    a chain the locale \<open>head_lookup\<close>; both are interpreted for all three tables.
  \<^item> \<open>Snic_Hash\<close>: \<open>snic/hash_delee.c\<close>, the tables with their lock. An operation that waits for ever is \<open>None\<close>.
  \<^item> \<open>Messages\<close>, \<open>Wire\<close>, \<open>Wire_Props\<close>: \<open>struct req_msg\<close>, \<open>struct rtn_msg\<close> and all functions of \<open>rdma_common.c\<close>
    that put arguments into a message or take them out. The structures that are copied as
    a whole are codecs (locale \<open>codec\<close>). The functions the two sides share word for word are defined
    once, and \<open>snic_f\<close> is the copy.
  \<^item> \<open>Env\<close>: what the program calls. An environment is a function from the trace of calls made so far
    to the response to the last one, so that a definition takes an \<open>env\<close> and a trace and
    returns the extended trace. It stands for the kernel, libibverbs, librdmacm, the C
    library and the other end of the link; a response says also what has been written by RDMA
    when a completion is reported.
  \<^item> \<open>Fetch\<close>: when a reply is read. The server posts its reply buffer and clears parts of it without waiting for the
    completion (\<open>post_write_rtn\<close>, \<open>write_msg_to_client\<close>, \<open>rdma_req_event\<close>). The payload of a post in the trace is the buffer at the post;
    \<open>fetch late m m'\<close> is what is transferred when the bytes at the offsets \<open>late\<close> are read only after those stores, and \<open>torn\<close> is
    what is left of a word. All theorems about replies hold for every \<open>late\<close>.
  \<^item> \<open>Socket\<close>, \<open>Socket_Props\<close>: \<open>snic/socket.c\<close>, the handlers \<open>sock_*\<close>. Their common contract is the locale
    \<open>forwarding\<close>, interpreted for each of them. Uninitialised variables are fields of \<open>locals\<close>.
  \<^item> \<open>Verbs\<close>: the helpers of \<open>rdma_common.c\<close> over the verbs.
  \<^item> \<open>Server\<close>, \<open>Server_Props\<close>: \<open>snic/rdma_server.c\<close>. \<open>rdma_req_event\<close> answers one request, \<open>poll_step\<close> is one turn
    of the completion loop, \<open>poll_loop\<close> the loop, \<open>start_thread\<close> the program. The states of a
    served connection are the inductive relation \<open>served\<close>.
  \<^item> \<open>Server_Threads\<close>: the server process with its threads, which share the tables and the connection manager's
    channel. The inductive relation \<open>nic_run\<close> has one step per turn of a thread's completion loop.
  \<^item> \<open>Client\<close>, \<open>Client_Props\<close>: \<open>host/rdma_client.c\<close>. \<open>set_req_sock\<close> is the function every request goes
    through; \<open>exchange\<close> says of a link that it delivers a reply.
  \<^item> \<open>Hook\<close>, \<open>Hook_Props\<close>: \<open>host/hook.c\<close>, the functions \<open>req_*\<close>, the thread's connection and \<open>my_main\<close>. The
    contract of a call that is either passed on or made one request is the locale
    \<open>forwarded_hook\<close>.
  \<^item> \<open>Wrappers\<close>: the rest of \<open>host/hook.c\<close>: the functions the application calls by the names of the C library, the
    test for calls from the RDMA libraries, and \<open>__libc_start_main\<close>.
  \<^item> \<open>Process\<close>: the host process. Its threads share the descriptor table and the first connection; the
    inductive relation \<open>process_run\<close> has one step per hooked call, by any thread.
  \<^item> \<open>Bridge\<close>, \<open>Calls\<close>: both sides together. The locale \<open>bridged_call\<close> joins the contract of a hook to that of a
    handler and gives the contract of the call end to end (\<open>bridged\<close>).
  \<^item> \<open>Waits\<close>, \<open>Options\<close>, \<open>Names\<close>: the same for the calls whose arguments and results travel in the data of a message:
    \<open>epoll_create1\<close>, \<open>epoll_ctl\<close>, \<open>epoll_wait\<close> and \<open>poll\<close>; \<open>select\<close> and \<open>setsockopt\<close>; \<open>getsockname\<close>, \<open>getpeername\<close> and
    \<open>fcntl\<close>. Each has a lemma for
    the SmartNIC's half (\<open>_nic\<close>), one for the host's half (\<open>_app\<close>), and the theorem that joins them.
  \<^item> \<open>Session\<close>, \<open>Session_Props\<close>: the closed system. A sequence of socket calls (\<open>sock_op\<close>) runs through the
    hooks against an environment that is the server itself: \<open>nic_env\<close> gives the server the host's
    messages in the order they were posted, \<open>host_env\<close> gives the host the server's replies, and only
    the kernel of the SmartNIC and the moments of the transfers are left as parameters. The link takes and delivers every message as long as the
    receiver has posted a receive for it; a reply without one fails at the SmartNIC, whose completion loop then ends, and after that the host's own writes fail.
    The abstract machine \<open>direct\<close> asks the kernel directly; \<open>remote\<close> adds what the programs change on the way back (\<open>told\<close>, \<open>distort\<close>).
    The step from one call to a sequence is the locale \<open>remote_op\<close>.
  \<^item> \<open>Large_Read\<close>: a read with much data, which posts its reply twice.
  \<^item> \<open>Threads\<close>: several threads of the application in that system, each with its own connection and its own
    thread of the server. They share the host's table, the server's globals and the kernel. \<open>world_run\<close> runs a schedule of
    calls, \<open>remote_schedule\<close> is the abstract machine.
  \<^item> \<open>Printing\<close>: the functions of \<open>rdma_common.c\<close> that print messages, with the text they write and the memory they
    read. The other theories leave printing out.
  \<^item> \<open>Server_Unused\<close>: the functions of \<open>snic/rdma_server.c\<close> no caller reaches, among them a loop over the events
    of all connections, with the structures found through the \<open>context\<close> of an id in a store.
  \<^item> \<open>Hash_Cpp\<close>: \<open>snic/hash_delee.cpp\<close>, an earlier version of the SmartNIC's tables; its contract is the locale
    \<open>full_lookup\<close>.
  \<^item> \<open>Text\<close>: the string functions of the C library that the test programs use, with their round trips.
  \<^item> \<open>Http_Server\<close>, \<open>Http_Server_Props\<close>: \<open>host/test_server/http_epoll.c\<close>. One definition per loop body
    (\<open>..._turn\<close>), the loops by \<open>run_loop\<close>, the states of the main loop as the relation \<open>http_run\<close>.
  \<^item> \<open>Http_Client\<close>, \<open>Http_Client_Props\<close>: \<open>host/test_client/client_multi.c\<close>, and the two test programs together.

  \<^bold>\<open>What is shown.\<close>

  End to end, for any kernel and any link that delivers what is posted, and whenever the adapter reads the reply: the bytes of a write
  reach the SmartNIC's kernel unchanged; the number of bytes of a read and all but the first eight of them reach the application's
  buffer (\<open>Bridge\<close>); \<open>listen\<close>, \<open>bind\<close>, \<open>close\<close> and \<open>accept\<close> make one kernel call there and
  report its result (\<open>Calls\<close>), \<open>connect\<close> makes it and returns 1; \<open>epoll_ctl\<close>, \<open>epoll_wait\<close> and \<open>poll\<close> carry their structures both ways (\<open>Waits\<close>).
  What a late transfer loses is stated with each call: the error number, the result of a write, the first eight bytes of a read and the
  sets of a \<open>select\<close>; everything arrives if the adapter reads the reply before the server clears it. \<open>select\<close> damages
  its sets in the way stated besides, and \<open>setsockopt\<close> sets the option but returns an old result (\<open>Options\<close>); \<open>fcntl\<close> acts on a
  standard descriptor of the server, \<open>getpeername\<close> asks for a socket option, and the name \<open>getsockname\<close> finds is lost (\<open>Names\<close>). The closed
  system is a remote kernel: any sequence of fourteen of the calls (not \<open>select\<close>, \<open>fcntl\<close>, the socket options and the names), for any kernel whose answers fit into one
  message, ends, asks the kernel just
  those calls in that order, and gives the application the kernel's results as \<open>remote\<close> describes them; they are those of a kernel that is asked directly
  if no reply is read late and \<open>connect\<close> is not called. The same holds for any number of threads and any order of their calls, with descriptors
  that pass from one thread to another (\<open>Threads\<close>). A read whose answer does not fit is answered by more replies than the host has receives for
  (\<open>Large_Read\<close>). After the set-up each side writes to the other's registered message only (\<open>Calls\<close>).
  In every state the host process can reach, the table is well-formed and all connections are set
  up (\<open>Process\<close>). On the SmartNIC every finished request has led to the calls of its handler and
  a post of the reply it filled in, and the connection keeps its resources; whatever the order of its threads' turns, the locks of the tables are free
  between them, so that no thread waits for another, and every thread has a connection that was set up; every handler makes the kernel call it
  is named after and reports its result, with the exceptions that are stated. On the host
  posting is bounded, calls on foreign descriptors are passed on to the C library (\<open>fcntl\<close> with the address of a \<open>va_list\<close> for its argument), and new descriptors
  are registered. The tables implement multimaps, and the wire format has the round trips
  of each request. Where the code does not do what its name promises the theorem states what it
  does instead: descriptors hidden behind a collision, \<open>connect\<close> that always succeeds, \<open>bind\<close> that
  always takes port 8080, \<open>fcntl\<close> on the wrong descriptor, a lock that is kept, a thread that never ends,
  a loop that can accept nothing. Of the sample server: an invariant of its main loop for any clients (partial
  writes lose nothing), that it stays inside its directory, that the division of the input into reads does not
  matter, and the inputs on which it overflows, hangs or loses a file; of the load generator: that it
  counts a response correctly in whatever pieces it comes, and ends.

  \<^bold>\<open>Loops and bounds.\<close> Loops that wait for the network are \<open>partial_function (option)\<close> or \<open>run_loop\<close>, without
  fuel; the theorems that they return are proved for links on which the awaited completion is
  the \<open>n\<close>-th, for any \<open>n\<close>. The other loops terminate by a measure. \<open>BUFFER_SIZE\<close> is 600000, as in the
  source, and occurs in the statements as that constant.

  \<^bold>\<open>Assumptions of the model.\<close> A 64-bit little-endian machine with 4-byte \<open>int\<close>; printing does not change
  \<open>errno\<close>, and pauses change nothing; \<open>dlsym\<close> finds the replaced functions; a remote write is visible when its
  completion is polled; the device context of a connection id is identified with the id; an event
  keeps its contents after it has been acknowledged. The adapter reads every byte of a reply at one moment between its post and the next wait of the
  server, and the only stores in between are the server's own; a request is not affected, since the host changes its message only after the reply. Memory for the tables themselves is there when they are created (the source does not check
  it either), while the outcome of every other \<open>malloc\<close> is a parameter. The class of the C++ tables is not in the repository: its members are those of the C
  structures, and its constructor is a parameter of which it is assumed that it stores the key, the value and the slot and links to no node. Sums of \<open>double\<close> are exact. A buffer of the test
  programs is the list of the bytes in use, and their sizes are natural numbers.

  \<^bold>\<open>Not modelled.\<close> Interleavings of threads inside a call (on the host threads interleave by whole
  calls, on the SmartNIC by turns of the completion loop); \<open>rdma_sock_linker.c\<close>, which is not compiled and
  uses variables and calls functions that do not exist; the
  single messages that functions print besides what they do; the source comments and declarations. In the closed system the server runs whenever a message waits for
  it, and the completions of a post are reported before the next request.

  \<^bold>\<open>Possible continuations.\<close> Interleavings finer than a call; the test server run over the hooks.
\<close>

end
